(* ===== verification/Prelude.thy ===== *)
theory Prelude
  imports Main "HOL-Library.Word"
begin

text \<open>
  Shared vocabulary of the development: machine integers and byte slices of the Go sources,
  the result type (an error return and a run-time panic are different faults), the
  big-endian encodings of \<^verbatim>\<open>encoding/binary\<close>, and the generic facts on lists and words
  that the component theories use.
\<close>

unbundle bit_operations_syntax

section \<open>Types of the sources\<close>

type_synonym byte = "8 word"
type_synonym u16 = "16 word"
type_synonym u32 = "32 word"
type_synonym u64 = "64 word"
type_synonym bytes = "byte list"

text \<open>
  Errors. An error built by \<^verbatim>\<open>errors.New\<close> or \<^verbatim>\<open>fmt.Errorf\<close> is \<open>Msg\<close> with an ASCII
  label of its text; errors that callers test with \<^verbatim>\<open>errors.Is\<close> or a type assertion have
  a constructor of their own.
\<close>

datatype err =
    Msg string
  | Wrap string err
  | ErrCookieRequired
  | ErrInvalidKEPayload
  | ErrWindowTimeout
  | ErrReauth
  | ErrSyncFailure
  | RedirectError string
  | ErrCanceled

text \<open>
  A Go function that returns \<^verbatim>\<open>(T, error)\<close> and may also panic (an index or slice
  expression out of range, a division by zero) or never return (a lock that is never released, a
  loop that never ends) has the result type \<open>'a result\<close>.
\<close>

datatype fault = Panic | Fail err | Hang

type_synonym 'a result = "fault + 'a"

definition rbind :: "'a result \<Rightarrow> ('a \<Rightarrow> 'b result) \<Rightarrow> 'b result" where
  "rbind r f = (case r of Inl e \<Rightarrow> Inl e | Inr x \<Rightarrow> f x)"

abbreviation fail :: "string \<Rightarrow> 'a result" where
  "fail s \<equiv> Inl (Fail (Msg s))"

named_theorems codec \<open>encoders, decoders and their laws\<close>

lemma rbind_simps [simp]:
  "rbind (Inl e) f = Inl e"
  "rbind (Inr x) f = f x"
  by (simp_all add: rbind_def)

lemma rbind_Inr_iff: "rbind r f = Inr y \<longleftrightarrow> (\<exists>x. r = Inr x \<and> f x = Inr y)"
  by (cases r) auto

lemma rbind_Inl_iff:
  "rbind r f = Inl e \<longleftrightarrow> r = Inl e \<or> (\<exists>x. r = Inr x \<and> f x = Inl e)"
  by (cases r) auto

lemma rbind_assoc: "rbind (rbind r f) g = rbind r (\<lambda>x. rbind (f x) g)"
  by (cases r) auto

lemma rbind_cong [fundef_cong]:
  "r = r' \<Longrightarrow> (\<And>x. r' = Inr x \<Longrightarrow> f x = f' x) \<Longrightarrow> rbind r f = rbind r' f'"
  by (cases r') auto

definition rmap :: "('a \<Rightarrow> 'b) \<Rightarrow> 'a result \<Rightarrow> 'b result" where
  "rmap f r = rbind r (\<lambda>x. Inr (f x))"

text \<open>\<^verbatim>\<open>fmt.Errorf("...%v", err)\<close>: a new error with the text of the old one; a panic goes through.\<close>

definition relabel :: "string \<Rightarrow> 'a result \<Rightarrow> 'a result" where
  "relabel s r = (case r of Inl (Fail _) \<Rightarrow> fail s | _ \<Rightarrow> r)"

lemma relabel_simps [simp]:
  "relabel s (Inr x) = Inr x" "relabel s (Inl Panic) = Inl Panic" "relabel s (Inl (Fail e)) = fail s"
  "relabel s (Inl Hang) = Inl Hang"
  by (simp_all add: relabel_def)

lemma relabel_Inr_iff [simp]: "relabel s r = Inr x \<longleftrightarrow> r = Inr x"
  by (auto simp: relabel_def split: sum.splits fault.splits)

lemma relabel_Panic_iff [simp]: "relabel s r = Inl Panic \<longleftrightarrow> r = Inl Panic"
  by (auto simp: relabel_def split: sum.splits fault.splits)

text \<open>\<^verbatim>\<open>fmt.Errorf("...%w", err)\<close>: the old error stays reachable for \<^verbatim>\<open>errors.Is\<close>.\<close>

definition wrap :: "string \<Rightarrow> 'a result \<Rightarrow> 'a result" where
  "wrap s r = (case r of Inl (Fail e) \<Rightarrow> Inl (Fail (Wrap s e)) | _ \<Rightarrow> r)"

lemma wrap_simps [simp]:
  "wrap s (Inr x) = Inr x" "wrap s (Inl Panic) = Inl Panic"
  "wrap s (Inl (Fail e)) = Inl (Fail (Wrap s e))" "wrap s (Inl Hang) = Inl Hang"
  by (simp_all add: wrap_def)

lemma wrap_Inr_iff [simp]: "wrap s r = Inr x \<longleftrightarrow> r = Inr x"
  by (auto simp: wrap_def split: sum.splits fault.splits)

lemma wrap_Panic_iff [simp]: "wrap s r = Inl Panic \<longleftrightarrow> r = Inl Panic"
  by (auto simp: wrap_def split: sum.splits fault.splits)

text \<open>
  The loop of the encoders: encode each element, stop at the first error, append the pieces.
\<close>

fun rconcat :: "('a \<Rightarrow> 'b list result) \<Rightarrow> 'a list \<Rightarrow> 'b list result" where
  "rconcat f [] = Inr []"
| "rconcat f (x # xs) = rbind (f x) (\<lambda>b. rbind (rconcat f xs) (\<lambda>bs. Inr (b @ bs)))"

lemma rconcat_Inr: "(\<And>x. x \<in> set xs \<Longrightarrow> f x = Inr (g x)) \<Longrightarrow> rconcat f xs = Inr (concat (map g xs))"
  by (induction xs) auto

section \<open>Slices\<close>

text \<open>
  \<^verbatim>\<open>xs[a:b]\<close>. \<open>slice\<close> is the value of the expression where the source has checked the
  bounds; \<open>go_slice\<close> panics outside them.
\<close>

definition slice :: "'a list \<Rightarrow> nat \<Rightarrow> nat \<Rightarrow> 'a list" where
  "slice xs a b = take (b - a) (drop a xs)"

definition go_slice :: "'a list \<Rightarrow> nat \<Rightarrow> nat \<Rightarrow> 'a list result" where
  "go_slice xs a b = (if a \<le> b \<and> b \<le> length xs then Inr (slice xs a b) else Inl Panic)"

lemma length_slice [simp]: "length (slice xs a b) = min (b - a) (length xs - a)"
  by (simp add: slice_def)

lemma slice_all [simp]: "slice xs 0 (length xs) = xs"
  by (simp add: slice_def)

lemma drop_numeral_add: "drop (numeral k + n) xs = drop n (drop (numeral k) xs)"
  by (simp add: add.commute)

lemma slice_append_left: "a \<le> b \<Longrightarrow> b \<le> length xs \<Longrightarrow> slice (xs @ ys) a b = slice xs a b"
  by (simp add: slice_def)

lemma slice_append_right: "length xs = a \<Longrightarrow> slice (xs @ ys) a b = take (b - a) ys"
  by (simp add: slice_def)

lemma go_slice_ok [simp]: "a \<le> b \<Longrightarrow> b \<le> length xs \<Longrightarrow> go_slice xs a b = Inr (slice xs a b)"
  by (simp add: go_slice_def)

lemma go_slice_Inr_iff:
  "go_slice xs a b = Inr ys \<longleftrightarrow> a \<le> b \<and> b \<le> length xs \<and> ys = slice xs a b"
  by (auto simp: go_slice_def)

lemma slice_split:
  "a \<le> b \<Longrightarrow> b \<le> c \<Longrightarrow> slice xs a b @ slice xs b c = slice xs a c"
  "a \<le> b \<Longrightarrow> b \<le> c \<Longrightarrow> slice xs a b @ slice xs b c @ ys = slice xs a c @ ys"
proof -
  have "c - a = (b - a) + (c - b)" "drop b xs = drop (b - a) (drop a xs)" if "a \<le> b" "b \<le> c"
    using that by auto
  then show "a \<le> b \<Longrightarrow> b \<le> c \<Longrightarrow> slice xs a b @ slice xs b c = slice xs a c"
    "a \<le> b \<Longrightarrow> b \<le> c \<Longrightarrow> slice xs a b @ slice xs b c @ ys = slice xs a c @ ys"
    by (simp_all only: slice_def take_add append_assoc)
qed

lemma slice_0 [simp]: "slice xs 0 b = take b xs"
  by (simp add: slice_def)

lemma go_slice_Panic_iff: "go_slice xs a b = Inl Panic \<longleftrightarrow> \<not> (a \<le> b \<and> b \<le> length xs)"
  by (simp add: go_slice_def)

text \<open>\<^verbatim>\<open>copy(buf[off:], xs)\<close>: as many elements as fit.\<close>

definition copy_at :: "'a list \<Rightarrow> nat \<Rightarrow> 'a list \<Rightarrow> 'a list" where
  "copy_at buf off xs =
     take off buf @ take (length buf - off) xs @ drop (off + length xs) buf"

lemma length_copy_at [simp]: "off \<le> length buf \<Longrightarrow> length (copy_at buf off xs) = length buf"
  by (simp add: copy_at_def)

lemma copy_at_fits:
  "off + length xs \<le> length buf \<Longrightarrow>
     copy_at buf off xs = take off buf @ xs @ drop (off + length xs) buf"
  by (simp add: copy_at_def)

section \<open>Big-endian encodings\<close>

definition put16 :: "u16 \<Rightarrow> bytes" where
  "put16 w = [ucast (drop_bit 8 w), ucast w]"

definition put32 :: "u32 \<Rightarrow> bytes" where
  "put32 w = [ucast (drop_bit 24 w), ucast (drop_bit 16 w), ucast (drop_bit 8 w), ucast w]"

definition put64 :: "u64 \<Rightarrow> bytes" where
  "put64 w = [ucast (drop_bit 56 w), ucast (drop_bit 48 w), ucast (drop_bit 40 w),
     ucast (drop_bit 32 w), ucast (drop_bit 24 w), ucast (drop_bit 16 w),
     ucast (drop_bit 8 w), ucast w]"

definition be_step :: "'a::len word \<Rightarrow> byte \<Rightarrow> 'a word" where
  "be_step acc b = push_bit 8 acc OR ucast b"

fun be_word :: "bytes \<Rightarrow> 'a::len word \<Rightarrow> 'a word" where
  "be_word [] acc = acc"
| "be_word (b # bs) acc = be_word bs (be_step acc b)"

definition get16 :: "bytes \<Rightarrow> u16" where
  "get16 bs = be_word (take 2 bs) 0"

definition get32 :: "bytes \<Rightarrow> u32" where
  "get32 bs = be_word (take 4 bs) 0"

definition get64 :: "bytes \<Rightarrow> u64" where
  "get64 bs = be_word (take 8 bs) 0"

lemma length_put [simp]:
  "length (put16 a) = 2" "length (put32 b) = 4" "length (put64 c) = 8"
  by (simp_all add: put16_def put32_def put64_def)

lemma nth_put [simp]:
  "2 \<le> i \<Longrightarrow> (put16 a @ xs) ! i = xs ! (i - 2)"
  "4 \<le> i \<Longrightarrow> (put32 b @ xs) ! i = xs ! (i - 4)"
  "8 \<le> i \<Longrightarrow> (put64 c @ xs) ! i = xs ! (i - 8)"
  by (simp_all add: nth_append)

lemma put_not_Nil [simp]: "put16 a \<noteq> []" "put32 b \<noteq> []" "put64 c \<noteq> []"
  by (simp_all add: put16_def put32_def put64_def)

text \<open>Reading back what was written, whatever follows it in the buffer.\<close>

lemma bit_be_step:
  "bit (be_step a b :: 'a::len word) n \<longleftrightarrow>
     n < LENGTH('a) \<and> (if n < 8 then bit b n else bit a (n - 8))"
  by (auto simp: be_step_def bit_or_iff bit_push_bit_iff bit_ucast_iff dest: bit_imp_le_length)

text \<open>Each step of the reader restores eight more bits of the word that was written.\<close>

lemma be_step_drop:
  fixes w :: "'a::len word"
  assumes "j = k + 8"
  shows "be_step (drop_bit j w) (ucast (drop_bit k w)) = drop_bit k w"
  using assms
  by (intro bit_word_eqI) (auto simp: bit_be_step bit_ucast_iff bit_drop_bit_eq)

lemma be_step_first:
  fixes w :: "'a::len word"
  assumes "LENGTH('a) = k + 8"
  shows "be_step 0 (ucast (drop_bit k w)) = drop_bit k w"
  using assms
  by (intro bit_word_eqI)
    (auto simp: bit_be_step bit_ucast_iff bit_drop_bit_eq dest: bit_imp_le_length)

lemmas be_step_last = be_step_drop [where k = 0, simplified]

lemma get16_put16 [simp]: "get16 (put16 w @ bs) = w" "get16 (put16 w) = w"
  by (simp_all add: get16_def put16_def be_step_first be_step_last)

lemma get32_put32 [simp]: "get32 (put32 w @ bs) = w" "get32 (put32 w) = w"
  by (simp_all add: get32_def put32_def be_step_first be_step_drop be_step_last)

lemma get64_put64 [simp]: "get64 (put64 w @ bs) = w" "get64 (put64 w) = w"
  by (simp_all add: get64_def put64_def be_step_first be_step_drop be_step_last)

text \<open>Writing back what was read.\<close>

lemma ucast_be_step [simp]: "(ucast (be_step a b :: 'a::len word) :: byte) = b" if "8 \<le> LENGTH('a)"
  using that by (intro bit_word_eqI) (auto simp: bit_be_step bit_ucast_iff)

lemma drop_be_step:
  fixes a :: "'a::len word"
  assumes "8 \<le> k" "k + 8 \<le> LENGTH('a)"
  shows "(ucast (drop_bit k (be_step a b)) :: byte) = ucast (drop_bit (k - 8) a)"
  using assms
  by (intro bit_word_eqI) (auto simp: bit_be_step bit_ucast_iff bit_drop_bit_eq)

lemma put_get [simp]:
  "length bs = 2 \<Longrightarrow> put16 (get16 bs) = bs"
  "length bs = 4 \<Longrightarrow> put32 (get32 bs) = bs"
  "length bs = 8 \<Longrightarrow> put64 (get64 bs) = bs"
  by (auto simp: put16_def get16_def put32_def get32_def put64_def get64_def drop_be_step
      numeral_eq_Suc length_Suc_conv)

section \<open>Lengths that fit a machine integer\<close>

lemma unat_of_nat_u16 [simp]: "n < 65536 \<Longrightarrow> unat (of_nat n :: u16) = n"
  by (simp add: unat_of_nat)

lemma unat_add_of_nat_u16 [simp]:
  "numeral k + n < (65536 :: nat) \<Longrightarrow> unat (numeral k + of_nat n :: u16) = numeral k + n"
  "1 + n < (65536 :: nat) \<Longrightarrow> unat (1 + of_nat n :: u16) = Suc n"
  "numeral k + m + n < (65536 :: nat) \<Longrightarrow>
     unat (numeral k + of_nat m + of_nat n :: u16) = numeral k + m + n"
  using unat_of_nat_u16 [of "numeral k + n"] unat_of_nat_u16 [of "1 + n"]
    unat_of_nat_u16 [of "numeral k + m + n"] by simp_all

lemma unat_of_nat_byte [simp]: "n < 256 \<Longrightarrow> unat (of_nat n :: byte) = n"
  by (simp add: unat_of_nat)

lemma unat_of_nat_u32 [simp]: "n < 4294967296 \<Longrightarrow> unat (of_nat n :: u32) = n"
  by (simp add: unat_of_nat)

lemma unat_byte_less [simp]: "unat (b :: byte) < 256"
  using unsigned_less [of b] by simp

lemma unat_u16_less [simp]: "unat (w :: u16) < 65536"
  using unsigned_less [of w] by simp

section \<open>The top bit of a type field\<close>

lemma and_8000_eq_0: "(w :: u16) AND 0x8000 = 0 \<longleftrightarrow> \<not> bit w 15"
proof -
  have e: "(0x8000 :: u16) = 2 ^ 15" by simp
  show ?thesis unfolding e by (rule and_exp_eq_0_iff_not_bit)
qed

lemma and_7fff_eq: "\<not> bit w 15 \<Longrightarrow> (w :: u16) AND 0x7fff = w"
proof -
  assume w: "\<not> bit w 15"
  have m: "(0x7fff :: u16) = mask 15" by (simp add: mask_eq_exp_minus_1)
  show ?thesis
    unfolding m
    by (rule bit_word_eqI)
      (use w in \<open>auto simp: bit_and_iff bit_mask_iff less_Suc_eq numeral_eq_Suc\<close>)
qed

lemma not_bit_and_7fff [simp]: "\<not> bit ((w :: u16) AND 0x7fff) 15"
  by (simp add: bit_and_iff)

section \<open>Byte-wise exclusive or\<close>

definition xor_bytes :: "bytes \<Rightarrow> bytes \<Rightarrow> bytes" where
  "xor_bytes xs ys = map2 (XOR) xs ys"

lemma length_xor_bytes [simp]: "length (xor_bytes xs ys) = min (length xs) (length ys)"
  by (simp add: xor_bytes_def)

lemma xor_bytes_cancel [simp]:
  "length xs \<le> length ys \<Longrightarrow> xor_bytes (xor_bytes xs ys) ys = xs"
  by (induction xs ys rule: list_induct2') (auto simp: xor_bytes_def xor.assoc)

lemma xor_bytes_commute: "xor_bytes xs ys = xor_bytes ys xs"
  by (induction xs ys rule: list_induct2') (auto simp: xor_bytes_def xor.commute)

lemma xor_bytes_Nil [simp]: "xor_bytes [] ys = []" "xor_bytes xs [] = []"
  by (simp_all add: xor_bytes_def)

lemma xor_bytes_Cons [simp]: "xor_bytes (x # xs) (y # ys) = (x XOR y) # xor_bytes xs ys"
  by (simp add: xor_bytes_def)

end
