(* ===== verification/Interfaces.thy ===== *)
theory Interfaces
  imports Prelude
begin

text \<open>
  The contracts between the components, as locales. Each is interpreted on the model's own
  definitions in the theory of the component that provides it:
  \<^item> \<open>body_codec\<close>: one kind of IKE payload (\<^verbatim>\<open>ikev2.Payload\<close>): an encoder and a decoder;
  \<^item> \<open>stream_codec\<close>: a decoder loop over self-delimiting items that ends with the buffer
    (CP attributes, transform attributes);
  \<^item> \<open>counted_codec\<close>: the same with an item count read from a header (transforms of a
    proposal, traffic selectors);
  \<^item> \<open>block_cipher\<close>, \<open>encrypter\<close>, \<open>mac\<close>: \<^verbatim>\<open>cipher.Block\<close>, \<^verbatim>\<open>crypto.Encrypter\<close> and
    \<^verbatim>\<open>crypto.IntegrityAlgorithm\<close>;
  \<^item> \<open>machine\<close>, \<open>step_system\<close>: a state machine as a function of events and as a relation, with an
    invariant; \<open>frozen_system\<close>: one whose steps keep an observation, too.
\<close>

section \<open>Payload bodies\<close>

locale body_codec =
  fixes encode :: "'p \<Rightarrow> bytes result"
    and decode :: "bytes \<Rightarrow> 'p result"
    and wf :: "'p \<Rightarrow> bool"
  assumes decode_encode: "wf p \<Longrightarrow> rbind (encode p) decode = Inr p"
begin

lemma encode_ok: "wf p \<Longrightarrow> \<exists>b. encode p = Inr b \<and> decode b = Inr p"
  using decode_encode [of p] by (simp add: rbind_Inr_iff)

lemma encodeE:
  assumes "wf p"
  obtains b where "encode p = Inr b" "decode b = Inr p"
  using encode_ok [OF assms] by blast

lemma encode_inj: "wf p \<Longrightarrow> wf q \<Longrightarrow> encode p = encode q \<Longrightarrow> p = q"
  using decode_encode by (metis Inr_inject)

end

section \<open>Streams of items\<close>

locale item_codec =
  fixes enc :: "'a \<Rightarrow> bytes result"
    and dec :: "bytes \<Rightarrow> ('a \<times> nat) result"
    and wf :: "'a \<Rightarrow> bool"
  assumes dec_enc: "wf x \<Longrightarrow>
    \<exists>b. enc x = Inr b \<and> b \<noteq> [] \<and> (\<forall>rest. dec (b @ rest) = Inr (x, length b))"
begin

lemma encE:
  assumes "wf x"
  obtains b where "enc x = Inr b" "b \<noteq> []" "\<And>rest. dec (b @ rest) = Inr (x, length b)"
  using dec_enc [OF assms] by blast

lemma encs_ok: "\<forall>x\<in>set xs. wf x \<Longrightarrow> \<exists>b. rconcat enc xs = Inr b"
  by (induction xs) (auto elim!: encE)

end

locale stream_codec = item_codec +
  fixes loop :: "bytes \<Rightarrow> 'a list result"
    and stop :: "bytes \<Rightarrow> bool"
  assumes stop_Nil: "stop []"
    and enc_live: "wf x \<Longrightarrow> enc x = Inr b \<Longrightarrow> \<not> stop (b @ rest)"
    and loop_stop: "stop data \<Longrightarrow> loop data = Inr []"
    and loop_step: "\<not> stop data \<Longrightarrow>
      loop data = rbind (dec data) (\<lambda>(x, n). rbind (loop (drop n data)) (\<lambda>xs. Inr (x # xs)))"
begin

lemma loop_encode: "\<forall>x\<in>set xs. wf x \<Longrightarrow> rbind (rconcat enc xs) loop = Inr xs"
proof (induction xs)
  case Nil
  show ?case by (simp add: loop_stop stop_Nil)
next
  case (Cons x xs)
  then obtain b bs where "enc x = Inr b" "\<And>rest. dec (b @ rest) = Inr (x, length b)"
    "rconcat enc xs = Inr bs" "loop bs = Inr xs"
    by (auto simp: rbind_Inr_iff elim!: encE)
  moreover have "\<not> stop (b @ bs)"
    using Cons.prems \<open>enc x = Inr b\<close> by (intro enc_live [of x]) auto
  ultimately show ?case by (simp add: loop_step)
qed

text \<open>What one step guarantees of its item, the loop guarantees of all of them.\<close>

lemma loop_wf:
  assumes step: "\<And>d x n. dec d = Inr (x, n) \<Longrightarrow> wf x \<and> 0 < n"
  shows "loop data = Inr xs \<Longrightarrow> \<forall>x\<in>set xs. wf x"
proof (induction data arbitrary: xs rule: length_induct)
  case (1 data)
  show ?case
  proof (cases "stop data")
    case True
    with 1 show ?thesis by (simp add: loop_stop)
  next
    case False
    with "1.prems" obtain x n ys where x: "dec data = Inr (x, n)"
      and ys: "loop (drop n data) = Inr ys" "xs = x # ys"
      by (auto simp: loop_step rbind_Inr_iff)
    have "data \<noteq> []" using False stop_Nil by auto
    with step [OF x] have "wf x" "length (drop n data) < length data" by auto
    with "1.IH" ys(1) have "\<forall>x\<in>set ys. wf x" by blast
    with \<open>wf x\<close> ys(2) show ?thesis by simp
  qed
qed

lemma loop_no_panic:
  assumes step: "\<And>d. dec d \<noteq> Inl Panic" "\<And>d x n. dec d = Inr (x, n) \<Longrightarrow> 0 < n"
  shows "loop data \<noteq> Inl Panic"
proof (induction data rule: length_induct)
  case (1 data)
  show ?case
  proof (cases "stop data")
    case False
    then have "data \<noteq> []" using stop_Nil by auto
    show ?thesis
    proof (cases "dec data")
      case (Inr y)
      obtain x n where y: "y = (x, n)" by (cases y)
      with Inr \<open>data \<noteq> []\<close> step(2) have "loop (drop n data) \<noteq> Inl Panic"
        using "1.IH" by simp
      then show ?thesis
        using False Inr y by (simp add: loop_step rbind_Inl_iff)
    qed (use False step(1) [of data] in \<open>simp add: loop_step\<close>)
  qed (simp add: loop_stop)
qed

end

locale counted_codec = item_codec +
  fixes loop :: "nat \<Rightarrow> bytes \<Rightarrow> ('a list \<times> bytes) result"
  assumes loop_0: "loop 0 data = Inr ([], data)"
    and loop_Suc: "loop (Suc n) data =
      rbind (dec data) (\<lambda>(x, k). rbind (loop n (drop k data)) (\<lambda>(xs, r). Inr (x # xs, r)))"
begin

lemma loop_encode:
  "\<forall>x\<in>set xs. wf x \<Longrightarrow> rconcat enc xs = Inr b \<Longrightarrow> loop (length xs) (b @ rest) = Inr (xs, rest)"
  by (induction xs arbitrary: b) (auto simp: loop_0 loop_Suc rbind_Inr_iff elim!: encE)

lemma loop_encode_all:
  "\<forall>x\<in>set xs. wf x \<Longrightarrow> rconcat enc xs = Inr b \<Longrightarrow> loop (length xs) b = Inr (xs, [])"
  using loop_encode [of xs b "[]"] by simp

lemma loop_wf:
  assumes step: "\<And>d x k. dec d = Inr (x, k) \<Longrightarrow> wf x"
  shows "loop n data = Inr (xs, r) \<Longrightarrow> \<forall>x\<in>set xs. wf x"
  by (induction n arbitrary: data xs r) (auto simp: loop_0 loop_Suc rbind_Inr_iff dest: step)

lemma loop_no_panic:
  assumes step: "\<And>d. dec d \<noteq> Inl Panic"
  shows "loop n data \<noteq> Inl Panic"
  by (induction n arbitrary: data) (auto simp: loop_0 loop_Suc rbind_Inl_iff step)

lemma loop_length: "loop n data = Inr (xs, r) \<Longrightarrow> length xs = n"
  by (induction n arbitrary: data xs r) (auto simp: loop_0 loop_Suc rbind_Inr_iff)

end

section \<open>Cryptographic interfaces\<close>

locale block_cipher =
  fixes E D :: "bytes \<Rightarrow> bytes \<Rightarrow> bytes"
    and key_ok :: "bytes \<Rightarrow> bool"
  assumes length_E: "key_ok k \<Longrightarrow> length b = 16 \<Longrightarrow> length (E k b) = 16"
    and D_E: "key_ok k \<Longrightarrow> length b = 16 \<Longrightarrow> D k (E k b) = b"
begin

lemma E_inj: "key_ok k \<Longrightarrow> length a = 16 \<Longrightarrow> length b = 16 \<Longrightarrow> E k a = E k b \<Longrightarrow> a = b"
  using D_E by metis

end

text \<open>
  \<^verbatim>\<open>crypto.Encrypter\<close> as the callers use it: what \<open>encrypt\<close> returned for a key, an IV and
  additional data, \<open>decrypt\<close> opens with the same three, and the output is longer than the
  input by a fixed overhead (0 for CBC, the 16-byte tag for GCM).
\<close>

locale encrypter =
  fixes encrypt decrypt :: "bytes \<Rightarrow> bytes \<Rightarrow> bytes \<Rightarrow> bytes \<Rightarrow> bytes result"
    and overhead :: nat
  assumes decrypt_encrypt: "encrypt p k iv aad = Inr c \<Longrightarrow> decrypt c k iv aad = Inr p"
    and length_encrypt: "encrypt p k iv aad = Inr c \<Longrightarrow> length c = length p + overhead"
begin

lemma encrypt_inj:
  "encrypt p k iv aad = Inr c \<Longrightarrow> encrypt q k iv aad = Inr c \<Longrightarrow> p = q"
  using decrypt_encrypt by (metis Inr_inject)

end

text \<open>\<^verbatim>\<open>crypto.IntegrityAlgorithm\<close>.\<close>

locale mac =
  fixes compute :: "bytes \<Rightarrow> bytes \<Rightarrow> bytes"
    and verify :: "bytes \<Rightarrow> bytes \<Rightarrow> bytes \<Rightarrow> bool"
    and out_size :: nat
  assumes length_compute: "length (compute k d) = out_size"
    and verify_compute: "verify k d (compute k d)"
begin

lemma verify_appended:
  "length d = n \<Longrightarrow> verify k (take n (d @ compute k d)) (drop n (d @ compute k d))"
  by (simp add: verify_compute)

end

text \<open>A MAC that accepts nothing but its own output (all but the null algorithm).\<close>

locale strict_mac = mac +
  assumes verify_sound: "verify k d m \<Longrightarrow> m = compute k d"
begin

lemma verify_iff: "verify k d m \<longleftrightarrow> m = compute k d"
  using verify_sound verify_compute by blast

lemma verify_length: "verify k d m \<Longrightarrow> length m = out_size"
  by (simp add: verify_iff length_compute)

end

section \<open>State machines\<close>

locale machine =
  fixes init :: "'s \<Rightarrow> bool"
    and step :: "'s \<Rightarrow> 'e \<Rightarrow> 's"
    and inv :: "'s \<Rightarrow> bool"
  assumes inv_init: "init s \<Longrightarrow> inv s"
    and inv_step: "inv s \<Longrightarrow> inv (step s e)"
begin

lemma inv_run: "inv s \<Longrightarrow> inv (foldl step s es)"
  by (induction es arbitrary: s) (auto intro: inv_step)

lemma inv_reachable: "init s \<Longrightarrow> inv (foldl step s es)"
  by (blast intro: inv_init inv_run)

end

text \<open>The same for a step relation, and an observation that the steps under the invariant do not change.\<close>

locale step_system =
  fixes step :: "'s \<Rightarrow> 's \<Rightarrow> bool"
    and inv :: "'s \<Rightarrow> bool"
  assumes step_inv: "step s s' \<Longrightarrow> inv s \<Longrightarrow> inv s'"
begin

lemma steps_inv: "step\<^sup>*\<^sup>* s s' \<Longrightarrow> inv s \<Longrightarrow> inv s'"
  by (induction rule: rtranclp_induct) (auto intro: step_inv)

end

locale frozen_system = step_system +
  fixes obs :: "'s \<Rightarrow> 'o"
  assumes step_obs: "step s s' \<Longrightarrow> inv s \<Longrightarrow> obs s' = obs s"
begin

lemma steps_obs: "step\<^sup>*\<^sup>* s s' \<Longrightarrow> inv s \<Longrightarrow> obs s' = obs s"
  by (induction rule: rtranclp_induct) (auto simp: step_obs dest: steps_inv)

end

end
