(* ===== verification/Ikev2_Constants.thy ===== *)
theory Ikev2_Constants
  imports Prelude
begin

text \<open>
  The IKEv2 code points of \<^verbatim>\<open>pkg/ikev2/constants.go\<close>, as abbreviations at their Go width: the
  wire carries any value of the width, so they are numbers and not a closed enumeration. The
  payload types carry the prefix \<^verbatim>\<open>PT_\<close>. The second part has the printing functions.
\<close>

section \<open>Payload types\<close>

abbreviation (input) PT_NoNextPayload :: byte where "PT_NoNextPayload \<equiv> 0"
abbreviation (input) PT_SA :: byte where "PT_SA \<equiv> 33"
abbreviation (input) PT_KE :: byte where "PT_KE \<equiv> 34"
abbreviation (input) PT_IDi :: byte where "PT_IDi \<equiv> 35"
abbreviation (input) PT_IDr :: byte where "PT_IDr \<equiv> 36"
abbreviation (input) PT_CERT :: byte where "PT_CERT \<equiv> 37"
abbreviation (input) PT_CERTREQ :: byte where "PT_CERTREQ \<equiv> 38"
abbreviation (input) PT_AUTH :: byte where "PT_AUTH \<equiv> 39"
abbreviation (input) PT_NiNr :: byte where "PT_NiNr \<equiv> 40"
abbreviation (input) PT_N :: byte where "PT_N \<equiv> 41"
abbreviation (input) PT_D :: byte where "PT_D \<equiv> 42"
abbreviation (input) PT_V :: byte where "PT_V \<equiv> 43"
abbreviation (input) PT_TSI :: byte where "PT_TSI \<equiv> 44"
abbreviation (input) PT_TSR :: byte where "PT_TSR \<equiv> 45"
abbreviation (input) PT_SK :: byte where "PT_SK \<equiv> 46"
abbreviation (input) PT_CP :: byte where "PT_CP \<equiv> 47"
abbreviation (input) PT_EAP :: byte where "PT_EAP \<equiv> 48"
abbreviation (input) PT_EncryptedFragment :: byte where "PT_EncryptedFragment \<equiv> 53"

section \<open>Exchange types\<close>

abbreviation (input) IKE_SA_INIT :: byte where "IKE_SA_INIT \<equiv> 34"
abbreviation (input) IKE_AUTH :: byte where "IKE_AUTH \<equiv> 35"
abbreviation (input) CREATE_CHILD_SA :: byte where "CREATE_CHILD_SA \<equiv> 36"
abbreviation (input) INFORMATIONAL :: byte where "INFORMATIONAL \<equiv> 37"
abbreviation (input) IKE_SESSION_RESUME :: byte where "IKE_SESSION_RESUME \<equiv> 38"

section \<open>Protocol identifiers\<close>

abbreviation (input) ProtoIKE :: byte where "ProtoIKE \<equiv> 1"
abbreviation (input) ProtoAH :: byte where "ProtoAH \<equiv> 2"
abbreviation (input) ProtoESP :: byte where "ProtoESP \<equiv> 3"

section \<open>Transform types\<close>

abbreviation (input) TransformTypeEncr :: byte where "TransformTypeEncr \<equiv> 1"
abbreviation (input) TransformTypePRF :: byte where "TransformTypePRF \<equiv> 2"
abbreviation (input) TransformTypeInteg :: byte where "TransformTypeInteg \<equiv> 3"
abbreviation (input) TransformTypeDH :: byte where "TransformTypeDH \<equiv> 4"
abbreviation (input) TransformTypeESN :: byte where "TransformTypeESN \<equiv> 5"

section \<open>Encryption transforms\<close>

abbreviation (input) ENCR_DES_IV64 :: u16 where "ENCR_DES_IV64 \<equiv> 1"
abbreviation (input) ENCR_DES :: u16 where "ENCR_DES \<equiv> 2"
abbreviation (input) ENCR_3DES :: u16 where "ENCR_3DES \<equiv> 3"
abbreviation (input) ENCR_RC5 :: u16 where "ENCR_RC5 \<equiv> 4"
abbreviation (input) ENCR_IDEA :: u16 where "ENCR_IDEA \<equiv> 5"
abbreviation (input) ENCR_CAST :: u16 where "ENCR_CAST \<equiv> 6"
abbreviation (input) ENCR_BLOWFISH :: u16 where "ENCR_BLOWFISH \<equiv> 7"
abbreviation (input) ENCR_3IDEA :: u16 where "ENCR_3IDEA \<equiv> 8"
abbreviation (input) ENCR_DES_IV32 :: u16 where "ENCR_DES_IV32 \<equiv> 9"
abbreviation (input) ENCR_NULL :: u16 where "ENCR_NULL \<equiv> 11"
abbreviation (input) ENCR_AES_CBC :: u16 where "ENCR_AES_CBC \<equiv> 12"
abbreviation (input) ENCR_AES_CTR :: u16 where "ENCR_AES_CTR \<equiv> 13"
abbreviation (input) ENCR_AES_CCM_8 :: u16 where "ENCR_AES_CCM_8 \<equiv> 14"
abbreviation (input) ENCR_AES_CCM_12 :: u16 where "ENCR_AES_CCM_12 \<equiv> 15"
abbreviation (input) ENCR_AES_CCM_16 :: u16 where "ENCR_AES_CCM_16 \<equiv> 16"
abbreviation (input) ENCR_AES_GCM_8 :: u16 where "ENCR_AES_GCM_8 \<equiv> 18"
abbreviation (input) ENCR_AES_GCM_12 :: u16 where "ENCR_AES_GCM_12 \<equiv> 19"
abbreviation (input) ENCR_AES_GCM_16 :: u16 where "ENCR_AES_GCM_16 \<equiv> 20"

section \<open>Pseudo-random function transforms\<close>

abbreviation (input) PRF_HMAC_MD5 :: u16 where "PRF_HMAC_MD5 \<equiv> 1"
abbreviation (input) PRF_HMAC_SHA1 :: u16 where "PRF_HMAC_SHA1 \<equiv> 2"
abbreviation (input) PRF_HMAC_TIGER :: u16 where "PRF_HMAC_TIGER \<equiv> 3"
abbreviation (input) PRF_AES128_XCBC :: u16 where "PRF_AES128_XCBC \<equiv> 4"
abbreviation (input) PRF_HMAC_SHA2_256 :: u16 where "PRF_HMAC_SHA2_256 \<equiv> 5"
abbreviation (input) PRF_HMAC_SHA2_384 :: u16 where "PRF_HMAC_SHA2_384 \<equiv> 6"
abbreviation (input) PRF_HMAC_SHA2_512 :: u16 where "PRF_HMAC_SHA2_512 \<equiv> 7"
abbreviation (input) PRF_AES128_CMAC :: u16 where "PRF_AES128_CMAC \<equiv> 8"

section \<open>Integrity transforms\<close>

abbreviation (input) AUTH_NONE :: u16 where "AUTH_NONE \<equiv> 0"
abbreviation (input) AUTH_HMAC_MD5_96 :: u16 where "AUTH_HMAC_MD5_96 \<equiv> 1"
abbreviation (input) AUTH_HMAC_SHA1_96 :: u16 where "AUTH_HMAC_SHA1_96 \<equiv> 2"
abbreviation (input) AUTH_DES_MAC :: u16 where "AUTH_DES_MAC \<equiv> 3"
abbreviation (input) AUTH_KPDK_MD5 :: u16 where "AUTH_KPDK_MD5 \<equiv> 4"
abbreviation (input) AUTH_AES_XCBC_96 :: u16 where "AUTH_AES_XCBC_96 \<equiv> 5"
abbreviation (input) AUTH_HMAC_MD5_128 :: u16 where "AUTH_HMAC_MD5_128 \<equiv> 6"
abbreviation (input) AUTH_HMAC_SHA1_160 :: u16 where "AUTH_HMAC_SHA1_160 \<equiv> 7"
abbreviation (input) AUTH_AES_CMAC_96 :: u16 where "AUTH_AES_CMAC_96 \<equiv> 8"
abbreviation (input) AUTH_AES_128_GMAC :: u16 where "AUTH_AES_128_GMAC \<equiv> 9"
abbreviation (input) AUTH_AES_192_GMAC :: u16 where "AUTH_AES_192_GMAC \<equiv> 10"
abbreviation (input) AUTH_AES_256_GMAC :: u16 where "AUTH_AES_256_GMAC \<equiv> 11"
abbreviation (input) AUTH_HMAC_SHA2_256_128 :: u16 where "AUTH_HMAC_SHA2_256_128 \<equiv> 12"
abbreviation (input) AUTH_HMAC_SHA2_384_192 :: u16 where "AUTH_HMAC_SHA2_384_192 \<equiv> 13"
abbreviation (input) AUTH_HMAC_SHA2_512_256 :: u16 where "AUTH_HMAC_SHA2_512_256 \<equiv> 14"

section \<open>Diffie-Hellman groups\<close>

abbreviation (input) MODP_768_bit :: u16 where "MODP_768_bit \<equiv> 1"
abbreviation (input) MODP_1024_bit :: u16 where "MODP_1024_bit \<equiv> 2"
abbreviation (input) MODP_1536_bit :: u16 where "MODP_1536_bit \<equiv> 5"
abbreviation (input) MODP_2048_bit :: u16 where "MODP_2048_bit \<equiv> 14"
abbreviation (input) MODP_3072_bit :: u16 where "MODP_3072_bit \<equiv> 15"
abbreviation (input) MODP_4096_bit :: u16 where "MODP_4096_bit \<equiv> 16"
abbreviation (input) MODP_6144_bit :: u16 where "MODP_6144_bit \<equiv> 17"
abbreviation (input) MODP_8192_bit :: u16 where "MODP_8192_bit \<equiv> 18"

section \<open>Attribute types\<close>

abbreviation (input) AttributeKeyLength :: u16 where "AttributeKeyLength \<equiv> 14"

section \<open>Notify message types: errors\<close>

abbreviation (input) UNSUPPORTED_CRITICAL_PAYLOAD :: u16 where "UNSUPPORTED_CRITICAL_PAYLOAD \<equiv> 1"
abbreviation (input) INVALID_IKE_SPI :: u16 where "INVALID_IKE_SPI \<equiv> 4"
abbreviation (input) INVALID_MAJOR_VERSION :: u16 where "INVALID_MAJOR_VERSION \<equiv> 5"
abbreviation (input) INVALID_SYNTAX :: u16 where "INVALID_SYNTAX \<equiv> 7"
abbreviation (input) INVALID_MESSAGE_ID :: u16 where "INVALID_MESSAGE_ID \<equiv> 9"
abbreviation (input) INVALID_SPI :: u16 where "INVALID_SPI \<equiv> 11"
abbreviation (input) NO_PROPOSAL_CHOSEN :: u16 where "NO_PROPOSAL_CHOSEN \<equiv> 14"
abbreviation (input) INVALID_KE_PAYLOAD :: u16 where "INVALID_KE_PAYLOAD \<equiv> 17"
abbreviation (input) AUTHENTICATION_FAILED :: u16 where "AUTHENTICATION_FAILED \<equiv> 24"
abbreviation (input) SINGLE_PAIR_REQUIRED :: u16 where "SINGLE_PAIR_REQUIRED \<equiv> 34"
abbreviation (input) NO_ADDITIONAL_SAS :: u16 where "NO_ADDITIONAL_SAS \<equiv> 35"
abbreviation (input) INTERNAL_ADDRESS_FAILURE :: u16 where "INTERNAL_ADDRESS_FAILURE \<equiv> 36"
abbreviation (input) FAILED_CP_REQUIRED :: u16 where "FAILED_CP_REQUIRED \<equiv> 37"
abbreviation (input) TS_UNACCEPTABLE :: u16 where "TS_UNACCEPTABLE \<equiv> 38"
abbreviation (input) INVALID_SELECTORS :: u16 where "INVALID_SELECTORS \<equiv> 39"
abbreviation (input) TEMPORARY_FAILURE :: u16 where "TEMPORARY_FAILURE \<equiv> 43"
abbreviation (input) CHILD_SA_NOT_FOUND :: u16 where "CHILD_SA_NOT_FOUND \<equiv> 44"

section \<open>Notify message types: status\<close>

abbreviation (input) INITIAL_CONTACT :: u16 where "INITIAL_CONTACT \<equiv> 16384"
abbreviation (input) SET_WINDOW_SIZE :: u16 where "SET_WINDOW_SIZE \<equiv> 16385"
abbreviation (input) ADDITIONAL_TS_POSSIBLE :: u16 where "ADDITIONAL_TS_POSSIBLE \<equiv> 16386"
abbreviation (input) IPCOMP_SUPPORTED :: u16 where "IPCOMP_SUPPORTED \<equiv> 16387"
abbreviation (input) NAT_DETECTION_SOURCE_IP :: u16 where "NAT_DETECTION_SOURCE_IP \<equiv> 16388"
abbreviation (input) NAT_DETECTION_DESTINATION_IP :: u16 where "NAT_DETECTION_DESTINATION_IP \<equiv> 16389"
abbreviation (input) COOKIE :: u16 where "COOKIE \<equiv> 16390"
abbreviation (input) USE_TRANSPORT_MODE :: u16 where "USE_TRANSPORT_MODE \<equiv> 16391"
abbreviation (input) HTTP_CERT_LOOKUP_SUPPORTED :: u16 where "HTTP_CERT_LOOKUP_SUPPORTED \<equiv> 16392"
abbreviation (input) REKEY_SA :: u16 where "REKEY_SA \<equiv> 16393"
abbreviation (input) ESP_TFC_PADDING_NOT_SUPPORTED :: u16 where "ESP_TFC_PADDING_NOT_SUPPORTED \<equiv> 16394"
abbreviation (input) NON_FIRST_FRAGMENTS_ALSO :: u16 where "NON_FIRST_FRAGMENTS_ALSO \<equiv> 16395"
abbreviation (input) MOBIKE_SUPPORTED :: u16 where "MOBIKE_SUPPORTED \<equiv> 16396"
abbreviation (input) ADDITIONAL_IP4_ADDRESS :: u16 where "ADDITIONAL_IP4_ADDRESS \<equiv> 16397"
abbreviation (input) ADDITIONAL_IP6_ADDRESS :: u16 where "ADDITIONAL_IP6_ADDRESS \<equiv> 16398"
abbreviation (input) NO_ADDITIONAL_ADDRESSES :: u16 where "NO_ADDITIONAL_ADDRESSES \<equiv> 16399"
abbreviation (input) UPDATE_SA_ADDRESSES :: u16 where "UPDATE_SA_ADDRESSES \<equiv> 16400"
abbreviation (input) COOKIE2 :: u16 where "COOKIE2 \<equiv> 16401"
abbreviation (input) NO_NATS_ALLOWED :: u16 where "NO_NATS_ALLOWED \<equiv> 16402"
abbreviation (input) AUTH_LIFETIME :: u16 where "AUTH_LIFETIME \<equiv> 16403"
abbreviation (input) REDIRECT_SUPPORTED :: u16 where "REDIRECT_SUPPORTED \<equiv> 16406"
abbreviation (input) REDIRECT :: u16 where "REDIRECT \<equiv> 16407"
abbreviation (input) TICKET_LT_OPAQUE :: u16 where "TICKET_LT_OPAQUE \<equiv> 16409"
abbreviation (input) TICKET_REQUEST :: u16 where "TICKET_REQUEST \<equiv> 16410"
abbreviation (input) TICKET_ACK :: u16 where "TICKET_ACK \<equiv> 16411"
abbreviation (input) TICKET_NACK :: u16 where "TICKET_NACK \<equiv> 16412"
abbreviation (input) TICKET_OPAQUE :: u16 where "TICKET_OPAQUE \<equiv> 16413"
abbreviation (input) EAP_ONLY_AUTHENTICATION :: u16 where "EAP_ONLY_AUTHENTICATION \<equiv> 16417"
abbreviation (input) IKEV2_MESSAGE_ID_SYNC :: u16 where "IKEV2_MESSAGE_ID_SYNC \<equiv> 16422"
abbreviation (input) IKEV2_FRAGMENTATION_SUPPORTED :: u16 where "IKEV2_FRAGMENTATION_SUPPORTED \<equiv> 16430"
abbreviation (input) DEVICE_IDENTITY :: u16 where "DEVICE_IDENTITY \<equiv> 16432"
abbreviation (input) DEVICE_IDENTITY_3GPP :: u16 where "DEVICE_IDENTITY_3GPP \<equiv> 41101"

section \<open>Gateway identity types of a redirect\<close>

abbreviation (input) RedirectGWIPv4 :: byte where "RedirectGWIPv4 \<equiv> 1"
abbreviation (input) RedirectGWIPv6 :: byte where "RedirectGWIPv6 \<equiv> 2"
abbreviation (input) RedirectGWFQDN :: byte where "RedirectGWFQDN \<equiv> 3"

section \<open>Printing\<close>

definition EncrToString :: "u16 \<Rightarrow> string" where
  "EncrToString i =
    (if i = ENCR_DES_IV64 then ''DES_IV64''
     else if i = ENCR_DES then ''DES''
     else if i = ENCR_3DES then ''3DES''
     else if i = ENCR_RC5 then ''RC5''
     else if i = ENCR_IDEA then ''IDEA''
     else if i = ENCR_CAST then ''CAST''
     else if i = ENCR_BLOWFISH then ''BLOWFISH''
     else if i = ENCR_3IDEA then ''3IDEA''
     else if i = ENCR_DES_IV32 then ''DES_IV32''
     else if i = ENCR_NULL then ''NULL''
     else if i = ENCR_AES_CBC then ''AES_CBC''
     else if i = ENCR_AES_CTR then ''AES_CTR''
     else if i = ENCR_AES_CCM_8 then ''AES_CCM_8''
     else if i = ENCR_AES_CCM_12 then ''AES_CCM_12''
     else if i = ENCR_AES_CCM_16 then ''AES_CCM_16''
     else if i = ENCR_AES_GCM_8 then ''AES_GCM_8''
     else if i = ENCR_AES_GCM_12 then ''AES_GCM_12''
     else if i = ENCR_AES_GCM_16 then ''AES_GCM_16''
     else ''UNKNOWN'')"

definition PRFToString :: "u16 \<Rightarrow> string" where
  "PRFToString i =
    (if i = PRF_HMAC_MD5 then ''HMAC_MD5''
     else if i = PRF_HMAC_SHA1 then ''HMAC_SHA1''
     else if i = PRF_HMAC_TIGER then ''HMAC_TIGER''
     else if i = PRF_AES128_XCBC then ''AES128_XCBC''
     else if i = PRF_HMAC_SHA2_256 then ''HMAC_SHA2_256''
     else if i = PRF_HMAC_SHA2_384 then ''HMAC_SHA2_384''
     else if i = PRF_HMAC_SHA2_512 then ''HMAC_SHA2_512''
     else if i = PRF_AES128_CMAC then ''AES128_CMAC''
     else ''UNKNOWN'')"

definition IntegToString :: "u16 \<Rightarrow> string" where
  "IntegToString i =
    (if i = AUTH_NONE then ''NONE''
     else if i = AUTH_HMAC_MD5_96 then ''HMAC_MD5_96''
     else if i = AUTH_HMAC_SHA1_96 then ''HMAC_SHA1_96''
     else if i = AUTH_DES_MAC then ''DES_MAC''
     else if i = AUTH_KPDK_MD5 then ''KPDK_MD5''
     else if i = AUTH_AES_XCBC_96 then ''AES_XCBC_96''
     else if i = AUTH_HMAC_MD5_128 then ''HMAC_MD5_128''
     else if i = AUTH_HMAC_SHA1_160 then ''HMAC_SHA1_160''
     else if i = AUTH_AES_CMAC_96 then ''AES_CMAC_96''
     else if i = AUTH_AES_128_GMAC then ''AES_128_GMAC''
     else if i = AUTH_AES_192_GMAC then ''AES_192_GMAC''
     else if i = AUTH_AES_256_GMAC then ''AES_256_GMAC''
     else if i = AUTH_HMAC_SHA2_256_128 then ''HMAC_SHA2_256_128''
     else if i = AUTH_HMAC_SHA2_384_192 then ''HMAC_SHA2_384_192''
     else if i = AUTH_HMAC_SHA2_512_256 then ''HMAC_SHA2_512_256''
     else ''UNKNOWN'')"

definition DHToString :: "u16 \<Rightarrow> string" where
  "DHToString i =
    (if i = MODP_768_bit then ''MODP_768''
     else if i = MODP_1024_bit then ''MODP_1024''
     else if i = MODP_1536_bit then ''MODP_1536''
     else if i = MODP_2048_bit then ''MODP_2048''
     else if i = MODP_3072_bit then ''MODP_3072''
     else if i = MODP_4096_bit then ''MODP_4096''
     else if i = MODP_6144_bit then ''MODP_6144''
     else if i = MODP_8192_bit then ''MODP_8192''
     else (if i = 0 then ''NONE'' else ''UNKNOWN''))"

end
