(* ===== verification/Ikev2_Header.thy ===== *)
theory Ikev2_Header
  imports Interfaces Ikev2_Constants
begin

text \<open>
  The IKE message header (\<^verbatim>\<open>pkg/ikev2/header.go\<close>) and the generic payload header
  (\<^verbatim>\<open>pkg/ikev2/payload.go\<close>): the two records, their encoders and decoders, and the round trips.
\<close>

section \<open>The message header\<close>

record IKEHeader =
  SPIi :: u64
  SPIr :: u64
  NextPayload :: byte
  Version :: byte
  ExchangeType :: byte
  Flags :: byte
  MessageID :: u32
  hdr_Length :: u32

abbreviation (input) IKE_HEADER_LEN :: nat where "IKE_HEADER_LEN \<equiv> 28"

abbreviation (input) FlagInitiator :: byte where "FlagInitiator \<equiv> 8"
abbreviation (input) FlagVersion :: byte where "FlagVersion \<equiv> 16"
abbreviation (input) FlagResponse :: byte where "FlagResponse \<equiv> 32"

definition Header_Encode :: "IKEHeader \<Rightarrow> bytes" where
  "Header_Encode h =
     put64 (SPIi h) @ put64 (SPIr h) @
     [NextPayload h, Version h, ExchangeType h, Flags h] @
     put32 (MessageID h) @ put32 (hdr_Length h)"

definition DecodeHeader :: "bytes \<Rightarrow> IKEHeader result" where
  "DecodeHeader data =
     (if length data < IKE_HEADER_LEN then fail ''packet too short for IKE header''
      else Inr
        \<lparr>SPIi = get64 (slice data 0 8),
         SPIr = get64 (slice data 8 16),
         NextPayload = data ! 16,
         Version = data ! 17,
         ExchangeType = data ! 18,
         Flags = data ! 19,
         MessageID = get32 (slice data 20 24),
         hdr_Length = get32 (slice data 24 28)\<rparr>)"

lemma length_Header_Encode [simp]: "length (Header_Encode h) = 28"
  by (simp add: Header_Encode_def)

lemma slice_shift: "length xs = n \<Longrightarrow> n \<le> a \<Longrightarrow> slice (xs @ ys) a b = slice ys (a - n) (b - n)"
  by (simp add: slice_def)

lemma DecodeHeader_Encode [codec]:
  "DecodeHeader (Header_Encode h @ rest) = Inr h"
  by (simp add: DecodeHeader_def Header_Encode_def slice_shift slice_append_left nth_append
      put64_def put32_def slice_def take_Cons' drop_Cons' get64_def get32_def
      be_step_first be_step_drop be_step_last)

lemma DecodeHeader_short:
  "length data < IKE_HEADER_LEN \<Longrightarrow> \<exists>e. DecodeHeader data = Inl (Fail e)"
  by (simp add: DecodeHeader_def)

text \<open>The encoder is onto: 28 received bytes are re-encoded as they came.\<close>

lemma drop_Cons_nth: "i < length xs \<Longrightarrow> n = Suc i \<Longrightarrow> xs ! i # drop n xs = drop i xs"
  by (simp add: Cons_nth_drop_Suc)

lemma Header_Encode_decoded:
  assumes "DecodeHeader data = Inr h"
  shows "Header_Encode h = take 28 data"
proof -
  have len: "28 \<le> length data"
    using assms by (auto simp: DecodeHeader_def split: if_splits)
  have "h = \<lparr>SPIi = get64 (slice data 0 8), SPIr = get64 (slice data 8 16),
      NextPayload = data ! 16, Version = data ! 17, ExchangeType = data ! 18,
      Flags = data ! 19, MessageID = get32 (slice data 20 24),
      hdr_Length = get32 (slice data 24 28)\<rparr>"
    using assms len by (simp add: DecodeHeader_def)
  then have "Header_Encode h = slice data 0 8 @ slice data 8 16 @
      [data ! 16, data ! 17, data ! 18, data ! 19] @ slice data 20 24 @ slice data 24 28"
    using len by (simp add: Header_Encode_def)
  also have "[data ! 16, data ! 17, data ! 18, data ! 19] = slice data 16 20"
    using len by (intro nth_equalityI) (auto simp: slice_def nth_Cons split: nat.splits)
  finally show ?thesis
    by (simp add: slice_split del: slice_0) simp
qed

section \<open>The generic payload header\<close>

record PayloadHeader =
  gen_NextPayload :: byte
  Critical :: bool
  Reserved :: byte
  PayloadLength :: u16

abbreviation (input) PAYLOAD_HEADER_LEN :: nat where "PAYLOAD_HEADER_LEN \<equiv> 4"

text \<open>The reserved bits are never written.\<close>

definition PayloadHeader_Encode :: "PayloadHeader \<Rightarrow> bytes" where
  "PayloadHeader_Encode h =
     [gen_NextPayload h, if Critical h then 0x80 else 0] @ put16 (PayloadLength h)"

definition DecodePayloadHeader :: "bytes \<Rightarrow> PayloadHeader result" where
  "DecodePayloadHeader data =
     (if length data < PAYLOAD_HEADER_LEN then fail ''payload header too short''
      else Inr
        \<lparr>gen_NextPayload = data ! 0,
         Critical = (data ! 1 AND 0x80 \<noteq> 0),
         Reserved = data ! 1 AND 0x7F,
         PayloadLength = get16 (slice data 2 4)\<rparr>)"

lemma length_PayloadHeader_Encode [simp]: "length (PayloadHeader_Encode h) = 4"
  by (simp add: PayloadHeader_Encode_def)

lemma DecodePayloadHeader_Encode [codec]:
  "DecodePayloadHeader (PayloadHeader_Encode h @ rest) = Inr (h\<lparr>Reserved := 0\<rparr>)"
  by (simp add: DecodePayloadHeader_def PayloadHeader_Encode_def slice_def)

end
