(* ===== verification/Ikev2_Payloads.thy ===== *)
theory Ikev2_Payloads
  imports Ikev2_Header
begin

text \<open>
  The payload bodies without inner structure: \<^verbatim>\<open>payload_auth.go\<close>, \<^verbatim>\<open>payload_id.go\<close>,
  \<^verbatim>\<open>payload_ke_nonce.go\<close>, \<^verbatim>\<open>payload_eap.go\<close>, \<^verbatim>\<open>payload_notify.go\<close>, \<^verbatim>\<open>payload_delete.go\<close> and the
  raw payload of \<^verbatim>\<open>packet.go\<close>. Their encoders always return a nil error, so they are functions
  to bytes here and are lifted where the interface is used. Every decoder accepts what its
  encoder wrote.
\<close>

section \<open>Authentication\<close>

abbreviation (input) AuthMethodRSASig :: byte where "AuthMethodRSASig \<equiv> 1"
abbreviation (input) AuthMethodSharedKey :: byte where "AuthMethodSharedKey \<equiv> 2"
abbreviation (input) AuthMethodDSSSig :: byte where "AuthMethodDSSSig \<equiv> 3"

record EncryptedPayloadAuth =
  AuthMethod :: byte
  AuthData :: bytes

definition Auth_Encode :: "EncryptedPayloadAuth \<Rightarrow> bytes" where
  "Auth_Encode p = [AuthMethod p, 0, 0, 0] @ AuthData p"

definition DecodePayloadAuth :: "bytes \<Rightarrow> EncryptedPayloadAuth result" where
  "DecodePayloadAuth data =
     (if length data < 4 then fail ''auth payload too short''
      else Inr \<lparr>AuthMethod = data ! 0, AuthData = drop 4 data\<rparr>)"

interpretation auth: body_codec "\<lambda>p. Inr (Auth_Encode p)" DecodePayloadAuth "\<lambda>_. True"
  by unfold_locales (simp add: Auth_Encode_def DecodePayloadAuth_def)

section \<open>Identification\<close>

abbreviation (input) ID_IPV4_ADDR :: byte where "ID_IPV4_ADDR \<equiv> 1"
abbreviation (input) ID_FQDN :: byte where "ID_FQDN \<equiv> 2"
abbreviation (input) ID_RFC822_ADDR :: byte where "ID_RFC822_ADDR \<equiv> 3"
abbreviation (input) ID_IPV6_ADDR :: byte where "ID_IPV6_ADDR \<equiv> 5"
abbreviation (input) ID_DER_ASN1_DN :: byte where "ID_DER_ASN1_DN \<equiv> 9"
abbreviation (input) ID_DER_ASN1_GN :: byte where "ID_DER_ASN1_GN \<equiv> 10"
abbreviation (input) ID_KEY_ID :: byte where "ID_KEY_ID \<equiv> 11"

record EncryptedPayloadID =
  IDType :: byte
  IDData :: bytes
  id_IsInitiator :: bool

definition ID_Encode :: "EncryptedPayloadID \<Rightarrow> bytes" where
  "ID_Encode p = [IDType p, 0, 0, 0] @ IDData p"

definition DecodePayloadID :: "bytes \<Rightarrow> bool \<Rightarrow> EncryptedPayloadID result" where
  "DecodePayloadID data isInitiator =
     (if length data < 4 then fail ''ID payload too short''
      else Inr \<lparr>IDType = data ! 0, IDData = drop 4 data, id_IsInitiator = isInitiator\<rparr>)"

definition ID_Type :: "EncryptedPayloadID \<Rightarrow> byte" where
  "ID_Type p = (if id_IsInitiator p then PT_IDi else PT_IDr)"

interpretation idi: body_codec "\<lambda>p. Inr (ID_Encode p)" "\<lambda>d. DecodePayloadID d i" "\<lambda>p. id_IsInitiator p = i"
  for i
  by unfold_locales (simp add: ID_Encode_def DecodePayloadID_def)

section \<open>Key exchange and nonce\<close>

record EncryptedPayloadKE =
  DHGroup :: u16
  KEData :: bytes

definition KE_Encode :: "EncryptedPayloadKE \<Rightarrow> bytes" where
  "KE_Encode p = put16 (DHGroup p) @ put16 0 @ KEData p"

definition DecodePayloadKE :: "bytes \<Rightarrow> EncryptedPayloadKE result" where
  "DecodePayloadKE data =
     (if length data < 4 then fail ''KE payload too short''
      else Inr \<lparr>DHGroup = get16 (slice data 0 2), KEData = drop 4 data\<rparr>)"

interpretation ke: body_codec "\<lambda>p. Inr (KE_Encode p)" DecodePayloadKE "\<lambda>_. True"
  by unfold_locales (simp add: KE_Encode_def DecodePayloadKE_def)

record EncryptedPayloadNonce =
  NonceData :: bytes

definition Nonce_Encode :: "EncryptedPayloadNonce \<Rightarrow> bytes" where
  "Nonce_Encode p = NonceData p"

definition DecodePayloadNonce :: "bytes \<Rightarrow> EncryptedPayloadNonce result" where
  "DecodePayloadNonce data = Inr \<lparr>NonceData = data\<rparr>"

interpretation nonce: body_codec "\<lambda>p. Inr (Nonce_Encode p)" DecodePayloadNonce "\<lambda>_. True"
  by unfold_locales (simp add: Nonce_Encode_def DecodePayloadNonce_def)

section \<open>EAP\<close>

record EncryptedPayloadEAP =
  EAPMessage :: bytes

definition EAP_Encode :: "EncryptedPayloadEAP \<Rightarrow> bytes" where
  "EAP_Encode p = EAPMessage p"

definition DecodePayloadEAP :: "bytes \<Rightarrow> EncryptedPayloadEAP result" where
  "DecodePayloadEAP data = Inr \<lparr>EAPMessage = data\<rparr>"

interpretation eap_body: body_codec "\<lambda>p. Inr (EAP_Encode p)" DecodePayloadEAP "\<lambda>_. True"
  by unfold_locales (simp add: EAP_Encode_def DecodePayloadEAP_def)

section \<open>Notify\<close>

text \<open>
  \<^verbatim>\<open>OverrideType\<close> (non-zero: the payload is sent under another type) is not on the wire of the
  body, and the SPI size is one byte, so the round trip is stated for payloads whose SPI is
  shorter than 256 bytes and that do not override.
\<close>

record EncryptedPayloadNotify =
  ntf_ProtocolID :: byte
  ntf_SPI :: bytes
  NotifyType :: u16
  NotifyData :: bytes
  OverrideType :: byte

definition Notify_Type :: "EncryptedPayloadNotify \<Rightarrow> byte" where
  "Notify_Type p = (if OverrideType p \<noteq> 0 then OverrideType p else PT_N)"

definition Notify_Encode :: "EncryptedPayloadNotify \<Rightarrow> bytes" where
  "Notify_Encode p =
     [ntf_ProtocolID p, of_nat (length (ntf_SPI p))] @ put16 (NotifyType p) @
     ntf_SPI p @ NotifyData p"

definition DecodePayloadNotify :: "bytes \<Rightarrow> EncryptedPayloadNotify result" where
  "DecodePayloadNotify data =
     (if length data < 4 then fail ''notify payload too short''
      else let protoID = data ! 0; spiLen = unat (data ! 1);
               notifyType = get16 (slice data 2 4)
           in if length data < 4 + spiLen then fail ''notify payload too short for SPI''
              else Inr
                \<lparr>ntf_ProtocolID = protoID, ntf_SPI = slice data 4 (4 + spiLen),
                 NotifyType = notifyType, NotifyData = drop (4 + spiLen) data,
                 OverrideType = 0\<rparr>)"

definition notify_wf :: "EncryptedPayloadNotify \<Rightarrow> bool" where
  "notify_wf p \<longleftrightarrow> length (ntf_SPI p) < 256 \<and> OverrideType p = 0"

interpretation notify: body_codec "\<lambda>p. Inr (Notify_Encode p)" DecodePayloadNotify notify_wf
  by unfold_locales
    (simp add: Notify_Encode_def DecodePayloadNotify_def notify_wf_def slice_def Let_def drop_Cons')

text \<open>Without the bound the decoder is still total, but it cuts the SPI at the size byte.\<close>

lemma DecodePayloadNotify_spi_length:
  "DecodePayloadNotify data = Inr p \<Longrightarrow>
     length (ntf_SPI p) = unat (data ! 1) \<and> length (ntf_SPI p) < 256 \<and> OverrideType p = 0"
  by (auto simp: DecodePayloadNotify_def Let_def split: if_splits)

section \<open>Delete\<close>

record EncryptedPayloadDelete =
  del_ProtocolID :: byte
  SPISize :: byte
  NumSPIs :: u16
  SPIs :: bytes

definition Delete_Encode :: "EncryptedPayloadDelete \<Rightarrow> bytes" where
  "Delete_Encode p = [del_ProtocolID p, SPISize p] @ put16 (NumSPIs p) @ SPIs p"

definition DecodePayloadDelete :: "bytes \<Rightarrow> EncryptedPayloadDelete result" where
  "DecodePayloadDelete data =
     (if length data < 4 then fail ''delete payload too short''
      else let protoID = data ! 0; spiSize = data ! 1; numSPIs = get16 (slice data 2 4);
               expectedLen = 4 + unat spiSize * unat numSPIs
           in if length data < expectedLen then fail ''delete payload too short for SPIs''
              else Inr
                \<lparr>del_ProtocolID = protoID, SPISize = spiSize, NumSPIs = numSPIs,
                 SPIs = slice data 4 expectedLen\<rparr>)"

definition delete_wf :: "EncryptedPayloadDelete \<Rightarrow> bool" where
  "delete_wf p \<longleftrightarrow> length (SPIs p) = unat (SPISize p) * unat (NumSPIs p)"

interpretation delete: body_codec "\<lambda>p. Inr (Delete_Encode p)" DecodePayloadDelete delete_wf
  by unfold_locales
    (simp add: Delete_Encode_def DecodePayloadDelete_def delete_wf_def slice_def)

lemma DecodePayloadDelete_wf: "DecodePayloadDelete data = Inr p \<Longrightarrow> delete_wf p"
  by (auto simp: DecodePayloadDelete_def delete_wf_def Let_def split: if_splits)

section \<open>Raw payloads\<close>

record RawPayload =
  PType :: byte
  Data :: bytes

definition Raw_Encode :: "RawPayload \<Rightarrow> bytes" where
  "Raw_Encode p = Data p"

end
