(* ===== verification/Ikev2_TS.thy ===== *)
theory Ikev2_TS
  imports Ikev2_Header
begin

text \<open>
  Traffic selector payloads (\<^verbatim>\<open>pkg/ikev2/payload_ts.go\<close>): the selector sub-structure with its
  two address families, the counted decoding loop, the round trip, and what the decoder
  guarantees of every selector it returns.
\<close>

section \<open>Selectors\<close>

record TrafficSelector =
  TSType :: byte
  IPProtocol :: byte
  StartPort :: u16
  EndPort :: u16
  StartAddr :: bytes
  EndAddr :: bytes

abbreviation (input) TS_IPV4_ADDR_RANGE :: byte where "TS_IPV4_ADDR_RANGE \<equiv> 7"
abbreviation (input) TS_IPV6_ADDR_RANGE :: byte where "TS_IPV6_ADDR_RANGE \<equiv> 8"

text \<open>
  \<^verbatim>\<open>net.IP\<close> values are 4 or 16 bytes; \<^verbatim>\<open>To4\<close> also accepts an IPv4 address in its 16-byte form
  (ten zero bytes and two 255s) and returns nil for anything else.
\<close>

definition To4 :: "bytes \<Rightarrow> bytes" where
  "To4 ip = (if length ip = 4 then ip
     else if length ip = 16 \<and> take 12 ip = replicate 10 0 @ [255, 255] then drop 12 ip
     else [])"

definition To16 :: "bytes \<Rightarrow> bytes" where
  "To16 ip = (if length ip = 4 then replicate 10 0 @ [255, 255] @ ip
     else if length ip = 16 then ip else [])"

definition NewTrafficSelectorIPV4 :: "bytes \<Rightarrow> bytes \<Rightarrow> u16 \<Rightarrow> u16 \<Rightarrow> TrafficSelector" where
  "NewTrafficSelectorIPV4 startIP endIP startPort endPort =
     \<lparr>TSType = TS_IPV4_ADDR_RANGE, IPProtocol = 0, StartPort = startPort, EndPort = endPort,
      StartAddr = To4 startIP, EndAddr = To4 endIP\<rparr>"

definition NewTrafficSelectorIPV6 :: "bytes \<Rightarrow> bytes \<Rightarrow> u16 \<Rightarrow> u16 \<Rightarrow> TrafficSelector" where
  "NewTrafficSelectorIPV6 startIP endIP startPort endPort =
     \<lparr>TSType = TS_IPV6_ADDR_RANGE, IPProtocol = 0, StartPort = startPort, EndPort = endPort,
      StartAddr = To16 startIP, EndAddr = To16 endIP\<rparr>"

text \<open>
  \<^verbatim>\<open>copy(buf[a:b], xs)\<close> fills at most \<^verbatim>\<open>b - a\<close> bytes; the slice expression panics when the
  16-byte buffer of an unknown type is addressed at 24 and 40.
\<close>

definition copy_range :: "bytes \<Rightarrow> nat \<Rightarrow> nat \<Rightarrow> bytes \<Rightarrow> bytes result" where
  "copy_range buf a b xs =
     (if b \<le> length buf then Inr (copy_at buf a (take (b - a) xs)) else Inl Panic)"

definition TrafficSelector_Encode :: "TrafficSelector \<Rightarrow> bytes result" where
  "TrafficSelector_Encode ts =
     (let len = (if TSType ts = TS_IPV6_ADDR_RANGE then 40 else 16);
          buf = [TSType ts, IPProtocol ts] @ put16 (of_nat len) @ put16 (StartPort ts) @
                put16 (EndPort ts) @ replicate (len - 8) 0
      in if TSType ts = TS_IPV4_ADDR_RANGE
         then rbind (copy_range buf 8 12 (StartAddr ts)) (\<lambda>b. copy_range b 12 16 (EndAddr ts))
         else rbind (copy_range buf 8 24 (StartAddr ts)) (\<lambda>b. copy_range b 24 40 (EndAddr ts)))"

text \<open>The body of the decoding loop at \<open>data[offset:]\<close>: a selector and its length.\<close>

definition decodeTrafficSelector :: "bytes \<Rightarrow> (TrafficSelector \<times> nat) result" where
  "decodeTrafficSelector data =
     (if length data < 8 then fail ''TS payload too short for selector header''
      else let tType = data ! 0; ipProto = data ! 1; len = unat (get16 (slice data 2 4))
           in if len < 8 \<or> length data < len then fail ''TS payload too short for selector body''
              else let startPort = get16 (slice data 4 6); endPort = get16 (slice data 6 8);
                       rest = slice data 8 len
                   in if tType = TS_IPV4_ADDR_RANGE then
                        if len \<noteq> 16 \<or> length rest \<noteq> 8 then fail ''bad IPv4 selector length''
                        else Inr (\<lparr>TSType = tType, IPProtocol = ipProto, StartPort = startPort,
                               EndPort = endPort, StartAddr = slice rest 0 4,
                               EndAddr = slice rest 4 8\<rparr>, len)
                      else if tType = TS_IPV6_ADDR_RANGE then
                        if len \<noteq> 40 \<or> length rest \<noteq> 32 then fail ''bad IPv6 selector length''
                        else Inr (\<lparr>TSType = tType, IPProtocol = ipProto, StartPort = startPort,
                               EndPort = endPort, StartAddr = slice rest 0 16,
                               EndAddr = slice rest 16 32\<rparr>, len)
                      else fail ''unsupported TS type'')"

definition selector_wf :: "TrafficSelector \<Rightarrow> bool" where
  "selector_wf ts \<longleftrightarrow>
     TSType ts = TS_IPV4_ADDR_RANGE \<and> length (StartAddr ts) = 4 \<and> length (EndAddr ts) = 4 \<or>
     TSType ts = TS_IPV6_ADDR_RANGE \<and> length (StartAddr ts) = 16 \<and> length (EndAddr ts) = 16"

text \<open>The encoding of a well-formed selector, without the buffer.\<close>

lemma TrafficSelector_Encode_wf:
  "selector_wf ts \<Longrightarrow> TrafficSelector_Encode ts =
     Inr ([TSType ts, IPProtocol ts] @
          put16 (if TSType ts = TS_IPV6_ADDR_RANGE then 40 else 16) @
          put16 (StartPort ts) @ put16 (EndPort ts) @ StartAddr ts @ EndAddr ts)"
  by (auto simp: TrafficSelector_Encode_def copy_range_def selector_wf_def copy_at_def Let_def
      put16_def numeral_eq_Suc)

lemma TrafficSelector_Encode_unknown:
  "TSType ts \<noteq> TS_IPV4_ADDR_RANGE \<Longrightarrow> TSType ts \<noteq> TS_IPV6_ADDR_RANGE \<Longrightarrow>
     TrafficSelector_Encode ts = Inl Panic"
  by (simp add: TrafficSelector_Encode_def copy_range_def Let_def)

lemma decode_selector_bytes:
  assumes "selector_wf ts"
  shows "decodeTrafficSelector (([TSType ts, IPProtocol ts] @
          put16 (if TSType ts = TS_IPV6_ADDR_RANGE then 40 else 16) @
          put16 (StartPort ts) @ put16 (EndPort ts) @ StartAddr ts @ EndAddr ts) @ rest) =
        Inr (ts, if TSType ts = TS_IPV6_ADDR_RANGE then 40 else 16)"
proof (cases "TSType ts = TS_IPV6_ADDR_RANGE")
  case True
  with assms have "length (StartAddr ts) = 16" "length (EndAddr ts) = 16"
    by (auto simp: selector_wf_def)
  with True show ?thesis by (simp add: decodeTrafficSelector_def slice_def Let_def)
next
  case False
  with assms have "TSType ts = TS_IPV4_ADDR_RANGE" "length (StartAddr ts) = 4" "length (EndAddr ts) = 4"
    by (auto simp: selector_wf_def)
  then show ?thesis by (simp add: decodeTrafficSelector_def slice_def Let_def)
qed

lemma decode_TrafficSelector:
  assumes "selector_wf ts"
  shows "\<exists>b. TrafficSelector_Encode ts = Inr b \<and> b \<noteq> [] \<and>
     (\<forall>rest. decodeTrafficSelector (b @ rest) = Inr (ts, length b))"
proof (intro exI conjI allI)
  show "TrafficSelector_Encode ts = Inr ([TSType ts, IPProtocol ts] @
          put16 (if TSType ts = TS_IPV6_ADDR_RANGE then 40 else 16) @
          put16 (StartPort ts) @ put16 (EndPort ts) @ StartAddr ts @ EndAddr ts)"
    by (rule TrafficSelector_Encode_wf [OF assms])
qed (use assms decode_selector_bytes [OF assms] in \<open>auto simp: selector_wf_def\<close>)

lemma decodeTrafficSelector_wf:
  "decodeTrafficSelector data = Inr (ts, n) \<Longrightarrow>
     selector_wf ts \<and> 8 \<le> n \<and> n \<le> length data"
  by (auto simp: decodeTrafficSelector_def selector_wf_def Let_def split: if_splits)

section \<open>The payload\<close>

record EncryptedPayloadTS =
  ts_IsInitiator :: bool
  TrafficSelectors :: "TrafficSelector list"

definition TS_Type :: "EncryptedPayloadTS \<Rightarrow> byte" where
  "TS_Type p = (if ts_IsInitiator p then PT_TSI else PT_TSR)"

definition TS_Encode :: "EncryptedPayloadTS \<Rightarrow> bytes result" where
  "TS_Encode p =
     rbind (rconcat TrafficSelector_Encode (TrafficSelectors p)) (\<lambda>tsData.
       Inr ([of_nat (length (TrafficSelectors p)), 0, 0, 0] @ tsData))"

fun decodeTS_loop :: "nat \<Rightarrow> bytes \<Rightarrow> (TrafficSelector list \<times> bytes) result" where
  "decodeTS_loop 0 data = Inr ([], data)"
| "decodeTS_loop (Suc n) data =
     rbind (decodeTrafficSelector data) (\<lambda>(ts, k).
       rbind (decodeTS_loop n (drop k data)) (\<lambda>(tss, r). Inr (ts # tss, r)))"

definition DecodePayloadTS :: "bytes \<Rightarrow> bool \<Rightarrow> EncryptedPayloadTS result" where
  "DecodePayloadTS data isInitiator =
     (if length data < 4 then fail ''TS payload too short''
      else rbind (decodeTS_loop (unat (data ! 0)) (drop 4 data)) (\<lambda>(tss, _).
             Inr \<lparr>ts_IsInitiator = isInitiator, TrafficSelectors = tss\<rparr>))"

interpretation ts_items: counted_codec
  TrafficSelector_Encode decodeTrafficSelector selector_wf decodeTS_loop
  by unfold_locales (simp_all add: decode_TrafficSelector)

definition ts_wf :: "EncryptedPayloadTS \<Rightarrow> bool" where
  "ts_wf p \<longleftrightarrow> length (TrafficSelectors p) < 256 \<and> (\<forall>ts\<in>set (TrafficSelectors p). selector_wf ts)"

lemma decode_TS:
  "ts_wf p \<Longrightarrow> rbind (TS_Encode p) (\<lambda>d. DecodePayloadTS d (ts_IsInitiator p)) = Inr p"
  using ts_items.encs_ok [of "TrafficSelectors p"] ts_items.loop_encode_all [of "TrafficSelectors p"]
  by (auto simp: ts_wf_def TS_Encode_def DecodePayloadTS_def)

interpretation ts: body_codec TS_Encode "\<lambda>d. DecodePayloadTS d i" "\<lambda>p. ts_wf p \<and> ts_IsInitiator p = i"
  for i
  by unfold_locales (use decode_TS in blast)

text \<open>What a peer can make the decoder return: as many selectors as announced, all well-formed.\<close>

lemma decodeTS_loop_wf:
  "decodeTS_loop n data = Inr (tss, r) \<Longrightarrow> \<forall>ts\<in>set tss. selector_wf ts"
  by (rule ts_items.loop_wf) (auto dest: decodeTrafficSelector_wf)

lemma DecodePayloadTS_wf:
  "DecodePayloadTS data i = Inr p \<Longrightarrow>
     ts_wf p \<and> length (TrafficSelectors p) = unat (data ! 0)"
  using decodeTS_loop_wf ts_items.loop_length
  by (fastforce simp: DecodePayloadTS_def ts_wf_def rbind_Inr_iff split: if_splits)

lemma decodeTrafficSelector_no_panic: "decodeTrafficSelector data \<noteq> Inl Panic"
  by (simp add: decodeTrafficSelector_def Let_def)

lemma DecodePayloadTS_no_panic: "DecodePayloadTS data i \<noteq> Inl Panic"
  using ts_items.loop_no_panic [OF decodeTrafficSelector_no_panic]
  by (auto simp: DecodePayloadTS_def rbind_Inl_iff)

end
