(* ===== verification/Ikev2_CP.thy ===== *)
theory Ikev2_CP
  imports Ikev2_Header
begin

text \<open>
  Configuration payloads (\<^verbatim>\<open>pkg/ikev2/payload_cp.go\<close>): attributes in TLV form, with the TV form
  accepted when decoding, and the loop that reads them to the end of the buffer; and the
  configuration extracted from a reply (\<^verbatim>\<open>pkg/ikev2/cp_config.go\<close>).
\<close>

abbreviation (input) CFG_REQUEST :: byte where "CFG_REQUEST \<equiv> 1"
abbreviation (input) CFG_REPLY :: byte where "CFG_REPLY \<equiv> 2"
abbreviation (input) CFG_SET :: byte where "CFG_SET \<equiv> 3"
abbreviation (input) CFG_ACK :: byte where "CFG_ACK \<equiv> 4"

abbreviation (input) INTERNAL_IP4_ADDRESS :: u16 where "INTERNAL_IP4_ADDRESS \<equiv> 1"
abbreviation (input) INTERNAL_IP4_NETMASK :: u16 where "INTERNAL_IP4_NETMASK \<equiv> 2"
abbreviation (input) INTERNAL_IP4_DNS :: u16 where "INTERNAL_IP4_DNS \<equiv> 3"
abbreviation (input) INTERNAL_IP6_ADDRESS :: u16 where "INTERNAL_IP6_ADDRESS \<equiv> 8"
abbreviation (input) INTERNAL_IP6_DNS :: u16 where "INTERNAL_IP6_DNS \<equiv> 10"
abbreviation (input) P_CSCF_IP4_ADDRESS :: u16 where "P_CSCF_IP4_ADDRESS \<equiv> 20"
abbreviation (input) P_CSCF_IP6_ADDRESS :: u16 where "P_CSCF_IP6_ADDRESS \<equiv> 21"
abbreviation (input) ASSIGNED_PCSCF_IP4_ADDRESS :: u16 where "ASSIGNED_PCSCF_IP4_ADDRESS \<equiv> 16384"
abbreviation (input) ASSIGNED_PCSCF_IPV6_ADDRESS :: u16 where "ASSIGNED_PCSCF_IPV6_ADDRESS \<equiv> 16386"
abbreviation (input) ASSIGNED_PCSCF_IP6_ADDRESS :: u16 where "ASSIGNED_PCSCF_IP6_ADDRESS \<equiv> 16390"

section \<open>Attributes\<close>

record CPAttribute =
  cp_Type :: u16
  cp_Value :: bytes

definition CPAttribute_Encode :: "CPAttribute \<Rightarrow> bytes" where
  "CPAttribute_Encode a =
     put16 (cp_Type a) @ put16 (of_nat (length (cp_Value a))) @ cp_Value a"

definition decodeCPAttribute :: "bytes \<Rightarrow> (CPAttribute \<times> nat) result" where
  "decodeCPAttribute data =
     (if length data < 4 then fail ''CP Attribute payload too short''
      else let rawType = get16 (slice data 0 2);
               af = (rawType AND 0x8000 \<noteq> 0);
               attrType = rawType AND 0x7fff
           in if af then Inr (\<lparr>cp_Type = attrType, cp_Value = slice data 2 4\<rparr>, 4)
              else let attrLen = unat (get16 (slice data 2 4))
                   in if length data < 4 + attrLen then fail ''CP Attribute Value payload too short''
                      else Inr (\<lparr>cp_Type = attrType, cp_Value = slice data 4 (4 + attrLen)\<rparr>,
                                4 + attrLen))"

text \<open>The type has 15 bits and the length field 16.\<close>

definition cp_attr_wf :: "CPAttribute \<Rightarrow> bool" where
  "cp_attr_wf a \<longleftrightarrow> \<not> bit (cp_Type a) 15 \<and> length (cp_Value a) < 65536"

lemma decode_CPAttribute:
  "cp_attr_wf a \<Longrightarrow>
     decodeCPAttribute (CPAttribute_Encode a @ rest) = Inr (a, length (CPAttribute_Encode a))"
  by (simp add: decodeCPAttribute_def CPAttribute_Encode_def cp_attr_wf_def slice_def Let_def
      and_8000_eq_0 and_7fff_eq)

lemma decodeCPAttribute_bounds:
  "decodeCPAttribute data = Inr (a, n) \<Longrightarrow>
     4 \<le> n \<and> n \<le> length data \<and> length (cp_Value a) < 65536 \<and> \<not> bit (cp_Type a) 15"
  by (auto simp: decodeCPAttribute_def Let_def bit_and_iff intro: less_trans [OF _ unat_u16_less]
      split: if_splits)

section \<open>The payload\<close>

record EncryptedPayloadCP =
  CFGType :: byte
  cp_Attributes :: "CPAttribute list"

definition CP_Encode :: "EncryptedPayloadCP \<Rightarrow> bytes" where
  "CP_Encode p = [CFGType p, 0, 0, 0] @ concat (map CPAttribute_Encode (cp_Attributes p))"

function decodeCP_loop :: "bytes \<Rightarrow> CPAttribute list result" where
  "decodeCP_loop data =
     (if data = [] then Inr []
      else rbind (decodeCPAttribute data) (\<lambda>(attr, bytesRead).
             rbind (decodeCP_loop (drop bytesRead data)) (\<lambda>attrs. Inr (attr # attrs))))"
  by pat_completeness auto
termination
  by (relation "measure length") (auto dest: decodeCPAttribute_bounds)

declare decodeCP_loop.simps [simp del]

definition DecodePayloadCP :: "bytes \<Rightarrow> EncryptedPayloadCP result" where
  "DecodePayloadCP data =
     (if length data < 4 then fail ''CP payload too short''
      else rbind (decodeCP_loop (drop 4 data)) (\<lambda>attrs.
             Inr \<lparr>CFGType = data ! 0, cp_Attributes = attrs\<rparr>))"

interpretation cp_items: stream_codec
  "\<lambda>a. Inr (CPAttribute_Encode a)" decodeCPAttribute cp_attr_wf decodeCP_loop "\<lambda>d. d = []"
proof
  fix a assume "cp_attr_wf a"
  then show "\<exists>b. Inr (CPAttribute_Encode a) = Inr b \<and> b \<noteq> [] \<and>
      (\<forall>rest. decodeCPAttribute (b @ rest) = Inr (a, length b))"
    by (simp add: decode_CPAttribute) (simp add: CPAttribute_Encode_def)
  then show "Inr (CPAttribute_Encode a) = Inr b \<Longrightarrow> b @ rest \<noteq> []" for b rest
    by (auto simp: CPAttribute_Encode_def)
qed (simp_all add: decodeCP_loop.simps [of "[]"], subst decodeCP_loop.simps, simp)

definition cp_wf :: "EncryptedPayloadCP \<Rightarrow> bool" where
  "cp_wf p \<longleftrightarrow> (\<forall>a\<in>set (cp_Attributes p). cp_attr_wf a)"

lemma decode_CP: "cp_wf p \<Longrightarrow> DecodePayloadCP (CP_Encode p) = Inr p"
  using cp_items.loop_encode [of "cp_Attributes p"]
  by (simp add: cp_wf_def CP_Encode_def DecodePayloadCP_def rconcat_Inr)

interpretation cp: body_codec "\<lambda>p. Inr (CP_Encode p)" DecodePayloadCP cp_wf
  by unfold_locales (simp add: decode_CP)

lemma decodeCP_loop_wf: "decodeCP_loop data = Inr attrs \<Longrightarrow> \<forall>a\<in>set attrs. cp_attr_wf a"
  by (rule cp_items.loop_wf) (auto simp: cp_attr_wf_def dest: decodeCPAttribute_bounds)

lemma DecodePayloadCP_wf: "DecodePayloadCP data = Inr p \<Longrightarrow> cp_wf p"
  by (auto simp: DecodePayloadCP_def cp_wf_def rbind_Inr_iff dest: decodeCP_loop_wf split: if_splits)

lemma decodeCPAttribute_no_panic: "decodeCPAttribute data \<noteq> Inl Panic"
  by (simp add: decodeCPAttribute_def Let_def)

lemma DecodePayloadCP_no_panic: "DecodePayloadCP data \<noteq> Inl Panic"
proof -
  have "decodeCP_loop d \<noteq> Inl Panic" for d
    by (rule cp_items.loop_no_panic [OF decodeCPAttribute_no_panic])
      (auto dest: decodeCPAttribute_bounds)
  then show ?thesis by (auto simp: DecodePayloadCP_def rbind_Inl_iff)
qed

section \<open>The configuration in a reply\<close>

record CPConfig =
  IPv4Addresses :: "bytes list"
  IPv4DNS :: "bytes list"
  IPv4PCSCF :: "bytes list"
  IPv6Addresses :: "bytes list"
  IPv6Prefix :: byte
  IPv6DNS :: "bytes list"
  IPv6PCSCF :: "bytes list"

definition emptyCPConfig :: CPConfig where
  "emptyCPConfig = \<lparr>IPv4Addresses = [], IPv4DNS = [], IPv4PCSCF = [], IPv6Addresses = [],
     IPv6Prefix = 0, IPv6DNS = [], IPv6PCSCF = []\<rparr>"

text \<open>The body of the loop: what one attribute adds. A value too short for its type is skipped.\<close>

definition addCPAttribute :: "CPAttribute \<Rightarrow> CPConfig \<Rightarrow> CPConfig" where
  "addCPAttribute attr cfg =
     (let t = cp_Type attr; v = cp_Value attr
      in if t = INTERNAL_IP4_ADDRESS then
           (if 4 \<le> length v then cfg\<lparr>IPv4Addresses := IPv4Addresses cfg @ [take 4 v]\<rparr> else cfg)
         else if t = INTERNAL_IP4_DNS then
           (if 4 \<le> length v then cfg\<lparr>IPv4DNS := IPv4DNS cfg @ [take 4 v]\<rparr> else cfg)
         else if t = P_CSCF_IP4_ADDRESS \<or> t = ASSIGNED_PCSCF_IP4_ADDRESS then
           (if 4 \<le> length v then cfg\<lparr>IPv4PCSCF := IPv4PCSCF cfg @ [take 4 v]\<rparr> else cfg)
         else if t = INTERNAL_IP6_ADDRESS then
           (if 17 \<le> length v
            then cfg\<lparr>IPv6Addresses := IPv6Addresses cfg @ [take 16 v], IPv6Prefix := v ! 16\<rparr>
            else if 16 \<le> length v
            then cfg\<lparr>IPv6Addresses := IPv6Addresses cfg @ [take 16 v]\<rparr> else cfg)
         else if t = INTERNAL_IP6_DNS then
           (if 16 \<le> length v then cfg\<lparr>IPv6DNS := IPv6DNS cfg @ [take 16 v]\<rparr> else cfg)
         else if t = P_CSCF_IP6_ADDRESS \<or> t = ASSIGNED_PCSCF_IPV6_ADDRESS \<or>
                 t = ASSIGNED_PCSCF_IP6_ADDRESS then
           (if 16 \<le> length v then cfg\<lparr>IPv6PCSCF := IPv6PCSCF cfg @ [take 16 v]\<rparr> else cfg)
         else cfg)"

definition ParseCPConfig :: "EncryptedPayloadCP \<Rightarrow> CPConfig" where
  "ParseCPConfig cp = fold addCPAttribute (cp_Attributes cp) emptyCPConfig"

definition HasIPv4 :: "CPConfig \<Rightarrow> bool" where
  "HasIPv4 c \<longleftrightarrow> 0 < length (IPv4Addresses c)"

definition HasIPv6 :: "CPConfig \<Rightarrow> bool" where
  "HasIPv6 c \<longleftrightarrow> 0 < length (IPv6Addresses c)"

text \<open>
  Every address collected from a reply, whatever its attributes, has the size of its family, so
  the callers may use it without a check of their own.
\<close>

definition cpconfig_ok :: "CPConfig \<Rightarrow> bool" where
  "cpconfig_ok c \<longleftrightarrow>
     (\<forall>a\<in>set (IPv4Addresses c @ IPv4DNS c @ IPv4PCSCF c). length a = 4) \<and>
     (\<forall>a\<in>set (IPv6Addresses c @ IPv6DNS c @ IPv6PCSCF c). length a = 16)"

lemma addCPAttribute_ok: "cpconfig_ok c \<Longrightarrow> cpconfig_ok (addCPAttribute a c)"
  by (simp add: cpconfig_ok_def addCPAttribute_def Let_def ball_Un)

interpretation cp_config: machine "\<lambda>c. c = emptyCPConfig" "\<lambda>c a. addCPAttribute a c" cpconfig_ok
  by unfold_locales (auto simp: addCPAttribute_ok, simp add: emptyCPConfig_def cpconfig_ok_def)

lemma ParseCPConfig_ok: "cpconfig_ok (ParseCPConfig cp)"
  using cp_config.inv_reachable by (simp add: ParseCPConfig_def foldl_conv_fold)

text \<open>The DNS servers are those of the attributes, in order.\<close>

lemma fold_IPv4DNS:
  "IPv4DNS (fold addCPAttribute as c) = IPv4DNS c @
     [take 4 (cp_Value a). a \<leftarrow> as, cp_Type a = INTERNAL_IP4_DNS \<and> 4 \<le> length (cp_Value a)]"
  by (induction as arbitrary: c) (auto simp: addCPAttribute_def Let_def)

lemma ParseCPConfig_IPv4DNS:
  "IPv4DNS (ParseCPConfig cp) = [take 4 (cp_Value a). a \<leftarrow> cp_Attributes cp,
     cp_Type a = INTERNAL_IP4_DNS \<and> 4 \<le> length (cp_Value a)]"
  by (simp add: ParseCPConfig_def fold_IPv4DNS) (simp add: emptyCPConfig_def)

end
