(* ===== verification/Ikev2_SA.thy ===== *)
theory Ikev2_SA
  imports Ikev2_Header
begin

text \<open>
  Security association payloads (\<^verbatim>\<open>pkg/ikev2/payload_sa.go\<close>): transform attributes in TV and
  TLV form, transforms, proposals and the payload, each with its encoder and decoder. The
  encoders set the "last" flags of the sub-structures before writing them, so they return the
  updated value besides the bytes. Decoding what was encoded gives that updated value back.
\<close>

section \<open>Transform attributes\<close>

text \<open>\<open>ta_Value\<close> is used by the TLV form (non-empty), \<open>ta_Val\<close> by the TV form.\<close>

record TransformAttribute =
  ta_Type :: u16
  ta_Value :: bytes
  ta_Val :: u16

definition TransformAttribute_Encode :: "TransformAttribute \<Rightarrow> bytes" where
  "TransformAttribute_Encode a =
     (if 0 < length (ta_Value a)
      then put16 (ta_Type a AND 0x7FFF) @ put16 (of_nat (length (ta_Value a))) @ ta_Value a
      else put16 (ta_Type a OR 0x8000) @ put16 (ta_Val a))"

definition decodeTransformAttribute :: "bytes \<Rightarrow> (TransformAttribute \<times> nat) result" where
  "decodeTransformAttribute data =
     (if length data < 4 then fail ''Transform too short for Attribute header''
      else let attrType = get16 (slice data 0 2);
               afBit = (attrType AND 0x8000 \<noteq> 0);
               actualType = attrType AND 0x7FFF
           in if afBit
              then Inr (\<lparr>ta_Type = actualType, ta_Value = [], ta_Val = get16 (slice data 2 4)\<rparr>, 4)
              else let valLen = unat (get16 (slice data 2 4))
                   in if length data < 4 + valLen then fail ''Transform Attribute value truncated''
                      else Inr (\<lparr>ta_Type = actualType, ta_Value = slice data 4 (4 + valLen),
                                 ta_Val = 0\<rparr>, 4 + valLen))"

definition tattr_wf :: "TransformAttribute \<Rightarrow> bool" where
  "tattr_wf a \<longleftrightarrow> \<not> bit (ta_Type a) 15 \<and> length (ta_Value a) < 65536 \<and>
     (ta_Value a = [] \<or> ta_Val a = 0)"

lemma or_8000: "\<not> bit w 15 \<Longrightarrow> ((w :: u16) OR 0x8000) AND 0x7fff = w" "bit ((w :: u16) OR 0x8000) 15"
proof -
  have e: "(0x8000 :: u16) = push_bit 15 1" "(0x7fff :: u16) = mask 15"
    by (simp_all add: mask_eq_exp_minus_1)
  show "\<not> bit w 15 \<Longrightarrow> ((w :: u16) OR 0x8000) AND 0x7fff = w"
    unfolding e by (rule bit_word_eqI)
      (auto simp: bit_and_iff bit_or_iff bit_mask_iff bit_push_bit_iff bit_1_iff less_Suc_eq
        numeral_eq_Suc simp del: push_bit_of_1)
  show "bit ((w :: u16) OR 0x8000) 15"
    unfolding e by (simp add: bit_or_iff bit_push_bit_iff bit_1_iff del: push_bit_of_1)
qed

lemma decode_TransformAttribute:
  assumes "tattr_wf a"
  shows "decodeTransformAttribute (TransformAttribute_Encode a @ rest) =
     Inr (a, length (TransformAttribute_Encode a))"
proof (cases "ta_Value a")
  case Nil
  with assms show ?thesis
    by (simp add: decodeTransformAttribute_def TransformAttribute_Encode_def tattr_wf_def slice_def
        Let_def and_8000_eq_0 or_8000)
next
  case (Cons b bs)
  with assms show ?thesis
    by (simp add: decodeTransformAttribute_def TransformAttribute_Encode_def tattr_wf_def slice_def
        Let_def and_8000_eq_0 and_7fff_eq)
qed

lemma length_TransformAttribute_Encode:
  "length (TransformAttribute_Encode a) = 4 + length (ta_Value a)"
  by (simp add: TransformAttribute_Encode_def)

lemma decodeTransformAttribute_bounds:
  "decodeTransformAttribute data = Inr (a, n) \<Longrightarrow> 4 \<le> n \<and> n \<le> length data \<and> tattr_wf a"
  by (auto simp: decodeTransformAttribute_def tattr_wf_def Let_def
      intro: less_trans [OF _ unat_u16_less] split: if_splits)

function decodeAttributes :: "bytes \<Rightarrow> TransformAttribute list result" where
  "decodeAttributes data =
     (if data = [] then Inr []
      else rbind (decodeTransformAttribute data) (\<lambda>(attr, attrLen).
             rbind (decodeAttributes (drop attrLen data)) (\<lambda>attrs. Inr (attr # attrs))))"
  by pat_completeness auto
termination
  by (relation "measure length") (auto dest: decodeTransformAttribute_bounds)

declare decodeAttributes.simps [simp del]

interpretation attr_items: stream_codec
  "\<lambda>a. Inr (TransformAttribute_Encode a)" decodeTransformAttribute tattr_wf decodeAttributes "\<lambda>d. d = []"
proof
  fix a assume "tattr_wf a"
  moreover have "TransformAttribute_Encode a \<noteq> []"
    using length_TransformAttribute_Encode [of a] by auto
  ultimately show "\<exists>b. Inr (TransformAttribute_Encode a) = Inr b \<and> b \<noteq> [] \<and>
      (\<forall>rest. decodeTransformAttribute (b @ rest) = Inr (a, length b))"
    by (simp add: decode_TransformAttribute)
  from \<open>TransformAttribute_Encode a \<noteq> []\<close>
  show "Inr (TransformAttribute_Encode a) = Inr b \<Longrightarrow> b @ rest \<noteq> []" for b rest
    by auto
qed (simp_all add: decodeAttributes.simps [of "[]"], subst decodeAttributes.simps, simp)

lemma decodeAttributes_encode:
  "\<forall>a\<in>set as. tattr_wf a \<Longrightarrow>
     decodeAttributes (concat (map TransformAttribute_Encode as)) = Inr as"
  using attr_items.loop_encode [of as] by (simp add: rconcat_Inr)

section \<open>Transforms\<close>

record Transform =
  LastTransform :: bool
  tr_Type :: byte
  tr_ID :: u16
  tr_Attributes :: "TransformAttribute list"

abbreviation (input) TRANSFORM_HEADER_LEN :: nat where "TRANSFORM_HEADER_LEN \<equiv> 8"

definition Transform_Encode :: "Transform \<Rightarrow> bytes" where
  "Transform_Encode t =
     (let attrsBody = concat (map TransformAttribute_Encode (tr_Attributes t));
          totalLen = TRANSFORM_HEADER_LEN + length attrsBody
      in [if LastTransform t then 0 else 3, 0] @ put16 (of_nat totalLen) @
         [tr_Type t, 0] @ put16 (tr_ID t) @ attrsBody)"

definition DecodeTransform :: "bytes \<Rightarrow> Transform result" where
  "DecodeTransform data =
     (if length data < TRANSFORM_HEADER_LEN then fail ''Transform too short''
      else rbind (decodeAttributes (drop TRANSFORM_HEADER_LEN data)) (\<lambda>attrs.
        Inr \<lparr>LastTransform = (data ! 0 = 0), tr_Type = data ! 4,
             tr_ID = get16 (slice data 6 8), tr_Attributes = attrs\<rparr>))"

text \<open>The body of the proposal's loop at \<open>data[offset:]\<close>.\<close>

definition decodeTransformAt :: "bytes \<Rightarrow> (Transform \<times> nat) result" where
  "decodeTransformAt data =
     (if data = [] then fail ''Proposal too short for Transforms''
      else if length data < 4 then fail ''Proposal too short for Transform header''
      else let transLen = unat (get16 (slice data 2 4))
           in if length data < transLen then fail ''Proposal too short for Transform body''
              else rbind (DecodeTransform (slice data 0 transLen)) (\<lambda>t. Inr (t, transLen)))"

definition transform_wf :: "Transform \<Rightarrow> bool" where
  "transform_wf t \<longleftrightarrow> length (Transform_Encode t) < 65536 \<and> (\<forall>a\<in>set (tr_Attributes t). tattr_wf a)"

lemma decode_Transform:
  assumes "transform_wf t"
  shows "DecodeTransform (Transform_Encode t) = Inr t"
  using assms decodeAttributes_encode [of "tr_Attributes t"]
  by (simp add: DecodeTransform_def Transform_Encode_def transform_wf_def slice_def Let_def)

lemma decode_TransformAt:
  assumes "transform_wf t"
  shows "decodeTransformAt (Transform_Encode t @ rest) = Inr (t, length (Transform_Encode t))"
proof -
  have "unat (get16 (slice (Transform_Encode t @ rest) 2 4)) = length (Transform_Encode t)"
    using assms by (simp add: Transform_Encode_def transform_wf_def slice_def Let_def)
  moreover have "8 \<le> length (Transform_Encode t)"
    by (simp add: Transform_Encode_def Let_def)
  ultimately show ?thesis
    using decode_Transform [OF assms] by (auto simp: decodeTransformAt_def Let_def)
qed

fun decodeTransforms :: "nat \<Rightarrow> bytes \<Rightarrow> (Transform list \<times> bytes) result" where
  "decodeTransforms 0 data = Inr ([], data)"
| "decodeTransforms (Suc n) data =
     rbind (decodeTransformAt data) (\<lambda>(t, k).
       rbind (decodeTransforms n (drop k data)) (\<lambda>(ts, r). Inr (t # ts, r)))"

interpretation tr_items: counted_codec
  "\<lambda>t. Inr (Transform_Encode t)" decodeTransformAt transform_wf decodeTransforms
proof
  fix t assume "transform_wf t"
  moreover have "Transform_Encode t \<noteq> []" by (simp add: Transform_Encode_def Let_def)
  ultimately show "\<exists>b. Inr (Transform_Encode t) = Inr b \<and> b \<noteq> [] \<and>
      (\<forall>rest. decodeTransformAt (b @ rest) = Inr (t, length b))"
    by (simp add: decode_TransformAt)
qed simp_all

lemma decodeTransformAt_wf:
  assumes "decodeTransformAt data = Inr (t, k)"
  shows "8 \<le> k" "k \<le> length data"
  using assms
  by (auto simp: decodeTransformAt_def DecodeTransform_def rbind_Inr_iff Let_def split: if_splits)

section \<open>Proposals\<close>

record Proposal =
  LastProposal :: bool
  ProposalNum :: byte
  prop_ProtocolID :: byte
  prop_SPI :: bytes
  Transforms :: "Transform list"

abbreviation (input) PROPOSAL_HEADER_LEN :: nat where "PROPOSAL_HEADER_LEN \<equiv> 8"

text \<open>\<^verbatim>\<open>t.LastTransform = (i == len(p.Transforms)-1)\<close>.\<close>

fun mark_last :: "(bool \<Rightarrow> 'a \<Rightarrow> 'a) \<Rightarrow> 'a list \<Rightarrow> 'a list" where
  "mark_last f [] = []"
| "mark_last f [x] = [f True x]"
| "mark_last f (x # y # xs) = f False x # mark_last f (y # xs)"

lemma length_mark_last [simp]: "length (mark_last f xs) = length xs"
  by (induction f xs rule: mark_last.induct) auto

lemma mark_last_eq_Nil [simp]: "mark_last f xs = [] \<longleftrightarrow> xs = []"
  by (induction f xs rule: mark_last.induct) auto

definition mark_transform :: "bool \<Rightarrow> Transform \<Rightarrow> Transform" where
  "mark_transform l t = t\<lparr>LastTransform := l\<rparr>"

text \<open>The proposal after the call, and the bytes.\<close>

definition Proposal_Encode :: "Proposal \<Rightarrow> Proposal \<times> bytes" where
  "Proposal_Encode p =
     (let ts = mark_last mark_transform (Transforms p);
          transformsBody = concat (map Transform_Encode ts);
          totalLen = PROPOSAL_HEADER_LEN + length (prop_SPI p) + length transformsBody
      in (p\<lparr>Transforms := ts\<rparr>,
          [if LastProposal p then 0 else 2, 0] @ put16 (of_nat totalLen) @
          [ProposalNum p, prop_ProtocolID p, of_nat (length (prop_SPI p)), of_nat (length ts)] @
          prop_SPI p @ transformsBody))"

definition DecodeProposal :: "bytes \<Rightarrow> Proposal result" where
  "DecodeProposal data =
     (if length data < PROPOSAL_HEADER_LEN then fail ''Proposal too short''
      else let spiSize = unat (data ! 6); transformCount = unat (data ! 7)
           in if length data < PROPOSAL_HEADER_LEN + spiSize then fail ''Proposal too short for SPI''
              else rbind (decodeTransforms transformCount (drop (PROPOSAL_HEADER_LEN + spiSize) data))
                (\<lambda>(ts, _). Inr
                  \<lparr>LastProposal = (data ! 0 = 0), ProposalNum = data ! 4, prop_ProtocolID = data ! 5,
                   prop_SPI = slice data 8 (8 + spiSize), Transforms = ts\<rparr>))"

definition NewProposal :: "byte \<Rightarrow> byte \<Rightarrow> bytes \<Rightarrow> Proposal" where
  "NewProposal num proto spi =
     \<lparr>LastProposal = False, ProposalNum = num, prop_ProtocolID = proto, prop_SPI = spi,
      Transforms = []\<rparr>"

definition AddTransform :: "Proposal \<Rightarrow> byte \<Rightarrow> u16 \<Rightarrow> int \<Rightarrow> Proposal" where
  "AddTransform p tType tID keyLen =
     p\<lparr>Transforms := Transforms p @
        [\<lparr>LastTransform = False, tr_Type = tType, tr_ID = tID,
          tr_Attributes =
            (if 0 < keyLen
             then [\<lparr>ta_Type = AttributeKeyLength, ta_Value = [], ta_Val = of_int keyLen\<rparr>]
             else [])\<rparr>]\<rparr>"

definition proposal_wf :: "Proposal \<Rightarrow> bool" where
  "proposal_wf p \<longleftrightarrow> length (prop_SPI p) < 256 \<and> length (Transforms p) < 256 \<and>
     length (snd (Proposal_Encode p)) < 65536 \<and>
     (\<forall>t\<in>set (Transforms p). \<forall>a\<in>set (tr_Attributes t). tattr_wf a)"

lemma length_Transform_Encode_mark:
  "length (Transform_Encode (mark_transform l t)) = length (Transform_Encode t)"
  by (simp add: Transform_Encode_def mark_transform_def Let_def)

lemma set_mark_last: "x \<in> set (mark_last f xs) \<Longrightarrow> \<exists>y\<in>set xs. \<exists>l. x = f l y"
  by (induction f xs rule: mark_last.induct) auto

lemma length_le_concat: "x \<in> set xs \<Longrightarrow> length (f x) \<le> length (concat (map f xs))"
  by (induction xs) auto

lemma mark_transforms_wf:
  assumes "proposal_wf p"
  shows "\<forall>t\<in>set (mark_last mark_transform (Transforms p)). transform_wf t"
proof
  fix t assume t: "t \<in> set (mark_last mark_transform (Transforms p))"
  from t have "length (Transform_Encode t) < 65536"
    using assms length_le_concat [OF t, of Transform_Encode]
    by (simp add: proposal_wf_def Proposal_Encode_def Let_def)
  with set_mark_last [OF t] show "transform_wf t"
    using assms by (auto simp: transform_wf_def proposal_wf_def mark_transform_def)
qed

lemma decode_Proposal:
  assumes "proposal_wf p"
  shows "DecodeProposal (snd (Proposal_Encode p)) = Inr (fst (Proposal_Encode p))"
  using tr_items.loop_encode_all [OF mark_transforms_wf [OF assms]] assms
  by (simp add: rconcat_Inr DecodeProposal_def Proposal_Encode_def Let_def proposal_wf_def slice_def
      drop_numeral_add)

section \<open>The payload\<close>

record EncryptedPayloadSA =
  Proposals :: "Proposal list"

definition mark_proposal :: "bool \<Rightarrow> Proposal \<Rightarrow> Proposal" where
  "mark_proposal l p = p\<lparr>LastProposal := l\<rparr>"

definition SA_Encode :: "EncryptedPayloadSA \<Rightarrow> EncryptedPayloadSA \<times> bytes" where
  "SA_Encode p =
     (let rs = map Proposal_Encode (mark_last mark_proposal (Proposals p))
      in (p\<lparr>Proposals := map fst rs\<rparr>, concat (map snd rs)))"

lemma DecodeProposal_min: "DecodeProposal data = Inr p \<Longrightarrow> 8 \<le> length data"
  by (auto simp: DecodeProposal_def split: if_splits)

function decodeProposals :: "bytes \<Rightarrow> Proposal list result" where
  "decodeProposals data =
     (if data = [] then Inr []
      else if length data < 4 then fail ''SA payload too short for Proposal header''
      else let propLen = unat (get16 (slice data 2 4))
           in if length data < propLen then fail ''SA payload too short for Proposal body''
              else rbind (DecodeProposal (slice data 0 propLen)) (\<lambda>prop.
                if LastProposal prop then Inr [prop]
                else if data ! 0 = 0 then Inr [prop]
                else rbind (decodeProposals (drop propLen data)) (\<lambda>props. Inr (prop # props))))"
  by pat_completeness auto
termination
  by (relation "measure length") (auto dest!: DecodeProposal_min)

declare decodeProposals.simps [simp del]

definition DecodePayloadSA :: "bytes \<Rightarrow> EncryptedPayloadSA result" where
  "DecodePayloadSA data = rbind (decodeProposals data) (\<lambda>props. Inr \<lparr>Proposals = props\<rparr>)"

definition sa_wf :: "EncryptedPayloadSA \<Rightarrow> bool" where
  "sa_wf p \<longleftrightarrow> (\<forall>q\<in>set (Proposals p). proposal_wf q)"

lemma proposal_wf_mark: "proposal_wf p \<Longrightarrow> proposal_wf (mark_proposal l p)"
  by (simp add: proposal_wf_def Proposal_Encode_def mark_proposal_def Let_def)

text \<open>One round of the loop on an encoded proposal.\<close>

lemma proposal_enc_step:
  assumes "proposal_wf p"
  shows "decodeProposals (snd (Proposal_Encode p) @ rest) =
     (if LastProposal p then Inr [fst (Proposal_Encode p)]
      else rbind (decodeProposals rest) (\<lambda>props. Inr (fst (Proposal_Encode p) # props)))"
proof -
  let ?b = "snd (Proposal_Encode p)"
  have "unat (get16 (slice (?b @ rest) 2 4)) = length ?b" "?b ! 0 = (if LastProposal p then 0 else 2)"
    "8 \<le> length ?b" "LastProposal (fst (Proposal_Encode p)) = LastProposal p"
    using assms by (simp_all add: proposal_wf_def Proposal_Encode_def slice_def Let_def)
  then show ?thesis
    using decode_Proposal [OF assms]
    by (subst decodeProposals.simps) (auto simp: Let_def nth_append)
qed

lemma sa_loop_encode:
  assumes "\<forall>q\<in>set ps. proposal_wf q"
  shows "decodeProposals (concat (map (snd \<circ> Proposal_Encode) (mark_last mark_proposal ps))) =
     Inr (map (fst \<circ> Proposal_Encode) (mark_last mark_proposal ps))"
  using assms
proof (induction mark_proposal ps rule: mark_last.induct)
  case 1
  show ?case by (simp add: decodeProposals.simps [of "[]"])
next
  case (2 p)
  then have "proposal_wf (mark_proposal True p)" by (simp add: proposal_wf_mark)
  from proposal_enc_step [OF this, of "[]"] show ?case
    by (simp add: mark_proposal_def Proposal_Encode_def Let_def)
next
  case (3 p q ps)
  then have "proposal_wf (mark_proposal False p)" by (simp add: proposal_wf_mark)
  from proposal_enc_step [OF this] 3 show ?case
    by (simp add: mark_proposal_def)
qed

lemma decode_SA:
  "sa_wf p \<Longrightarrow> DecodePayloadSA (snd (SA_Encode p)) = Inr (fst (SA_Encode p))"
  using sa_loop_encode [of "Proposals p"]
  by (simp add: sa_wf_def DecodePayloadSA_def SA_Encode_def Let_def)

text \<open>\<open>sa_flags_set\<close>: the flags are already the ones the encoder sets.\<close>

definition sa_flags_set :: "EncryptedPayloadSA \<Rightarrow> bool" where
  "sa_flags_set p \<longleftrightarrow> fst (SA_Encode p) = p"

interpretation sa: body_codec "\<lambda>p. Inr (snd (SA_Encode p))" DecodePayloadSA
  "\<lambda>p. sa_wf p \<and> sa_flags_set p"
  by unfold_locales (simp add: decode_SA sa_flags_set_def)

lemma mark_last_Cons: "ys \<noteq> [] \<Longrightarrow> mark_last f (x # ys) = f False x # mark_last f ys"
  by (cases ys) auto

lemma mark_last_idem:
  "(\<And>l k x. f l (f k x) = f l x) \<Longrightarrow> mark_last f (mark_last f xs) = mark_last f xs"
  by (induction f xs rule: mark_last.induct) (auto simp: mark_last_Cons)

text \<open>What a peer can make the decoder do: it returns or fails, and never panics.\<close>

lemma decodeAttributes_no_panic: "decodeAttributes d \<noteq> Inl Panic"
  by (rule attr_items.loop_no_panic)
    (auto simp: decodeTransformAttribute_def Let_def dest: decodeTransformAttribute_bounds
      split: if_splits)

lemma decodeTransformAt_no_panic: "decodeTransformAt d \<noteq> Inl Panic"
  using decodeAttributes_no_panic
  by (auto simp: decodeTransformAt_def DecodeTransform_def Let_def rbind_Inl_iff)

lemma DecodeProposal_no_panic: "DecodeProposal d \<noteq> Inl Panic"
  using tr_items.loop_no_panic [OF decodeTransformAt_no_panic]
  by (auto simp: DecodeProposal_def Let_def rbind_Inl_iff)

lemma decodeProposals_no_panic: "decodeProposals data \<noteq> Inl Panic"
proof (induction data rule: decodeProposals.induct)
  case (1 data)
  show ?case
    using "1.IH" DecodeProposal_no_panic
    by (subst decodeProposals.simps) (simp add: Let_def rbind_Inl_iff)
qed

lemma DecodePayloadSA_no_panic: "DecodePayloadSA data \<noteq> Inl Panic"
  by (auto simp: DecodePayloadSA_def rbind_Inl_iff decodeProposals_no_panic)

end
