(* ===== verification/Ikev2_Packet.thy ===== *)
theory Ikev2_Packet
  imports Ikev2_Payloads Ikev2_TS Ikev2_CP Ikev2_SA
begin

text \<open>
  Whole messages in the clear (\<^verbatim>\<open>pkg/ikev2/packet.go\<close>): the payload interface as a sum of the
  payload types, the chain of generic headers that links them, and the two directions. The
  decoder is total on every input but one: a payload length below the header size makes the
  slice expression of the body panic.
\<close>

section \<open>Payloads\<close>

datatype Payload =
    PayloadSA EncryptedPayloadSA
  | PayloadKE EncryptedPayloadKE
  | PayloadNonce EncryptedPayloadNonce
  | PayloadID EncryptedPayloadID
  | PayloadAuth EncryptedPayloadAuth
  | PayloadEAP EncryptedPayloadEAP
  | PayloadNotify EncryptedPayloadNotify
  | PayloadDelete EncryptedPayloadDelete
  | PayloadTS EncryptedPayloadTS
  | PayloadCP EncryptedPayloadCP
  | PayloadRaw RawPayload

fun Payload_Type :: "Payload \<Rightarrow> byte" where
  "Payload_Type (PayloadSA _) = PT_SA"
| "Payload_Type (PayloadKE _) = PT_KE"
| "Payload_Type (PayloadNonce _) = PT_NiNr"
| "Payload_Type (PayloadID p) = ID_Type p"
| "Payload_Type (PayloadAuth _) = PT_AUTH"
| "Payload_Type (PayloadEAP _) = PT_EAP"
| "Payload_Type (PayloadNotify p) = Notify_Type p"
| "Payload_Type (PayloadDelete _) = PT_D"
| "Payload_Type (PayloadTS p) = TS_Type p"
| "Payload_Type (PayloadCP _) = PT_CP"
| "Payload_Type (PayloadRaw p) = PType p"

fun Payload_Encode :: "Payload \<Rightarrow> bytes result" where
  "Payload_Encode (PayloadSA p) = Inr (snd (SA_Encode p))"
| "Payload_Encode (PayloadKE p) = Inr (KE_Encode p)"
| "Payload_Encode (PayloadNonce p) = Inr (Nonce_Encode p)"
| "Payload_Encode (PayloadID p) = Inr (ID_Encode p)"
| "Payload_Encode (PayloadAuth p) = Inr (Auth_Encode p)"
| "Payload_Encode (PayloadEAP p) = Inr (EAP_Encode p)"
| "Payload_Encode (PayloadNotify p) = Inr (Notify_Encode p)"
| "Payload_Encode (PayloadDelete p) = Inr (Delete_Encode p)"
| "Payload_Encode (PayloadTS p) = TS_Encode p"
| "Payload_Encode (PayloadCP p) = Inr (CP_Encode p)"
| "Payload_Encode (PayloadRaw p) = Inr (Raw_Encode p)"

text \<open>The switch of \<^verbatim>\<open>DecodePacket\<close> on the type announced by the previous header.\<close>

definition decodeBody :: "byte \<Rightarrow> bytes \<Rightarrow> Payload result" where
  "decodeBody t body =
     (if t = PT_SA then rmap PayloadSA (DecodePayloadSA body)
      else if t = PT_KE then rmap PayloadKE (DecodePayloadKE body)
      else if t = PT_NiNr then rmap PayloadNonce (DecodePayloadNonce body)
      else if t = PT_IDi then rmap PayloadID (DecodePayloadID body True)
      else if t = PT_IDr then rmap PayloadID (DecodePayloadID body False)
      else if t = PT_AUTH then rmap PayloadAuth (DecodePayloadAuth body)
      else if t = PT_EAP then rmap PayloadEAP (DecodePayloadEAP body)
      else if t = PT_N then rmap PayloadNotify (DecodePayloadNotify body)
      else if t = PT_D then rmap PayloadDelete (DecodePayloadDelete body)
      else if t = PT_TSI then rmap PayloadTS (DecodePayloadTS body True)
      else if t = PT_TSR then rmap PayloadTS (DecodePayloadTS body False)
      else if t = PT_CP then rmap PayloadCP (DecodePayloadCP body)
      else Inr (PayloadRaw \<lparr>PType = t, Data = body\<rparr>))"

text \<open>A payload is well formed when its body is and, for a raw one, its type has no decoder.\<close>

definition known_types :: "byte list" where
  "known_types = [PT_SA, PT_KE, PT_NiNr, PT_IDi, PT_IDr, PT_AUTH, PT_EAP, PT_N, PT_D, PT_TSI,
     PT_TSR, PT_CP]"

fun payload_wf :: "Payload \<Rightarrow> bool" where
  "payload_wf (PayloadSA p) = (sa_wf p \<and> sa_flags_set p)"
| "payload_wf (PayloadNotify p) = notify_wf p"
| "payload_wf (PayloadDelete p) = delete_wf p"
| "payload_wf (PayloadTS p) = ts_wf p"
| "payload_wf (PayloadCP p) = cp_wf p"
| "payload_wf (PayloadRaw p) = (PType p \<notin> set known_types \<and> PType p \<noteq> PT_NoNextPayload)"
| "payload_wf _ = True"

text \<open>The body round trip of every payload type, from the instances of \<open>body_codec\<close>.\<close>

lemma decodeBody_encode:
  "payload_wf p \<Longrightarrow> rbind (Payload_Encode p) (decodeBody (Payload_Type p)) = Inr p"
proof (cases p)
  case (PayloadTS q)
  assume "payload_wf p"
  with PayloadTS show ?thesis
    using ts.decode_encode [of q "ts_IsInitiator q"]
    by (cases "ts_IsInitiator q") (auto simp: decodeBody_def rmap_def TS_Type_def rbind_Inr_iff)
next
  case (PayloadID q)
  then show ?thesis
    using idi.decode_encode [of q "id_IsInitiator q"]
    by (cases "id_IsInitiator q") (auto simp: decodeBody_def rmap_def ID_Type_def)
qed (use sa.decode_encode ke.decode_encode nonce.decode_encode auth.decode_encode
    eap_body.decode_encode notify.decode_encode delete.decode_encode cp.decode_encode
   in \<open>auto simp: decodeBody_def rmap_def Notify_Type_def notify_wf_def known_types_def
         Raw_Encode_def\<close>)

lemma payload_type_nonzero: "payload_wf p \<Longrightarrow> Payload_Type p \<noteq> PT_NoNextPayload"
  by (cases p) (auto simp: ID_Type_def TS_Type_def Notify_Type_def notify_wf_def)

lemma decodeBody_no_panic: "decodeBody t b \<noteq> Inl Panic"
  using DecodePayloadSA_no_panic DecodePayloadTS_no_panic DecodePayloadCP_no_panic
  by (auto simp: decodeBody_def rmap_def rbind_Inl_iff DecodePayloadKE_def DecodePayloadNonce_def
      DecodePayloadID_def DecodePayloadAuth_def DecodePayloadEAP_def DecodePayloadNotify_def
      DecodePayloadDelete_def Let_def split: if_splits)

section \<open>Packets\<close>

record IKEPacket =
  Header :: IKEHeader
  Payloads :: "Payload list"

definition NewIKEPacket :: IKEPacket where
  "NewIKEPacket =
     \<lparr>Header = \<lparr>SPIi = 0, SPIr = 0, NextPayload = 0, Version = 0, ExchangeType = 0, Flags = 0,
        MessageID = 0, hdr_Length = 0\<rparr>, Payloads = []\<rparr>"

text \<open>The type that announces a list of payloads.\<close>

definition firstType :: "Payload list \<Rightarrow> byte" where
  "firstType ps = (case ps of [] \<Rightarrow> PT_NoNextPayload | p # _ \<Rightarrow> Payload_Type p)"

fun encode_payloads :: "Payload list \<Rightarrow> bytes result" where
  "encode_payloads [] = Inr []"
| "encode_payloads (p # ps) =
     rbind (Payload_Encode p) (\<lambda>body.
       let genHeader = \<lparr>gen_NextPayload = firstType ps, Critical = False, Reserved = 0,
             PayloadLength = of_nat (PAYLOAD_HEADER_LEN + length body)\<rparr>
       in rbind (encode_payloads ps) (\<lambda>rest.
            Inr (PayloadHeader_Encode genHeader @ body @ rest)))"

text \<open>The call updates two fields of the header and returns the bytes.\<close>

definition Packet_Encode :: "IKEPacket \<Rightarrow> (IKEPacket \<times> bytes) result" where
  "Packet_Encode p =
     rbind (encode_payloads (Payloads p)) (\<lambda>payloadsData.
       let h = (Header p)\<lparr>NextPayload := firstType (Payloads p),
             hdr_Length := of_nat (IKE_HEADER_LEN + length payloadsData)\<rparr>
       in Inr (p\<lparr>Header := h\<rparr>, Header_Encode h @ payloadsData))"

text \<open>The loop at \<open>data[offset:]\<close>, with the type announced so far.\<close>

function decodeChain :: "byte \<Rightarrow> bytes \<Rightarrow> Payload list result" where
  "decodeChain nextPayloadType data =
     (if nextPayloadType = PT_NoNextPayload \<or> data = [] then Inr []
      else if length data < PAYLOAD_HEADER_LEN then fail ''packet too short for payload header''
      else rbind (DecodePayloadHeader (slice data 0 4)) (\<lambda>genHeader.
        let payloadLen = unat (PayloadLength genHeader)
        in if length data < payloadLen then fail ''packet too short for payload body''
           else rbind (go_slice data 4 payloadLen) (\<lambda>payloadBody.
             rbind (relabel ''decode payload failed'' (decodeBody nextPayloadType payloadBody))
               (\<lambda>payload.
               rbind (decodeChain (gen_NextPayload genHeader) (drop payloadLen data)) (\<lambda>ps.
                 Inr (payload # ps))))))"
  by pat_completeness auto
termination
  by (relation "measure (\<lambda>(_, data). length data)") (auto simp: go_slice_Inr_iff)

declare decodeChain.simps [simp del]

definition DecodePacket :: "bytes \<Rightarrow> IKEPacket result" where
  "DecodePacket data =
     rbind (DecodeHeader data) (\<lambda>header.
       rbind (decodeChain (NextPayload header) (drop IKE_HEADER_LEN data)) (\<lambda>ps.
         Inr \<lparr>Header = header, Payloads = ps\<rparr>))"

section \<open>Round trip\<close>

definition fits :: "Payload \<Rightarrow> bool" where
  "fits p \<longleftrightarrow> (\<forall>b. Payload_Encode p = Inr b \<longrightarrow> length b < 65532)"

lemma decodeChain_Nil [simp]: "decodeChain t [] = Inr []" "decodeChain 0 d = Inr []"
  by (simp_all add: decodeChain.simps [of t "[]"] decodeChain.simps [of 0 d])

lemma decodeChain_encode:
  "\<forall>p\<in>set ps. payload_wf p \<and> fits p \<Longrightarrow>
     \<exists>b. encode_payloads ps = Inr b \<and> decodeChain (firstType ps) b = Inr ps"
proof (induction ps)
  case (Cons p ps)
  then obtain r where r: "encode_payloads ps = Inr r" "decodeChain (firstType ps) r = Inr ps"
    by auto
  from Cons.prems obtain b where b: "Payload_Encode p = Inr b"
      "decodeBody (Payload_Type p) b = Inr p" "length b < 65532"
    using decodeBody_encode [of p] by (auto simp: rbind_Inr_iff fits_def)
  let ?h = "\<lparr>gen_NextPayload = firstType ps, Critical = False, Reserved = 0,
    PayloadLength = of_nat (PAYLOAD_HEADER_LEN + length b)\<rparr>"
  have "take 4 (PayloadHeader_Encode ?h @ b @ r) = PayloadHeader_Encode ?h" by simp
  moreover have "slice (PayloadHeader_Encode ?h @ b @ r) 4 (4 + length b) = b"
    by (simp add: slice_def)
  moreover have "drop (4 + length b) (PayloadHeader_Encode ?h @ b @ r) = r" by simp
  ultimately have "decodeChain (Payload_Type p) (PayloadHeader_Encode ?h @ b @ r) = Inr (p # ps)"
    using b r Cons.prems DecodePayloadHeader_Encode [of ?h "[]"] payload_type_nonzero [of p]
    by (subst decodeChain.simps) (auto simp: Let_def PayloadHeader_Encode_def)
  with b r show ?case by (simp add: firstType_def Let_def)
qed (simp add: firstType_def)

lemma DecodePacket_Encode:
  assumes "\<forall>q\<in>set (Payloads p). payload_wf q \<and> fits q"
  shows "\<exists>p' b. Packet_Encode p = Inr (p', b) \<and> DecodePacket b = Inr p' \<and>
     Payloads p' = Payloads p"
proof -
  obtain b where "encode_payloads (Payloads p) = Inr b"
      "decodeChain (firstType (Payloads p)) b = Inr (Payloads p)"
    using decodeChain_encode [OF assms] by blast
  then show ?thesis
    by (simp add: Packet_Encode_def DecodePacket_def DecodeHeader_Encode Let_def)
qed

section \<open>Decoded payloads\<close>

lemma DecodePayloadID_type: "DecodePayloadID d i = Inr p \<Longrightarrow> id_IsInitiator p = i"
  by (auto simp: DecodePayloadID_def split: if_splits)

lemma DecodePayloadTS_type: "DecodePayloadTS d i = Inr p \<Longrightarrow> ts_IsInitiator p = i"
  by (auto simp: DecodePayloadTS_def Let_def rbind_Inr_iff split: if_splits)

lemma DecodePayloadNotify_wf: "DecodePayloadNotify d = Inr p \<Longrightarrow> notify_wf p"
  using DecodePayloadNotify_spi_length by (simp add: notify_wf_def)

lemma decodeBody_wf:
  assumes "decodeBody t b = Inr p" "t \<noteq> PT_SA" "t \<noteq> PT_NoNextPayload"
  shows "payload_wf p \<and> Payload_Type p = t"
  using assms
  by (auto simp: decodeBody_def rmap_def rbind_Inr_iff known_types_def ID_Type_def TS_Type_def Notify_Type_def
      DecodePayloadID_type DecodePayloadTS_type DecodePayloadNotify_wf DecodePayloadDelete_wf DecodePayloadCP_wf
      DecodePayloadTS_wf notify_wf_def dest!: DecodePayloadNotify_spi_length split: if_splits)

lemma decodeBody_SA: "decodeBody PT_SA b = Inr p \<Longrightarrow> Payload_Type p = PT_SA"
  by (auto simp: decodeBody_def rmap_def rbind_Inr_iff)

lemma decodeChain_wf:
  "decodeChain t data = Inr ps \<Longrightarrow> p \<in> set ps \<Longrightarrow> Payload_Type p \<noteq> PT_SA \<Longrightarrow> payload_wf p"
proof (induction data arbitrary: t ps rule: length_induct)
  case (1 data)
  show ?case
  proof (cases "t = PT_NoNextPayload \<or> data = []")
    case False
    obtain b q n t' qs where q: "decodeBody t b = Inr q" "decodeChain t' (drop n data) = Inr qs" "ps = q # qs"
      and n: "4 \<le> n"
      using "1.prems"(1) False
      by (auto simp: decodeChain.simps [of t data] rbind_Inr_iff Let_def go_slice_Inr_iff relabel_def
          split: if_splits sum.splits fault.splits)
    have "length (drop n data) < length data" using n False by simp
    with "1.IH" q(2) "1.prems"(3) have "p \<in> set qs \<Longrightarrow> payload_wf p" by blast
    moreover have "p = q \<Longrightarrow> payload_wf p"
      using decodeBody_wf [OF q(1)] decodeBody_SA [of b q] q(1) False "1.prems"(3) by metis
    ultimately show ?thesis using "1.prems"(2) q(3) by auto
  qed (use "1.prems" in auto)
qed

lemma DecodePacket_wf:
  "DecodePacket data = Inr pkt \<Longrightarrow> p \<in> set (Payloads pkt) \<Longrightarrow> Payload_Type p \<noteq> PT_SA \<Longrightarrow> payload_wf p"
  by (auto simp: DecodePacket_def rbind_Inr_iff intro: decodeChain_wf)

section \<open>Panics\<close>

text \<open>A chain that reaches a generic header whose length field is below the header size.\<close>

inductive short_header :: "byte \<Rightarrow> bytes \<Rightarrow> bool" where
  here: "t \<noteq> 0 \<Longrightarrow> 4 \<le> length data \<Longrightarrow> unat (get16 (slice data 2 4)) < 4 \<Longrightarrow> short_header t data"
| later: "t \<noteq> 0 \<Longrightarrow> n = unat (get16 (slice data 2 4)) \<Longrightarrow> 4 \<le> n \<Longrightarrow> n \<le> length data \<Longrightarrow>
    decodeBody t (slice data 4 n) = Inr p \<Longrightarrow> short_header (data ! 0) (drop n data) \<Longrightarrow>
    short_header t data"

inductive_simps short_header_Nil: "short_header t []"
inductive_cases short_headerE: "short_header t data"

text \<open>One round of the loop past the length checks.\<close>

lemma decodeChain_step:
  assumes "t \<noteq> 0" "4 \<le> length data" "n = unat (get16 (slice data 2 4))" "n \<le> length data"
  shows "decodeChain t data = rbind (go_slice data 4 n) (\<lambda>body.
    rbind (relabel ''decode payload failed'' (decodeBody t body)) (\<lambda>payload.
      rbind (decodeChain (data ! 0) (drop n data)) (\<lambda>ps. Inr (payload # ps))))"
proof -
  have "DecodePayloadHeader (take 4 data) = Inr
      \<lparr>gen_NextPayload = data ! 0, Critical = (data ! 1 AND 0x80 \<noteq> 0), Reserved = data ! 1 AND 0x7F,
       PayloadLength = get16 (slice data 2 4)\<rparr>"
    using assms(2) by (simp add: DecodePayloadHeader_def slice_def drop_take)
  moreover have "data \<noteq> []" using assms(2) by auto
  ultimately show ?thesis
    using assms by (subst decodeChain.simps) (simp add: Let_def)
qed

lemma decodeChain_short:
  assumes "t \<noteq> 0" "4 \<le> length data" "unat (get16 (slice data 2 4)) < 4"
  shows "decodeChain t data = Inl Panic"
  using decodeChain_step [OF assms(1,2) refl] assms by (simp add: go_slice_def)

lemma short_header_panics: "short_header t data \<Longrightarrow> decodeChain t data = Inl Panic"
proof (induction rule: short_header.induct)
  case (later t n data p)
  then show ?case using decodeChain_step [of t data n] by simp
qed (simp add: decodeChain_short)

lemma panics_short_header: "decodeChain t data = Inl Panic \<Longrightarrow> short_header t data"
proof (induction data arbitrary: t rule: length_induct)
  case (1 data)
  define n where "n = unat (get16 (slice data 2 4))"
  have live: "t \<noteq> 0" "4 \<le> length data"
    using "1.prems" by (auto simp: decodeChain.simps [of t data] split: if_splits)
  show ?case
  proof (cases "n < 4")
    case True
    with live show ?thesis by (auto simp: n_def intro: short_header.here)
  next
    case False
    have "n \<le> length data"
      using "1.prems" live
      by (auto simp: decodeChain.simps [of t data] DecodePayloadHeader_def slice_def drop_take n_def
          Let_def split: if_splits)
    with "1.prems" False obtain p where
      p: "decodeBody t (slice data 4 n) = Inr p" "decodeChain (data ! 0) (drop n data) = Inl Panic"
      by (auto simp: decodeChain_step [OF live n_def] rbind_Inl_iff decodeBody_no_panic
          simp del: length_slice)
    moreover have "length (drop n data) < length data" using False live(2) by simp
    ultimately have "short_header (data ! 0) (drop n data)" using "1.IH" by blast
    with live n_def False p(1) \<open>n \<le> length data\<close> show ?thesis
      by (auto intro: short_header.later)
  qed
qed

lemma DecodePacket_panic_iff:
  "DecodePacket data = Inl Panic \<longleftrightarrow>
     (\<exists>h. DecodeHeader data = Inr h \<and> short_header (NextPayload h) (drop IKE_HEADER_LEN data))"
  by (auto simp: DecodePacket_def rbind_Inl_iff DecodeHeader_def
      dest: panics_short_header intro: short_header_panics split: if_splits)

end
