(* ===== verification/Ikev2_Proposal.thy ===== *)
theory Ikev2_Proposal
  imports Ikev2_SA Go_Strings
begin

text \<open>
  Building and choosing proposals: the preset proposals and the parser of strongSwan-style
  strings (\<^verbatim>\<open>pkg/ikev2/proposal_parse.go\<close>), and the matcher that picks a peer's proposal
  (\<^verbatim>\<open>pkg/ikev2/proposal_match.go\<close>). Configuration strings are ASCII.
\<close>

section \<open>Presets\<close>

definition AddTransformWithKeyLen :: "Proposal \<Rightarrow> byte \<Rightarrow> u16 \<Rightarrow> int \<Rightarrow> Proposal" where
  "AddTransformWithKeyLen p tType tID keyLen =
     p\<lparr>Transforms := Transforms p @
        [\<lparr>LastTransform = False, tr_Type = tType, tr_ID = tID,
          tr_Attributes =
            (if 0 < keyLen
             then [\<lparr>ta_Type = AttributeKeyLength, ta_Value = [], ta_Val = of_int keyLen\<rparr>]
             else [])\<rparr>]\<rparr>"

definition PropIKE_AES256_SHA256_MODP2048 :: "byte \<Rightarrow> bytes \<Rightarrow> Proposal" where
  "PropIKE_AES256_SHA256_MODP2048 num spi =
     (let p = NewProposal num ProtoIKE spi;
          p = AddTransformWithKeyLen p TransformTypeEncr ENCR_AES_CBC 256;
          p = AddTransform p TransformTypeInteg AUTH_HMAC_SHA2_256_128 0;
          p = AddTransform p TransformTypePRF PRF_HMAC_SHA2_256 0;
          p = AddTransform p TransformTypeDH MODP_2048_bit 0
      in p)"

definition PropIKE_AES256_SHA512_MODP2048 :: "byte \<Rightarrow> bytes \<Rightarrow> Proposal" where
  "PropIKE_AES256_SHA512_MODP2048 num spi =
     (let p = NewProposal num ProtoIKE spi;
          p = AddTransformWithKeyLen p TransformTypeEncr ENCR_AES_CBC 256;
          p = AddTransform p TransformTypeInteg AUTH_HMAC_SHA2_512_256 0;
          p = AddTransform p TransformTypePRF PRF_HMAC_SHA2_512 0;
          p = AddTransform p TransformTypeDH MODP_2048_bit 0
      in p)"

definition PropIKE_AES128_SHA256_MODP2048 :: "byte \<Rightarrow> bytes \<Rightarrow> Proposal" where
  "PropIKE_AES128_SHA256_MODP2048 num spi =
     (let p = NewProposal num ProtoIKE spi;
          p = AddTransformWithKeyLen p TransformTypeEncr ENCR_AES_CBC 128;
          p = AddTransform p TransformTypeInteg AUTH_HMAC_SHA2_256_128 0;
          p = AddTransform p TransformTypePRF PRF_HMAC_SHA2_256 0;
          p = AddTransform p TransformTypeDH MODP_2048_bit 0
      in p)"

definition PropIKE_AES128_SHA1_MODP1024 :: "byte \<Rightarrow> bytes \<Rightarrow> Proposal" where
  "PropIKE_AES128_SHA1_MODP1024 num spi =
     (let p = NewProposal num ProtoIKE spi;
          p = AddTransformWithKeyLen p TransformTypeEncr ENCR_AES_CBC 128;
          p = AddTransform p TransformTypeInteg AUTH_HMAC_SHA1_96 0;
          p = AddTransform p TransformTypePRF PRF_HMAC_SHA1 0;
          p = AddTransform p TransformTypeDH MODP_1024_bit 0
      in p)"

definition PropIKE_AES256GCM16_PRFSHA384_MODP3072 :: "byte \<Rightarrow> bytes \<Rightarrow> Proposal" where
  "PropIKE_AES256GCM16_PRFSHA384_MODP3072 num spi =
     (let p = NewProposal num ProtoIKE spi;
          p = AddTransformWithKeyLen p TransformTypeEncr ENCR_AES_GCM_16 256;
          p = AddTransform p TransformTypePRF PRF_HMAC_SHA2_384 0;
          p = AddTransform p TransformTypeDH MODP_3072_bit 0
      in p)"

definition PropIKE_AES128GCM16_PRFSHA256_MODP2048 :: "byte \<Rightarrow> bytes \<Rightarrow> Proposal" where
  "PropIKE_AES128GCM16_PRFSHA256_MODP2048 num spi =
     (let p = NewProposal num ProtoIKE spi;
          p = AddTransformWithKeyLen p TransformTypeEncr ENCR_AES_GCM_16 128;
          p = AddTransform p TransformTypePRF PRF_HMAC_SHA2_256 0;
          p = AddTransform p TransformTypeDH MODP_2048_bit 0
      in p)"

definition PropESP_AES256_SHA256 :: "byte \<Rightarrow> bytes \<Rightarrow> Proposal" where
  "PropESP_AES256_SHA256 num spi =
     (let p = NewProposal num ProtoESP spi;
          p = AddTransformWithKeyLen p TransformTypeEncr ENCR_AES_CBC 256;
          p = AddTransform p TransformTypeInteg AUTH_HMAC_SHA2_256_128 0;
          p = AddTransform p TransformTypeESN 0 0
      in p)"

definition PropESP_AES128_SHA256 :: "byte \<Rightarrow> bytes \<Rightarrow> Proposal" where
  "PropESP_AES128_SHA256 num spi =
     (let p = NewProposal num ProtoESP spi;
          p = AddTransformWithKeyLen p TransformTypeEncr ENCR_AES_CBC 128;
          p = AddTransform p TransformTypeInteg AUTH_HMAC_SHA2_256_128 0;
          p = AddTransform p TransformTypeESN 0 0
      in p)"

definition PropESP_AES256_SHA512 :: "byte \<Rightarrow> bytes \<Rightarrow> Proposal" where
  "PropESP_AES256_SHA512 num spi =
     (let p = NewProposal num ProtoESP spi;
          p = AddTransformWithKeyLen p TransformTypeEncr ENCR_AES_CBC 256;
          p = AddTransform p TransformTypeInteg AUTH_HMAC_SHA2_512_256 0;
          p = AddTransform p TransformTypeESN 0 0
      in p)"

definition PropESP_AES128_SHA1 :: "byte \<Rightarrow> bytes \<Rightarrow> Proposal" where
  "PropESP_AES128_SHA1 num spi =
     (let p = NewProposal num ProtoESP spi;
          p = AddTransformWithKeyLen p TransformTypeEncr ENCR_AES_CBC 128;
          p = AddTransform p TransformTypeInteg AUTH_HMAC_SHA1_96 0;
          p = AddTransform p TransformTypeESN 0 0
      in p)"

definition PropESP_AES256GCM16 :: "byte \<Rightarrow> bytes \<Rightarrow> Proposal" where
  "PropESP_AES256GCM16 num spi =
     (let p = NewProposal num ProtoESP spi;
          p = AddTransformWithKeyLen p TransformTypeEncr ENCR_AES_GCM_16 256;
          p = AddTransform p TransformTypeESN 0 0
      in p)"

definition PropESP_AES128GCM16 :: "byte \<Rightarrow> bytes \<Rightarrow> Proposal" where
  "PropESP_AES128GCM16 num spi =
     (let p = NewProposal num ProtoESP spi;
          p = AddTransformWithKeyLen p TransformTypeEncr ENCR_AES_GCM_16 128;
          p = AddTransform p TransformTypeESN 0 0
      in p)"

lemmas presets =
  PropIKE_AES256_SHA256_MODP2048_def PropIKE_AES256_SHA512_MODP2048_def
  PropIKE_AES128_SHA256_MODP2048_def PropIKE_AES128_SHA1_MODP1024_def
  PropIKE_AES256GCM16_PRFSHA384_MODP3072_def PropIKE_AES128GCM16_PRFSHA256_MODP2048_def
  PropESP_AES256_SHA256_def PropESP_AES128_SHA256_def PropESP_AES256_SHA512_def
  PropESP_AES128_SHA1_def PropESP_AES256GCM16_def PropESP_AES128GCM16_def

section \<open>Parsing\<close>

definition parseEncryption :: "string \<Rightarrow> (u16 \<times> int) result" where
  "parseEncryption s =
     (if s = ''aes256'' then Inr (ENCR_AES_CBC, 256)
      else if s = ''aes128'' then Inr (ENCR_AES_CBC, 128)
      else if s = ''aes256gcm16'' \<or> s = ''aesgcm16'' then Inr (ENCR_AES_GCM_16, 256)
      else if s = ''aes128gcm16'' then Inr (ENCR_AES_GCM_16, 128)
      else if s = ''aes256gcm12'' then Inr (ENCR_AES_GCM_12, 256)
      else if s = ''aes256gcm8'' then Inr (ENCR_AES_GCM_8, 256)
      else fail ''unknown encryption'')"

definition parseIntegrity :: "string \<Rightarrow> u16 result" where
  "parseIntegrity s =
     (if s = ''sha256'' then Inr AUTH_HMAC_SHA2_256_128
      else if s = ''sha384'' then Inr AUTH_HMAC_SHA2_384_192
      else if s = ''sha512'' then Inr AUTH_HMAC_SHA2_512_256
      else if s = ''sha1'' then Inr AUTH_HMAC_SHA1_96
      else if s = ''none'' \<or> s = [] then Inr AUTH_NONE
      else fail ''unknown integrity'')"

definition parsePRF :: "string \<Rightarrow> u16 result" where
  "parsePRF s =
     (if s = ''prfsha256'' then Inr PRF_HMAC_SHA2_256
      else if s = ''prfsha384'' then Inr PRF_HMAC_SHA2_384
      else if s = ''prfsha512'' then Inr PRF_HMAC_SHA2_512
      else if s = ''prfsha1'' then Inr PRF_HMAC_SHA1
      else fail ''unknown prf'')"

definition parseDH :: "string \<Rightarrow> u16 result" where
  "parseDH s =
     (if s = ''modp2048'' then Inr MODP_2048_bit
      else if s = ''modp1024'' then Inr MODP_1024_bit
      else if s = ''modp3072'' then Inr MODP_3072_bit
      else if s = ''modp4096'' then Inr MODP_4096_bit
      else if s = ''modp1536'' then Inr MODP_1536_bit
      else fail ''unknown dh group'')"

definition defaultPRFFromInteg :: "string \<Rightarrow> u16 result" where
  "defaultPRFFromInteg integStr =
     (if integStr = ''sha256'' then Inr PRF_HMAC_SHA2_256
      else if integStr = ''sha384'' then Inr PRF_HMAC_SHA2_384
      else if integStr = ''sha512'' then Inr PRF_HMAC_SHA2_512
      else if integStr = ''sha1'' then Inr PRF_HMAC_SHA1
      else Inr PRF_HMAC_SHA2_256)"

text \<open>
  The loop over the middle parts: the proposal so far, \<^verbatim>\<open>prfFound\<close>, \<^verbatim>\<open>integFound\<close> and
  \<^verbatim>\<open>integStr\<close>.
\<close>

fun parseMiddle :: "string list \<Rightarrow> Proposal \<times> bool \<times> bool \<times> string \<Rightarrow>
    (Proposal \<times> bool \<times> bool \<times> string) result" where
  "parseMiddle [] st = Inr st"
| "parseMiddle (part # parts) (p, prfFound, integFound, integStr) =
     (if has_prefix part ''prf''
      then rbind (wrap ''prf'' (parsePRF part)) (\<lambda>prfAlg.
             parseMiddle parts (AddTransform p TransformTypePRF prfAlg 0, True, integFound, integStr))
      else rbind (wrap ''integrity'' (parseIntegrity part)) (\<lambda>integAlg.
             parseMiddle parts (AddTransform p TransformTypeInteg integAlg 0, prfFound, True, part)))"

definition parseIKEProposal :: "string \<Rightarrow> byte \<Rightarrow> bytes \<Rightarrow> bool \<Rightarrow> Proposal result" where
  "parseIKEProposal spec num spi autoPRF =
     (let parts = split_on CHR ''-'' (trim_space (to_lower spec))
      in if length parts < 2 then fail ''format: encr-integ[-prf]-dh''
         else let p = NewProposal num ProtoIKE spi
         in rbind (wrap ''encryption'' (parseEncryption (hd parts))) (\<lambda>(encrAlg, encrKeyLen).
            let p = AddTransformWithKeyLen p TransformTypeEncr encrAlg encrKeyLen
            in rbind (wrap ''dh group'' (parseDH (last parts))) (\<lambda>dhAlg.
               rbind (parseMiddle (butlast (tl parts)) (p, False, False, []))
                 (\<lambda>(p, prfFound, integFound, integStr).
                 rbind
                   (if \<not> prfFound \<and> autoPRF \<and> integFound
                    then rbind (wrap ''derive prf from integ'' (defaultPRFFromInteg integStr))
                      (\<lambda>defaultPRF. Inr (AddTransform p TransformTypePRF defaultPRF 0))
                    else if \<not> prfFound \<and> \<not> integFound
                    then Inr (AddTransform p TransformTypePRF PRF_HMAC_SHA2_256 0)
                    else Inr p)
                   (\<lambda>p. Inr (AddTransform p TransformTypeDH dhAlg 0))))))"

definition parseESPProposal :: "string \<Rightarrow> byte \<Rightarrow> bytes \<Rightarrow> Proposal result" where
  "parseESPProposal spec num spi =
     (let parts = split_on CHR ''-'' (trim_space (to_lower spec))
      in if length parts < 1 then fail ''format: encr[-integ]''
         else let p = NewProposal num ProtoESP spi
         in rbind (wrap ''encryption'' (parseEncryption (hd parts))) (\<lambda>(encrAlg, encrKeyLen).
            let p = AddTransformWithKeyLen p TransformTypeEncr encrAlg encrKeyLen
            in rbind
                 (if 2 \<le> length parts
                  then rbind (wrap ''integrity'' (parseIntegrity (parts ! 1))) (\<lambda>integAlg.
                         Inr (AddTransform p TransformTypeInteg integAlg 0))
                  else Inr p)
                 (\<lambda>p. Inr (AddTransform p TransformTypeESN 0 0))))"

text \<open>The loops over the configured strings; proposals are numbered from one, modulo 256.\<close>

fun parseAll :: "string \<Rightarrow> (string \<Rightarrow> byte \<Rightarrow> Proposal result) \<Rightarrow> nat \<Rightarrow> string list \<Rightarrow>
    Proposal list result" where
  "parseAll lbl f i [] = Inr []"
| "parseAll lbl f i (spec # specs) =
     rbind (wrap lbl (f spec (of_nat (i + 1)))) (\<lambda>prop.
       rbind (parseAll lbl f (i + 1) specs) (\<lambda>props. Inr (prop # props)))"

definition defaultIKEProposals :: "bytes \<Rightarrow> Proposal list" where
  "defaultIKEProposals spi =
     [PropIKE_AES256GCM16_PRFSHA384_MODP3072 1 spi,
      PropIKE_AES128GCM16_PRFSHA256_MODP2048 2 spi,
      PropIKE_AES256_SHA256_MODP2048 3 spi,
      PropIKE_AES128_SHA256_MODP2048 4 spi,
      PropIKE_AES128_SHA1_MODP1024 5 spi]"

definition ParseIKEProposals :: "string list \<Rightarrow> bytes \<Rightarrow> bool \<Rightarrow> Proposal list result" where
  "ParseIKEProposals specs spi autoPRF =
     (if length specs = 0 then
        (if \<not> autoPRF
         then Inr (map (\<lambda>p. p\<lparr>Transforms := filter (\<lambda>t. tr_Type t \<noteq> TransformTypePRF) (Transforms p)\<rparr>)
                (defaultIKEProposals spi))
         else Inr (defaultIKEProposals spi))
      else parseAll ''IKE proposal'' (\<lambda>spec num. parseIKEProposal spec num spi autoPRF) 0 specs)"

definition ParseESPProposals :: "string list \<Rightarrow> bytes \<Rightarrow> Proposal list result" where
  "ParseESPProposals specs spi =
     (if length specs = 0 then
        Inr [PropESP_AES256GCM16 1 spi, PropESP_AES128GCM16 2 spi,
             PropESP_AES128_SHA256 3 spi, PropESP_AES128_SHA1 4 spi]
      else parseAll ''ESP proposal'' (\<lambda>spec num. parseESPProposal spec num spi) 0 specs)"

section \<open>Describing\<close>

text \<open>The four strings the loop assigns, in the order encryption, integrity, PRF, group.\<close>

definition describeTransform ::
    "Transform \<Rightarrow> string \<times> string \<times> string \<times> string \<Rightarrow> string \<times> string \<times> string \<times> string" where
  "describeTransform t = (\<lambda>(encr, integ, prf, dh).
     if tr_Type t = TransformTypeEncr then
       (fold (\<lambda>attr e. if ta_Type attr = AttributeKeyLength then e @ itoa (unat (ta_Val attr)) else e)
          (tr_Attributes t) (EncrToString (tr_ID t)), integ, prf, dh)
     else if tr_Type t = TransformTypeInteg then (encr, IntegToString (tr_ID t), prf, dh)
     else if tr_Type t = TransformTypePRF then (encr, integ, PRFToString (tr_ID t), dh)
     else if tr_Type t = TransformTypeDH then (encr, integ, prf, DHToString (tr_ID t))
     else (encr, integ, prf, dh))"

definition Describe :: "Proposal \<Rightarrow> string" where
  "Describe p =
     (case fold describeTransform (Transforms p) ([], [], [], []) of (encr, integ, prf, dh) \<Rightarrow>
        join_with ''-''
          ([encr] @ (if integ \<noteq> [] \<and> integ \<noteq> ''NONE'' then [integ] else []) @
           (if prf \<noteq> [] then [''prf'' @ prf] else []) @
           (if dh \<noteq> [] \<and> dh \<noteq> ''NONE'' then [dh] else [])))"

section \<open>Matching\<close>

record ProposalMatcher =
  SupportedEncr :: "u16 list"
  SupportedInteg :: "u16 list"
  SupportedPRF :: "u16 list"
  SupportedDH :: "u16 list"

definition DefaultProposalMatcher :: ProposalMatcher where
  "DefaultProposalMatcher =
     \<lparr>SupportedEncr = [ENCR_AES_GCM_16, ENCR_AES_GCM_12, ENCR_AES_GCM_8, ENCR_AES_CCM_16,
        ENCR_AES_CBC, ENCR_AES_CTR, ENCR_3DES],
      SupportedInteg = [AUTH_NONE, AUTH_HMAC_SHA2_512_256, AUTH_HMAC_SHA2_384_192,
        AUTH_HMAC_SHA2_256_128, AUTH_AES_XCBC_96, AUTH_HMAC_SHA1_96],
      SupportedPRF = [PRF_HMAC_SHA2_512, PRF_HMAC_SHA2_384, PRF_HMAC_SHA2_256, PRF_AES128_XCBC,
        PRF_HMAC_SHA1],
      SupportedDH = [MODP_4096_bit, MODP_3072_bit, MODP_2048_bit, MODP_1536_bit, MODP_1024_bit]\<rparr>"

record MatchedAlgorithms =
  ma_ProposalNum :: byte
  ma_ProtocolID :: byte
  ma_SPI :: bytes
  Encr :: u16
  EncrKeyLen :: u16
  Integ :: u16
  PRF :: u16
  ma_DH :: u16

definition isAEAD :: "u16 \<Rightarrow> bool" where
  "isAEAD encr \<longleftrightarrow> encr = ENCR_AES_GCM_8 \<or> encr = ENCR_AES_GCM_12 \<or> encr = ENCR_AES_GCM_16 \<or>
     encr = ENCR_AES_CCM_8 \<or> encr = ENCR_AES_CCM_12 \<or> encr = ENCR_AES_CCM_16"

fun containsAlg :: "u16 list \<Rightarrow> u16 \<Rightarrow> bool" where
  "containsAlg [] alg = False"
| "containsAlg (a # list) alg = (if a = alg then True else containsAlg list alg)"

lemma containsAlg_iff [simp]: "containsAlg list alg \<longleftrightarrow> alg \<in> set list"
  by (induction list) auto

text \<open>The result so far and the flags \<^verbatim>\<open>encrFound\<close>, \<^verbatim>\<open>integFound\<close>, \<^verbatim>\<open>prfFound\<close>, \<^verbatim>\<open>dhFound\<close>.\<close>

type_synonym match_state = "MatchedAlgorithms \<times> bool \<times> bool \<times> bool \<times> bool"

definition matchTransform :: "ProposalMatcher \<Rightarrow> Transform \<Rightarrow> match_state \<Rightarrow> match_state" where
  "matchTransform pm t = (\<lambda>(result, encrFound, integFound, prfFound, dhFound).
     if tr_Type t = TransformTypeEncr then
       (if containsAlg (SupportedEncr pm) (tr_ID t)
        then (fold (\<lambda>attr r. if ta_Type attr = AttributeKeyLength
                            then r\<lparr>EncrKeyLen := ta_Val attr\<rparr> else r)
                (tr_Attributes t) (result\<lparr>Encr := tr_ID t\<rparr>), True, integFound, prfFound, dhFound)
        else (result, encrFound, integFound, prfFound, dhFound))
     else if tr_Type t = TransformTypeInteg then
       (if containsAlg (SupportedInteg pm) (tr_ID t)
        then (result\<lparr>Integ := tr_ID t\<rparr>, encrFound, True, prfFound, dhFound)
        else (result, encrFound, integFound, prfFound, dhFound))
     else if tr_Type t = TransformTypePRF then
       (if containsAlg (SupportedPRF pm) (tr_ID t)
        then (result\<lparr>PRF := tr_ID t\<rparr>, encrFound, integFound, True, dhFound)
        else (result, encrFound, integFound, prfFound, dhFound))
     else if tr_Type t = TransformTypeDH then
       (if containsAlg (SupportedDH pm) (tr_ID t)
        then (result\<lparr>ma_DH := tr_ID t\<rparr>, encrFound, integFound, prfFound, True)
        else (result, encrFound, integFound, prfFound, dhFound))
     else (result, encrFound, integFound, prfFound, dhFound))"

definition initMatch :: "Proposal \<Rightarrow> match_state" where
  "initMatch prop =
     (\<lparr>ma_ProposalNum = ProposalNum prop, ma_ProtocolID = prop_ProtocolID prop,
       ma_SPI = prop_SPI prop, Encr = 0, EncrKeyLen = 0, Integ = 0, PRF = 0, ma_DH = 0\<rparr>,
      False, False, False, False)"

definition matchProposal :: "ProposalMatcher \<Rightarrow> Proposal \<Rightarrow> MatchedAlgorithms option" where
  "matchProposal pm prop =
     (case fold (matchTransform pm) (Transforms prop) (initMatch prop) of
        (result, encrFound, integFound, prfFound, dhFound) \<Rightarrow>
          if prop_ProtocolID prop = ProtoIKE then
            (if encrFound \<and> prfFound \<and> dhFound \<and> (isAEAD (Encr result) \<or> integFound)
             then Some result else None)
          else if prop_ProtocolID prop = ProtoESP then
            (if encrFound \<and> (isAEAD (Encr result) \<or> integFound) then Some result else None)
          else None)"

fun SelectBestProposal :: "ProposalMatcher \<Rightarrow> Proposal list \<Rightarrow> MatchedAlgorithms option" where
  "SelectBestProposal pm [] = None"
| "SelectBestProposal pm (prop # props) =
     (case matchProposal pm prop of Some m \<Rightarrow> Some m | None \<Rightarrow> SelectBestProposal pm props)"

text \<open>What a match guarantees: every chosen algorithm is one the matcher supports.\<close>

definition match_inv :: "ProposalMatcher \<Rightarrow> match_state \<Rightarrow> bool" where
  "match_inv pm st = (case st of (r, e, i, p, d) \<Rightarrow>
     (e \<longrightarrow> Encr r \<in> set (SupportedEncr pm)) \<and> (i \<longrightarrow> Integ r \<in> set (SupportedInteg pm)) \<and>
     (p \<longrightarrow> PRF r \<in> set (SupportedPRF pm)) \<and> (d \<longrightarrow> ma_DH r \<in> set (SupportedDH pm)))"

lemma key_length_fold:
  "Encr (fold f as r) = Encr r \<and> Integ (fold f as r) = Integ r \<and> PRF (fold f as r) = PRF r \<and>
     ma_DH (fold f as r) = ma_DH r"
  if "f = (\<lambda>attr r. if ta_Type attr = AttributeKeyLength then r\<lparr>EncrKeyLen := ta_Val attr\<rparr> else r)"
  unfolding that by (induction as arbitrary: r) auto

lemma match_inv_step: "match_inv pm st \<Longrightarrow> match_inv pm (matchTransform pm t st)"
  by (cases st) (simp add: match_inv_def matchTransform_def key_length_fold [OF refl])

interpretation matching: machine "\<lambda>st. \<exists>p. st = initMatch p" "\<lambda>st t. matchTransform pm t st"
  "match_inv pm" for pm
  by unfold_locales (auto simp: match_inv_step, simp add: match_inv_def initMatch_def)

lemma matchProposal_supported:
  assumes "matchProposal pm prop = Some m"
  shows "Encr m \<in> set (SupportedEncr pm)"
    "isAEAD (Encr m) \<or> Integ m \<in> set (SupportedInteg pm)"
    "prop_ProtocolID prop = ProtoIKE \<Longrightarrow> PRF m \<in> set (SupportedPRF pm) \<and> ma_DH m \<in> set (SupportedDH pm)"
proof -
  have "match_inv pm (fold (matchTransform pm) (Transforms prop) (initMatch prop))"
    using matching.inv_reachable [of "initMatch prop"] by (auto simp: foldl_conv_fold)
  with assms show "Encr m \<in> set (SupportedEncr pm)"
    "isAEAD (Encr m) \<or> Integ m \<in> set (SupportedInteg pm)"
    "prop_ProtocolID prop = ProtoIKE \<Longrightarrow> PRF m \<in> set (SupportedPRF pm) \<and> ma_DH m \<in> set (SupportedDH pm)"
    by (auto simp: matchProposal_def match_inv_def split: prod.splits if_splits)
qed

text \<open>The first proposal that matches at all is taken.\<close>

lemma SelectBestProposal_first:
  "SelectBestProposal pm props =
     (case dropWhile (\<lambda>p. matchProposal pm p = None) props of
        [] \<Rightarrow> None | p # _ \<Rightarrow> matchProposal pm p)"
  by (induction props) (auto split: option.split)

section \<open>Presets, parser and matcher together\<close>

lemmas build = presets NewProposal_def AddTransform_def AddTransformWithKeyLen_def Let_def

lemma default_matches:
  "map (matchProposal DefaultProposalMatcher) (defaultIKEProposals spi) =
     map (\<lambda>(n, e, k, i, r, d). Some \<lparr>ma_ProposalNum = n, ma_ProtocolID = ProtoIKE, ma_SPI = spi,
        Encr = e, EncrKeyLen = k, Integ = i, PRF = r, ma_DH = d\<rparr>)
      [(1, ENCR_AES_GCM_16, 256, 0, PRF_HMAC_SHA2_384, MODP_3072_bit),
       (2, ENCR_AES_GCM_16, 128, 0, PRF_HMAC_SHA2_256, MODP_2048_bit),
       (3, ENCR_AES_CBC, 256, AUTH_HMAC_SHA2_256_128, PRF_HMAC_SHA2_256, MODP_2048_bit),
       (4, ENCR_AES_CBC, 128, AUTH_HMAC_SHA2_256_128, PRF_HMAC_SHA2_256, MODP_2048_bit),
       (5, ENCR_AES_CBC, 128, AUTH_HMAC_SHA1_96, PRF_HMAC_SHA1, MODP_1024_bit)]"
  by (simp add: defaultIKEProposals_def build matchProposal_def matchTransform_def initMatch_def
      DefaultProposalMatcher_def isAEAD_def)

text \<open>
  Without automatic PRF derivation the default proposals carry no PRF at all, and none of them
  is acceptable to the matcher.
\<close>

lemma no_prf_no_match:
  assumes "prop_ProtocolID p = ProtoIKE" "\<forall>t\<in>set (Transforms p). tr_Type t \<noteq> TransformTypePRF"
  shows "matchProposal pm p = None"
proof -
  have "\<forall>t\<in>set ts. tr_Type t \<noteq> TransformTypePRF \<Longrightarrow>
      fst (snd (snd (snd (fold (matchTransform pm) ts st)))) = fst (snd (snd (snd st)))" for ts st
    by (induction ts arbitrary: st) (auto simp: matchTransform_def split: prod.splits)
  from this [OF assms(2), of "initMatch p"] show ?thesis
    using assms(1) by (auto simp: matchProposal_def initMatch_def split: prod.splits)
qed

lemma default_without_prf_unmatched:
  "ParseIKEProposals [] spi False = Inr ps \<Longrightarrow> \<forall>p\<in>set ps. matchProposal pm p = None"
  by (auto simp: ParseIKEProposals_def defaultIKEProposals_def build intro!: no_prf_no_match)

text \<open>
  A parsed proposal: one encryption transform first, one group last, PRF and integrity
  transforms between them, all of algorithms the default matcher supports.
\<close>

definition middle_ok :: "Transform \<Rightarrow> bool" where
  "middle_ok t \<longleftrightarrow>
     tr_Type t = TransformTypePRF \<and> tr_ID t \<in> set (SupportedPRF DefaultProposalMatcher) \<or>
     tr_Type t = TransformTypeInteg \<and> tr_ID t \<in> set (SupportedInteg DefaultProposalMatcher)"

definition has_type :: "byte \<Rightarrow> Transform list \<Rightarrow> bool" where
  "has_type ty ts \<longleftrightarrow> (\<exists>t\<in>set ts. tr_Type t = ty)"

lemma has_type_simps [simp]:
  "has_type ty [] \<longleftrightarrow> False" "has_type ty (t # ts) \<longleftrightarrow> tr_Type t = ty \<or> has_type ty ts"
  "has_type ty (ts @ us) \<longleftrightarrow> has_type ty ts \<or> has_type ty us"
  by (auto simp: has_type_def)

definition plain_transform :: "byte \<Rightarrow> u16 \<Rightarrow> Transform" where
  "plain_transform ty i = \<lparr>LastTransform = False, tr_Type = ty, tr_ID = i, tr_Attributes = []\<rparr>"

lemma AddTransform_0: "AddTransform p ty i 0 = p\<lparr>Transforms := Transforms p @ [plain_transform ty i]\<rparr>"
  by (simp add: AddTransform_def plain_transform_def)

lemma plain_transform_sel [simp]:
  "tr_Type (plain_transform ty i) = ty" "tr_ID (plain_transform ty i) = i"
  by (simp_all add: plain_transform_def)

lemma supported_algorithms:
  "parsePRF s = Inr a \<Longrightarrow> a \<in> set (SupportedPRF DefaultProposalMatcher)"
  "defaultPRFFromInteg s = Inr a \<Longrightarrow> a \<in> set (SupportedPRF DefaultProposalMatcher)"
  "parseIntegrity s = Inr a \<Longrightarrow> a \<in> set (SupportedInteg DefaultProposalMatcher)"
  "parseDH s = Inr a \<Longrightarrow> a \<in> set (SupportedDH DefaultProposalMatcher)"
  "parseEncryption s = Inr (a, k) \<Longrightarrow> a \<in> set (SupportedEncr DefaultProposalMatcher)"
  by (auto simp: parsePRF_def defaultPRFFromInteg_def parseIntegrity_def parseDH_def
      parseEncryption_def DefaultProposalMatcher_def split: if_splits)

lemma parseMiddle_shape:
  "parseMiddle parts (p, pf, itf, s) = Inr (p', pf', itf', s') \<Longrightarrow>
     \<exists>ms. p' = p\<lparr>Transforms := Transforms p @ ms\<rparr> \<and> (\<forall>t\<in>set ms. middle_ok t) \<and>
       (pf' \<longleftrightarrow> pf \<or> has_type TransformTypePRF ms) \<and>
       (itf' \<longleftrightarrow> itf \<or> has_type TransformTypeInteg ms)"
proof (induction parts "(p, pf, itf, s)" arbitrary: p pf itf s rule: parseMiddle.induct)
  case (1 p pf itf s)
  then show ?case by (auto intro!: exI [of _ "[]"])
next
  case (2 part parts p pf itf s)
  show ?case
  proof (cases "has_prefix part ''prf''")
    case True
    with "2.prems" obtain a where a: "parsePRF part = Inr a"
      and rec: "parseMiddle parts (AddTransform p TransformTypePRF a 0, True, itf, s) =
        Inr (p', pf', itf', s')"
      by (auto simp: rbind_Inr_iff)
    from "2.hyps"(1) [OF True _ rec] a obtain ms where
      "p' = (AddTransform p TransformTypePRF a 0)
         \<lparr>Transforms := Transforms (AddTransform p TransformTypePRF a 0) @ ms\<rparr>"
      "\<forall>t\<in>set ms. middle_ok t" "pf'" "itf' \<longleftrightarrow> itf \<or> has_type TransformTypeInteg ms"
      by auto
    then show ?thesis
      using supported_algorithms(1) [OF a]
      by (intro exI [of _ "plain_transform TransformTypePRF a # ms"])
        (auto simp: AddTransform_0 middle_ok_def)
  next
    case False
    with "2.prems" obtain a where a: "parseIntegrity part = Inr a"
      and rec: "parseMiddle parts (AddTransform p TransformTypeInteg a 0, pf, True, part) =
        Inr (p', pf', itf', s')"
      by (auto simp: rbind_Inr_iff)
    from "2.hyps"(2) [OF False _ rec] a obtain ms where
      "p' = (AddTransform p TransformTypeInteg a 0)
         \<lparr>Transforms := Transforms (AddTransform p TransformTypeInteg a 0) @ ms\<rparr>"
      "\<forall>t\<in>set ms. middle_ok t" "itf'" "pf' \<longleftrightarrow> pf \<or> has_type TransformTypePRF ms"
      by auto
    then show ?thesis
      using supported_algorithms(3) [OF a]
      by (intro exI [of _ "plain_transform TransformTypeInteg a # ms"])
        (auto simp: AddTransform_0 middle_ok_def)
  qed
qed

definition encr_transform :: "u16 \<Rightarrow> int \<Rightarrow> Transform" where
  "encr_transform e k = \<lparr>LastTransform = False, tr_Type = TransformTypeEncr, tr_ID = e,
     tr_Attributes = [\<lparr>ta_Type = AttributeKeyLength, ta_Value = [], ta_Val = of_int k\<rparr>]\<rparr>"

lemma encr_transform_sel [simp]:
  "tr_Type (encr_transform e k) = TransformTypeEncr" "tr_ID (encr_transform e k) = e"
  by (simp_all add: encr_transform_def)

lemma parseEncryption_pos: "parseEncryption s = Inr (e, k) \<Longrightarrow> 0 < k"
  by (auto simp: parseEncryption_def split: if_splits)

lemma parseIKEProposal_shape:
  assumes "parseIKEProposal spec num spi True = Inr p"
  obtains e k ms d where
    "p = (NewProposal num ProtoIKE spi)
       \<lparr>Transforms := encr_transform e k # ms @ [plain_transform TransformTypeDH d]\<rparr>"
    "e \<in> set (SupportedEncr DefaultProposalMatcher)" "d \<in> set (SupportedDH DefaultProposalMatcher)"
    "\<forall>t\<in>set ms. middle_ok t" "has_type TransformTypePRF ms"
proof -
  define parts where "parts = split_on CHR ''-'' (trim_space (to_lower spec))"
  obtain e k d where e: "parseEncryption (hd parts) = Inr (e, k)" and d: "parseDH (last parts) = Inr d"
    using assms by (auto simp: parseIKEProposal_def parts_def Let_def rbind_Inr_iff split: if_splits)
  define p0 where "p0 = AddTransformWithKeyLen (NewProposal num ProtoIKE spi) TransformTypeEncr e k"
  have p0: "p0 = (NewProposal num ProtoIKE spi)\<lparr>Transforms := [encr_transform e k]\<rparr>"
    using parseEncryption_pos [OF e]
    by (simp add: p0_def AddTransformWithKeyLen_def NewProposal_def encr_transform_def)
  obtain p1 pf itf s where m: "parseMiddle (butlast (tl parts)) (p0, False, False, []) = Inr (p1, pf, itf, s)"
    using assms e d
    by (auto simp: parseIKEProposal_def parts_def [symmetric] p0_def [symmetric] Let_def rbind_Inr_iff
        split: if_splits)
  from parseMiddle_shape [OF m] obtain ms where ms:
    "p1 = p0\<lparr>Transforms := Transforms p0 @ ms\<rparr>" "\<forall>t\<in>set ms. middle_ok t"
    "pf \<longleftrightarrow> has_type TransformTypePRF ms" "itf \<longleftrightarrow> has_type TransformTypeInteg ms" by auto
  obtain f where f: "defaultPRFFromInteg s = Inr f"
    by (cases "defaultPRFFromInteg s") (auto simp: defaultPRFFromInteg_def split: if_splits)
  have pre: "p1 = p0\<lparr>Transforms := encr_transform e k # ms\<rparr>" using ms(1) p0 by simp
  define extra where "extra = (if pf then [] else
      [plain_transform TransformTypePRF (if itf then f else PRF_HMAC_SHA2_256)])"
  have "p = p1\<lparr>Transforms := Transforms p1 @ extra @ [plain_transform TransformTypeDH d]\<rparr>"
    using assms e d m f
    by (auto simp: parseIKEProposal_def parts_def [symmetric] p0_def [symmetric] Let_def
        AddTransform_0 extra_def split: if_splits)
  then have "p = (NewProposal num ProtoIKE spi)
       \<lparr>Transforms := encr_transform e k # (ms @ extra) @ [plain_transform TransformTypeDH d]\<rparr>"
    using pre p0 by simp
  moreover have "\<forall>t\<in>set (ms @ extra). middle_ok t"
    using ms supported_algorithms(2) [OF f]
    by (auto simp: extra_def middle_ok_def DefaultProposalMatcher_def)
  moreover have "has_type TransformTypePRF (ms @ extra)" using ms by (auto simp: extra_def)
  ultimately show thesis
    using that supported_algorithms(5) [OF e] supported_algorithms(4) [OF d] by blast
qed

lemma fold_middle:
  "\<forall>t\<in>set ms. middle_ok t \<Longrightarrow>
     \<exists>r'. fold (matchTransform DefaultProposalMatcher) ms (r, e, i, p, d) =
       (r', e, i \<or> has_type TransformTypeInteg ms, p \<or> has_type TransformTypePRF ms, d) \<and>
       Encr r' = Encr r"
proof (induction ms arbitrary: r i p)
  case (Cons t ms)
  from Cons.prems have "middle_ok t" "\<forall>t\<in>set ms. middle_ok t" by auto
  from \<open>middle_ok t\<close> consider
    (a) "matchTransform DefaultProposalMatcher t (r, e, i, p, d) = (r\<lparr>PRF := tr_ID t\<rparr>, e, i, True, d)"
      "tr_Type t = TransformTypePRF"
  | (b) "matchTransform DefaultProposalMatcher t (r, e, i, p, d) =
      (r\<lparr>Integ := tr_ID t\<rparr>, e, True, p, d)" "tr_Type t = TransformTypeInteg"
    by (auto simp: middle_ok_def matchTransform_def)
  then show ?case
  proof cases
    case a
    with Cons.IH [OF \<open>\<forall>t\<in>set ms. middle_ok t\<close>, of "r\<lparr>PRF := tr_ID t\<rparr>" i True]
    show ?thesis by simp
  next
    case b
    with Cons.IH [OF \<open>\<forall>t\<in>set ms. middle_ok t\<close>, of "r\<lparr>Integ := tr_ID t\<rparr>" True p]
    show ?thesis by simp
  qed
qed simp

text \<open>
  A parsed IKE proposal is acceptable to the default matcher exactly when its cipher is an AEAD
  or it names an integrity algorithm.
\<close>

lemma parsed_matches_iff:
  assumes "parseIKEProposal spec num spi True = Inr p"
  shows "matchProposal DefaultProposalMatcher p \<noteq> None \<longleftrightarrow>
    isAEAD (tr_ID (hd (Transforms p))) \<or> has_type TransformTypeInteg (Transforms p)"
proof -
  from parseIKEProposal_shape [OF assms] obtain e k ms d where p:
    "p = (NewProposal num ProtoIKE spi)
       \<lparr>Transforms := encr_transform e k # ms @ [plain_transform TransformTypeDH d]\<rparr>"
    "e \<in> set (SupportedEncr DefaultProposalMatcher)" "d \<in> set (SupportedDH DefaultProposalMatcher)"
    "\<forall>t\<in>set ms. middle_ok t" "has_type TransformTypePRF ms" by metis
  obtain r1 where r1: "matchTransform DefaultProposalMatcher (encr_transform e k) (initMatch p) =
      (r1, True, False, False, False)" "Encr r1 = e"
    using p(2) by (simp add: matchTransform_def initMatch_def encr_transform_def)
  obtain r2 where r2: "fold (matchTransform DefaultProposalMatcher) ms (r1, True, False, False, False) =
      (r2, True, has_type TransformTypeInteg ms, True, False)" "Encr r2 = e"
    using fold_middle [OF p(4), of r1 True False False False] r1(2) p(5) by auto
  have "matchTransform DefaultProposalMatcher (plain_transform TransformTypeDH d)
      (r2, True, has_type TransformTypeInteg ms, True, False) =
      (r2\<lparr>ma_DH := d\<rparr>, True, has_type TransformTypeInteg ms, True, True)"
    using p(3) by (simp add: matchTransform_def)
  then have "fold (matchTransform DefaultProposalMatcher) (Transforms p) (initMatch p) =
      (r2\<lparr>ma_DH := d\<rparr>, True, has_type TransformTypeInteg ms, True, True)"
    using p(1) r1(1) r2(1) by simp
  moreover have "prop_ProtocolID p = ProtoIKE" using p(1) by (simp add: NewProposal_def)
  ultimately show ?thesis
    using p(1) r2(2) by (auto simp: matchProposal_def)
qed

end
