(* ===== verification/Std_Hash.thy ===== *)
theory Std_Hash
  imports Prelude
begin

text \<open>
  The hash functions of Go's \<^verbatim>\<open>crypto/sha1\<close>, \<^verbatim>\<open>crypto/sha256\<close>, \<^verbatim>\<open>crypto/sha512\<close> and
  \<^verbatim>\<open>crypto/md5\<close> (FIPS 180-4, RFC 1321) and \<^verbatim>\<open>crypto/hmac\<close> (RFC 2104), which the sources use as
  \<^verbatim>\<open>hash.Hash\<close> values. What the development needs of them is proved: the digest sizes.
\<close>

section \<open>Blocks and padding\<close>

definition chunks :: "nat \<Rightarrow> 'a list \<Rightarrow> 'a list list" where
  "chunks n xs = map (\<lambda>i. slice xs (n * i) (n * i + n)) [0..<length xs div n]"

definition md_pad :: "nat \<Rightarrow> bytes \<Rightarrow> bytes \<Rightarrow> bytes" where
  "md_pad bl len m =
     (let used = length m + 1 + length len
      in m @ [0x80] @ replicate ((bl - used mod bl) mod bl) 0 @ len)"

definition add_states :: "'a::plus list \<Rightarrow> 'a list \<Rightarrow> 'a list" where
  "add_states xs ys = map2 (+) xs ys"

lemma length_fold_keep:
  "(\<And>x s. length (f x s) = length s) \<Longrightarrow> length (fold f xs s) = length s"
  by (induction xs arbitrary: s) auto

section \<open>SHA-1\<close>

definition sha1_init :: "u32 list" where
  "sha1_init = [0x67452301, 0xEFCDAB89, 0x98BADCFE, 0x10325476, 0xC3D2E1F0]"

text \<open>The schedule, newest word first.\<close>

fun sha1_extend :: "nat \<Rightarrow> u32 list \<Rightarrow> u32 list" where
  "sha1_extend 0 w = w"
| "sha1_extend (Suc n) w =
     sha1_extend n (word_rotl 1 (w ! 2 XOR w ! 7 XOR w ! 13 XOR w ! 15) # w)"

definition sha1_f :: "nat \<Rightarrow> u32 \<Rightarrow> u32 \<Rightarrow> u32 \<Rightarrow> u32" where
  "sha1_f i b c d =
     (if i < 20 then (b AND c) OR (NOT b AND d)
      else if i < 40 then b XOR c XOR d
      else if i < 60 then (b AND c) OR (b AND d) OR (c AND d)
      else b XOR c XOR d)"

definition sha1_k :: "nat \<Rightarrow> u32" where
  "sha1_k i =
     (if i < 20 then 0x5A827999 else if i < 40 then 0x6ED9EBA1
      else if i < 60 then 0x8F1BBCDC else 0xCA62C1D6)"

definition sha1_round :: "nat \<times> u32 \<Rightarrow> u32 list \<Rightarrow> u32 list" where
  "sha1_round iw s = (case (iw, s) of
     ((i, w), [a, b, c, d, e]) \<Rightarrow>
       [word_rotl 5 a + sha1_f i b c d + e + sha1_k i + w, a, word_rotl 30 b, c, d]
   | _ \<Rightarrow> s)"

definition sha1_compress :: "bytes \<Rightarrow> u32 list \<Rightarrow> u32 list" where
  "sha1_compress block s =
     add_states s (fold sha1_round
       (List.enumerate 0 (rev (sha1_extend 64 (rev (map get32 (chunks 4 block)))))) s)"

definition sha1 :: "bytes \<Rightarrow> bytes" where
  "sha1 m = concat (map put32
     (fold sha1_compress (chunks 64 (md_pad 64 (put64 (of_nat (8 * length m))) m)) sha1_init))"

section \<open>SHA-256\<close>

definition sha256_k :: "u32 list" where
  "sha256_k = [
     0x428A2F98, 0x71374491, 0xB5C0FBCF, 0xE9B5DBA5, 0x3956C25B, 0x59F111F1,
     0x923F82A4, 0xAB1C5ED5, 0xD807AA98, 0x12835B01, 0x243185BE, 0x550C7DC3,
     0x72BE5D74, 0x80DEB1FE, 0x9BDC06A7, 0xC19BF174, 0xE49B69C1, 0xEFBE4786,
     0x0FC19DC6, 0x240CA1CC, 0x2DE92C6F, 0x4A7484AA, 0x5CB0A9DC, 0x76F988DA,
     0x983E5152, 0xA831C66D, 0xB00327C8, 0xBF597FC7, 0xC6E00BF3, 0xD5A79147,
     0x06CA6351, 0x14292967, 0x27B70A85, 0x2E1B2138, 0x4D2C6DFC, 0x53380D13,
     0x650A7354, 0x766A0ABB, 0x81C2C92E, 0x92722C85, 0xA2BFE8A1, 0xA81A664B,
     0xC24B8B70, 0xC76C51A3, 0xD192E819, 0xD6990624, 0xF40E3585, 0x106AA070,
     0x19A4C116, 0x1E376C08, 0x2748774C, 0x34B0BCB5, 0x391C0CB3, 0x4ED8AA4A,
     0x5B9CCA4F, 0x682E6FF3, 0x748F82EE, 0x78A5636F, 0x84C87814, 0x8CC70208,
     0x90BEFFFA, 0xA4506CEB, 0xBEF9A3F7, 0xC67178F2]"

definition sha256_init :: "u32 list" where
  "sha256_init = [
     0x6A09E667, 0xBB67AE85, 0x3C6EF372, 0xA54FF53A,
     0x510E527F, 0x9B05688C, 0x1F83D9AB, 0x5BE0CD19]"

fun sha256_extend :: "nat \<Rightarrow> u32 list \<Rightarrow> u32 list" where
  "sha256_extend 0 w = w"
| "sha256_extend (Suc n) w =
     (let w15 = w ! 14; w2 = w ! 1;
          s0 = word_rotr 7 w15 XOR word_rotr 18 w15 XOR drop_bit 3 w15;
          s1 = word_rotr 17 w2 XOR word_rotr 19 w2 XOR drop_bit 10 w2
      in sha256_extend n ((w ! 15 + s0 + w ! 6 + s1) # w))"

definition sha256_round :: "u32 \<times> u32 \<Rightarrow> u32 list \<Rightarrow> u32 list" where
  "sha256_round kw s = (case (kw, s) of
     ((k, w), [a, b, c, d, e, f, g, h]) \<Rightarrow>
       let s1 = word_rotr 6 e XOR word_rotr 11 e XOR word_rotr 25 e;
           ch = (e AND f) XOR (NOT e AND g);
           t1 = h + s1 + ch + k + w;
           s0 = word_rotr 2 a XOR word_rotr 13 a XOR word_rotr 22 a;
           maj = (a AND b) XOR (a AND c) XOR (b AND c)
       in [t1 + s0 + maj, a, b, c, d + t1, e, f, g]
   | _ \<Rightarrow> s)"

definition sha256_compress :: "bytes \<Rightarrow> u32 list \<Rightarrow> u32 list" where
  "sha256_compress block s =
     add_states s (fold sha256_round
       (zip sha256_k (rev (sha256_extend 48 (rev (map get32 (chunks 4 block)))))) s)"

definition sha256 :: "bytes \<Rightarrow> bytes" where
  "sha256 m = concat (map put32
     (fold sha256_compress (chunks 64 (md_pad 64 (put64 (of_nat (8 * length m))) m)) sha256_init))"

section \<open>SHA-512 and SHA-384\<close>

definition sha512_k :: "u64 list" where
  "sha512_k = [
     0x428A2F98D728AE22, 0x7137449123EF65CD, 0xB5C0FBCFEC4D3B2F, 0xE9B5DBA58189DBBC,
     0x3956C25BF348B538, 0x59F111F1B605D019, 0x923F82A4AF194F9B, 0xAB1C5ED5DA6D8118,
     0xD807AA98A3030242, 0x12835B0145706FBE, 0x243185BE4EE4B28C, 0x550C7DC3D5FFB4E2,
     0x72BE5D74F27B896F, 0x80DEB1FE3B1696B1, 0x9BDC06A725C71235, 0xC19BF174CF692694,
     0xE49B69C19EF14AD2, 0xEFBE4786384F25E3, 0x0FC19DC68B8CD5B5, 0x240CA1CC77AC9C65,
     0x2DE92C6F592B0275, 0x4A7484AA6EA6E483, 0x5CB0A9DCBD41FBD4, 0x76F988DA831153B5,
     0x983E5152EE66DFAB, 0xA831C66D2DB43210, 0xB00327C898FB213F, 0xBF597FC7BEEF0EE4,
     0xC6E00BF33DA88FC2, 0xD5A79147930AA725, 0x06CA6351E003826F, 0x142929670A0E6E70,
     0x27B70A8546D22FFC, 0x2E1B21385C26C926, 0x4D2C6DFC5AC42AED, 0x53380D139D95B3DF,
     0x650A73548BAF63DE, 0x766A0ABB3C77B2A8, 0x81C2C92E47EDAEE6, 0x92722C851482353B,
     0xA2BFE8A14CF10364, 0xA81A664BBC423001, 0xC24B8B70D0F89791, 0xC76C51A30654BE30,
     0xD192E819D6EF5218, 0xD69906245565A910, 0xF40E35855771202A, 0x106AA07032BBD1B8,
     0x19A4C116B8D2D0C8, 0x1E376C085141AB53, 0x2748774CDF8EEB99, 0x34B0BCB5E19B48A8,
     0x391C0CB3C5C95A63, 0x4ED8AA4AE3418ACB, 0x5B9CCA4F7763E373, 0x682E6FF3D6B2B8A3,
     0x748F82EE5DEFB2FC, 0x78A5636F43172F60, 0x84C87814A1F0AB72, 0x8CC702081A6439EC,
     0x90BEFFFA23631E28, 0xA4506CEBDE82BDE9, 0xBEF9A3F7B2C67915, 0xC67178F2E372532B,
     0xCA273ECEEA26619C, 0xD186B8C721C0C207, 0xEADA7DD6CDE0EB1E, 0xF57D4F7FEE6ED178,
     0x06F067AA72176FBA, 0x0A637DC5A2C898A6, 0x113F9804BEF90DAE, 0x1B710B35131C471B,
     0x28DB77F523047D84, 0x32CAAB7B40C72493, 0x3C9EBE0A15C9BEBC, 0x431D67C49C100D4C,
     0x4CC5D4BECB3E42B6, 0x597F299CFC657E2A, 0x5FCB6FAB3AD6FAEC, 0x6C44198C4A475817]"

definition sha512_init :: "u64 list" where
  "sha512_init = [
     0x6A09E667F3BCC908, 0xBB67AE8584CAA73B, 0x3C6EF372FE94F82B, 0xA54FF53A5F1D36F1,
     0x510E527FADE682D1, 0x9B05688C2B3E6C1F, 0x1F83D9ABFB41BD6B, 0x5BE0CD19137E2179]"

definition sha384_init :: "u64 list" where
  "sha384_init = [
     0xCBBB9D5DC1059ED8, 0x629A292A367CD507, 0x9159015A3070DD17, 0x152FECD8F70E5939,
     0x67332667FFC00B31, 0x8EB44A8768581511, 0xDB0C2E0D64F98FA7, 0x47B5481DBEFA4FA4]"

fun sha512_extend :: "nat \<Rightarrow> u64 list \<Rightarrow> u64 list" where
  "sha512_extend 0 w = w"
| "sha512_extend (Suc n) w =
     (let w15 = w ! 14; w2 = w ! 1;
          s0 = word_rotr 1 w15 XOR word_rotr 8 w15 XOR drop_bit 7 w15;
          s1 = word_rotr 19 w2 XOR word_rotr 61 w2 XOR drop_bit 6 w2
      in sha512_extend n ((w ! 15 + s0 + w ! 6 + s1) # w))"

definition sha512_round :: "u64 \<times> u64 \<Rightarrow> u64 list \<Rightarrow> u64 list" where
  "sha512_round kw s = (case (kw, s) of
     ((k, w), [a, b, c, d, e, f, g, h]) \<Rightarrow>
       let s1 = word_rotr 14 e XOR word_rotr 18 e XOR word_rotr 41 e;
           ch = (e AND f) XOR (NOT e AND g);
           t1 = h + s1 + ch + k + w;
           s0 = word_rotr 28 a XOR word_rotr 34 a XOR word_rotr 39 a;
           maj = (a AND b) XOR (a AND c) XOR (b AND c)
       in [t1 + s0 + maj, a, b, c, d + t1, e, f, g]
   | _ \<Rightarrow> s)"

definition sha512_compress :: "bytes \<Rightarrow> u64 list \<Rightarrow> u64 list" where
  "sha512_compress block s =
     add_states s (fold sha512_round
       (zip sha512_k (rev (sha512_extend 64 (rev (map get64 (chunks 8 block)))))) s)"

definition sha512_from :: "u64 list \<Rightarrow> bytes \<Rightarrow> bytes" where
  "sha512_from iv m = concat (map put64
     (fold sha512_compress
       (chunks 128 (md_pad 128 (put64 0 @ put64 (of_nat (8 * length m))) m)) iv))"

definition sha512 :: "bytes \<Rightarrow> bytes" where
  "sha512 m = sha512_from sha512_init m"

definition sha384 :: "bytes \<Rightarrow> bytes" where
  "sha384 m = take 48 (sha512_from sha384_init m)"

section \<open>MD5\<close>

definition md5_k :: "u32 list" where
  "md5_k = [
     0xD76AA478, 0xE8C7B756, 0x242070DB, 0xC1BDCEEE, 0xF57C0FAF, 0x4787C62A,
     0xA8304613, 0xFD469501, 0x698098D8, 0x8B44F7AF, 0xFFFF5BB1, 0x895CD7BE,
     0x6B901122, 0xFD987193, 0xA679438E, 0x49B40821, 0xF61E2562, 0xC040B340,
     0x265E5A51, 0xE9B6C7AA, 0xD62F105D, 0x02441453, 0xD8A1E681, 0xE7D3FBC8,
     0x21E1CDE6, 0xC33707D6, 0xF4D50D87, 0x455A14ED, 0xA9E3E905, 0xFCEFA3F8,
     0x676F02D9, 0x8D2A4C8A, 0xFFFA3942, 0x8771F681, 0x6D9D6122, 0xFDE5380C,
     0xA4BEEA44, 0x4BDECFA9, 0xF6BB4B60, 0xBEBFBC70, 0x289B7EC6, 0xEAA127FA,
     0xD4EF3085, 0x04881D05, 0xD9D4D039, 0xE6DB99E5, 0x1FA27CF8, 0xC4AC5665,
     0xF4292244, 0x432AFF97, 0xAB9423A7, 0xFC93A039, 0x655B59C3, 0x8F0CCC92,
     0xFFEFF47D, 0x85845DD1, 0x6FA87E4F, 0xFE2CE6E0, 0xA3014314, 0x4E0811A1,
     0xF7537E82, 0xBD3AF235, 0x2AD7D2BB, 0xEB86D391]"

definition md5_s :: "nat list" where
  "md5_s = [
     7, 12, 17, 22, 7, 12, 17, 22, 7, 12, 17, 22, 7, 12, 17, 22,
     5, 9, 14, 20, 5, 9, 14, 20, 5, 9, 14, 20, 5, 9, 14, 20,
     4, 11, 16, 23, 4, 11, 16, 23, 4, 11, 16, 23, 4, 11, 16, 23,
     6, 10, 15, 21, 6, 10, 15, 21, 6, 10, 15, 21, 6, 10, 15, 21]"

definition md5_init :: "u32 list" where
  "md5_init = [0x67452301, 0xEFCDAB89, 0x98BADCFE, 0x10325476]"

definition md5_round :: "u32 list \<Rightarrow> nat \<Rightarrow> u32 list \<Rightarrow> u32 list" where
  "md5_round m i s = (case s of
     [a, b, c, d] \<Rightarrow>
       let (f, g) =
             (if i < 16 then ((b AND c) OR (NOT b AND d), i)
              else if i < 32 then ((d AND b) OR (NOT d AND c), (5 * i + 1) mod 16)
              else if i < 48 then (b XOR c XOR d, (3 * i + 5) mod 16)
              else (c XOR (b OR NOT d), (7 * i) mod 16))
       in [d, b + word_rotl (md5_s ! i) (f + a + md5_k ! i + m ! g), b, c]
   | _ \<Rightarrow> s)"

definition md5_compress :: "bytes \<Rightarrow> u32 list \<Rightarrow> u32 list" where
  "md5_compress block s =
     add_states s (fold (md5_round (map (get32 \<circ> rev) (chunks 4 block))) [0..<64] s)"

definition md5 :: "bytes \<Rightarrow> bytes" where
  "md5 m = concat (map (rev \<circ> put32)
     (fold md5_compress (chunks 64 (md_pad 64 (rev (put64 (of_nat (8 * length m)))) m)) md5_init))"

section \<open>Digest sizes\<close>

lemma length_rounds [simp]:
  "length (sha1_round x s) = length s" "length (sha256_round y s) = length s"
  "length (sha512_round z t) = length t" "length (md5_round m i s) = length s"
  by (auto simp: sha1_round_def sha256_round_def sha512_round_def md5_round_def Let_def
      split: prod.split list.split)

lemma length_compress [simp]:
  "length (sha1_compress b s) = length s" "length (sha256_compress b s) = length s"
  "length (sha512_compress b t) = length t" "length (md5_compress b s) = length s"
  by (simp_all add: sha1_compress_def sha256_compress_def sha512_compress_def md5_compress_def
      add_states_def length_fold_keep)

lemma length_concat_put [simp]:
  "length (concat (map put32 xs)) = 4 * length xs"
  "length (concat (map (rev \<circ> put32) xs)) = 4 * length xs"
  "length (concat (map put64 ys)) = 8 * length ys"
  by (induction xs, simp_all, induction xs, simp_all, induction ys, simp_all)

lemma length_sha512_from: "length (sha512_from iv m) = 8 * length iv"
  by (simp add: sha512_from_def length_fold_keep)

lemma length_digest [simp]:
  "length (sha1 m) = 20" "length (sha256 m) = 32" "length (sha384 m) = 48"
  "length (sha512 m) = 64" "length (md5 m) = 16"
  by (simp_all add: sha1_def sha256_def sha384_def sha512_def md5_def length_sha512_from
      length_fold_keep sha1_init_def sha256_init_def sha512_init_def sha384_init_def md5_init_def)

section \<open>HMAC\<close>

text \<open>A \<^verbatim>\<open>hash.Hash\<close> constructor: the digest of everything written, and the block size.\<close>

record hash_alg =
  digest :: "bytes \<Rightarrow> bytes"
  block_size :: nat

definition hmac :: "hash_alg \<Rightarrow> bytes \<Rightarrow> bytes \<Rightarrow> bytes" where
  "hmac H key data =
     (let k = (if block_size H < length key then digest H key else key);
          kp = k @ replicate (block_size H - length k) 0;
          opad = map (\<lambda>b. b XOR 0x5c) kp; ipad = map (\<lambda>b. b XOR 0x36) kp
      in digest H (opad @ digest H (ipad @ data)))"

definition H_md5 :: hash_alg where "H_md5 = \<lparr>digest = md5, block_size = 64\<rparr>"

definition H_sha1 :: hash_alg where "H_sha1 = \<lparr>digest = sha1, block_size = 64\<rparr>"

definition H_sha256 :: hash_alg where "H_sha256 = \<lparr>digest = sha256, block_size = 64\<rparr>"

definition H_sha384 :: hash_alg where "H_sha384 = \<lparr>digest = sha384, block_size = 128\<rparr>"

definition H_sha512 :: hash_alg where "H_sha512 = \<lparr>digest = sha512, block_size = 128\<rparr>"

lemma length_hmac [simp]:
  "length (hmac H_md5 k d) = 16" "length (hmac H_sha1 k d) = 20" "length (hmac H_sha256 k d) = 32"
  "length (hmac H_sha384 k d) = 48" "length (hmac H_sha512 k d) = 64"
  by (simp_all add: hmac_def Let_def H_md5_def H_sha1_def H_sha256_def H_sha384_def H_sha512_def)

end
