(* ===== verification/Crypto_Prf.thy ===== *)
theory Crypto_Prf
  imports Std_Hash
begin

text \<open>
  The pseudo-random functions and the key expansion \<^verbatim>\<open>prf+\<close> of \<^verbatim>\<open>pkg/crypto/prf.go\<close>, with its
  refinement to the recurrence of RFC 7296, section 2.13. Of the 255 blocks the RFC allows the
  code hands out 254.
\<close>

section \<open>The algorithms\<close>

record prf_alg =
  prf_Hash :: hash_alg
  KeyLen :: nat

definition PRF_HMAC_MD5_alg :: prf_alg where
  "PRF_HMAC_MD5_alg = \<lparr>prf_Hash = H_md5, KeyLen = 16\<rparr>"

definition PRF_HMAC_SHA1_alg :: prf_alg where
  "PRF_HMAC_SHA1_alg = \<lparr>prf_Hash = H_sha1, KeyLen = 20\<rparr>"

definition PRF_HMAC_SHA2_256_alg :: prf_alg where
  "PRF_HMAC_SHA2_256_alg = \<lparr>prf_Hash = H_sha256, KeyLen = 32\<rparr>"

definition PRF_HMAC_SHA2_384_alg :: prf_alg where
  "PRF_HMAC_SHA2_384_alg = \<lparr>prf_Hash = H_sha384, KeyLen = 48\<rparr>"

definition PRF_HMAC_SHA2_512_alg :: prf_alg where
  "PRF_HMAC_SHA2_512_alg = \<lparr>prf_Hash = H_sha512, KeyLen = 64\<rparr>"

definition GetPRF :: "u16 \<Rightarrow> prf_alg result" where
  "GetPRF i =
     (if i = 1 then Inr PRF_HMAC_MD5_alg
      else if i = 2 then Inr PRF_HMAC_SHA1_alg
      else if i = 5 then Inr PRF_HMAC_SHA2_256_alg
      else if i = 6 then Inr PRF_HMAC_SHA2_384_alg
      else if i = 7 then Inr PRF_HMAC_SHA2_512_alg
      else fail ''unsupported PRF ID'')"

abbreviation prf_mac :: "prf_alg \<Rightarrow> bytes \<Rightarrow> bytes \<Rightarrow> bytes" where
  "prf_mac p \<equiv> hmac (prf_Hash p)"

text \<open>The key size of every algorithm is its digest size.\<close>

lemma GetPRF_KeyLen: "GetPRF i = Inr p \<Longrightarrow> length (prf_mac p k d) = KeyLen p \<and> 0 < KeyLen p"
  by (auto simp: GetPRF_def PRF_HMAC_MD5_alg_def PRF_HMAC_SHA1_alg_def PRF_HMAC_SHA2_256_alg_def
      PRF_HMAC_SHA2_384_alg_def PRF_HMAC_SHA2_512_alg_def split: if_splits)

section \<open>Key expansion\<close>

text \<open>The loop with \<^verbatim>\<open>result\<close>, \<^verbatim>\<open>lastBlock\<close> and \<^verbatim>\<open>blockIndex\<close>.\<close>

function PrfPlus_loop :: "prf_alg \<Rightarrow> bytes \<Rightarrow> bytes \<Rightarrow> int \<Rightarrow> bytes \<Rightarrow> bytes \<Rightarrow> nat \<Rightarrow> bytes result" where
  "PrfPlus_loop p key seed totalBytes res lastBlock blockIndex =
     (if int (length res) < totalBytes then
        let block = (if blockIndex = 1 then prf_mac p key (seed @ [of_nat blockIndex])
                     else prf_mac p key (lastBlock @ seed @ [of_nat blockIndex]))
        in if 255 < blockIndex + 1 then fail ''PRF+ overflow: too many blocks''
           else PrfPlus_loop p key seed totalBytes (res @ block) block (blockIndex + 1)
      else if totalBytes < 0 then Inl Panic
      else Inr (take (nat totalBytes) res))"
  by pat_completeness auto
termination
  by (relation "measure (\<lambda>(_, _, _, _, _, _, i). 256 - i)") auto

declare PrfPlus_loop.simps [simp del]

definition PrfPlus :: "prf_alg \<Rightarrow> bytes \<Rightarrow> bytes \<Rightarrow> int \<Rightarrow> bytes result" where
  "PrfPlus p key seed totalBytes = PrfPlus_loop p key seed totalBytes [] [] 1"

section \<open>The recurrence of the RFC\<close>

text \<open>\<open>T1 = prf(K, S | 0x01)\<close>, \<open>Tn = prf(K, Tn-1 | S | n)\<close>, and their concatenation.\<close>

fun prf_T :: "prf_alg \<Rightarrow> bytes \<Rightarrow> bytes \<Rightarrow> nat \<Rightarrow> bytes" where
  "prf_T p key seed 0 = []"
| "prf_T p key seed (Suc n) = prf_mac p key (prf_T p key seed n @ seed @ [of_nat (Suc n)])"

fun prf_stream :: "prf_alg \<Rightarrow> bytes \<Rightarrow> bytes \<Rightarrow> nat \<Rightarrow> bytes" where
  "prf_stream p key seed 0 = []"
| "prf_stream p key seed (Suc n) = prf_stream p key seed n @ prf_T p key seed (Suc n)"

lemma length_prf_stream:
  "(\<And>d. length (prf_mac p key d) = L) \<Longrightarrow> length (prf_stream p key seed n) = n * L"
  by (induction n) auto

lemma prf_stream_prefix:
  "m \<le> n \<Longrightarrow> \<exists>r. prf_stream p key seed n = prf_stream p key seed m @ r"
  by (induction n) (auto simp: le_Suc_eq)

lemma PrfPlus_loop_stream:
  assumes L: "\<And>d. length (prf_mac p key d) = L" and n: "0 \<le> n" and k: "k \<le> 254"
  shows "PrfPlus_loop p key seed n (prf_stream p key seed k) (prf_T p key seed k) (Suc k) =
    (if nat n \<le> 254 * L then Inr (take (nat n) (prf_stream p key seed 254))
     else fail ''PRF+ overflow: too many blocks'')"
  using k
proof (induction "254 - k" arbitrary: k rule: less_induct)
  case less
  note len = length_prf_stream [of p key L seed, OF L]
  show ?case
  proof (cases "int (k * L) < n")
    case False
    then have le: "nat n \<le> k * L" using n by linarith
    also have "\<dots> \<le> 254 * L" using less.prems by simp
    finally have "nat n \<le> 254 * L" .
    moreover obtain r where "prf_stream p key seed 254 = prf_stream p key seed k @ r"
      using prf_stream_prefix [OF less.prems] by blast
    ultimately show ?thesis
      using False n le by (subst PrfPlus_loop.simps) (simp add: len)
  next
    case True
    have block: "(if Suc k = 1 then prf_mac p key (seed @ [of_nat (Suc k)])
        else prf_mac p key (prf_T p key seed k @ seed @ [of_nat (Suc k)])) = prf_T p key seed (Suc k)"
      by (cases k) simp_all
    show ?thesis
    proof (cases "k = 254")
      case True
      with \<open>int (k * L) < n\<close> show ?thesis
        by (subst PrfPlus_loop.simps) (simp add: len Let_def)
    next
      case False
      with less.prems have "254 - Suc k < 254 - k" "Suc k \<le> 254" by auto
      from less.hyps [OF this] True False less.prems show ?thesis
        by (subst PrfPlus_loop.simps) (simp only: len Let_def block, simp)
    qed
  qed
qed

lemma PrfPlus_spec:
  assumes "GetPRF i = Inr p" "0 \<le> n"
  shows "PrfPlus p key seed n =
    (if nat n \<le> 254 * KeyLen p then Inr (take (nat n) (prf_stream p key seed 254))
     else fail ''PRF+ overflow: too many blocks'')"
  using PrfPlus_loop_stream [of p key "KeyLen p" n 0 seed] GetPRF_KeyLen [OF assms(1)] assms(2)
  by (simp add: PrfPlus_def)

lemma length_PrfPlus:
  assumes "GetPRF i = Inr p" "PrfPlus p key seed n = Inr bs"
  shows "int (length bs) = n"
proof -
  have n: "0 \<le> n"
    using assms(2) by (auto simp: PrfPlus_def PrfPlus_loop.simps split: if_splits)
  with assms(2) PrfPlus_spec [OF assms(1) n, of key seed] show ?thesis
    using length_prf_stream [of p key "KeyLen p" seed 254] GetPRF_KeyLen [OF assms(1), of key]
    by (auto split: if_splits)
qed

text \<open>A shorter request is a prefix of a longer one.\<close>

lemma PrfPlus_prefix:
  assumes "GetPRF i = Inr p" "0 \<le> m" "m \<le> n" "PrfPlus p key seed n = Inr bs"
  shows "PrfPlus p key seed m = Inr (take (nat m) bs)"
  using assms PrfPlus_spec [OF assms(1), of m] PrfPlus_spec [OF assms(1), of n]
  by (auto simp: min_def split: if_splits)

end
