(* ===== verification/Crypto_Integrity.thy ===== *)
theory Crypto_Integrity
  imports Interfaces Std_Hash
begin

text \<open>
  The integrity algorithms of \<^verbatim>\<open>pkg/crypto/integrity.go\<close>: truncated HMACs and the null
  algorithm. Every one is a \<open>mac\<close>; all but the null one are \<open>strict_mac\<close>s.
\<close>

datatype IntegrityAlgorithm =
  HmacSHA1_96 | HmacSHA256_128 | HmacSHA384_192 | HmacSHA512_256 | NullIntegrity

fun OutputSize :: "IntegrityAlgorithm \<Rightarrow> nat" where
  "OutputSize HmacSHA1_96 = 12"
| "OutputSize HmacSHA256_128 = 16"
| "OutputSize HmacSHA384_192 = 24"
| "OutputSize HmacSHA512_256 = 32"
| "OutputSize NullIntegrity = 0"

fun integ_KeySize :: "IntegrityAlgorithm \<Rightarrow> nat" where
  "integ_KeySize HmacSHA1_96 = 20"
| "integ_KeySize HmacSHA256_128 = 32"
| "integ_KeySize HmacSHA384_192 = 48"
| "integ_KeySize HmacSHA512_256 = 64"
| "integ_KeySize NullIntegrity = 0"

fun Compute :: "IntegrityAlgorithm \<Rightarrow> bytes \<Rightarrow> bytes \<Rightarrow> bytes" where
  "Compute HmacSHA1_96 key data = take 12 (hmac H_sha1 key data)"
| "Compute HmacSHA256_128 key data = take 16 (hmac H_sha256 key data)"
| "Compute HmacSHA384_192 key data = take 24 (hmac H_sha384 key data)"
| "Compute HmacSHA512_256 key data = take 32 (hmac H_sha512 key data)"
| "Compute NullIntegrity key data = []"

text \<open>\<^verbatim>\<open>hmac.Equal\<close> is equality of byte slices (its timing is not modelled).\<close>

fun Verify :: "IntegrityAlgorithm \<Rightarrow> bytes \<Rightarrow> bytes \<Rightarrow> bytes \<Rightarrow> bool" where
  "Verify NullIntegrity key data expectedMAC = True"
| "Verify a key data expectedMAC = (Compute a key data = expectedMAC)"

definition GetIntegrityAlgorithm :: "u16 \<Rightarrow> IntegrityAlgorithm result" where
  "GetIntegrityAlgorithm i =
     (if i = 0 then Inr NullIntegrity
      else if i = 2 then Inr HmacSHA1_96
      else if i = 12 then Inr HmacSHA256_128
      else if i = 13 then Inr HmacSHA384_192
      else if i = 14 then Inr HmacSHA512_256
      else fail ''unsupported integrity algorithm'')"

definition ComputeHMAC :: "hash_alg \<Rightarrow> bytes \<Rightarrow> bytes \<Rightarrow> bytes" where
  "ComputeHMAC hashFunc key data = hmac hashFunc key data"

text \<open>The slice expression on the received MAC panics when it is shorter than the digest.\<close>

definition VerifyHMAC :: "hash_alg \<Rightarrow> bytes \<Rightarrow> bytes \<Rightarrow> bytes \<Rightarrow> bool result" where
  "VerifyHMAC hashFunc key data expectedMAC =
     (let computed = ComputeHMAC hashFunc key data
      in rbind (go_slice expectedMAC 0 (length computed)) (\<lambda>m. Inr (computed = m)))"

lemma length_Compute [simp]: "length (Compute a k d) = OutputSize a"
  by (cases a) simp_all

lemma Verify_iff: "a \<noteq> NullIntegrity \<Longrightarrow> Verify a k d m \<longleftrightarrow> m = Compute a k d"
  by (cases a) auto

interpretation integ: mac "Compute a" "Verify a" "OutputSize a" for a
  by unfold_locales (simp, cases a, simp_all)

interpretation sha1_96: strict_mac "Compute HmacSHA1_96" "Verify HmacSHA1_96" 12
  by unfold_locales (simp_all add: Verify_iff)

interpretation sha256_128: strict_mac "Compute HmacSHA256_128" "Verify HmacSHA256_128" 16
  by unfold_locales (simp_all add: Verify_iff)

interpretation sha384_192: strict_mac "Compute HmacSHA384_192" "Verify HmacSHA384_192" 24
  by unfold_locales (simp_all add: Verify_iff)

interpretation sha512_256: strict_mac "Compute HmacSHA512_256" "Verify HmacSHA512_256" 32
  by unfold_locales (simp_all add: Verify_iff)

lemma VerifyHMAC_iff:
  "VerifyHMAC H k d m = Inr True \<longleftrightarrow>
     length (hmac H k d) \<le> length m \<and> take (length (hmac H k d)) m = hmac H k d"
  by (auto simp: VerifyHMAC_def Let_def ComputeHMAC_def rbind_Inr_iff go_slice_Inr_iff)

lemma VerifyHMAC_panics_iff:
  "VerifyHMAC H k d m = Inl Panic \<longleftrightarrow> length m < length (hmac H k d)"
  by (auto simp: VerifyHMAC_def Let_def ComputeHMAC_def rbind_Inl_iff go_slice_Panic_iff)

end
