(* ===== verification/Std_Aes.thy ===== *)
theory Std_Aes
  imports Interfaces
begin

text \<open>
  The block cipher of Go's \<^verbatim>\<open>crypto/aes\<close> (FIPS 197), which the sources use through
  \<^verbatim>\<open>aes.NewCipher\<close>, and its instance of \<open>block_cipher\<close>: decryption inverts encryption.
  A block is a list of 16 bytes in FIPS order (column by column).
\<close>

section \<open>The S-box\<close>

text \<open>The table of FIPS 197, rows by the high and columns by the low nibble of the input.\<close>

definition sbox_rows :: "(nat \<times> nat) list list" where
  "sbox_rows = [
    [(6,3), (7,12), (7,7), (7,11), (15,2), (6,11), (6,15), (12,5), (3,0), (0,1), (6,7), (2,11), (15,14), (13,7), (10,11), (7,6)],
    [(12,10), (8,2), (12,9), (7,13), (15,10), (5,9), (4,7), (15,0), (10,13), (13,4), (10,2), (10,15), (9,12), (10,4), (7,2), (12,0)],
    [(11,7), (15,13), (9,3), (2,6), (3,6), (3,15), (15,7), (12,12), (3,4), (10,5), (14,5), (15,1), (7,1), (13,8), (3,1), (1,5)],
    [(0,4), (12,7), (2,3), (12,3), (1,8), (9,6), (0,5), (9,10), (0,7), (1,2), (8,0), (14,2), (14,11), (2,7), (11,2), (7,5)],
    [(0,9), (8,3), (2,12), (1,10), (1,11), (6,14), (5,10), (10,0), (5,2), (3,11), (13,6), (11,3), (2,9), (14,3), (2,15), (8,4)],
    [(5,3), (13,1), (0,0), (14,13), (2,0), (15,12), (11,1), (5,11), (6,10), (12,11), (11,14), (3,9), (4,10), (4,12), (5,8), (12,15)],
    [(13,0), (14,15), (10,10), (15,11), (4,3), (4,13), (3,3), (8,5), (4,5), (15,9), (0,2), (7,15), (5,0), (3,12), (9,15), (10,8)],
    [(5,1), (10,3), (4,0), (8,15), (9,2), (9,13), (3,8), (15,5), (11,12), (11,6), (13,10), (2,1), (1,0), (15,15), (15,3), (13,2)],
    [(12,13), (0,12), (1,3), (14,12), (5,15), (9,7), (4,4), (1,7), (12,4), (10,7), (7,14), (3,13), (6,4), (5,13), (1,9), (7,3)],
    [(6,0), (8,1), (4,15), (13,12), (2,2), (2,10), (9,0), (8,8), (4,6), (14,14), (11,8), (1,4), (13,14), (5,14), (0,11), (13,11)],
    [(14,0), (3,2), (3,10), (0,10), (4,9), (0,6), (2,4), (5,12), (12,2), (13,3), (10,12), (6,2), (9,1), (9,5), (14,4), (7,9)],
    [(14,7), (12,8), (3,7), (6,13), (8,13), (13,5), (4,14), (10,9), (6,12), (5,6), (15,4), (14,10), (6,5), (7,10), (10,14), (0,8)],
    [(11,10), (7,8), (2,5), (2,14), (1,12), (10,6), (11,4), (12,6), (14,8), (13,13), (7,4), (1,15), (4,11), (11,13), (8,11), (8,10)],
    [(7,0), (3,14), (11,5), (6,6), (4,8), (0,3), (15,6), (0,14), (6,1), (3,5), (5,7), (11,9), (8,6), (12,1), (1,13), (9,14)],
    [(14,1), (15,8), (9,8), (1,1), (6,9), (13,9), (8,14), (9,4), (9,11), (1,14), (8,7), (14,9), (12,14), (5,5), (2,8), (13,15)],
    [(8,12), (10,1), (8,9), (0,13), (11,15), (14,6), (4,2), (6,8), (4,1), (9,9), (2,13), (0,15), (11,0), (5,4), (11,11), (1,6)]]"

definition inv_sbox_rows :: "(nat \<times> nat) list list" where
  "inv_sbox_rows = [
    [(5,2), (0,9), (6,10), (13,5), (3,0), (3,6), (10,5), (3,8), (11,15), (4,0), (10,3), (9,14), (8,1), (15,3), (13,7), (15,11)],
    [(7,12), (14,3), (3,9), (8,2), (9,11), (2,15), (15,15), (8,7), (3,4), (8,14), (4,3), (4,4), (12,4), (13,14), (14,9), (12,11)],
    [(5,4), (7,11), (9,4), (3,2), (10,6), (12,2), (2,3), (3,13), (14,14), (4,12), (9,5), (0,11), (4,2), (15,10), (12,3), (4,14)],
    [(0,8), (2,14), (10,1), (6,6), (2,8), (13,9), (2,4), (11,2), (7,6), (5,11), (10,2), (4,9), (6,13), (8,11), (13,1), (2,5)],
    [(7,2), (15,8), (15,6), (6,4), (8,6), (6,8), (9,8), (1,6), (13,4), (10,4), (5,12), (12,12), (5,13), (6,5), (11,6), (9,2)],
    [(6,12), (7,0), (4,8), (5,0), (15,13), (14,13), (11,9), (13,10), (5,14), (1,5), (4,6), (5,7), (10,7), (8,13), (9,13), (8,4)],
    [(9,0), (13,8), (10,11), (0,0), (8,12), (11,12), (13,3), (0,10), (15,7), (14,4), (5,8), (0,5), (11,8), (11,3), (4,5), (0,6)],
    [(13,0), (2,12), (1,14), (8,15), (12,10), (3,15), (0,15), (0,2), (12,1), (10,15), (11,13), (0,3), (0,1), (1,3), (8,10), (6,11)],
    [(3,10), (9,1), (1,1), (4,1), (4,15), (6,7), (13,12), (14,10), (9,7), (15,2), (12,15), (12,14), (15,0), (11,4), (14,6), (7,3)],
    [(9,6), (10,12), (7,4), (2,2), (14,7), (10,13), (3,5), (8,5), (14,2), (15,9), (3,7), (14,8), (1,12), (7,5), (13,15), (6,14)],
    [(4,7), (15,1), (1,10), (7,1), (1,13), (2,9), (12,5), (8,9), (6,15), (11,7), (6,2), (0,14), (10,10), (1,8), (11,14), (1,11)],
    [(15,12), (5,6), (3,14), (4,11), (12,6), (13,2), (7,9), (2,0), (9,10), (13,11), (12,0), (15,14), (7,8), (12,13), (5,10), (15,4)],
    [(1,15), (13,13), (10,8), (3,3), (8,8), (0,7), (12,7), (3,1), (11,1), (1,2), (1,0), (5,9), (2,7), (8,0), (14,12), (5,15)],
    [(6,0), (5,1), (7,15), (10,9), (1,9), (11,5), (4,10), (0,13), (2,13), (14,5), (7,10), (9,15), (9,3), (12,9), (9,12), (14,15)],
    [(10,0), (14,0), (3,11), (4,13), (10,14), (2,10), (15,5), (11,0), (12,8), (14,11), (11,11), (3,12), (8,3), (5,3), (9,9), (6,1)],
    [(1,7), (2,11), (0,4), (7,14), (11,10), (7,7), (13,6), (2,6), (14,1), (6,9), (1,4), (6,3), (5,5), (2,1), (0,12), (7,13)]]"

definition nib_lookup :: "(nat \<times> nat) list list \<Rightarrow> nat \<times> nat \<Rightarrow> nat \<times> nat" where
  "nib_lookup t p = t ! fst p ! snd p"

definition nibbles :: "byte \<Rightarrow> nat \<times> nat" where
  "nibbles b = (unat b div 16, unat b mod 16)"

definition of_nibbles :: "nat \<times> nat \<Rightarrow> byte" where
  "of_nibbles p = of_nat (16 * fst p + snd p)"

definition sub_byte :: "byte \<Rightarrow> byte" where
  "sub_byte b = of_nibbles (nib_lookup sbox_rows (nibbles b))"

definition inv_sub_byte :: "byte \<Rightarrow> byte" where
  "inv_sub_byte b = of_nibbles (nib_lookup inv_sbox_rows (nibbles b))"

definition sbox_row_ok :: "nat \<Rightarrow> bool" where
  "sbox_row_ok x = list_all (\<lambda>y. case sbox_rows ! x ! y of (h, l) \<Rightarrow>
     h < 16 \<and> l < 16 \<and> inv_sbox_rows ! h ! l = (x, y)) [0..<16]"

lemma sbox_rows_ok: "list_all sbox_row_ok [0..<16]"
  by (simp add: upt_rec sbox_row_ok_def sbox_rows_def inv_sbox_rows_def)

lemma nibbles_of_nibbles [simp]: "h < 16 \<Longrightarrow> l < 16 \<Longrightarrow> nibbles (of_nibbles (h, l)) = (h, l)"
proof -
  assume "h < 16" "l < 16"
  then have "unat (of_nat (16 * h + l) :: byte) = 16 * h + l"
    by (intro unat_of_nat_byte) simp
  with \<open>l < 16\<close> show ?thesis
    by (simp only: nibbles_def of_nibbles_def fst_conv snd_conv) simp
qed

lemma of_nibbles_nibbles [simp]: "of_nibbles (nibbles b) = b"
  by (simp add: nibbles_def of_nibbles_def flip: of_nat_mult of_nat_add)

lemma inv_sub_byte_sub_byte [simp]: "inv_sub_byte (sub_byte b) = b"
proof -
  have "unat b div 16 < 16"
    using unat_byte_less [of b] by (simp add: less_mult_imp_div_less)
  then obtain x y where xy: "nibbles b = (x, y)" "x < 16" "y < 16"
    by (simp add: nibbles_def)
  obtain h l where hl: "sbox_rows ! x ! y = (h, l)" by fastforce
  have "sbox_row_ok x"
    using sbox_rows_ok xy(2) unfolding list_all_iff by auto
  then have "case sbox_rows ! x ! y of (h, l) \<Rightarrow>
      h < 16 \<and> l < 16 \<and> inv_sbox_rows ! h ! l = (x, y)"
    using xy(3) unfolding sbox_row_ok_def list_all_iff by auto
  then have "h < 16 \<and> l < 16 \<and> inv_sbox_rows ! h ! l = (x, y)"
    by (simp add: hl)
  with xy hl show ?thesis
    by (metis (no_types) fst_conv inv_sub_byte_def nib_lookup_def nibbles_of_nibbles
        of_nibbles_nibbles snd_conv sub_byte_def)
qed

section \<open>Columns\<close>

text \<open>Multiplication by \<^verbatim>\<open>x\<close> in GF(2^8) modulo x^8 + x^4 + x^3 + x + 1.\<close>

definition xtime :: "byte \<Rightarrow> byte" where
  "xtime b = (if bit b 7 then push_bit 1 b XOR 27 else push_bit 1 b)"

lemma xtime_xor [simp]: "xtime (a XOR b) = xtime a XOR xtime b"
  by (simp add: xtime_def bit_xor_iff ac_simps)

definition mix_column :: "byte \<Rightarrow> byte \<Rightarrow> byte \<Rightarrow> byte \<Rightarrow> bytes" where
  "mix_column a b c d =
     [xtime a XOR (xtime b XOR b) XOR c XOR d,
      a XOR xtime b XOR (xtime c XOR c) XOR d,
      a XOR b XOR xtime c XOR (xtime d XOR d),
      (xtime a XOR a) XOR b XOR c XOR xtime d]"

definition mul9 :: "byte \<Rightarrow> byte" where
  "mul9 b = xtime (xtime (xtime b)) XOR b"

definition mul11 :: "byte \<Rightarrow> byte" where
  "mul11 b = xtime (xtime (xtime b)) XOR xtime b XOR b"

definition mul13 :: "byte \<Rightarrow> byte" where
  "mul13 b = xtime (xtime (xtime b)) XOR xtime (xtime b) XOR b"

definition mul14 :: "byte \<Rightarrow> byte" where
  "mul14 b = xtime (xtime (xtime b)) XOR xtime (xtime b) XOR xtime b"

definition inv_mix_column :: "byte \<Rightarrow> byte \<Rightarrow> byte \<Rightarrow> byte \<Rightarrow> bytes" where
  "inv_mix_column a b c d =
     [mul14 a XOR mul11 b XOR mul13 c XOR mul9 d,
      mul9 a XOR mul14 b XOR mul11 c XOR mul13 d,
      mul13 a XOR mul9 b XOR mul14 c XOR mul11 d,
      mul11 a XOR mul13 b XOR mul9 c XOR mul14 d]"

lemma inv_mix_column_mix_column:
  "mix_column a b c d = [e, f, g, h] \<Longrightarrow> inv_mix_column e f g h = [a, b, c, d]"
  by (auto simp: mix_column_def inv_mix_column_def mul9_def mul11_def mul13_def mul14_def ac_simps)

fun mix_columns :: "bytes \<Rightarrow> bytes" where
  "mix_columns (a # b # c # d # r) = mix_column a b c d @ mix_columns r"
| "mix_columns _ = []"

fun inv_mix_columns :: "bytes \<Rightarrow> bytes" where
  "inv_mix_columns (a # b # c # d # r) = inv_mix_column a b c d @ inv_mix_columns r"
| "inv_mix_columns _ = []"

section \<open>Rows\<close>

definition shift_rows :: "bytes \<Rightarrow> bytes" where
  "shift_rows s = map (\<lambda>i. s ! i) [0, 5, 10, 15, 4, 9, 14, 3, 8, 13, 2, 7, 12, 1, 6, 11]"

definition inv_shift_rows :: "bytes \<Rightarrow> bytes" where
  "inv_shift_rows s = map (\<lambda>i. s ! i) [0, 13, 10, 7, 4, 1, 14, 11, 8, 5, 2, 15, 12, 9, 6, 3]"

lemma length_shift_rows [simp]: "length (shift_rows s) = 16" "length (inv_shift_rows s) = 16"
  by (simp_all add: shift_rows_def inv_shift_rows_def)

lemma block_cases:
  assumes "length s = 16"
  obtains s0 s1 s2 s3 s4 s5 s6 s7 s8 s9 s10 s11 s12 s13 s14 s15
  where "s = [s0, s1, s2, s3, s4, s5, s6, s7, s8, s9, s10, s11, s12, s13, s14, s15]"
  using assms by (auto simp: numeral_eq_Suc length_Suc_conv)

lemma inv_shift_rows_shift_rows [simp]: "length s = 16 \<Longrightarrow> inv_shift_rows (shift_rows s) = s"
  by (erule block_cases) (simp add: shift_rows_def inv_shift_rows_def)

lemma length_mix_columns [simp]: "length s = 16 \<Longrightarrow> length (mix_columns s) = 16"
  by (erule block_cases) (simp add: mix_column_def)

lemma inv_mix_columns_mix_columns [simp]:
  "length s = 16 \<Longrightarrow> inv_mix_columns (mix_columns s) = s"
  by (erule block_cases)
    (simp add: mix_column_def inv_mix_column_mix_column [OF mix_column_def])

section \<open>Rounds\<close>

fun enc_rounds :: "bytes list \<Rightarrow> bytes \<Rightarrow> bytes" where
  "enc_rounds [] s = s"
| "enc_rounds [k] s = xor_bytes (shift_rows (map sub_byte s)) k"
| "enc_rounds (k # ks) s =
     enc_rounds ks (xor_bytes (mix_columns (shift_rows (map sub_byte s))) k)"

fun dec_rounds :: "bytes list \<Rightarrow> bytes \<Rightarrow> bytes" where
  "dec_rounds [] s = s"
| "dec_rounds [k] s = map inv_sub_byte (inv_shift_rows (xor_bytes s k))"
| "dec_rounds (k # ks) s =
     map inv_sub_byte (inv_shift_rows (inv_mix_columns (xor_bytes (dec_rounds ks s) k)))"

lemma map_inv_sub_byte [simp]: "map (inv_sub_byte \<circ> sub_byte) s = s"
  by (simp add: comp_def)

lemma length_enc_rounds:
  "\<forall>k\<in>set ks. length k = 16 \<Longrightarrow> length s = 16 \<Longrightarrow> length (enc_rounds ks s) = 16"
  by (induction ks s rule: enc_rounds.induct) simp_all

lemma dec_rounds_enc_rounds:
  "\<forall>k\<in>set ks. length k = 16 \<Longrightarrow> length s = 16 \<Longrightarrow> dec_rounds ks (enc_rounds ks s) = s"
  by (induction ks s rule: enc_rounds.induct) simp_all

section \<open>Key expansion\<close>

definition rcon :: "nat \<Rightarrow> byte" where
  "rcon i = (xtime ^^ (i - 1)) 1"

definition next_word :: "nat \<Rightarrow> bytes list \<Rightarrow> bytes" where
  "next_word nk ws =
     (let i = length ws; t = last ws;
          t' = (if i mod nk = 0
                then xor_bytes (map sub_byte (rotate1 t)) [rcon (i div nk), 0, 0, 0]
                else if 6 < nk \<and> i mod nk = 4 then map sub_byte t else t)
      in xor_bytes (ws ! (i - nk)) t')"

fun expand_words :: "nat \<Rightarrow> nat \<Rightarrow> bytes list \<Rightarrow> bytes list" where
  "expand_words nk 0 ws = ws"
| "expand_words nk (Suc n) ws = expand_words nk n (ws @ [next_word nk ws])"

definition key_words :: "bytes \<Rightarrow> bytes list" where
  "key_words k = map (\<lambda>i. take 4 (drop (4 * i) k)) [0..<length k div 4]"

definition num_rounds :: "bytes \<Rightarrow> nat" where
  "num_rounds k = length k div 4 + 6"

definition round_keys :: "bytes \<Rightarrow> bytes list" where
  "round_keys k =
     (let nk = length k div 4; n = 4 * (num_rounds k + 1);
          ws = expand_words nk (n - nk) (key_words k)
      in map (\<lambda>r. concat (take 4 (drop (4 * r) ws))) [0..<num_rounds k + 1])"

text \<open>\<^verbatim>\<open>aes.NewCipher\<close> accepts 16, 24 or 32 key bytes.\<close>

definition aes_key_ok :: "bytes \<Rightarrow> bool" where
  "aes_key_ok k \<longleftrightarrow> length k = 16 \<or> length k = 24 \<or> length k = 32"

definition aes_enc_block :: "bytes \<Rightarrow> bytes \<Rightarrow> bytes" where
  "aes_enc_block k b = (let rk = round_keys k in enc_rounds (tl rk) (xor_bytes b (hd rk)))"

definition aes_dec_block :: "bytes \<Rightarrow> bytes \<Rightarrow> bytes" where
  "aes_dec_block k b = (let rk = round_keys k in xor_bytes (dec_rounds (tl rk) b) (hd rk))"

definition words_ok :: "bytes list \<Rightarrow> bool" where
  "words_ok ws \<longleftrightarrow> ws \<noteq> [] \<and> (\<forall>w\<in>set ws. length w = 4)"

lemma length_next_word:
  assumes "words_ok ws" "0 < nk"
  shows "length (next_word nk ws) = 4"
proof -
  have "length (last ws) = 4" "length (ws ! (length ws - nk)) = 4"
    using assms by (auto simp: words_ok_def)
  then show ?thesis by (simp add: next_word_def Let_def)
qed

lemma expand_words_ok:
  "words_ok ws \<Longrightarrow> 0 < nk \<Longrightarrow>
     words_ok (expand_words nk n ws) \<and> length (expand_words nk n ws) = length ws + n"
proof (induction n arbitrary: ws)
  case (Suc n)
  then have "words_ok (ws @ [next_word nk ws])"
    using length_next_word by (auto simp: words_ok_def)
  from Suc.IH [OF this Suc.prems(2)] show ?case by simp
qed simp

lemma length_concat_const: "\<forall>w\<in>set ws. length w = n \<Longrightarrow> length (concat ws) = n * length ws"
  by (induction ws) auto

lemma round_keys_ok:
  assumes "aes_key_ok k"
  shows "round_keys k \<noteq> []" "\<forall>rk\<in>set (round_keys k). length rk = 16"
proof -
  define nk where "nk = length k div 4"
  define ws where "ws = expand_words nk (4 * (nk + 7) - nk) (key_words k)"
  have nk: "0 < nk" "length k = 4 * nk"
    using assms by (auto simp: aes_key_ok_def nk_def)
  have "words_ok (key_words k)" "length (key_words k) = nk"
    using nk by (auto simp: words_ok_def key_words_def)
  with nk have ws: "\<forall>w\<in>set ws. length w = 4" "length ws = 4 * (nk + 7)"
    using expand_words_ok [of "key_words k" nk "4 * (nk + 7) - nk"]
    by (auto simp: ws_def words_ok_def)
  have "length (concat (take 4 (drop (4 * r) ws))) = 16" if "r < nk + 7" for r
    using ws that by (subst length_concat_const [where n = 4]) (auto dest: in_set_takeD in_set_dropD)
  moreover have "round_keys k = map (\<lambda>r. concat (take 4 (drop (4 * r) ws))) [0..<nk + 7]"
    by (simp add: add.commute round_keys_def num_rounds_def nk_def ws_def Let_def)
  ultimately show "round_keys k \<noteq> []" "\<forall>rk\<in>set (round_keys k). length rk = 16"
    by auto
qed

lemma round_key_lengths:
  assumes "aes_key_ok k"
  shows "length (hd (round_keys k)) = 16" "\<forall>rk\<in>set (tl (round_keys k)). length rk = 16"
  using round_keys_ok [OF assms] by (auto dest: list.set_sel)

interpretation aes: block_cipher aes_enc_block aes_dec_block aes_key_ok
proof
  fix k b :: bytes
  assume kb: "aes_key_ok k" "length b = 16"
  show "length (aes_enc_block k b) = 16"
    using kb round_key_lengths [of k] by (simp add: aes_enc_block_def Let_def length_enc_rounds)
  show "aes_dec_block k (aes_enc_block k b) = b"
    using kb round_key_lengths [of k]
    by (simp add: aes_enc_block_def aes_dec_block_def Let_def dec_rounds_enc_rounds)
qed

end
