(* ===== verification/Std_Modes.thy ===== *)
theory Std_Modes
  imports Std_Aes Std_Hash
begin

text \<open>
  The block modes of Go's \<^verbatim>\<open>crypto/cipher\<close> over AES: CBC (SP 800-38A) and GCM with a 12-byte
  nonce and a 16-byte tag (SP 800-38D), and that each opens what it sealed.
\<close>

section \<open>CBC\<close>

fun cbc_encrypt_blocks :: "bytes \<Rightarrow> bytes \<Rightarrow> bytes list \<Rightarrow> bytes list" where
  "cbc_encrypt_blocks k iv [] = []"
| "cbc_encrypt_blocks k iv (p # ps) =
     (let c = aes_enc_block k (xor_bytes p iv) in c # cbc_encrypt_blocks k c ps)"

fun cbc_decrypt_blocks :: "bytes \<Rightarrow> bytes \<Rightarrow> bytes list \<Rightarrow> bytes list" where
  "cbc_decrypt_blocks k iv [] = []"
| "cbc_decrypt_blocks k iv (c # cs) =
     xor_bytes (aes_dec_block k c) iv # cbc_decrypt_blocks k c cs"

definition cbc_encrypt :: "bytes \<Rightarrow> bytes \<Rightarrow> bytes \<Rightarrow> bytes" where
  "cbc_encrypt k iv pt = concat (cbc_encrypt_blocks k iv (chunks 16 pt))"

definition cbc_decrypt :: "bytes \<Rightarrow> bytes \<Rightarrow> bytes \<Rightarrow> bytes" where
  "cbc_decrypt k iv ct = concat (cbc_decrypt_blocks k iv (chunks 16 ct))"

lemma chunks_length: "b \<in> set (chunks n xs) \<Longrightarrow> length b = n"
proof -
  assume "b \<in> set (chunks n xs)"
  then obtain i where "b = slice xs (n * i) (n * i + n)" "i < length xs div n"
    by (auto simp: chunks_def)
  moreover have "n * i + n \<le> length xs"
  proof -
    from \<open>i < length xs div n\<close> have "n * Suc i \<le> n * (length xs div n)"
      by (intro mult_le_mono2) simp
    also have "\<dots> \<le> length xs" by simp
    finally show ?thesis by simp
  qed
  ultimately show ?thesis by simp
qed

lemma concat_chunks: "concat (chunks n xs) = take (n * (length xs div n)) xs"
proof -
  have "m \<le> length xs div n \<Longrightarrow>
      concat (map (\<lambda>i. slice xs (n * i) (n * i + n)) [0..<m]) = take (n * m) xs" for m
  proof (induction m)
    case (Suc m)
    have "take (n * m) xs @ slice xs (n * m) (n * m + n) = take (n * m + n) xs"
      by (simp add: slice_def take_add)
    with Suc show ?case by (simp add: add.commute)
  qed simp
  from this [OF le_refl] show ?thesis by (simp add: chunks_def)
qed

lemma concat_chunks_all: "length xs mod n = 0 \<Longrightarrow> concat (chunks n xs) = xs"
  using concat_chunks [of n xs] by (simp add: mult_div_mod_eq [symmetric] minus_mod_eq_mult_div [symmetric])

lemma chunks_concat:
  "\<forall>b\<in>set bs. length b = n \<Longrightarrow> 0 < n \<Longrightarrow> chunks n (concat bs) = bs"
proof (induction bs)
  case (Cons b bs)
  then have b: "length b = n" and len: "length (concat bs) = n * length bs"
    by (auto intro: length_concat_const)
  have "length (concat (b # bs)) div n = Suc (length bs)"
    using b len Cons.prems by simp
  then have "chunks n (concat (b # bs)) =
      slice (concat (b # bs)) 0 n # map (\<lambda>i. slice (concat bs) (n * i) (n * i + n)) [0..<length bs]"
    using b by (simp add: chunks_def upt_conv_Cons map_Suc_upt [symmetric] slice_def del: upt_Suc)
  also have "\<dots> = b # chunks n (concat bs)"
    using b len Cons.prems by (simp add: chunks_def)
  finally show ?case using Cons by simp
qed (simp add: chunks_def)

lemma cbc_encrypt_blocks_lengths:
  assumes "aes_key_ok k"
  shows "length iv = 16 \<Longrightarrow> \<forall>p\<in>set ps. length p = 16 \<Longrightarrow>
     (\<forall>c\<in>set (cbc_encrypt_blocks k iv ps). length c = 16) \<and>
     length (cbc_encrypt_blocks k iv ps) = length ps"
proof (induction ps arbitrary: iv)
  case (Cons p ps)
  have c: "length (aes_enc_block k (xor_bytes p iv)) = 16"
    using Cons.prems by (simp add: aes.length_E [OF assms])
  from Cons.IH [OF c] c Cons.prems(2) show ?case by (simp add: Let_def)
qed simp

lemma cbc_blocks_inverse:
  assumes "aes_key_ok k"
  shows "length iv = 16 \<Longrightarrow> \<forall>p\<in>set ps. length p = 16 \<Longrightarrow>
     cbc_decrypt_blocks k iv (cbc_encrypt_blocks k iv ps) = ps"
  by (induction ps arbitrary: iv) (auto simp: Let_def aes.length_E [OF assms] aes.D_E [OF assms])

lemma cbc_decrypt_encrypt:
  assumes "aes_key_ok k" "length iv = 16" "length pt mod 16 = 0"
  shows "cbc_decrypt k iv (cbc_encrypt k iv pt) = pt" "length (cbc_encrypt k iv pt) = length pt"
proof -
  note blocks = cbc_encrypt_blocks_lengths [OF assms(1,2), of "chunks 16 pt"]
    cbc_blocks_inverse [OF assms(1,2), of "chunks 16 pt"]
  show "cbc_decrypt k iv (cbc_encrypt k iv pt) = pt"
    using blocks assms(3)
    by (simp add: cbc_decrypt_def cbc_encrypt_def chunks_length chunks_concat concat_chunks_all)
  have "length (cbc_encrypt k iv pt) = 16 * length (chunks 16 pt)"
    unfolding cbc_encrypt_def using blocks
    by (subst length_concat_const [where n = 16]) (auto simp: chunks_length)
  then show "length (cbc_encrypt k iv pt) = length pt"
    using assms(3) by (auto simp: chunks_def)
qed

section \<open>GCM\<close>

type_synonym u128 = "128 word"

definition get128 :: "bytes \<Rightarrow> u128" where
  "get128 bs = be_word (take 16 bs) 0"

definition put128 :: "u128 \<Rightarrow> bytes" where
  "put128 w = map (\<lambda>i. ucast (drop_bit (8 * (15 - i)) w)) [0..<16]"

text \<open>Multiplication in GF(2^128), most significant bit first.\<close>

fun gf_mul_loop :: "nat \<Rightarrow> u128 \<Rightarrow> u128 \<Rightarrow> u128 \<Rightarrow> u128" where
  "gf_mul_loop 0 x z v = z"
| "gf_mul_loop (Suc n) x z v =
     gf_mul_loop n x (if bit x n then z XOR v else z)
       (if bit v 0 then drop_bit 1 v XOR push_bit 120 0xe1 else drop_bit 1 v)"

definition gf_mul :: "u128 \<Rightarrow> u128 \<Rightarrow> u128" where
  "gf_mul x y = gf_mul_loop 128 x 0 y"

definition ghash :: "u128 \<Rightarrow> bytes \<Rightarrow> u128" where
  "ghash h xs = fold (\<lambda>b y. gf_mul (y XOR get128 b) h) (chunks 16 xs) 0"

definition pad16 :: "bytes \<Rightarrow> bytes" where
  "pad16 xs = xs @ replicate ((16 - length xs mod 16) mod 16) 0"

definition gcm_keystream :: "bytes \<Rightarrow> bytes \<Rightarrow> nat \<Rightarrow> bytes" where
  "gcm_keystream k nonce n =
     concat (map (\<lambda>i. aes_enc_block k (nonce @ put32 (of_nat (i + 2)))) [0..<(n + 15) div 16])"

definition gcm_crypt :: "bytes \<Rightarrow> bytes \<Rightarrow> bytes \<Rightarrow> bytes" where
  "gcm_crypt k nonce xs = xor_bytes xs (gcm_keystream k nonce (length xs))"

definition gcm_tag :: "bytes \<Rightarrow> bytes \<Rightarrow> bytes \<Rightarrow> bytes \<Rightarrow> bytes" where
  "gcm_tag k nonce aad ct =
     xor_bytes
       (put128 (ghash (get128 (aes_enc_block k (replicate 16 0)))
          (pad16 aad @ pad16 ct @ put64 (of_nat (8 * length aad)) @ put64 (of_nat (8 * length ct)))))
       (aes_enc_block k (nonce @ put32 1))"

definition gcm_seal :: "bytes \<Rightarrow> bytes \<Rightarrow> bytes \<Rightarrow> bytes \<Rightarrow> bytes" where
  "gcm_seal k nonce pt aad = (let ct = gcm_crypt k nonce pt in ct @ gcm_tag k nonce aad ct)"

definition gcm_open :: "bytes \<Rightarrow> bytes \<Rightarrow> bytes \<Rightarrow> bytes \<Rightarrow> bytes result" where
  "gcm_open k nonce sealed aad =
     (if length sealed < 16 then fail ''cipher: message authentication failed''
      else let n = length sealed - 16; ct = take n sealed; tag = drop n sealed
           in if tag = gcm_tag k nonce aad ct then Inr (gcm_crypt k nonce ct)
              else fail ''cipher: message authentication failed'')"

lemma length_gcm_keystream:
  assumes "aes_key_ok k" "length nonce = 12"
  shows "n \<le> length (gcm_keystream k nonce n)"
proof -
  have "length (gcm_keystream k nonce n) = 16 * length [0..<(n + 15) div 16]"
    unfolding gcm_keystream_def
    by (subst length_concat_const [where n = 16]) (auto simp: aes.length_E assms)
  then show ?thesis by simp
qed

lemma gcm_crypt_crypt:
  assumes "aes_key_ok k" "length nonce = 12"
  shows "gcm_crypt k nonce (gcm_crypt k nonce xs) = xs"
    and "length (gcm_crypt k nonce xs) = length xs"
  using length_gcm_keystream [OF assms, of "length xs"] by (simp_all add: gcm_crypt_def min_absorb1)

lemma length_gcm_tag: "aes_key_ok k \<Longrightarrow> length nonce = 12 \<Longrightarrow> length (gcm_tag k nonce aad ct) = 16"
  by (simp add: gcm_tag_def put128_def aes.length_E)

lemma gcm_open_seal:
  assumes "aes_key_ok k" "length nonce = 12"
  shows "gcm_open k nonce (gcm_seal k nonce pt aad) aad = Inr pt"
    and "length (gcm_seal k nonce pt aad) = length pt + 16"
  using gcm_crypt_crypt [OF assms, of pt] length_gcm_tag [OF assms, of aad "gcm_crypt k nonce pt"]
  by (simp_all add: gcm_open_def gcm_seal_def Let_def)

text \<open>Only sealed messages open.\<close>

lemma gcm_open_Inr:
  assumes "aes_key_ok k" "length nonce = 12" "gcm_open k nonce s aad = Inr pt"
  shows "s = gcm_seal k nonce pt aad"
proof -
  from assms(3) have "16 \<le> length s"
    and tag: "drop (length s - 16) s = gcm_tag k nonce aad (take (length s - 16) s)"
    and pt: "pt = gcm_crypt k nonce (take (length s - 16) s)"
    by (auto simp: gcm_open_def Let_def split: if_splits)
  then show ?thesis
    using gcm_crypt_crypt(1) [OF assms(1,2)] append_take_drop_id [of "length s - 16" s]
    by (simp add: gcm_seal_def Let_def)
qed

end
