(* ===== verification/Crypto_Cipher.thy ===== *)
theory Crypto_Cipher
  imports Std_Modes
begin

text \<open>
  The encryption algorithms of \<^verbatim>\<open>pkg/crypto/encrypt.go\<close> as an instance of \<open>encrypter\<close>, and, for
  GCM, the effect of the calls on memory: \<^verbatim>\<open>append(salt, iv...)\<close> extends a slice of the caller's
  key in place when the key's backing array has room behind it.
\<close>

section \<open>Algorithms\<close>

datatype Encrypter =
    AesCBC (enc_keySize: int)
  | AesGCM (icvSize: int) (enc_keySize: int)

definition IVSize :: "Encrypter \<Rightarrow> nat" where
  "IVSize e = (case e of AesCBC _ \<Rightarrow> 16 | AesGCM _ _ \<Rightarrow> 8)"

definition BlockSize :: "Encrypter \<Rightarrow> nat" where
  "BlockSize e = 16"

definition KeySize :: "Encrypter \<Rightarrow> int" where
  "KeySize e = enc_keySize e"

text \<open>\<^verbatim>\<open>cipher.NewCBCEncrypter\<close> panics unless the IV has the block size.\<close>

definition CBC_Encrypt :: "bytes \<Rightarrow> bytes \<Rightarrow> bytes \<Rightarrow> bytes \<Rightarrow> bytes result" where
  "CBC_Encrypt plaintext key iv aad =
     (if \<not> aes_key_ok key then fail ''crypto/aes: invalid key size''
      else if length plaintext mod 16 \<noteq> 0 then fail ''plaintext not block aligned''
      else if length iv \<noteq> 16 then Inl Panic
      else Inr (cbc_encrypt key iv plaintext))"

definition CBC_Decrypt :: "bytes \<Rightarrow> bytes \<Rightarrow> bytes \<Rightarrow> bytes \<Rightarrow> bytes result" where
  "CBC_Decrypt ciphertext key iv aad =
     (if \<not> aes_key_ok key then fail ''crypto/aes: invalid key size''
      else if length ciphertext mod 16 \<noteq> 0 then fail ''ciphertext not block aligned''
      else if length iv \<noteq> 16 then Inl Panic
      else Inr (cbc_decrypt key iv ciphertext))"

text \<open>
  The key is the AES key followed by a 4-byte salt. \<^verbatim>\<open>Seal\<close> and \<^verbatim>\<open>Open\<close> panic unless the nonce
  has 12 bytes. The record's \<^verbatim>\<open>icvSize\<close> is not read: the tag always has 16 bytes.
\<close>

definition GCM_Encrypt :: "bytes \<Rightarrow> bytes \<Rightarrow> bytes \<Rightarrow> bytes \<Rightarrow> bytes result" where
  "GCM_Encrypt plaintext key iv aad =
     (if length key < 4 then fail ''key too short for GCM salt''
      else let realKey = take (length key - 4) key; salt = drop (length key - 4) key
           in if \<not> aes_key_ok realKey then fail ''crypto/aes: invalid key size''
              else let nonce = salt @ iv
                   in if length nonce \<noteq> 12 then Inl Panic
                      else Inr (gcm_seal realKey nonce plaintext aad))"

definition GCM_Decrypt :: "bytes \<Rightarrow> bytes \<Rightarrow> bytes \<Rightarrow> bytes \<Rightarrow> bytes result" where
  "GCM_Decrypt ciphertext key iv aad =
     (if length key < 4 then fail ''key too short for GCM salt''
      else let realKey = take (length key - 4) key; salt = drop (length key - 4) key
           in if \<not> aes_key_ok realKey then fail ''crypto/aes: invalid key size''
              else let nonce = salt @ iv
                   in if length nonce \<noteq> 12 then Inl Panic
                      else gcm_open realKey nonce ciphertext aad)"

definition Encrypt :: "Encrypter \<Rightarrow> bytes \<Rightarrow> bytes \<Rightarrow> bytes \<Rightarrow> bytes \<Rightarrow> bytes result" where
  "Encrypt e = (case e of AesCBC _ \<Rightarrow> CBC_Encrypt | AesGCM _ _ \<Rightarrow> GCM_Encrypt)"

definition Decrypt :: "Encrypter \<Rightarrow> bytes \<Rightarrow> bytes \<Rightarrow> bytes \<Rightarrow> bytes \<Rightarrow> bytes result" where
  "Decrypt e = (case e of AesCBC _ \<Rightarrow> CBC_Decrypt | AesGCM _ _ \<Rightarrow> GCM_Decrypt)"

text \<open>Go's \<^verbatim>\<open>%\<close> and \<^verbatim>\<open>/\<close> agree with \<open>mod\<close> and \<open>div\<close> where the remainder is zero.\<close>

definition GetEncrypterWithKeyLen :: "u16 \<Rightarrow> int \<Rightarrow> Encrypter result" where
  "GetEncrypterWithKeyLen i keyLenBits =
     (if keyLenBits \<noteq> 0 \<and> keyLenBits mod 8 \<noteq> 0 then fail ''invalid key length''
      else let keySize = (if keyLenBits \<noteq> 0 then keyLenBits div 8 else 16)
           in if i = 12 then Inr (AesCBC keySize)
              else if i = 18 \<or> i = 19 \<or> i = 20 then Inr (AesGCM 16 keySize)
              else fail ''unsupported encryption algorithm'')"

definition GetEncrypter :: "u16 \<Rightarrow> Encrypter result" where
  "GetEncrypter i = GetEncrypterWithKeyLen i 0"

section \<open>The contract\<close>

definition overhead :: "Encrypter \<Rightarrow> nat" where
  "overhead e = (case e of AesCBC _ \<Rightarrow> 0 | AesGCM _ _ \<Rightarrow> 16)"

interpretation enc: encrypter "Encrypt e" "Decrypt e" "overhead e" for e
proof
  fix p k iv aad c
  assume c: "Encrypt e p k iv aad = Inr c"
  have "Decrypt e c k iv aad = Inr p \<and> length c = length p + overhead e"
  proof (cases e)
    case (AesCBC n)
    with c show ?thesis
      by (auto simp: Encrypt_def Decrypt_def overhead_def CBC_Encrypt_def CBC_Decrypt_def
          cbc_decrypt_encrypt split: if_splits)
  next
    case (AesGCM m n)
    with c show ?thesis
      by (auto simp: Encrypt_def Decrypt_def overhead_def GCM_Encrypt_def GCM_Decrypt_def Let_def
          gcm_open_seal simp del: length_append split: if_splits)
  qed
  then show "Decrypt e c k iv aad = Inr p" "length c = length p + overhead e" by auto
qed

text \<open>When a call succeeds, by the shape of its arguments alone.\<close>

definition enc_args_ok :: "Encrypter \<Rightarrow> bytes \<Rightarrow> bytes \<Rightarrow> bool" where
  "enc_args_ok e key iv \<longleftrightarrow> (case e of
     AesCBC _ \<Rightarrow> aes_key_ok key \<and> length iv = 16
   | AesGCM _ _ \<Rightarrow> 4 \<le> length key \<and> aes_key_ok (take (length key - 4) key) \<and> length iv = 8)"

lemma Encrypt_total:
  "enc_args_ok e key iv \<Longrightarrow> length p mod BlockSize e = 0 \<Longrightarrow> \<exists>c. Encrypt e p key iv aad = Inr c"
  by (cases e) (auto simp: enc_args_ok_def Encrypt_def CBC_Encrypt_def GCM_Encrypt_def BlockSize_def Let_def)

lemma Decrypt_no_panic: "enc_args_ok e key iv \<Longrightarrow> Decrypt e c key iv aad \<noteq> Inl Panic"
  by (cases e)
    (auto simp: enc_args_ok_def Decrypt_def CBC_Decrypt_def GCM_Decrypt_def gcm_open_def Let_def)

text \<open>GCM authenticates: what decrypts is what encrypting the result would produce.\<close>

lemma GCM_Decrypt_sound:
  "GCM_Decrypt c key iv aad = Inr p \<Longrightarrow> GCM_Encrypt p key iv aad = Inr c"
  by (auto simp: GCM_Decrypt_def GCM_Encrypt_def Let_def simp del: length_append
      dest: gcm_open_Inr split: if_splits)

section \<open>The effect on memory\<close>

text \<open>
  A byte slice as Go represents it: an offset into a backing array, a length and a capacity
  (counted from the offset; \<open>slice_ok\<close>: it ends inside the array).
\<close>

record go_slice_ref =
  ref_off :: nat
  ref_len :: nat
  ref_cap :: nat

definition slice_ok :: "bytes \<Rightarrow> go_slice_ref \<Rightarrow> bool" where
  "slice_ok mem s \<longleftrightarrow> ref_len s \<le> ref_cap s \<and> ref_off s + ref_cap s \<le> length mem"

definition slice_val :: "bytes \<Rightarrow> go_slice_ref \<Rightarrow> bytes" where
  "slice_val mem s = slice mem (ref_off s) (ref_off s + ref_len s)"

definition reslice :: "go_slice_ref \<Rightarrow> nat \<Rightarrow> nat \<Rightarrow> go_slice_ref" where
  "reslice s a b = \<lparr>ref_off = ref_off s + a, ref_len = b - a, ref_cap = ref_cap s - a\<rparr>"

text \<open>
  \<^verbatim>\<open>append(s, xs...)\<close>: in place when the capacity allows it, into a new array otherwise. The
  result is the backing array of \<^verbatim>\<open>s\<close> afterwards and the value of the expression.
\<close>

definition go_append :: "bytes \<Rightarrow> go_slice_ref \<Rightarrow> bytes \<Rightarrow> bytes \<times> bytes" where
  "go_append mem s xs =
     (if ref_len s + length xs \<le> ref_cap s then (copy_at mem (ref_off s + ref_len s) xs, slice_val mem s @ xs)
      else (mem, slice_val mem s @ xs))"

text \<open>The two calls with the key in \<open>mem\<close>; the operation is what follows the nonce.\<close>

definition GCM_mem :: "(bytes \<Rightarrow> bytes \<Rightarrow> bytes result) \<Rightarrow> bytes \<Rightarrow> go_slice_ref \<Rightarrow> bytes \<Rightarrow>
    bytes \<times> bytes result" where
  "GCM_mem operation mem key iv =
     (if ref_len key < 4 then (mem, fail ''key too short for GCM salt'')
      else let realKey = reslice key 0 (ref_len key - 4); salt = reslice key (ref_len key - 4) (ref_len key)
           in if \<not> aes_key_ok (slice_val mem realKey) then (mem, fail ''crypto/aes: invalid key size'')
              else let k = slice_val mem realKey; (mem', nonce) = go_append mem salt iv
                   in (mem', if length nonce \<noteq> 12 then Inl Panic else operation k nonce))"

definition GCM_Encrypt_mem ::
    "bytes \<Rightarrow> bytes \<Rightarrow> go_slice_ref \<Rightarrow> bytes \<Rightarrow> bytes \<Rightarrow> bytes \<times> bytes result" where
  "GCM_Encrypt_mem plaintext mem key iv aad =
     GCM_mem (\<lambda>k nonce. Inr (gcm_seal k nonce plaintext aad)) mem key iv"

definition GCM_Decrypt_mem ::
    "bytes \<Rightarrow> bytes \<Rightarrow> go_slice_ref \<Rightarrow> bytes \<Rightarrow> bytes \<Rightarrow> bytes \<times> bytes result" where
  "GCM_Decrypt_mem ciphertext mem key iv aad =
     GCM_mem (\<lambda>k nonce. gcm_open k nonce ciphertext aad) mem key iv"

lemma slice_val_reslice:
  "a \<le> b \<Longrightarrow> b \<le> ref_len s \<Longrightarrow> slice_val mem (reslice s a b) = slice (slice_val mem s) a b"
  by (simp add: slice_val_def reslice_def slice_def drop_take add.commute min_def)

lemma length_slice_val: "slice_ok mem s \<Longrightarrow> length (slice_val mem s) = ref_len s"
  by (simp add: slice_val_def slice_ok_def) linarith

lemma slice_to_end: "slice xs a (length xs) = drop a xs"
  by (simp add: slice_def)

text \<open>The value returned is that of the pure functions.\<close>

lemma GCM_mem_parts:
  assumes "slice_ok mem key" "4 \<le> ref_len key"
  shows "slice_val mem (reslice key 0 (ref_len key - 4)) =
      take (length (slice_val mem key) - 4) (slice_val mem key)"
    and "slice_val mem (reslice key (ref_len key - 4) (ref_len key)) =
      drop (length (slice_val mem key) - 4) (slice_val mem key)"
    and "length (slice_val mem key) = ref_len key"
proof -
  show ref_len: "length (slice_val mem key) = ref_len key"
    using assms(1) by (rule length_slice_val)
  show "slice_val mem (reslice key 0 (ref_len key - 4)) =
      take (length (slice_val mem key) - 4) (slice_val mem key)"
    by (simp add: slice_val_reslice ref_len)
  show "slice_val mem (reslice key (ref_len key - 4) (ref_len key)) =
      drop (length (slice_val mem key) - 4) (slice_val mem key)"
    using slice_to_end [of "slice_val mem key" "ref_len key - 4"] by (simp add: slice_val_reslice ref_len)
qed

lemma GCM_mem_result:
  assumes "slice_ok mem key"
  shows "snd (GCM_Encrypt_mem p mem key iv aad) = GCM_Encrypt p (slice_val mem key) iv aad"
    and "snd (GCM_Decrypt_mem p mem key iv aad) = GCM_Decrypt p (slice_val mem key) iv aad"
proof -
  have ref_len: "length (slice_val mem key) = ref_len key"
    using assms by (rule length_slice_val)
  show "snd (GCM_Encrypt_mem p mem key iv aad) = GCM_Encrypt p (slice_val mem key) iv aad"
    "snd (GCM_Decrypt_mem p mem key iv aad) = GCM_Decrypt p (slice_val mem key) iv aad"
    using GCM_mem_parts [OF assms] ref_len
    by (auto simp: GCM_Encrypt_mem_def GCM_Decrypt_mem_def GCM_mem_def GCM_Encrypt_def
        GCM_Decrypt_def go_append_def Let_def)
qed

text \<open>
  The memory effect: with room for the IV behind the key, the call overwrites the bytes that
  follow the key with the IV; without, memory is unchanged.
\<close>

lemma GCM_mem_effect:
  assumes "slice_ok mem key" "4 \<le> ref_len key" "aes_key_ok (take (ref_len key - 4) (slice_val mem key))"
  shows "fst (GCM_mem operation mem key iv) =
    (if ref_len key + length iv \<le> ref_cap key then copy_at mem (ref_off key + ref_len key) iv else mem)"
  using assms GCM_mem_parts [OF assms(1,2)]
  by (auto simp: GCM_mem_def go_append_def reslice_def Let_def)

end
