(* ===== verification/Crypto_Dh.thy ===== *)
theory Crypto_Dh
  imports Prelude
begin

text \<open>
  The Diffie-Hellman groups of \<^verbatim>\<open>pkg/crypto/diffiehellman.go\<close>: key generation from a random
  exponent, the range check on the peer's value, the shared secret and the fixed-width encodings.
  Both sides compute the same secret, and values outside \<open>1 < y < p - 1\<close> are refused.
\<close>

section \<open>Numbers as big.Int has them\<close>

definition SetBytes :: "bytes \<Rightarrow> nat" where
  "SetBytes bs = foldl (\<lambda>n b. 256 * n + unat b) 0 bs"

text \<open>\<^verbatim>\<open>Bytes\<close>: big-endian without leading zeros; \<^verbatim>\<open>BitLen\<close>; \<^verbatim>\<open>Exp\<close> by squaring.\<close>

fun int_Bytes :: "nat \<Rightarrow> bytes" where
  "int_Bytes n = (if n = 0 then [] else int_Bytes (n div 256) @ [of_nat (n mod 256)])"

declare int_Bytes.simps [simp del]

fun BitLen :: "nat \<Rightarrow> nat" where
  "BitLen n = (if n = 0 then 0 else Suc (BitLen (n div 2)))"

declare BitLen.simps [simp del]

fun mod_exp :: "nat \<Rightarrow> nat \<Rightarrow> nat \<Rightarrow> nat" where
  "mod_exp b e m =
     (if e = 0 then 1 mod m
      else let h = mod_exp b (e div 2) m; s = h * h mod m
           in if even e then s else s * b mod m)"

declare mod_exp.simps [simp del]

lemma mod_exp_power: "mod_exp b e m = b ^ e mod m"
proof (induction b e m rule: mod_exp.induct)
  case (1 b e m)
  show ?case
  proof (cases "e = 0")
    case False
    let ?h = "b ^ (e div 2)"
    have h: "mod_exp b (e div 2) m = ?h mod m" using 1 False by simp
    have sq: "(?h mod m) * (?h mod m) mod m = ?h * ?h mod m" by (rule mod_mult_eq)
    have odd: "?h * ?h mod m * b mod m = ?h * ?h * b mod m" by (rule mod_mult_left_eq)
    have "mod_exp b e m = (if even e then ?h * ?h else ?h * ?h * b) mod m"
      using False by (subst mod_exp.simps) (cases "even e"; simp only: h sq odd Let_def if_False if_True simp_thms)
    also have "(if even e then ?h * ?h else ?h * ?h * b) = b ^ e"
      by (cases "even e") (auto elim!: evenE oddE simp: power_add mult_2)
    finally show ?thesis .
  qed (subst mod_exp.simps, simp)
qed

lemma SetBytes_snoc: "SetBytes (bs @ [b]) = 256 * SetBytes bs + unat b"
  by (simp add: SetBytes_def)

lemma SetBytes_int_Bytes [simp]: "SetBytes (int_Bytes n) = n"
proof (induction n rule: int_Bytes.induct)
  case (1 n)
  then show ?case
    by (subst int_Bytes.simps) (simp add: SetBytes_snoc, simp add: SetBytes_def)
qed

lemma SetBytes_zeros [simp]: "SetBytes (replicate n 0 @ bs) = SetBytes bs"
  by (induction n) (simp_all add: SetBytes_def)

lemma length_int_Bytes: "n < 256 ^ k \<Longrightarrow> length (int_Bytes n) \<le> k"
proof (induction k arbitrary: n)
  case (Suc k)
  then have "n div 256 < 256 ^ k" by (simp add: less_mult_imp_div_less mult.commute)
  with Suc.IH show ?case by (subst int_Bytes.simps) simp
qed (simp add: int_Bytes.simps)

lemma BitLen_eq: "2 ^ k \<le> n \<Longrightarrow> n < 2 ^ Suc k \<Longrightarrow> BitLen n = Suc k"
proof (induction k arbitrary: n)
  case 0
  then have "n = 1" by simp
  then show ?case by (simp add: BitLen.simps)
next
  case (Suc k)
  then have "2 ^ k \<le> n div 2" "n div 2 < 2 ^ Suc k" "n \<noteq> 0"
    by (auto simp: less_mult_imp_div_less mult.commute)
  with Suc.IH show ?case by (subst BitLen.simps) simp
qed

section \<open>The groups\<close>

definition prime1024 :: nat where
  "prime1024 = 0xFFFFFFFFFFFFFFFFC90FDAA22168C234C4C6628B80DC1CD129024E088A67CC74020BBEA63B139B22514A08798E3404DDEF9519B3CD3A431B302B0A6DF25F14374FE1356D6D51C245E485B576625E7EC6F44C42E9A637ED6B0BFF5CB6F406B7EDEE386BFB5A899FA5AE9F24117C4B1FE649286651ECE65381FFFFFFFFFFFFFFFF"

definition prime2048 :: nat where
  "prime2048 = 0xFFFFFFFFFFFFFFFFC90FDAA22168C234C4C6628B80DC1CD129024E088A67CC74020BBEA63B139B22514A08798E3404DDEF9519B3CD3A431B302B0A6DF25F14374FE1356D6D51C245E485B576625E7EC6F44C42E9A637ED6B0BFF5CB6F406B7EDEE386BFB5A899FA5AE9F24117C4B1FE649286651ECE45B3DC2007CB8A163BF0598DA48361C55D39A69163FA8FD24CF5F83655D23DCA3AD961C62F356208552BB9ED529077096966D670C354E4ABC9804F1746C08CA18217C32905E462E36CE3BE39E772C180E86039B2783A2EC07A28FB5C55DF06F4C52C9DE2BCBF6955817183995497CEA956AE515D2261898FA051015728E5A8AACAA68FFFFFFFFFFFFFFFF"

record DiffieHellman =
  Group :: u16
  PrivateKey :: "nat option"
  PublicKey :: "nat option"
  SharedKey :: "bytes option"
  dh_P :: nat
  dh_G :: nat

definition NewDiffieHellman :: "u16 \<Rightarrow> DiffieHellman result" where
  "NewDiffieHellman grp =
     (let dh = \<lparr>Group = grp, PrivateKey = None, PublicKey = None, SharedKey = None,
                dh_P = 0, dh_G = 0\<rparr>
      in if grp = 2 then Inr (dh\<lparr>dh_P := prime1024, dh_G := 2\<rparr>)
         else if grp = 14 then Inr (dh\<lparr>dh_P := prime2048, dh_G := 2\<rparr>)
         else fail ''unsupported DH group'')"

text \<open>\<open>rnd\<close> is what \<^verbatim>\<open>rand.Int(rand.Reader, dh.P)\<close> returned.\<close>

definition GenerateKey :: "nat result \<Rightarrow> DiffieHellman \<Rightarrow> DiffieHellman result" where
  "GenerateKey rnd dh =
     rbind rnd (\<lambda>x. Inr (dh\<lparr>PrivateKey := Some x, PublicKey := Some (mod_exp (dh_G dh) x (dh_P dh))\<rparr>))"

definition left_pad :: "nat \<Rightarrow> bytes \<Rightarrow> bytes" where
  "left_pad n bs = (if length bs < n then replicate (n - length bs) 0 @ bs else bs)"

text \<open>The call stores the secret and returns it; without a private key \<^verbatim>\<open>Exp\<close> panics.\<close>

definition ComputeSharedSecret :: "DiffieHellman \<Rightarrow> bytes \<Rightarrow> (DiffieHellman \<times> bytes) result" where
  "ComputeSharedSecret dh peerPubKeyBytes =
     (let peerPubKey = SetBytes peerPubKeyBytes
      in if peerPubKey \<le> 1 \<or> dh_P dh \<le> peerPubKey + 1 then fail ''invalid peer public key''
         else case PrivateKey dh of None \<Rightarrow> Inl Panic
         | Some x \<Rightarrow>
             let secret = mod_exp peerPubKey x (dh_P dh);
                 keyLen = (BitLen (dh_P dh) + 7) div 8;
                 key = left_pad keyLen (int_Bytes secret)
             in Inr (dh\<lparr>SharedKey := Some key\<rparr>, key))"

definition PublicKeyBytes :: "DiffieHellman \<Rightarrow> bytes result" where
  "PublicKeyBytes dh =
     (case PublicKey dh of None \<Rightarrow> Inl Panic
      | Some y \<Rightarrow> Inr (left_pad ((BitLen (dh_P dh) + 7) div 8) (int_Bytes y)))"

section \<open>Sizes\<close>

lemma prime_bounds:
  "2 ^ 1023 \<le> prime1024" "prime1024 < 2 ^ 1024" "2 ^ 2047 \<le> prime2048" "prime2048 < 2 ^ 2048"
  by (simp_all add: prime1024_def prime2048_def)

lemma BitLen_primes: "BitLen prime1024 = 1024" "BitLen prime2048 = 2048"
  using prime_bounds BitLen_eq [of 1023 prime1024] BitLen_eq [of 2047 prime2048] by simp_all

section \<open>Agreement\<close>

text \<open>A key pair of one of the groups, as \<^verbatim>\<open>NewDiffieHellman\<close> and \<^verbatim>\<open>GenerateKey\<close> leave it.\<close>

definition dh_keypair :: "u16 \<Rightarrow> nat \<Rightarrow> DiffieHellman \<Rightarrow> bool" where
  "dh_keypair grp x dh \<longleftrightarrow> (\<exists>dh0. NewDiffieHellman grp = Inr dh0 \<and> GenerateKey (Inr x) dh0 = Inr dh)"

definition group_size :: "u16 \<Rightarrow> nat" where
  "group_size grp = (if grp = 2 then 128 else 256)"

lemma keypair_fields:
  assumes "dh_keypair grp x dh"
  shows "PrivateKey dh = Some x" "PublicKey dh = Some (2 ^ x mod dh_P dh)"
    "(BitLen (dh_P dh) + 7) div 8 = group_size grp" "dh_P dh < 256 ^ group_size grp" "0 < dh_P dh"
    "dh_P dh = (if grp = 2 then prime1024 else prime2048)"
proof -
  have dh: "grp = 2 \<and> dh_P dh = prime1024 \<or> grp = 14 \<and> dh_P dh = prime2048"
      "PrivateKey dh = Some x" "PublicKey dh = Some (2 ^ x mod dh_P dh)"
    using assms
    by (auto simp: dh_keypair_def NewDiffieHellman_def GenerateKey_def mod_exp_power Let_def
        split: if_splits)
  then show "PrivateKey dh = Some x" "PublicKey dh = Some (2 ^ x mod dh_P dh)" by auto
  show "(BitLen (dh_P dh) + 7) div 8 = group_size grp"
    using dh(1) by (auto simp: BitLen_primes group_size_def)
  have "(256 :: nat) ^ 128 = 2 ^ 1024" "(256 :: nat) ^ 256 = 2 ^ 2048" by simp_all
  then show "dh_P dh < 256 ^ group_size grp"
    using dh(1) prime_bounds by (auto simp: group_size_def)
  show "0 < dh_P dh" using dh(1) by (auto simp: prime1024_def prime2048_def)
  show "dh_P dh = (if grp = 2 then prime1024 else prime2048)" using dh(1) by auto
qed

lemma left_pad_length: "length bs \<le> n \<Longrightarrow> length (left_pad n bs) = n"
  by (simp add: left_pad_def)

lemma SetBytes_left_pad [simp]: "SetBytes (left_pad n bs) = SetBytes bs"
  by (simp add: left_pad_def)

lemma PublicKeyBytes_ok:
  assumes "dh_keypair grp x dh"
  obtains bs where "PublicKeyBytes dh = Inr bs" "length bs = group_size grp"
    "SetBytes bs = 2 ^ x mod dh_P dh"
proof -
  have "2 ^ x mod dh_P dh < 256 ^ group_size grp"
    using keypair_fields [OF assms] by (meson less_trans mod_less_divisor)
  then show thesis
    using that keypair_fields [OF assms]
    by (simp add: PublicKeyBytes_def left_pad_length length_int_Bytes)
qed

lemma ComputeSharedSecret_iff:
  assumes "dh_keypair grp x dh"
  shows "(\<exists>dh' k. ComputeSharedSecret dh pk = Inr (dh', k)) \<longleftrightarrow>
    1 < SetBytes pk \<and> SetBytes pk + 1 < dh_P dh"
  using keypair_fields [OF assms] by (auto simp: ComputeSharedSecret_def Let_def)

lemma ComputeSharedSecret_value:
  assumes "dh_keypair grp x dh" "ComputeSharedSecret dh pk = Inr (dh', k)"
  shows "k = left_pad (group_size grp) (int_Bytes (mod_exp (SetBytes pk) x (dh_P dh)))"
  using assms(2) keypair_fields(1,3) [OF assms(1)]
  by (auto simp: ComputeSharedSecret_def Let_def split: if_splits)

lemma ComputeSharedSecret_length:
  assumes "dh_keypair grp x dh" "ComputeSharedSecret dh pk = Inr (dh', k)"
  shows "length k = group_size grp \<and> SharedKey dh' = Some k"
proof -
  have "mod_exp (SetBytes pk) x (dh_P dh) < 256 ^ group_size grp"
    using keypair_fields [OF assms(1)] unfolding mod_exp_power by (meson less_trans mod_less_divisor)
  then show ?thesis
    using assms(2) keypair_fields [OF assms(1)]
    by (auto simp: ComputeSharedSecret_def Let_def left_pad_length length_int_Bytes split: if_splits)
qed

lemma dh_agree:
  assumes a: "dh_keypair grp x a" and b: "dh_keypair grp y b"
    and "PublicKeyBytes a = Inr pa" "PublicKeyBytes b = Inr pb"
    and "ComputeSharedSecret a pb = Inr (a', ka)" "ComputeSharedSecret b pa = Inr (b', kb)"
  shows "ka = kb"
proof -
  have pub: "SetBytes pa = 2 ^ x mod dh_P a" "SetBytes pb = 2 ^ y mod dh_P b"
    using PublicKeyBytes_ok [OF a] PublicKeyBytes_ok [OF b] assms(3,4) by (metis Inr_inject)+
  have eq: "dh_P a = dh_P b"
    unfolding keypair_fields(6) [OF a] keypair_fields(6) [OF b] by (rule refl)
  have "(2 ^ y mod dh_P b) ^ x mod dh_P a = (2 ^ x mod dh_P a) ^ y mod dh_P b"
    unfolding eq power_mod power_mult [symmetric] by (simp only: mult.commute)
  then have secret: "mod_exp (SetBytes pb) x (dh_P a) = mod_exp (SetBytes pa) y (dh_P b)"
    by (simp only: mod_exp_power pub(1,2))
  have "ka = left_pad (group_size grp) (int_Bytes (mod_exp (SetBytes pb) x (dh_P a)))"
    by (rule ComputeSharedSecret_value [OF a assms(5)])
  moreover have "kb = left_pad (group_size grp) (int_Bytes (mod_exp (SetBytes pa) y (dh_P b)))"
    by (rule ComputeSharedSecret_value [OF b assms(6)])
  ultimately show ?thesis by (simp only: secret)
qed

end
