(* ===== verification/Crypto_Milenage.thy ===== *)
theory Crypto_Milenage
  imports Std_Aes
begin

text \<open>
  The Milenage functions of \<^verbatim>\<open>pkg/crypto/milenage.go\<close>: f1 to f5*, the authentication token, its
  verification and the resynchronisation token, over the AES of \<open>Std_Aes\<close>. The functions f2
  to f5* are those of 3GPP TS 35.206; f1 rotates the wrong operand, and the last section says
  exactly when its output is still the standard's.
\<close>

section \<open>Keys\<close>

record Milenage =
  mil_K :: bytes
  mil_OP :: bytes
  mil_OPc :: bytes

definition computeOPc :: "Milenage \<Rightarrow> Milenage" where
  "computeOPc m = m\<lparr>mil_OPc := xor_bytes (aes_enc_block (mil_K m) (mil_OP m)) (mil_OP m)\<rparr>"

definition NewMilenage :: "bytes \<Rightarrow> bytes \<Rightarrow> bool \<Rightarrow> Milenage result" where
  "NewMilenage k op useOPc =
     (if length k \<noteq> 16 \<or> length op \<noteq> 16 then fail ''K and OP/OPc must be 16 bytes''
      else let m = \<lparr>mil_K = k, mil_OP = op, mil_OPc = replicate 16 0\<rparr>
           in Inr (if useOPc then m\<lparr>mil_OPc := op\<rparr> else computeOPc m))"

text \<open>The arrays have 16 bytes.\<close>

definition mil_wf :: "Milenage \<Rightarrow> bool" where
  "mil_wf m \<longleftrightarrow> length (mil_K m) = 16 \<and> length (mil_OPc m) = 16"

section \<open>The functions\<close>

definition rotate16 :: "bytes \<Rightarrow> nat \<Rightarrow> bytes" where
  "rotate16 data bits = (let byteShift = bits div 8 in map (\<lambda>i. data ! ((i + byteShift) mod 16)) [0..<16])"

text \<open>\<open>TEMP = AES_K(RAND xor OPc)\<close>, the first block of every function.\<close>

definition mil_temp :: "Milenage \<Rightarrow> bytes \<Rightarrow> bytes" where
  "mil_temp m rand = aes_enc_block (mil_K m) (xor_bytes rand (mil_OPc m))"

text \<open>\<^verbatim>\<open>tmp[15] ^= c\<close>.\<close>

definition xor_last :: "bytes \<Rightarrow> byte \<Rightarrow> bytes" where
  "xor_last tmp c = tmp[15 := tmp ! 15 XOR c]"

definition F1 :: "Milenage \<Rightarrow> bytes \<Rightarrow> bytes \<Rightarrow> bytes \<Rightarrow> (bytes \<times> bytes) result" where
  "F1 m rand sqn amf =
     (if length rand \<noteq> 16 \<or> length sqn \<noteq> 6 \<or> length amf \<noteq> 2 then fail ''F1: bad argument length''
      else let temp = mil_temp m rand;
               in1 = sqn @ amf @ sqn @ amf;
               tmp = rotate16 (xor_bytes temp (mil_OPc m)) 64;
               tmp = xor_bytes tmp in1;
               tmp = xor_bytes (aes_enc_block (mil_K m) tmp) (mil_OPc m)
           in Inr (slice tmp 0 8, slice tmp 8 16))"

definition F2F5 :: "Milenage \<Rightarrow> bytes \<Rightarrow> (bytes \<times> bytes) result" where
  "F2F5 m rand =
     (if length rand \<noteq> 16 then fail ''F2F5: RAND must be 16 bytes''
      else let temp = mil_temp m rand;
               tmp = xor_last (xor_bytes temp (mil_OPc m)) 1;
               tmp = xor_bytes (aes_enc_block (mil_K m) tmp) (mil_OPc m)
           in Inr (slice tmp 8 16, slice tmp 0 6))"

definition F3 :: "Milenage \<Rightarrow> bytes \<Rightarrow> bytes result" where
  "F3 m rand =
     (if length rand \<noteq> 16 then fail ''F3: RAND must be 16 bytes''
      else let temp = mil_temp m rand;
               tmp = xor_last (rotate16 (xor_bytes temp (mil_OPc m)) 32) 2
           in Inr (xor_bytes (aes_enc_block (mil_K m) tmp) (mil_OPc m)))"

definition F4 :: "Milenage \<Rightarrow> bytes \<Rightarrow> bytes result" where
  "F4 m rand =
     (if length rand \<noteq> 16 then fail ''F4: RAND must be 16 bytes''
      else let temp = mil_temp m rand;
               tmp = xor_last (rotate16 (xor_bytes temp (mil_OPc m)) 64) 4
           in Inr (xor_bytes (aes_enc_block (mil_K m) tmp) (mil_OPc m)))"

definition F5Star :: "Milenage \<Rightarrow> bytes \<Rightarrow> bytes result" where
  "F5Star m rand =
     (if length rand \<noteq> 16 then fail ''F5Star: RAND must be 16 bytes''
      else let temp = mil_temp m rand;
               tmp = xor_last (rotate16 (xor_bytes temp (mil_OPc m)) 96) 8;
               tmp = xor_bytes (aes_enc_block (mil_K m) tmp) (mil_OPc m)
           in Inr (slice tmp 0 6))"

section \<open>Sequence numbers\<close>

definition decodeSQN :: "bytes \<Rightarrow> u64" where
  "decodeSQN data =
     (if length data < 6 then 0
      else push_bit 40 (ucast (data ! 0)) OR push_bit 32 (ucast (data ! 1)) OR
           push_bit 24 (ucast (data ! 2)) OR push_bit 16 (ucast (data ! 3)) OR
           push_bit 8 (ucast (data ! 4)) OR ucast (data ! 5))"

definition EncodeSQN :: "u64 \<Rightarrow> bytes" where
  "EncodeSQN sqn = put16 (ucast (drop_bit 32 sqn)) @ put32 (ucast sqn)"

lemma length_EncodeSQN [simp]: "length (EncodeSQN s) = 6"
  by (simp add: EncodeSQN_def)

section \<open>Tokens\<close>

definition GenerateAUTN :: "Milenage \<Rightarrow> bytes \<Rightarrow> bytes \<Rightarrow> bytes \<Rightarrow> bytes result" where
  "GenerateAUTN m rand sqn amf =
     rbind (F2F5 m rand) (\<lambda>(_, ak).
     rbind (F1 m rand sqn amf) (\<lambda>(macA, _).
       Inr (xor_bytes sqn ak @ amf @ macA)))"

definition GenerateAUTS :: "Milenage \<Rightarrow> bytes \<Rightarrow> bytes \<Rightarrow> bytes result" where
  "GenerateAUTS m rand sqn =
     rbind (F5Star m rand) (\<lambda>akStar.
     rbind (F1 m rand sqn [0, 0]) (\<lambda>(_, macS).
       Inr (xor_bytes sqn akStar @ macS)))"

text \<open>
  The four results and the error: a success has RES, CK and IK, a sequence number below the
  expected one has the resynchronisation token besides the error.
\<close>

datatype autn_result =
    AutnOk bytes bytes bytes
  | AutnSync bytes err

definition VerifyAUTN :: "Milenage \<Rightarrow> bytes \<Rightarrow> bytes \<Rightarrow> u64 \<Rightarrow> autn_result result" where
  "VerifyAUTN m rand autn expectedSQN =
     (if length rand \<noteq> 16 \<or> length autn \<noteq> 16 then fail ''VerifyAUTN: bad argument length''
      else rbind (F2F5 m rand) (\<lambda>(resVal, ak).
        let sqn = xor_bytes (slice autn 0 6) ak;
            amf = slice autn 6 8;
            receivedMAC = slice autn 8 16
        in rbind (F1 m rand sqn amf) (\<lambda>(macA, _).
           if macA \<noteq> receivedMAC then fail ''MAC verification failed''
           else if decodeSQN sqn < expectedSQN
           then rbind (GenerateAUTS m rand sqn) (\<lambda>auts. Inr (AutnSync auts (Msg ''SQN out of sync'')))
           else rbind (F3 m rand) (\<lambda>ck.
                rbind (F4 m rand) (\<lambda>ik.
                  Inr (AutnOk resVal ck ik))))))"

section \<open>Sizes\<close>

lemma length_rotate16 [simp]: "length (rotate16 d b) = 16"
  by (simp add: rotate16_def Let_def)

lemma length_xor_last [simp]: "length (xor_last d c) = length d"
  by (simp add: xor_last_def)

lemma mil_key: "mil_wf m \<Longrightarrow> aes_key_ok (mil_K m)"
  by (simp add: mil_wf_def aes_key_ok_def)

lemma length_mil_enc:
  "mil_wf m \<Longrightarrow> length b = 16 \<Longrightarrow> length (aes_enc_block (mil_K m) b) = 16"
  by (simp add: mil_key aes.length_E)

lemma length_mil_temp: "mil_wf m \<Longrightarrow> length rand = 16 \<Longrightarrow> length (mil_temp m rand) = 16"
  by (simp add: mil_temp_def length_mil_enc mil_wf_def)

lemma NewMilenage_wf: "NewMilenage k op u = Inr m \<Longrightarrow> mil_wf m"
  by (auto simp: NewMilenage_def mil_wf_def computeOPc_def Let_def aes.length_E aes_key_ok_def
      split: if_splits)

lemma F_total:
  assumes "mil_wf m" "length rand = 16"
  shows "\<exists>res ak. F2F5 m rand = Inr (res, ak) \<and> length res = 8 \<and> length ak = 6"
    and "\<exists>ck. F3 m rand = Inr ck \<and> length ck = 16"
    and "\<exists>ik. F4 m rand = Inr ik \<and> length ik = 16"
    and "\<exists>ak. F5Star m rand = Inr ak \<and> length ak = 6"
    and "length sqn = 6 \<Longrightarrow> length amf = 2 \<Longrightarrow>
      \<exists>ma ms. F1 m rand sqn amf = Inr (ma, ms) \<and> length ma = 8 \<and> length ms = 8"
  using assms
  by (simp_all add: F2F5_def F3_def F4_def F5Star_def F1_def Let_def length_mil_enc length_mil_temp
      mil_wf_def)

section \<open>Verification accepts generated tokens\<close>

lemma GenerateAUTN_ok:
  assumes "mil_wf m" "length rand = 16" "length sqn = 6" "length amf = 2"
  shows "\<exists>autn. GenerateAUTN m rand sqn amf = Inr autn \<and> length autn = 16"
  using F_total(1) [OF assms(1,2)] F_total(5) [OF assms]
  by (auto simp: GenerateAUTN_def assms)

lemma VerifyAUTN_GenerateAUTN:
  assumes "mil_wf m" "length rand = 16" "length sqn = 6" "length amf = 2"
    and gen: "GenerateAUTN m rand sqn amf = Inr autn"
  shows "VerifyAUTN m rand autn expected =
    (if decodeSQN sqn < expected
     then rbind (GenerateAUTS m rand sqn) (\<lambda>auts. Inr (AutnSync auts (Msg ''SQN out of sync'')))
     else rbind (F2F5 m rand) (\<lambda>(res, _). rbind (F3 m rand) (\<lambda>ck. rbind (F4 m rand) (\<lambda>ik.
            Inr (AutnOk res ck ik)))))"
proof -
  obtain res ak where ak: "F2F5 m rand = Inr (res, ak)" "length ak = 6"
    using F_total(1) [OF assms(1,2)] by auto
  obtain ma ms where ma: "F1 m rand sqn amf = Inr (ma, ms)" "length ma = 8"
    using F_total(5) [OF assms(1-4)] by auto
  have autn: "autn = xor_bytes sqn ak @ amf @ ma"
    using gen ak ma by (simp add: GenerateAUTN_def)
  have "slice autn 0 6 = xor_bytes sqn ak" "slice autn 6 8 = amf" "slice autn 8 16 = ma"
    "length autn = 16"
    using assms ak ma by (simp_all add: autn slice_def)
  then show ?thesis
    using assms ak ma by (simp add: VerifyAUTN_def)
qed

text \<open>Nothing else is accepted: the token determines sequence number, AMF and MAC.\<close>

lemma VerifyAUTN_sound:
  assumes "mil_wf m" "VerifyAUTN m rand autn expected = Inr r"
  shows "\<exists>sqn amf. GenerateAUTN m rand sqn amf = Inr autn"
proof -
  from assms(2) have len: "length rand = 16" "length autn = 16"
    by (auto simp: VerifyAUTN_def split: if_splits)
  obtain res ak where ak: "F2F5 m rand = Inr (res, ak)" "length ak = 6"
    using F_total(1) [OF assms(1) len(1)] by auto
  define sqn where "sqn = xor_bytes (take 6 autn) ak"
  obtain ma ms where ma: "F1 m rand sqn (slice autn 6 8) = Inr (ma, ms)"
    using F_total(5) [OF assms(1) len(1), of sqn "slice autn 6 8"] len ak by (auto simp: sqn_def)
  have "ma = slice autn 8 16"
    using assms(2) ak ma len by (auto simp: VerifyAUTN_def sqn_def [symmetric] Let_def split: if_splits)
  moreover have "xor_bytes sqn ak = take 6 autn"
    unfolding sqn_def using ak len by simp
  moreover have "take 6 autn @ slice autn 6 8 @ slice autn 8 16 = autn"
    using len slice_split(1) [of 0 8 16 autn] slice_split(2) [of 0 6 8 autn "slice autn 8 16"] by simp
  ultimately have "GenerateAUTN m rand sqn (slice autn 6 8) = Inr autn"
    using ak ma by (simp add: GenerateAUTN_def)
  then show ?thesis by blast
qed

section \<open>Sequence numbers round trip\<close>

text \<open>48 bits of the counter survive.\<close>

lemma ucast_drop_ucast:
  "k + 8 \<le> LENGTH('b) \<Longrightarrow>
     (ucast (drop_bit k (ucast (w :: u64) :: 'b::len word)) :: byte) = ucast (drop_bit k w)"
  by (intro bit_word_eqI) (auto simp: bit_ucast_iff bit_drop_bit_eq)

lemma ucast_ucast_byte:
  "8 \<le> LENGTH('b) \<Longrightarrow> (ucast (ucast (w :: u64) :: 'b::len word) :: byte) = ucast w"
  by (intro bit_word_eqI) (auto simp: bit_ucast_iff)

lemma decodeSQN_EncodeSQN: "decodeSQN (EncodeSQN s) = take_bit 48 s"
proof (rule bit_word_eqI)
  fix n assume n: "n < LENGTH(64)"
  have d: "decodeSQN (EncodeSQN s) =
      push_bit 40 (ucast (ucast (drop_bit 40 s) :: byte)) OR
      push_bit 32 (ucast (ucast (drop_bit 32 s) :: byte)) OR
      push_bit 24 (ucast (ucast (drop_bit 24 s) :: byte)) OR
      push_bit 16 (ucast (ucast (drop_bit 16 s) :: byte)) OR
      push_bit 8 (ucast (ucast (drop_bit 8 s) :: byte)) OR ucast (ucast s :: byte)"
    by (simp add: decodeSQN_def EncodeSQN_def put16_def put32_def ucast_drop_ucast ucast_ucast_byte)
  consider "n < 8" | "8 \<le> n \<and> n < 16" | "16 \<le> n \<and> n < 24" | "24 \<le> n \<and> n < 32" | "32 \<le> n \<and> n < 40"
    | "40 \<le> n \<and> n < 48" | "48 \<le> n" by linarith
  then show "bit (decodeSQN (EncodeSQN s)) n \<longleftrightarrow> bit (take_bit 48 s) n"
    using n
    by cases (auto simp: d bit_or_iff bit_push_bit_iff bit_ucast_iff bit_drop_bit_eq bit_take_bit_iff
      simp del: push_bit_or)
qed

section \<open>f1 and the standard\<close>

text \<open>TS 35.206: \<open>OUT1 = E_K(TEMP xor rot(IN1 xor OPc, r1) xor c1) xor OPc\<close>.\<close>

definition F1_standard :: "Milenage \<Rightarrow> bytes \<Rightarrow> bytes \<Rightarrow> bytes \<Rightarrow> bytes \<times> bytes" where
  "F1_standard m rand sqn amf =
     (let in1 = sqn @ amf @ sqn @ amf;
          tmp = xor_bytes (mil_temp m rand) (rotate16 (xor_bytes in1 (mil_OPc m)) 64);
          out = xor_bytes (aes_enc_block (mil_K m) tmp) (mil_OPc m)
      in (slice out 0 8, slice out 8 16))"

lemma rotate16_64: "length d = 16 \<Longrightarrow> rotate16 d 64 = drop 8 d @ take 8 d"
  by (intro nth_equalityI) (auto simp: rotate16_def Let_def nth_append mod_if add.commute)

lemma rotate16_xor:
  "length a = 16 \<Longrightarrow> length b = 16 \<Longrightarrow> rotate16 (xor_bytes a b) n = xor_bytes (rotate16 a n) (rotate16 b n)"
  by (intro nth_equalityI) (auto simp: rotate16_def Let_def xor_bytes_def)

lemma xor_bytes_assoc: "xor_bytes (xor_bytes a b) c = xor_bytes a (xor_bytes b c)"
proof (induction a arbitrary: b c)
  case (Cons x a)
  then show ?case by (cases b; cases c) (auto simp: xor.assoc)
qed simp

lemma xor_bytes_right_eq:
  "length a = length c \<Longrightarrow> length b = length c \<Longrightarrow> xor_bytes a c = xor_bytes b c \<longleftrightarrow> a = b"
  by (rule iffI, drule arg_cong [where f = "\<lambda>x. xor_bytes x c"]) simp_all

lemma halves_eq:
  "length a = 16 \<Longrightarrow> length b = 16 \<Longrightarrow>
     (slice a 0 8, slice a 8 16) = (slice b 0 8, slice b 8 16) \<longleftrightarrow> a = b"
proof -
  assume "length a = 16" "length b = 16"
  then have "a = slice a 0 8 @ slice a 8 16" "b = slice b 0 8 @ slice b 8 16"
    using slice_split(1) [of 0 8 16 a] slice_split(1) [of 0 8 16 b] by simp_all
  then show ?thesis by (metis prod.inject)
qed

lemma F1_standard_iff:
  assumes m: "mil_wf m" and len: "length rand = 16" "length sqn = 6" "length amf = 2"
  shows "F1 m rand sqn amf = Inr (F1_standard m rand sqn amf) \<longleftrightarrow>
    rotate16 (mil_temp m rand) 64 = mil_temp m rand"
proof -
  let ?T = "mil_temp m rand" and ?O = "mil_OPc m" and ?in = "sqn @ amf @ sqn @ amf"
  let ?E = "aes_enc_block (mil_K m)"
  let ?a = "xor_bytes (rotate16 (xor_bytes ?T ?O) 64) ?in"
    and ?b = "xor_bytes ?T (rotate16 (xor_bytes ?in ?O) 64)"
  have lens: "length ?T = 16" "length ?O = 16" "length ?in = 16"
    using m len length_mil_temp by (auto simp: mil_wf_def)
  have rot_in: "rotate16 ?in 64 = ?in" using len by (simp add: rotate16_64)
  have "?a = xor_bytes (rotate16 ?T 64) (xor_bytes (rotate16 ?O 64) ?in)"
    using lens by (simp add: rotate16_xor xor_bytes_assoc)
  moreover have "?b = xor_bytes ?T (xor_bytes (rotate16 ?O 64) ?in)"
    unfolding rotate16_xor [OF lens(3,2)] rot_in by (simp add: xor_bytes_commute)
  ultimately have ab: "?a = ?b \<longleftrightarrow> rotate16 ?T 64 = ?T"
    using lens by (simp add: xor_bytes_right_eq)
  have la: "length ?a = 16" "length ?b = 16" using lens by simp_all
  then have lE: "length (?E ?a) = 16" "length (?E ?b) = 16" by (simp_all add: length_mil_enc [OF m])
  have "F1 m rand sqn amf = Inr (F1_standard m rand sqn amf) \<longleftrightarrow>
      xor_bytes (?E ?a) ?O = xor_bytes (?E ?b) ?O"
    using halves_eq [of "xor_bytes (?E ?a) ?O" "xor_bytes (?E ?b) ?O"] lens lE len
    by (simp add: F1_def F1_standard_def Let_def del: slice_0 append_assoc)
  also have "\<dots> \<longleftrightarrow> ?E ?a = ?E ?b" using lens lE by (simp add: xor_bytes_right_eq)
  also have "\<dots> \<longleftrightarrow> ?a = ?b"
    using aes.E_inj [OF mil_key [OF m] la] by auto
  finally show ?thesis using ab by simp
qed

end
