(* ===== verification/Crypto_Fips.thy ===== *)
theory Crypto_Fips
  imports Crypto_Dh Std_Hash
begin

text \<open>
  The key generator of EAP-AKA, the FIPS 186-2 generator with SHA-1 of
  \<^verbatim>\<open>pkg/crypto/fips_prf.go\<close>. Its 20-byte arithmetic is addition modulo \<open>2^160\<close>, its one-block
  hash is the compression function of SHA-1, and its output refines the recurrence of the
  standard on numbers.
\<close>

section \<open>Arithmetic on 20 bytes\<close>

text \<open>The loop of \<^verbatim>\<open>addMod20\<close>, from the last byte to the first.\<close>

fun add_carry :: "bytes \<Rightarrow> bytes \<Rightarrow> nat \<Rightarrow> bytes" where
  "add_carry (x # xs) (y # ys) carry =
     (let s = unat x + unat y + carry in of_nat (s mod 256) # add_carry xs ys (s div 256))"
| "add_carry _ _ carry = []"

definition addMod20 :: "bytes \<Rightarrow> bytes \<Rightarrow> bytes" where
  "addMod20 a b = rev (add_carry (rev a) (rev b) 0)"

lemma length_add_carry [simp]: "length (add_carry xs ys c) = min (length xs) (length ys)"
  by (induction xs ys c rule: add_carry.induct) (auto simp: Let_def)

lemma length_addMod20 [simp]: "length (addMod20 a b) = min (length a) (length b)"
  by (simp add: addMod20_def)

lemma SetBytes_rev_Cons: "SetBytes (rev (x # xs)) = unat x + 256 * SetBytes (rev xs)"
  by (simp add: SetBytes_snoc)

lemma SetBytes_less: "SetBytes bs < 256 ^ length bs"
proof (induction bs rule: rev_induct)
  case (snoc b bs)
  have "256 * SetBytes bs + unat b < 256 * (SetBytes bs + 1)"
    using unat_byte_less [of b] by simp
  also have "\<dots> \<le> 256 * 256 ^ length bs" using snoc by (intro mult_le_mono2) simp
  finally show ?case by (simp add: SetBytes_snoc)
qed (simp add: SetBytes_def)

lemma mod_mult_add_256: "(s mod 256 + 256 * (q mod m)) = (s mod 256 + 256 * q) mod (256 * m)"
  for s q m :: nat
  by (cases "m = 0") (simp_all add: mod_mult2_eq)

lemma add_carry_value:
  "length xs = length ys \<Longrightarrow>
     SetBytes (rev (add_carry xs ys c)) =
       (SetBytes (rev xs) + SetBytes (rev ys) + c) mod 256 ^ length xs"
proof (induction xs ys c rule: add_carry.induct)
  case (1 x xs y ys carry)
  define s where "s = unat x + unat y + carry"
  let ?X = "SetBytes (rev xs)" and ?Y = "SetBytes (rev ys)"
  have ih: "SetBytes (rev (add_carry xs ys (s div 256))) = (?X + ?Y + s div 256) mod 256 ^ length xs"
    using 1 s_def by simp
  have "SetBytes (rev (add_carry (x # xs) (y # ys) carry)) =
      s mod 256 + 256 * SetBytes (rev (add_carry xs ys (s div 256)))"
    by (simp add: Let_def s_def [symmetric] SetBytes_snoc unat_of_nat)
  also have "\<dots> = (s mod 256 + 256 * (?X + ?Y + s div 256)) mod (256 * 256 ^ length xs)"
    unfolding ih by (rule mod_mult_add_256)
  also have "s mod 256 + 256 * (?X + ?Y + s div 256) = s + 256 * ?X + 256 * ?Y"
    using mult_div_mod_eq [of 256 s] by (simp add: algebra_simps)
  finally show ?case
    by (simp add: SetBytes_snoc s_def algebra_simps)
qed (simp_all add: SetBytes_def)

lemma addMod20_value:
  "length a = 20 \<Longrightarrow> length b = 20 \<Longrightarrow>
     SetBytes (addMod20 a b) = (SetBytes a + SetBytes b) mod 2 ^ 160"
  using add_carry_value [of "rev a" "rev b" 0] by (simp add: addMod20_def)

section \<open>The hash of one block\<close>

text \<open>The schedule in the order of the array \<^verbatim>\<open>w\<close>, and the rounds.\<close>

fun fips_schedule :: "nat \<Rightarrow> u32 list \<Rightarrow> u32 list" where
  "fips_schedule 0 w = w"
| "fips_schedule (Suc n) w =
     (let i = length w
      in fips_schedule n
           (w @ [word_rotl 1 (w ! (i - 3) XOR w ! (i - 8) XOR w ! (i - 14) XOR w ! (i - 16))]))"

definition fips_round :: "u32 list \<Rightarrow> nat \<Rightarrow> u32 \<times> u32 \<times> u32 \<times> u32 \<times> u32 \<Rightarrow>
    u32 \<times> u32 \<times> u32 \<times> u32 \<times> u32" where
  "fips_round w i = (\<lambda>(a, b, c, d, e).
     let (f, k) =
           (if i < 20 then ((b AND c) OR (NOT b AND d), 0x5A827999)
            else if i < 40 then (b XOR c XOR d, 0x6ED9EBA1)
            else if i < 60 then ((b AND c) OR (b AND d) OR (c AND d), 0x8F1BBCDC)
            else (b XOR c XOR d, 0xCA62C1D6));
         t = word_rotl 5 a + f + e + k + w ! i
     in (t, a, word_rotl 30 b, c, d))"

definition keyedSHA1StateAfterBlock :: "bytes \<Rightarrow> bytes" where
  "keyedSHA1StateAfterBlock block64 =
     (let w = fips_schedule 64 (map (\<lambda>i. get32 (slice block64 (i * 4) (i * 4 + 4))) [0..<16]);
          (h0, h1, h2, h3, h4) = (0x67452301, 0xEFCDAB89, 0x98BADCFE, 0x10325476, 0xC3D2E1F0);
          (a, b, c, d, e) = fold (fips_round w) [0..<80] (h0, h1, h2, h3, h4)
      in put32 (h0 + a) @ put32 (h1 + b) @ put32 (h2 + c) @ put32 (h3 + d) @ put32 (h4 + e))"

lemma length_keyedSHA1 [simp]: "length (keyedSHA1StateAfterBlock b) = 20"
  by (simp add: keyedSHA1StateAfterBlock_def Let_def split: prod.split)

text \<open>It is the compression function of SHA-1 on the initial state.\<close>

lemma fips_schedule_rev:
  "16 \<le> length w \<Longrightarrow> fips_schedule n w = rev (sha1_extend n (rev w))"
proof (induction n arbitrary: w)
  case (Suc n)
  have nth: "rev w ! 2 = w ! (length w - 3)" "rev w ! 7 = w ! (length w - 8)"
    "rev w ! 13 = w ! (length w - 14)" "rev w ! 15 = w ! (length w - 16)"
    using Suc.prems by (simp_all add: rev_nth)
  from Suc show ?case by (simp add: Let_def nth)
qed simp

lemma length_sha1_extend: "length (sha1_extend n w) = length w + n"
  by (induction n arbitrary: w) auto

definition as_list :: "u32 \<times> u32 \<times> u32 \<times> u32 \<times> u32 \<Rightarrow> u32 list" where
  "as_list s = (case s of (a, b, c, d, e) \<Rightarrow> [a, b, c, d, e])"

lemma fips_round_list: "as_list (fips_round w i s) = sha1_round (i, w ! i) (as_list s)"
  by (simp add: as_list_def fips_round_def sha1_round_def sha1_f_def sha1_k_def Let_def
      split: prod.split)

lemma fips_rounds_list:
  "as_list (fold (fips_round w) is s) = fold sha1_round (map (\<lambda>i. (i, w ! i)) is) (as_list s)"
  by (induction "is" arbitrary: s) (simp_all add: fips_round_list)

lemma keyedSHA1_compress:
  assumes "length block = 64"
  shows "keyedSHA1StateAfterBlock block = concat (map put32 (sha1_compress block sha1_init))"
proof -
  let ?w0 = "map (\<lambda>i. get32 (slice block (i * 4) (i * 4 + 4))) [0..<16]"
  have w0: "map get32 (chunks 4 block) = ?w0"
    using assms by (simp add: chunks_def mult.commute)
  define w where "w = fips_schedule 64 ?w0"
  have w: "w = rev (sha1_extend 64 (rev (map get32 (chunks 4 block))))"
    unfolding w_def w0 by (rule fips_schedule_rev) simp
  have len: "length w = 80"
    unfolding w by (simp add: length_sha1_extend w0)
  have en: "List.enumerate 0 w = map (\<lambda>i. (i, w ! i)) [0..<80]"
    by (rule nth_equalityI) (simp_all add: len nth_enumerate_eq)
  let ?s = "(0x67452301, 0xEFCDAB89, 0x98BADCFE, 0x10325476, 0xC3D2E1F0)"
  have init: "as_list ?s = sha1_init" by (simp add: as_list_def sha1_init_def)
  obtain a b c d e where f: "fold (fips_round w) [0..<80] ?s = (a, b, c, d, e)"
    by (metis prod_cases5)
  have "fold sha1_round (List.enumerate 0 w) sha1_init = [a, b, c, d, e]"
    using fips_rounds_list [of w "[0..<80]" ?s] unfolding en init f by (simp add: as_list_def)
  then show ?thesis
    unfolding keyedSHA1StateAfterBlock_def sha1_compress_def w [symmetric] w_def [symmetric] Let_def
    by (simp add: f add_states_def sha1_init_def)
qed

section \<open>The generator\<close>

text \<open>
  Copying a key or seed to the end of a 20-byte array: the last 20 bytes of a long one, zeros in
  front of a short one. The generator's state is the array \<^verbatim>\<open>xkey\<close>.
\<close>

definition right_align20 :: "bytes \<Rightarrow> bytes" where
  "right_align20 key =
     (if 20 \<le> length key then drop (length key - 20) key else replicate (20 - length key) 0 @ key)"

definition NewFIPS1862PRFSHA1 :: "bytes \<Rightarrow> bytes" where
  "NewFIPS1862PRFSHA1 key = right_align20 key"

definition fips_one :: bytes where
  "fips_one = replicate 19 0 @ [1]"

text \<open>One iteration of the loop in \<^verbatim>\<open>block\<close>: the new \<^verbatim>\<open>xkey\<close> and 20 bytes of output.\<close>

definition fips_half :: "bytes \<Rightarrow> bytes \<Rightarrow> bytes \<times> bytes" where
  "fips_half xseed xkey =
     (let xval = addMod20 xkey xseed;
          sum = keyedSHA1StateAfterBlock (xval @ replicate 44 0);
          tmp = addMod20 xkey sum
      in (addMod20 tmp fips_one, sum))"

definition fips_block :: "bytes \<Rightarrow> bytes \<Rightarrow> bytes \<times> bytes" where
  "fips_block xkey seed =
     (let xseed = right_align20 seed;
          (k1, w0) = fips_half xseed xkey;
          (k2, w1) = fips_half xseed k1
      in (k2, w0 @ w1))"

lemma length_right_align20 [simp]: "length (right_align20 k) = 20"
  by (simp add: right_align20_def)

lemma length_fips_half:
  "length xseed = 20 \<Longrightarrow> length xkey = 20 \<Longrightarrow>
     length (fst (fips_half xseed xkey)) = 20 \<and> length (snd (fips_half xseed xkey)) = 20"
  by (simp add: fips_half_def fips_one_def Let_def)

lemma length_fips_block:
  "length xkey = 20 \<Longrightarrow> length (fst (fips_block xkey seed)) = 20 \<and> length (snd (fips_block xkey seed)) = 40"
  using length_fips_half [of "right_align20 seed" xkey]
    length_fips_half [of "right_align20 seed" "fst (fips_half (right_align20 seed) xkey)"]
  by (simp add: fips_block_def Let_def split_beta)

text \<open>\<^verbatim>\<open>Bytes\<close>: the generator afterwards and the output; \<open>need\<close> is \<^verbatim>\<open>outLen - len(out)\<close>.\<close>

function fips_Bytes_loop :: "bytes \<Rightarrow> bytes \<Rightarrow> nat \<Rightarrow> bytes \<times> bytes" where
  "fips_Bytes_loop xkey seed need =
     (if need = 0 then (xkey, [])
      else let (k, block) = fips_block xkey seed
           in if 40 \<le> need
              then (let (k', out) = fips_Bytes_loop k seed (need - 40) in (k', block @ out))
              else (k, take need block))"
  by pat_completeness auto
termination
  by (relation "measure (\<lambda>(_, _, n). n)") auto

declare fips_Bytes_loop.simps [simp del]

definition fips_Bytes :: "bytes \<Rightarrow> bytes \<Rightarrow> int \<Rightarrow> bytes \<times> bytes" where
  "fips_Bytes xkey seed outLen =
     (if outLen \<le> 0 then (xkey, []) else fips_Bytes_loop xkey seed (nat outLen))"

lemma length_fips_Bytes_loop:
  "length xkey = 20 \<Longrightarrow> length (snd (fips_Bytes_loop xkey seed n)) = n"
proof (induction xkey seed n rule: fips_Bytes_loop.induct)
  case (1 xkey seed need)
  obtain k block where b: "fips_block xkey seed = (k, block)" by fastforce
  then have len: "length k = 20" "length block = 40"
    using length_fips_block [OF "1.prems", of seed] by simp_all
  show ?case
    using "1.IH" [OF _ b [symmetric] refl _ len(1)] len b
    by (subst fips_Bytes_loop.simps) (simp add: split_beta)
qed

lemma length_fips_Bytes:
  "length xkey = 20 \<Longrightarrow> length (snd (fips_Bytes xkey seed n)) = nat n"
  by (simp add: fips_Bytes_def length_fips_Bytes_loop)

section \<open>The recurrence of the standard\<close>

text \<open>
  FIPS 186-2, appendix 3.1 with the change notice, on numbers modulo \<open>2^160\<close>: \<open>w = G(t, XKEY +
  XSEED)\<close>, \<open>XKEY = 1 + XKEY + w\<close>, with \<open>G\<close> the compression function of SHA-1 on the 20 bytes of
  its argument and zeros.
\<close>

definition G_sha1 :: "nat \<Rightarrow> nat" where
  "G_sha1 x = SetBytes (concat (map put32
     (sha1_compress (left_pad 20 (int_Bytes x) @ replicate 44 0) sha1_init)))"

fun fips_spec :: "nat \<Rightarrow> nat \<Rightarrow> nat \<Rightarrow> nat list" where
  "fips_spec xseed xkey 0 = []"
| "fips_spec xseed xkey (Suc n) =
     (let w = G_sha1 ((xkey + xseed) mod 2 ^ 160)
      in w # fips_spec xseed ((1 + xkey + w) mod 2 ^ 160) n)"

text \<open>\<open>n\<close> halves in a row, and their outputs.\<close>

fun fips_halves :: "bytes \<Rightarrow> bytes \<Rightarrow> nat \<Rightarrow> bytes list" where
  "fips_halves xseed xkey 0 = []"
| "fips_halves xseed xkey (Suc n) =
     (let (k, w) = fips_half xseed xkey in w # fips_halves xseed k n)"

lemma left_pad_int_Bytes: "length bs = n \<Longrightarrow> left_pad n (int_Bytes (SetBytes bs)) = bs"
proof (induction n arbitrary: bs)
  case 0
  then show ?case by (simp add: SetBytes_def left_pad_def int_Bytes.simps)
next
  case (Suc n)
  then obtain cs c where bs: "bs = cs @ [c]" and cs: "length cs = n"
    by (metis append_butlast_last_id length_append_singleton length_0_conv nat.inject nat.simps(3))
  from Suc.IH [OF cs] have ih: "left_pad n (int_Bytes (SetBytes cs)) = cs" .
  show ?case
  proof (cases "SetBytes bs = 0")
    case True
    then have "SetBytes cs = 0" "c = 0"
      by (auto simp: bs SetBytes_snoc unat_eq_zero)
    with ih True show ?thesis
      by (simp add: bs left_pad_def int_Bytes.simps [of 0] replicate_append_same [symmetric] split: if_splits)
  next
    case False
    have "(256 * SetBytes cs + unat c) div 256 = SetBytes cs"
      "(256 * SetBytes cs + unat c) mod 256 = unat c"
      using unat_byte_less [of c] by simp_all
    with False have "int_Bytes (SetBytes bs) = int_Bytes (SetBytes cs) @ [c]"
      by (subst int_Bytes.simps) (simp add: bs SetBytes_snoc)
    with ih show ?thesis by (auto simp: left_pad_def bs split: if_splits)
  qed
qed

lemma fips_half_value:
  assumes "length xseed = 20" "length xkey = 20"
  shows "SetBytes (snd (fips_half xseed xkey)) = G_sha1 ((SetBytes xkey + SetBytes xseed) mod 2 ^ 160)"
    and "SetBytes (fst (fips_half xseed xkey)) =
      (1 + SetBytes xkey + SetBytes (snd (fips_half xseed xkey))) mod 2 ^ 160"
proof -
  have "left_pad 20 (int_Bytes (SetBytes (addMod20 xkey xseed))) = addMod20 xkey xseed"
    using assms by (intro left_pad_int_Bytes) simp
  then show "SetBytes (snd (fips_half xseed xkey)) =
      G_sha1 ((SetBytes xkey + SetBytes xseed) mod 2 ^ 160)"
    unfolding G_sha1_def addMod20_value [OF assms(2,1), symmetric]
    using assms by (simp add: fips_half_def Let_def keyedSHA1_compress)
  have one: "SetBytes fips_one = 1"
    by (simp only: fips_one_def SetBytes_zeros) (simp add: SetBytes_def)
  have l1: "length fips_one = 20" by (simp add: fips_one_def)
  show "SetBytes (fst (fips_half xseed xkey)) =
      (1 + SetBytes xkey + SetBytes (snd (fips_half xseed xkey))) mod 2 ^ 160"
    using assms l1
    by (simp add: fips_half_def Let_def addMod20_value one mod_simps ac_simps)
qed

lemma fips_halves_spec:
  "length xseed = 20 \<Longrightarrow> length xkey = 20 \<Longrightarrow>
     map SetBytes (fips_halves xseed xkey n) = fips_spec (SetBytes xseed) (SetBytes xkey) n"
  by (induction n arbitrary: xkey) (simp_all add: Let_def split_beta fips_half_value length_fips_half)

text \<open>The bytes handed out are a prefix of the concatenated outputs.\<close>

lemma length_fips_halves:
  "length xseed = 20 \<Longrightarrow> length xkey = 20 \<Longrightarrow>
     length (concat (fips_halves xseed xkey n)) = 20 * n"
proof (induction n arbitrary: xkey)
  case (Suc n)
  then show ?case
    using length_fips_half [OF Suc.prems] by (simp add: split_beta)
qed simp

lemma fips_Bytes_loop_halves:
  "length xkey = 20 \<Longrightarrow>
     snd (fips_Bytes_loop xkey seed n) =
       take n (concat (fips_halves (right_align20 seed) xkey (2 * Suc (n div 40))))"
proof (induction xkey seed n rule: fips_Bytes_loop.induct)
  case (1 xkey seed need)
  define xs where "xs = right_align20 seed"
  obtain k1 w0 where h0: "fips_half xs xkey = (k1, w0)" by fastforce
  obtain k2 w1 where h1: "fips_half xs k1 = (k2, w1)" by fastforce
  have len: "length k1 = 20" "length w0 = 20" "length k2 = 20" "length w1 = 20"
    using length_fips_half [of xs xkey] length_fips_half [of xs k1] "1.prems" h0 h1
    by (simp_all add: xs_def)
  have b: "fips_block xkey seed = (k2, w0 @ w1)"
    by (simp add: fips_block_def Let_def xs_def [symmetric] h0 h1)
  have two: "fips_halves xs xkey (2 * Suc m) = w0 # w1 # fips_halves xs k2 (2 * m)" for m
    by (simp add: h0 h1)
  show ?case
  proof (cases "40 \<le> need")
    case True
    then have "need div 40 = Suc ((need - 40) div 40)"
      by (simp add: le_div_geq)
    moreover have "snd (fips_Bytes_loop k2 seed (need - 40)) =
        take (need - 40) (concat (fips_halves xs k2 (2 * Suc ((need - 40) div 40))))"
      using "1.IH" [OF _ b [symmetric] refl True len(3)] True by (simp add: xs_def)
    ultimately show ?thesis
      using True len two b
      by (subst fips_Bytes_loop.simps)
        (simp add: split_beta xs_def [symmetric] del: fips_halves.simps mult_Suc_right)
  next
    case False
    then show ?thesis
      using len two [of 0] b
      by (subst fips_Bytes_loop.simps)
        (simp add: xs_def [symmetric] del: fips_halves.simps(2))
  qed
qed

end
