(* ===== verification/Eap_Packet.thy ===== *)
theory Eap_Packet
  imports Interfaces
begin

text \<open>
  EAP packets and EAP-AKA attributes (\<^verbatim>\<open>pkg/eap/packet.go\<close>): the packet with its length checks,
  the attribute encoding in 4-byte words and the parser into a map. Well-formed packets and
  attribute lists round trip, and nothing a peer sends makes the parsers panic.
\<close>

section \<open>Code points\<close>

abbreviation (input) CodeRequest :: byte where "CodeRequest \<equiv> 1"
abbreviation (input) CodeResponse :: byte where "CodeResponse \<equiv> 2"
abbreviation (input) CodeSuccess :: byte where "CodeSuccess \<equiv> 3"
abbreviation (input) CodeFailure :: byte where "CodeFailure \<equiv> 4"
abbreviation (input) TypeIdentity :: byte where "TypeIdentity \<equiv> 1"
abbreviation (input) TypeAKA :: byte where "TypeAKA \<equiv> 23"
abbreviation (input) TypeAKAPrime :: byte where "TypeAKAPrime \<equiv> 50"
abbreviation (input) SubtypeChallenge :: byte where "SubtypeChallenge \<equiv> 1"
abbreviation (input) SubtypeAuthReject :: byte where "SubtypeAuthReject \<equiv> 2"
abbreviation (input) SubtypeSyncFailure :: byte where "SubtypeSyncFailure \<equiv> 4"
abbreviation (input) SubtypeIdentity :: byte where "SubtypeIdentity \<equiv> 5"
abbreviation (input) SubtypeReauthentication :: byte where "SubtypeReauthentication \<equiv> 13"
abbreviation (input) SubtypeNotificationAlt :: byte where "SubtypeNotificationAlt \<equiv> 12"
abbreviation (input) AT_RAND :: byte where "AT_RAND \<equiv> 1"
abbreviation (input) AT_AUTN :: byte where "AT_AUTN \<equiv> 2"
abbreviation (input) AT_RES :: byte where "AT_RES \<equiv> 3"
abbreviation (input) AT_AUTS :: byte where "AT_AUTS \<equiv> 4"
abbreviation (input) AT_PADDING :: byte where "AT_PADDING \<equiv> 6"
abbreviation (input) AT_NONCE_MT :: byte where "AT_NONCE_MT \<equiv> 7"
abbreviation (input) AT_PERMANENT_ID_REQ :: byte where "AT_PERMANENT_ID_REQ \<equiv> 10"
abbreviation (input) AT_MAC :: byte where "AT_MAC \<equiv> 11"
abbreviation (input) AT_NOTIFICATION :: byte where "AT_NOTIFICATION \<equiv> 12"
abbreviation (input) AT_ANY_ID_REQ :: byte where "AT_ANY_ID_REQ \<equiv> 13"
abbreviation (input) AT_IDENTITY :: byte where "AT_IDENTITY \<equiv> 14"
abbreviation (input) AT_VERSION_LIST :: byte where "AT_VERSION_LIST \<equiv> 15"
abbreviation (input) AT_FULLAUTH_ID_REQ :: byte where "AT_FULLAUTH_ID_REQ \<equiv> 17"
abbreviation (input) AT_COUNTER :: byte where "AT_COUNTER \<equiv> 19"
abbreviation (input) AT_COUNTER_TOO_SMALL :: byte where "AT_COUNTER_TOO_SMALL \<equiv> 20"
abbreviation (input) AT_NONCE_S :: byte where "AT_NONCE_S \<equiv> 21"
abbreviation (input) AT_CLIENT_ERROR_CODE :: byte where "AT_CLIENT_ERROR_CODE \<equiv> 22"
abbreviation (input) AT_CHECKCODE :: byte where "AT_CHECKCODE \<equiv> 23"
abbreviation (input) AT_KDF_INPUT :: byte where "AT_KDF_INPUT \<equiv> 23"
abbreviation (input) AT_KDF :: byte where "AT_KDF \<equiv> 24"
abbreviation (input) AT_IV :: byte where "AT_IV \<equiv> 129"
abbreviation (input) AT_ENCR_DATA :: byte where "AT_ENCR_DATA \<equiv> 130"
abbreviation (input) AT_NEXT_PSEUDONYM :: byte where "AT_NEXT_PSEUDONYM \<equiv> 132"
abbreviation (input) AT_NEXT_REAUTH_ID :: byte where "AT_NEXT_REAUTH_ID \<equiv> 133"
abbreviation (input) AT_RESULT_IND :: byte where "AT_RESULT_IND \<equiv> 135"

section \<open>Packets\<close>

record EAPPacket =
  eap_Code :: byte
  eap_Identifier :: byte
  eap_Type :: byte
  eap_Subtype :: byte
  eap_Data :: bytes

definition isReqResp :: "byte \<Rightarrow> bool" where
  "isReqResp c \<longleftrightarrow> c = CodeRequest \<or> c = CodeResponse"

definition isAKA :: "byte \<Rightarrow> bool" where
  "isAKA t \<longleftrightarrow> t = TypeAKA \<or> t = TypeAKAPrime"

definition EAP_Parse :: "bytes \<Rightarrow> EAPPacket result" where
  "EAP_Parse data =
     (if length data < 4 then fail ''EAP packet too short''
      else let p = \<lparr>eap_Code = data ! 0, eap_Identifier = data ! 1, eap_Type = 0, eap_Subtype = 0,
                    eap_Data = []\<rparr>;
               len = unat (get16 (slice data 2 4))
           in if length data < len then fail ''EAP length exceeds data''
              else if isReqResp (eap_Code p) \<and> 4 < len then
                let p = p\<lparr>eap_Type := data ! 4\<rparr>
                in if isAKA (eap_Type p)
                   then if 5 < len
                        then let p = p\<lparr>eap_Subtype := data ! 5\<rparr>
                             in if 8 < len
                                then rbind (go_slice data 8 len) (\<lambda>d. Inr (p\<lparr>eap_Data := d\<rparr>))
                                else Inr p
                        else Inr p
                   else rbind (go_slice data 5 len) (\<lambda>d. Inr (p\<lparr>eap_Data := d\<rparr>))
              else Inr p)"

definition EAPPacket_Encode :: "EAPPacket \<Rightarrow> bytes" where
  "EAPPacket_Encode p =
     (let body = (if isReqResp (eap_Code p)
                  then (if isAKA (eap_Type p) then [eap_Type p, eap_Subtype p, 0, 0] @ eap_Data p
                        else [eap_Type p] @ eap_Data p)
                  else []);
          len = 4 + length body
      in [eap_Code p, eap_Identifier p] @ put16 (of_nat len) @ body)"

text \<open>Fields that are not on the wire for a code or type are zero, and the length fits.\<close>

definition eap_wf :: "EAPPacket \<Rightarrow> bool" where
  "eap_wf p \<longleftrightarrow> length (EAPPacket_Encode p) < 65536 \<and>
     (\<not> isReqResp (eap_Code p) \<longrightarrow> eap_Type p = 0 \<and> eap_Subtype p = 0 \<and> eap_Data p = []) \<and>
     (\<not> isAKA (eap_Type p) \<longrightarrow> eap_Subtype p = 0)"

lemma length_EAPPacket_Encode:
  "length (EAPPacket_Encode p) = 4 + (if isReqResp (eap_Code p)
     then (if isAKA (eap_Type p) then 4 else 1) + length (eap_Data p) else 0)"
  by (simp add: EAPPacket_Encode_def Let_def)

lemma EAP_Parse_Encode: "eap_wf p \<Longrightarrow> EAP_Parse (EAPPacket_Encode p) = Inr p"
proof -
  assume wf: "eap_wf p"
  have "unat (get16 (slice (EAPPacket_Encode p) 2 4)) = length (EAPPacket_Encode p)"
    using wf by (simp add: eap_wf_def EAPPacket_Encode_def slice_def Let_def)
  moreover have "length (EAPPacket_Encode p) \<ge> 4" by (simp add: length_EAPPacket_Encode)
  ultimately show ?thesis
    using wf
    by (cases "isReqResp (eap_Code p)"; cases "isAKA (eap_Type p)")
      (simp_all add: EAP_Parse_def Let_def length_EAPPacket_Encode eap_wf_def,
       simp_all add: EAPPacket_Encode_def slice_def Let_def)
qed

interpretation eap_packet: body_codec "\<lambda>p. Inr (EAPPacket_Encode p)" EAP_Parse eap_wf
  by unfold_locales (simp add: EAP_Parse_Encode)

lemma EAP_Parse_no_panic: "EAP_Parse data \<noteq> Inl Panic"
  by (auto simp: EAP_Parse_def Let_def rbind_Inl_iff go_slice_Panic_iff)

section \<open>Attributes\<close>

record Attribute =
  at_Type :: byte
  at_Length :: byte
  at_Value :: bytes

definition pad_len :: "nat \<Rightarrow> nat" where
  "pad_len n = (if n mod 4 \<noteq> 0 then 4 - n mod 4 else 0)"

text \<open>The attribute after the call, its \<^verbatim>\<open>Length\<close> set, and the bytes.\<close>

definition Attribute_Encode :: "Attribute \<Rightarrow> Attribute \<times> bytes" where
  "Attribute_Encode a =
     (let valLen = length (at_Value a);
          padLen = pad_len (2 + valLen);
          totalLen = 2 + valLen + padLen;
          a' = a\<lparr>at_Length := of_nat (totalLen div 4)\<rparr>
      in (a', [at_Type a', at_Length a'] @ at_Value a' @ replicate padLen 0))"

text \<open>One round of the parser at \<open>data[offset:]\<close>, with two bytes or more left.\<close>

definition parseAttribute :: "bytes \<Rightarrow> (Attribute \<times> nat) result" where
  "parseAttribute data =
     (if length data < 2 then Inl Panic
      else let aType = data ! 0; aLen = unat (data ! 1) * 4
           in if aLen = 0 then fail ''attribute length zero''
              else if length data < aLen then fail ''attribute length exceeds data''
              else rbind (go_slice data 2 aLen) (\<lambda>val.
                Inr (\<lparr>at_Type = aType, at_Length = data ! 1, at_Value = val\<rparr>, aLen)))"

lemma parseAttribute_bounds:
  "parseAttribute data = Inr (a, n) \<Longrightarrow>
     4 \<le> n \<and> n \<le> length data \<and> n = 4 * unat (at_Length a) \<and> length (at_Value a) + 2 = n"
  by (auto simp: parseAttribute_def Let_def rbind_Inr_iff go_slice_Inr_iff split: if_splits)

text \<open>A single byte at the end is ignored.\<close>

function parseAttributeList :: "bytes \<Rightarrow> Attribute list result" where
  "parseAttributeList data =
     (if length data < 2 then Inr []
      else rbind (parseAttribute data) (\<lambda>(attr, aLen).
             rbind (parseAttributeList (drop aLen data)) (\<lambda>attrs. Inr (attr # attrs))))"
  by pat_completeness auto
termination
  by (relation "measure length") (auto dest!: parseAttribute_bounds)

declare parseAttributeList.simps [simp del]

text \<open>The map keeps the last attribute of a type.\<close>

definition attributeMap :: "Attribute list \<Rightarrow> (byte \<rightharpoonup> Attribute)" where
  "attributeMap attrs = foldl (\<lambda>m a. m(at_Type a \<mapsto> a)) Map.empty attrs"

definition ParseAttributes :: "bytes \<Rightarrow> (byte \<rightharpoonup> Attribute) result" where
  "ParseAttributes data = rbind (parseAttributeList data) (\<lambda>attrs. Inr (attributeMap attrs))"

text \<open>What the parser returns: a value that fills its words, and the length that says so.\<close>

definition attribute_wf :: "Attribute \<Rightarrow> bool" where
  "attribute_wf a \<longleftrightarrow> length (at_Value a) + 2 = 4 * unat (at_Length a)"

lemma attribute_wf_Encode:
  assumes "attribute_wf a"
  shows "Attribute_Encode a = (a, [at_Type a, at_Length a] @ at_Value a)"
proof -
  have "2 + length (at_Value a) = 4 * unat (at_Length a)"
    using assms by (simp add: attribute_wf_def)
  then show ?thesis
    by (simp add: Attribute_Encode_def pad_len_def Let_def)
qed

text \<open>Encoding completes any value of at most 1018 bytes to a well-formed attribute.\<close>

definition padded :: "Attribute \<Rightarrow> Attribute" where
  "padded a = (fst (Attribute_Encode a))
     \<lparr>at_Value := at_Value a @ replicate (pad_len (2 + length (at_Value a))) 0\<rparr>"

lemma pad_len_dvd: "4 dvd (n + pad_len n)"
proof (cases "n mod 4 = 0")
  case False
  have "n + (4 - n mod 4) = 4 * (n div 4) + 4"
    using mult_div_mod_eq [of 4 n] mod_less_divisor [of 4 n] by linarith
  with False show ?thesis by (simp add: pad_len_def)
qed (simp add: pad_len_def dvd_eq_mod_eq_0)

lemma padded_wf:
  assumes "length (at_Value a) \<le> 1018"
  shows "attribute_wf (padded a)" "snd (Attribute_Encode a) = snd (Attribute_Encode (padded a))"
proof -
  define n where "n = 2 + length (at_Value a) + pad_len (2 + length (at_Value a))"
  obtain k where k: "n = 4 * k" using pad_len_dvd [of "2 + length (at_Value a)"] by (auto simp: n_def)
  have "pad_len (2 + length (at_Value a)) \<le> 3" by (simp add: pad_len_def, presburger)
  with assms k have "k < 256" unfolding n_def by linarith
  then show wf: "attribute_wf (padded a)"
    using k by (simp add: attribute_wf_def padded_def Attribute_Encode_def Let_def n_def)
  show "snd (Attribute_Encode a) = snd (Attribute_Encode (padded a))"
    unfolding attribute_wf_Encode [OF wf] by (simp add: padded_def Attribute_Encode_def Let_def)
qed

lemma parse_Attribute:
  assumes "attribute_wf a"
  shows "parseAttribute (snd (Attribute_Encode a) @ rest) = Inr (a, length (snd (Attribute_Encode a)))"
  using assms unfolding attribute_wf_Encode [OF assms]
  by (auto simp: parseAttribute_def attribute_wf_def Let_def slice_def)

interpretation attributes: stream_codec "\<lambda>a. Inr (snd (Attribute_Encode a))" parseAttribute
  attribute_wf parseAttributeList "\<lambda>d. length d < 2"
proof
  fix a b rest assume a: "attribute_wf a"
  then show "\<exists>b. Inr (snd (Attribute_Encode a)) = Inr b \<and> b \<noteq> [] \<and>
      (\<forall>rest. parseAttribute (b @ rest) = Inr (a, length b))"
    by (simp add: parse_Attribute) (simp add: attribute_wf_Encode)
  assume "Inr (snd (Attribute_Encode a)) = Inr b"
  with a show "\<not> length (b @ rest) < 2" by (auto simp: attribute_wf_Encode)
next
  fix data :: bytes assume "length data < 2"
  then show "parseAttributeList data = Inr []" by (subst parseAttributeList.simps) simp
next
  fix data :: bytes assume "\<not> length data < 2"
  then show "parseAttributeList data = rbind (parseAttribute data) (\<lambda>(x, n).
      rbind (parseAttributeList (drop n data)) (\<lambda>xs. Inr (x # xs)))"
    by (subst parseAttributeList.simps) simp
qed simp

lemma parseAttributeList_wf: "parseAttributeList d = Inr as \<Longrightarrow> \<forall>a\<in>set as. attribute_wf a"
  by (rule attributes.loop_wf) (auto simp: attribute_wf_def dest: parseAttribute_bounds)

lemma ParseAttributes_Encode:
  "\<forall>a\<in>set as. attribute_wf a \<Longrightarrow>
     ParseAttributes (concat (map (snd \<circ> Attribute_Encode) as)) = Inr (attributeMap as)"
  using attributes.loop_encode [of as]
  by (simp add: ParseAttributes_def rconcat_Inr comp_def)

lemma attributeMap_snoc: "attributeMap (as @ [a]) = (attributeMap as)(at_Type a \<mapsto> a)"
  by (simp add: attributeMap_def)

lemma attributeMap_lookup: "attributeMap as t = Some a \<Longrightarrow> a \<in> set as \<and> at_Type a = t"
  by (induction as rule: rev_induct)
    (auto simp: attributeMap_snoc split: if_splits, simp add: attributeMap_def)

lemma ParseAttributes_wf:
  "ParseAttributes d = Inr m \<Longrightarrow> m t = Some a \<Longrightarrow> attribute_wf a \<and> at_Type a = t"
  by (auto simp: ParseAttributes_def rbind_Inr_iff dest!: attributeMap_lookup parseAttributeList_wf)

lemma ParseAttributes_no_panic: "ParseAttributes d \<noteq> Inl Panic"
proof (induction d rule: length_induct)
  case (1 d)
  have "parseAttributeList d \<noteq> Inl Panic"
    using 1
    by (subst parseAttributeList.simps)
      (auto simp: rbind_Inl_iff ParseAttributes_def parseAttribute_def Let_def go_slice_Panic_iff
        go_slice_Inr_iff split: if_splits)
  then show ?case by (simp add: ParseAttributes_def rbind_Inl_iff)
qed

end
