(* ===== verification/Eap_Auts.thy ===== *)
theory Eap_Auts
  imports Eap_Packet Crypto_Milenage
begin

text \<open>
  Sequence numbers and resynchronisation in EAP-AKA (\<^verbatim>\<open>pkg/eap/auts.go\<close>) and the context of fast
  re-authentication (\<^verbatim>\<open>pkg/eap/reauth.go\<close>).
\<close>

section \<open>The sequence number manager\<close>

record SQNManager =
  SQN :: u64
  SQNms :: u64
  sqn_AMF :: u16
  Delta :: u64

definition NewSQNManager :: "u64 \<Rightarrow> SQNManager" where
  "NewSQNManager initialSQN =
     \<lparr>SQN = initialSQN, SQNms = initialSQN, sqn_AMF = 0x8000, Delta = push_bit 28 1\<rparr>"

definition VerifySQN :: "SQNManager \<Rightarrow> u64 \<Rightarrow> SQNManager \<times> bool" where
  "VerifySQN m receivedSQN =
     (if SQNms m < receivedSQN then (m\<lparr>SQNms := receivedSQN\<rparr>, True)
      else if SQNms m - receivedSQN \<le> Delta m then (m, True)
      else (m, False))"

definition UpdateSQN :: "SQNManager \<Rightarrow> u64 \<Rightarrow> SQNManager" where
  "UpdateSQN m newSQN =
     (let m = (if SQN m < newSQN then m\<lparr>SQN := newSQN\<rparr> else m)
      in if SQNms m < newSQN then m\<lparr>SQNms := newSQN\<rparr> else m)"

definition GetSQN :: "SQNManager \<Rightarrow> u64" where
  "GetSQN m = SQN m"

text \<open>The operations as a machine: the largest number seen is never below the current one.\<close>

datatype sqn_event = Received u64 | Authenticated u64

fun sqn_step :: "SQNManager \<Rightarrow> sqn_event \<Rightarrow> SQNManager" where
  "sqn_step m (Received s) = fst (VerifySQN m s)"
| "sqn_step m (Authenticated s) = UpdateSQN m s"

definition sqn_inv :: "SQNManager \<Rightarrow> bool" where
  "sqn_inv m \<longleftrightarrow> SQN m \<le> SQNms m \<and> Delta m = push_bit 28 1"

interpretation sqn: machine "\<lambda>m. \<exists>s. m = NewSQNManager s" sqn_step sqn_inv
proof
  fix m assume "\<exists>s. m = NewSQNManager s"
  then show "sqn_inv m" by (auto simp: NewSQNManager_def sqn_inv_def)
next
  fix m e assume "sqn_inv m"
  then show "sqn_inv (sqn_step m e)"
    by (cases e) (auto simp: sqn_inv_def VerifySQN_def UpdateSQN_def Let_def)
qed

lemma sqn_monotone: "SQNms m \<le> SQNms (sqn_step m e) \<and> SQN m \<le> SQN (sqn_step m e)"
  by (cases e) (auto simp: VerifySQN_def UpdateSQN_def Let_def)

text \<open>
  A number is refused only when it is more than \<open>Delta\<close> behind the largest seen; in particular
  one that was just accepted is accepted again.
\<close>

lemma VerifySQN_iff:
  "snd (VerifySQN m s) \<longleftrightarrow> unat (SQNms m) \<le> unat s + unat (Delta m)"
proof (cases "SQNms m < s")
  case True
  then show ?thesis by (simp add: VerifySQN_def word_less_nat_alt)
next
  case False
  then have "unat (SQNms m - s) = unat (SQNms m) - unat s"
    by (intro unat_sub) simp
  with False show ?thesis by (auto simp: VerifySQN_def word_le_nat_alt word_less_nat_alt)
qed

lemma VerifySQN_replay:
  "VerifySQN m s = (m', True) \<Longrightarrow> VerifySQN m' s = (m', True)"
  by (auto simp: VerifySQN_def split: if_splits)

section \<open>Encoding\<close>

definition eap_EncodeSQN :: "u64 \<Rightarrow> bytes" where
  "eap_EncodeSQN sqn =
     [ucast (drop_bit 40 sqn), ucast (drop_bit 32 sqn), ucast (drop_bit 24 sqn),
      ucast (drop_bit 16 sqn), ucast (drop_bit 8 sqn), ucast sqn]"

definition DecodeSQN :: "bytes \<Rightarrow> u64" where
  "DecodeSQN data =
     (if length data < 6 then 0
      else push_bit 40 (ucast (data ! 0)) OR push_bit 32 (ucast (data ! 1)) OR
           push_bit 24 (ucast (data ! 2)) OR push_bit 16 (ucast (data ! 3)) OR
           push_bit 8 (ucast (data ! 4)) OR ucast (data ! 5))"

text \<open>The two packages agree.\<close>

lemma eap_EncodeSQN_eq: "eap_EncodeSQN s = EncodeSQN s"
  by (simp add: eap_EncodeSQN_def EncodeSQN_def put16_def put32_def ucast_drop_ucast ucast_ucast_byte)

lemma DecodeSQN_eq: "DecodeSQN d = decodeSQN d"
  by (simp add: DecodeSQN_def decodeSQN_def)

definition ExtractSQNFromAUTN :: "bytes \<Rightarrow> bytes \<Rightarrow> u64 result" where
  "ExtractSQNFromAUTN autn ak =
     (if length autn < 6 \<or> length ak < 6 then fail ''AUTN or AK too short''
      else Inr (DecodeSQN (xor_bytes (take 6 autn) (take 6 ak))))"

definition BuildAUTS :: "u64 \<Rightarrow> bytes \<Rightarrow> bytes \<Rightarrow> bytes result" where
  "BuildAUTS sqn akStar macS =
     (if length akStar < 6 \<or> length macS < 8 then Inl Panic
      else Inr (xor_bytes (eap_EncodeSQN sqn) (take 6 akStar) @ take 8 macS))"

text \<open>The token of Milenage carries the sequence number that the network recovers.\<close>

lemma ExtractSQN_GenerateAUTN:
  assumes "mil_wf m" "length rand = 16" "length amf = 2"
    and "GenerateAUTN m rand (EncodeSQN s) amf = Inr autn" "F2F5 m rand = Inr (res, ak)"
  shows "ExtractSQNFromAUTN autn ak = Inr (take_bit 48 s)"
proof -
  obtain ma where autn: "autn = xor_bytes (EncodeSQN s) ak @ amf @ ma"
    using assms(4,5) by (auto simp: GenerateAUTN_def rbind_Inr_iff)
  have "length ak = 6" using F_total(1) [OF assms(1,2)] assms(5) by auto
  then show ?thesis
    by (simp add: ExtractSQNFromAUTN_def autn DecodeSQN_eq decodeSQN_EncodeSQN)
qed

lemma BuildAUTS_GenerateAUTS:
  assumes "mil_wf m" "length rand = 16" "GenerateAUTS m rand (EncodeSQN s) = Inr auts"
    and "F5Star m rand = Inr akStar" "F1 m rand (EncodeSQN s) [0, 0] = Inr (macA, macS)"
  shows "BuildAUTS s akStar macS = Inr auts"
proof -
  have "length akStar = 6" "length macS = 8"
    using F_total(4) [OF assms(1,2)] F_total(5) [OF assms(1,2), of "EncodeSQN s" "[0, 0]"] assms(4,5)
    by auto
  with assms(3-5) show ?thesis
    by (auto simp: BuildAUTS_def GenerateAUTS_def eap_EncodeSQN_eq)
qed

section \<open>The synchronisation failure message\<close>

definition BuildSyncFailureResponse :: "byte \<Rightarrow> bytes \<Rightarrow> bytes" where
  "BuildSyncFailureResponse eapID auts =
     (let eapHeader = [2, eapID, 0, 0, 23, 4, 0, 0];
          atAuts = [4, 5, 0, 0] @ copy_at (replicate 14 0) 0 auts @ [0, 0];
          msg = eapHeader @ atAuts
      in take 2 msg @ put16 (of_nat (length msg)) @ drop 4 msg)"

lemma copy_at_0_all: "length xs = length buf \<Longrightarrow> copy_at buf 0 xs = xs"
  by (simp add: copy_at_def)

text \<open>
  The attribute is five words long with two reserved bytes before the 14 bytes of AUTS and two
  after them. RFC 4187, section 10.9, has four words: the AUTS right after the length. A peer that
  reads the attribute that way gets the token shifted by two bytes.
\<close>

lemma BuildSyncFailureResponse_parse:
  assumes "length auts = 14"
  shows "\<exists>p m a. EAP_Parse (BuildSyncFailureResponse i auts) = Inr p \<and>
      eap_Type p = TypeAKA \<and> eap_Subtype p = SubtypeSyncFailure \<and> eap_Identifier p = i \<and>
      ParseAttributes (eap_Data p) = Inr m \<and> m AT_AUTS = Some a \<and>
      at_Length a = 5 \<and> at_Value a = [0, 0] @ auts @ [0, 0]"
proof -
  let ?p = "\<lparr>eap_Code = 2, eap_Identifier = i, eap_Type = 23, eap_Subtype = 4,
    eap_Data = [4, 5, 0, 0] @ auts @ [0, 0]\<rparr>"
  let ?a = "\<lparr>at_Type = 4, at_Length = 5, at_Value = [0, 0] @ auts @ [0, 0]\<rparr>"
  have "BuildSyncFailureResponse i auts = EAPPacket_Encode ?p"
    using assms
    by (simp add: BuildSyncFailureResponse_def EAPPacket_Encode_def copy_at_0_all Let_def
        isReqResp_def isAKA_def)
  moreover have "eap_wf ?p"
    using assms by (simp add: eap_wf_def length_EAPPacket_Encode isReqResp_def isAKA_def)
  moreover have "attribute_wf ?a" using assms by (simp add: attribute_wf_def)
  moreover from this have "ParseAttributes (eap_Data ?p) = Inr (attributeMap [?a])"
    using ParseAttributes_Encode [of "[?a]"] by (simp add: attribute_wf_Encode)
  moreover have "attributeMap [?a] 4 = Some ?a" by (simp add: attributeMap_def)
  ultimately show ?thesis by (auto simp: EAP_Parse_Encode)
qed

section \<open>Fast re-authentication\<close>

record FastReauthContext =
  ra_Enabled :: bool
  ReauthID :: string
  ra_Counter :: u16
  NonceS :: bytes
  CounterSmall :: bool
  ra_KEncr :: bytes
  ra_KAut :: bytes
  ra_MK :: bytes

definition NewFastReauthContext :: FastReauthContext where
  "NewFastReauthContext =
     \<lparr>ra_Enabled = False, ReauthID = [], ra_Counter = 0, NonceS = [], CounterSmall = False,
      ra_KEncr = [], ra_KAut = [], ra_MK = []\<rparr>"

definition SaveReauthData ::
    "FastReauthContext \<Rightarrow> string \<Rightarrow> bytes \<Rightarrow> bytes \<Rightarrow> bytes \<Rightarrow> FastReauthContext" where
  "SaveReauthData ctx nextReauthID mk kEncr kAut =
     ctx\<lparr>ReauthID := nextReauthID, ra_MK := mk, ra_KEncr := kEncr, ra_KAut := kAut,
         ra_Enabled := True, ra_Counter := 0\<rparr>"

definition CanUseReauth :: "FastReauthContext \<Rightarrow> bool" where
  "CanUseReauth ctx \<longleftrightarrow> ra_Enabled ctx \<and> ReauthID ctx \<noteq> []"

text \<open>The context afterwards and the attributes, with the MAC still zero.\<close>

definition BuildReauthResponse ::
    "FastReauthContext \<Rightarrow> bytes \<Rightarrow> u16 \<Rightarrow> (FastReauthContext \<times> bytes) result" where
  "BuildReauthResponse ctx nonceS counter =
     Inr (ctx\<lparr>NonceS := nonceS, ra_Counter := counter\<rparr>,
       [AT_COUNTER, 1] @ [ucast (drop_bit 8 counter), ucast counter] @
       [AT_MAC, 5, 0, 0] @ replicate 16 0)"

lemma BuildReauthResponse_attributes:
  assumes "BuildReauthResponse ctx ns c = Inr (ctx', bs)"
  shows "ParseAttributes bs = Inr
    [AT_COUNTER \<mapsto> \<lparr>at_Type = AT_COUNTER, at_Length = 1, at_Value = put16 c\<rparr>,
     AT_MAC \<mapsto> \<lparr>at_Type = AT_MAC, at_Length = 5, at_Value = replicate 18 0\<rparr>]"
proof -
  let ?as = "[\<lparr>at_Type = AT_COUNTER, at_Length = 1, at_Value = put16 c\<rparr>,
     \<lparr>at_Type = AT_MAC, at_Length = 5, at_Value = replicate 18 0\<rparr>]"
  have wf: "\<forall>a\<in>set ?as. attribute_wf a" by (simp add: attribute_wf_def)
  have r: "replicate 18 (0 :: byte) = [0, 0] @ replicate 16 0" by (simp add: numeral_eq_Suc)
  have "bs = concat (map (snd \<circ> Attribute_Encode) ?as)"
    using assms wf by (auto simp: BuildReauthResponse_def attribute_wf_Encode put16_def r)
  with ParseAttributes_Encode [OF wf] show ?thesis by (simp add: attributeMap_def)
qed

end
