(* ===== verification/Ipsec_Socket.thy ===== *)
theory Ipsec_Socket
  imports Ikev2_TS
begin

text \<open>
  The UDP socket shared by IKE and ESP (\<^verbatim>\<open>pkg/ipsec/socket.go\<close>): the classifier of datagrams,
  one round of the read loop with its source filter, NAT port tracking and bounded channels, and
  the sending side. The queues stay within their capacity, and only messages with an IKE header
  reach the IKE channel.
\<close>

section \<open>Classification\<close>

definition looksLikeIKE :: "bytes \<Rightarrow> bool" where
  "looksLikeIKE data \<longleftrightarrow>
     (if length data < IKE_HEADER_LEN then False
      else if data ! 17 \<noteq> 0x20 then False
      else data ! 18 = IKE_SA_INIT \<or> data ! 18 = IKE_AUTH \<or> data ! 18 = CREATE_CHILD_SA \<or>
           data ! 18 = INFORMATIONAL)"

definition parseIKEPayload :: "bytes \<Rightarrow> bytes option" where
  "parseIKEPayload data =
     (if length data < 4 then None
      else if get32 (slice data 0 4) = 0 then
        (if length data < 4 + IKE_HEADER_LEN then None
         else let ikeData = drop 4 data in if looksLikeIKE ikeData then Some ikeData else None)
      else if length data < IKE_HEADER_LEN then None
      else if looksLikeIKE data then Some data
      else None)"

section \<open>The socket's state\<close>

text \<open>\<^verbatim>\<open>net.IP.Equal\<close>: an IPv4 address equals its 16-byte form.\<close>

definition ip_Equal :: "bytes \<Rightarrow> bytes \<Rightarrow> bool" where
  "ip_Equal a b \<longleftrightarrow>
     (if length a = length b then a = b
      else (length a = 4 \<and> length b = 16 \<or> length a = 16 \<and> length b = 4) \<and> To16 a = To16 b)"

datatype NetEvent =
    PathMTU u32
  | NetworkDown nat
  | NATPortChanged int int

record SocketManager =
  RemoteAddr_IP :: bytes
  RemoteAddr_Port :: int
  remoteIPs :: "bytes list"
  remoteIdx :: u32
  IKEChan :: "bytes list"
  ESPChan :: "bytes list"
  NetEvents :: "NetEvent list"
  receivedIKE :: u64
  receivedESP :: u64
  droppedIKE :: u64
  droppedESP :: u64

abbreviation (input) IKEChan_cap :: nat where "IKEChan_cap \<equiv> 100"
abbreviation (input) ESPChan_cap :: nat where "ESPChan_cap \<equiv> 1000"
abbreviation (input) NetEvents_cap :: nat where "NetEvents_cap \<equiv> 10"

text \<open>What \<^verbatim>\<open>NewSocketManager\<close> makes of the resolved peer.\<close>

definition NewSocketManager :: "bytes \<Rightarrow> int \<Rightarrow> bytes list \<Rightarrow> SocketManager" where
  "NewSocketManager rAddrIP rAddrPort ips =
     \<lparr>RemoteAddr_IP = rAddrIP, RemoteAddr_Port = rAddrPort,
      remoteIPs = (if length ips = 0 \<and> rAddrIP \<noteq> [] then [rAddrIP] else ips),
      remoteIdx = 0, IKEChan = [], ESPChan = [], NetEvents = [],
      receivedIKE = 0, receivedESP = 0, droppedIKE = 0, droppedESP = 0\<rparr>"

text \<open>A send in a \<^verbatim>\<open>select\<close> with a default case: the event is lost when the channel is full.\<close>

definition emitEvent :: "NetEvent \<Rightarrow> SocketManager \<Rightarrow> SocketManager" where
  "emitEvent e s = (if length (NetEvents s) < NetEvents_cap
     then s\<lparr>NetEvents := NetEvents s @ [e]\<rparr> else s)"

section \<open>Receiving\<close>

text \<open>
  The source filter. With several candidate addresses the first one that answers becomes the
  only one.
\<close>

definition checkSource :: "bytes \<Rightarrow> SocketManager \<Rightarrow> bool \<times> SocketManager" where
  "checkSource addrIP s =
     (if \<exists>rip\<in>set (remoteIPs s). ip_Equal addrIP rip
      then (True, if 1 < length (remoteIPs s)
                  then s\<lparr>RemoteAddr_IP := addrIP, remoteIPs := [addrIP], remoteIdx := 0\<rparr> else s)
      else (length (remoteIPs s) = 0, s))"

definition trackPort :: "int \<Rightarrow> SocketManager \<Rightarrow> SocketManager" where
  "trackPort addrPort s =
     (if addrPort \<noteq> RemoteAddr_Port s \<and> 0 < addrPort
      then emitEvent (NATPortChanged (RemoteAddr_Port s) addrPort) (s\<lparr>RemoteAddr_Port := addrPort\<rparr>)
      else s)"

definition deliverIKE :: "bytes \<Rightarrow> SocketManager \<Rightarrow> SocketManager" where
  "deliverIKE d s = (if length (IKEChan s) < IKEChan_cap
     then s\<lparr>IKEChan := IKEChan s @ [d], receivedIKE := receivedIKE s + 1\<rparr>
     else s\<lparr>droppedIKE := droppedIKE s + 1\<rparr>)"

definition deliverESP :: "bytes \<Rightarrow> SocketManager \<Rightarrow> SocketManager" where
  "deliverESP d s = (if length (ESPChan s) < ESPChan_cap
     then s\<lparr>ESPChan := ESPChan s @ [d], receivedESP := receivedESP s + 1\<rparr>
     else s\<lparr>droppedESP := droppedESP s + 1\<rparr>)"

text \<open>Where a datagram from an accepted source goes.\<close>

definition dispatch :: "bytes \<Rightarrow> SocketManager \<Rightarrow> SocketManager" where
  "dispatch data s =
     (if data = [0xff] then s
      else case parseIKEPayload data of
        Some ikeData \<Rightarrow> deliverIKE ikeData s
      | None \<Rightarrow>
          let data = (if 4 \<le> length data \<and> get32 (slice data 0 4) = 0 then drop 4 data else data)
          in if length data = 0 then s else deliverESP data s)"

text \<open>One round of \<^verbatim>\<open>readLoop\<close>, on a datagram cut to the 4096-byte buffer.\<close>

definition readStep :: "SocketManager \<Rightarrow> bytes \<times> int \<times> bytes \<Rightarrow> SocketManager" where
  "readStep s pkt = (case pkt of (addrIP, addrPort, raw) \<Rightarrow>
     let data = take 4096 raw; (allowed, s) = checkSource addrIP s
     in if \<not> allowed then s else dispatch data (trackPort addrPort s))"

section \<open>Sending\<close>

text \<open>The state afterwards, the destination and the datagram.\<close>

definition SendIKE :: "bytes \<Rightarrow> SocketManager \<Rightarrow> SocketManager \<times> (bytes \<times> int) \<times> bytes" where
  "SendIKE data s =
     (let s = (if 1 < length (remoteIPs s)
               then let idx = unat (remoteIdx s mod of_nat (length (remoteIPs s)))
                    in s\<lparr>remoteIdx := remoteIdx s + 1, RemoteAddr_IP := remoteIPs s ! idx\<rparr>
               else s);
          packet = (if RemoteAddr_Port s = 4500 then [0, 0, 0, 0] @ data else data)
      in (s, (RemoteAddr_IP s, RemoteAddr_Port s), packet))"

definition SendESP :: "bytes \<Rightarrow> SocketManager \<Rightarrow> (bytes \<times> int) \<times> bytes" where
  "SendESP data s = ((RemoteAddr_IP s, RemoteAddr_Port s), data)"

definition SendNATKeepalive :: "SocketManager \<Rightarrow> (bytes \<times> int) \<times> bytes" where
  "SendNATKeepalive s = ((RemoteAddr_IP s, RemoteAddr_Port s), [0xff])"

definition SetRemotePort :: "int \<Rightarrow> SocketManager \<Rightarrow> SocketManager" where
  "SetRemotePort port s = s\<lparr>RemoteAddr_Port := port\<rparr>"

section \<open>The loop's invariant\<close>

definition sock_inv :: "SocketManager \<Rightarrow> bool" where
  "sock_inv s \<longleftrightarrow> length (IKEChan s) \<le> IKEChan_cap \<and> length (ESPChan s) \<le> ESPChan_cap \<and>
     length (NetEvents s) \<le> NetEvents_cap \<and>
     (\<forall>d\<in>set (IKEChan s). looksLikeIKE d) \<and> (\<forall>d\<in>set (ESPChan s). d \<noteq> [] \<and> length d \<le> 4096)"

lemma parseIKEPayload_looks: "parseIKEPayload d = Some i \<Longrightarrow> looksLikeIKE i"
  by (auto simp: parseIKEPayload_def Let_def split: if_splits)

lemma deliver_inv:
  "sock_inv s \<Longrightarrow> looksLikeIKE d \<Longrightarrow> sock_inv (deliverIKE d s)"
  "sock_inv s \<Longrightarrow> e \<noteq> [] \<Longrightarrow> length e \<le> 4096 \<Longrightarrow> sock_inv (deliverESP e s)"
  by (auto simp: sock_inv_def deliverIKE_def deliverESP_def)

lemma trackPort_inv: "sock_inv s \<Longrightarrow> sock_inv (trackPort p s)"
  by (auto simp: sock_inv_def trackPort_def emitEvent_def)

lemma checkSource_inv: "sock_inv s \<Longrightarrow> sock_inv (snd (checkSource a s))"
  by (auto simp: sock_inv_def checkSource_def)

lemma dispatch_inv: "sock_inv s \<Longrightarrow> length d \<le> 4096 \<Longrightarrow> sock_inv (dispatch d s)"
  by (auto simp: dispatch_def Let_def intro: deliver_inv dest: parseIKEPayload_looks split: option.split)

lemma readStep_inv: "sock_inv s \<Longrightarrow> sock_inv (readStep s p)"
  using checkSource_inv [of s "fst p"]
  by (auto simp: readStep_def Let_def split_beta intro: dispatch_inv trackPort_inv)

interpretation socket: machine "\<lambda>s. \<exists>a p ips. s = NewSocketManager a p ips" readStep sock_inv
  by unfold_locales (auto simp: readStep_inv, simp add: sock_inv_def NewSocketManager_def)

section \<open>The source filter\<close>

text \<open>A datagram from an address that is not a candidate changes nothing.\<close>

lemma readStep_foreign:
  assumes "remoteIPs s \<noteq> []" "\<forall>rip\<in>set (remoteIPs s). \<not> ip_Equal a rip"
  shows "readStep s (a, p, d) = s"
  using assms by (auto simp: readStep_def checkSource_def Let_def)

lemma ip_Equal_refl [simp]: "ip_Equal a a"
  by (simp add: ip_Equal_def)

text \<open>After the first accepted datagram exactly one candidate is left, and it stays.\<close>

lemma readStep_locks:
  assumes "length (remoteIPs s) = 1"
  shows "remoteIPs (readStep s p) = remoteIPs s"
  using assms
  by (cases p) (auto simp: readStep_def checkSource_def Let_def dispatch_def trackPort_def emitEvent_def
      deliverIKE_def deliverESP_def split: option.split)

lemma readStep_single:
  assumes "\<exists>rip\<in>set (remoteIPs s). ip_Equal a rip"
  shows "length (remoteIPs (readStep s (a, p, d))) = 1"
proof -
  have "length (remoteIPs (snd (checkSource a s))) = 1"
    using assms by (cases "remoteIPs s") (auto simp: checkSource_def)
  moreover have "remoteIPs (dispatch e (trackPort p t)) = remoteIPs t" for e t
    by (simp add: dispatch_def trackPort_def emitEvent_def deliverIKE_def deliverESP_def Let_def
        split: option.split)
  ultimately show ?thesis
    using assms by (auto simp: readStep_def checkSource_def Let_def)
qed

section \<open>Framing\<close>

text \<open>
  An IKE message sent to port 4500 is recognised as that message; on any other port the
  classifier needs a non-zero first word, which the initiator's SPI provides.
\<close>

lemma parse_SendIKE:
  assumes "looksLikeIKE data" "SendIKE data s = (s', (a, port), pkt)"
    and "port = 4500 \<or> get32 (slice data 0 4) \<noteq> 0"
  shows "parseIKEPayload pkt = Some data"
proof -
  have len: "28 \<le> length data" using assms(1) by (auto simp: looksLikeIKE_def split: if_splits)
  have z: "get32 [0, 0, 0, 0] = 0" using get32_put32(2) [of 0] by (simp add: put32_def)
  have "pkt = (if port = 4500 then [0, 0, 0, 0] @ data else data)"
    using assms(2) by (auto simp: SendIKE_def Let_def split: if_splits)
  with assms(1,3) len z show ?thesis
    by (auto simp: parseIKEPayload_def)
qed

text \<open>
  The other direction fails: an ESP packet (non-zero SPI) whose bytes 17 and 18 happen to be those
  of an IKE header is taken for an IKE message, although RFC 3948 tells the two apart by the first
  word alone.
\<close>

lemma esp_taken_for_ike:
  assumes "spi \<noteq> 0" "length rest = 24" "rest ! 13 = 0x20" "rest ! 14 = INFORMATIONAL"
  shows "parseIKEPayload (put32 spi @ rest @ suffix) = Some (put32 spi @ rest @ suffix)"
  using assms by (simp add: parseIKEPayload_def looksLikeIKE_def slice_def nth_append)

text \<open>A response to a session resumption request is never recognised.\<close>

lemma resume_not_ike:
  "d ! 18 = IKE_SESSION_RESUME \<Longrightarrow> \<not> looksLikeIKE d"
  by (simp add: looksLikeIKE_def)

text \<open>With several candidates the sender walks through them in turn.\<close>

lemma SendIKE_rotates:
  assumes "1 < length (remoteIPs s)" "length (remoteIPs s) < 4294967296"
  shows "fst (fst (snd (SendIKE d s))) = remoteIPs s ! (unat (remoteIdx s) mod length (remoteIPs s))"
    and "remoteIdx (fst (SendIKE d s)) = remoteIdx s + 1"
  using assms by (simp_all add: SendIKE_def Let_def unat_mod)

end
