(* ===== verification/Ipsec_Esp.thy ===== *)
theory Ipsec_Esp
  imports Crypto_Cipher Crypto_Integrity
begin

text \<open>
  ESP packets (\<^verbatim>\<open>pkg/ipsec/esp.go\<close>) and security associations (\<^verbatim>\<open>pkg/ipsec/sa.go\<close>):
  encapsulation with padding, sequence number and integrity value, and its inverse. The two are
  inverse for every algorithm, and an accepted packet was authenticated.
\<close>

section \<open>Security associations\<close>

text \<open>The fields the two operations read; \<open>None\<close> is the nil interface.\<close>

record SecurityAssociation =
  sa_SPI :: u32
  RemoteSPI :: u32
  EncryptionAlg :: Encrypter
  EncryptionKey :: bytes
  IntegrityAlg2 :: "IntegrityAlgorithm option"
  IntegrityKey :: bytes
  IsAEAD :: bool
  SequenceNumber :: u64
  ReplayWindow :: u64

definition NewSecurityAssociation :: "u32 \<Rightarrow> Encrypter \<Rightarrow> bytes \<Rightarrow> bytes \<Rightarrow> SecurityAssociation" where
  "NewSecurityAssociation spi e encKey integKey =
     \<lparr>sa_SPI = spi, RemoteSPI = 0, EncryptionAlg = e, EncryptionKey = encKey, IntegrityAlg2 = None,
      IntegrityKey = integKey, IsAEAD = True, SequenceNumber = 0, ReplayWindow = 0\<rparr>"

definition NewSecurityAssociationCBC ::
    "u32 \<Rightarrow> Encrypter \<Rightarrow> bytes \<Rightarrow> IntegrityAlgorithm \<Rightarrow> bytes \<Rightarrow> SecurityAssociation" where
  "NewSecurityAssociationCBC spi e encKey integAlg integKey =
     \<lparr>sa_SPI = spi, RemoteSPI = 0, EncryptionAlg = e, EncryptionKey = encKey,
      IntegrityAlg2 = Some integAlg, IntegrityKey = integKey, IsAEAD = False,
      SequenceNumber = 0, ReplayWindow = 0\<rparr>"

text \<open>The 64-bit counter is incremented and its low half is the packet's number.\<close>

definition NextSequenceNumber :: "SecurityAssociation \<Rightarrow> SecurityAssociation \<times> u32" where
  "NextSequenceNumber sa =
     (let n = SequenceNumber sa + 1 in (sa\<lparr>SequenceNumber := n\<rparr>, ucast n))"

section \<open>Encapsulation\<close>

definition nextHeader :: "bytes \<Rightarrow> byte" where
  "nextHeader plaintext =
     (if 0 < length plaintext then
        let version = drop_bit 4 (plaintext ! 0)
        in if version = 4 then 4 else if version = 6 then 41 else 0
      else 0)"

definition espPadLen :: "nat \<Rightarrow> nat \<Rightarrow> nat" where
  "espPadLen n blockSize =
     (let neededLen = n + 2
      in if neededLen mod blockSize \<noteq> 0 then blockSize - neededLen mod blockSize else 0)"

definition espTrailer :: "bytes \<Rightarrow> nat \<Rightarrow> bytes" where
  "espTrailer plaintext blockSize =
     (let padLen = espPadLen (length plaintext) blockSize
      in plaintext @ map (\<lambda>i. of_nat (i + 1)) [0..<padLen] @ [of_nat padLen, nextHeader plaintext])"

text \<open>\<open>rnd\<close> is what \<^verbatim>\<open>crypto.RandomBytes(ivSize)\<close> returned; the association's counter moves on.\<close>

definition Encapsulate ::
    "bytes result \<Rightarrow> bytes \<Rightarrow> SecurityAssociation \<Rightarrow> SecurityAssociation \<times> bytes result" where
  "Encapsulate rnd plaintext sa =
     (let (sa, seq) = NextSequenceNumber sa;
          header = put32 (sa_SPI sa) @ put32 seq
      in (sa, rbind rnd (\<lambda>iv.
           let dataToEncrypt = espTrailer plaintext (BlockSize (EncryptionAlg sa)); aad = header
           in rbind (Encrypt (EncryptionAlg sa) dataToEncrypt (EncryptionKey sa) iv aad) (\<lambda>ciphertext.
                let encryptedPayload = header @ iv @ ciphertext
                in Inr (case IntegrityAlg2 sa of
                     Some a \<Rightarrow> if \<not> IsAEAD sa
                       then encryptedPayload @ Compute a (IntegrityKey sa) encryptedPayload
                       else encryptedPayload
                   | None \<Rightarrow> encryptedPayload)))))"

section \<open>Decapsulation\<close>

text \<open>The ciphertext of a packet, after the integrity check of an association without AEAD.\<close>

definition espCiphertext :: "bytes \<Rightarrow> SecurityAssociation \<Rightarrow> nat \<Rightarrow> bytes result" where
  "espCiphertext packet sa ivSize =
     (case (if IsAEAD sa then None else IntegrityAlg2 sa) of
        Some a \<Rightarrow>
          let icvSize = OutputSize a
          in if length packet < 8 + ivSize + icvSize then fail ''ESP packet too short for ICV''
             else let receivedICV = drop (length packet - icvSize) packet;
                      dataToVerify = take (length packet - icvSize) packet
                  in if \<not> Verify a (IntegrityKey sa) dataToVerify receivedICV
                     then fail ''ESP integrity check failed''
                     else Inr (slice packet (8 + ivSize) (length packet - icvSize))
      | None \<Rightarrow> Inr (drop (8 + ivSize) packet))"

definition espStrip :: "bytes \<Rightarrow> bytes result" where
  "espStrip plaintext =
     (if length plaintext < 2 then fail ''decrypted payload too short''
      else let padLen = unat (plaintext ! (length plaintext - 2))
           in if length plaintext < 2 + padLen then fail ''invalid padding length''
              else Inr (take (length plaintext - 2 - padLen) plaintext))"

definition Decapsulate :: "bytes \<Rightarrow> SecurityAssociation \<Rightarrow> bytes result" where
  "Decapsulate packet sa =
     (if length packet < 8 then fail ''ESP packet too short''
      else let spi = get32 (slice packet 0 4)
           in if sa_SPI sa \<noteq> 0 \<and> spi \<noteq> sa_SPI sa then fail ''ESP SPI mismatch''
              else let ivSize = IVSize (EncryptionAlg sa)
                   in if length packet < 8 + ivSize then fail ''ESP packet too short for IV''
                      else rbind (espCiphertext packet sa ivSize) (\<lambda>ciphertextWithICV.
                        rbind (Decrypt (EncryptionAlg sa) ciphertextWithICV (EncryptionKey sa)
                            (slice packet 8 (8 + ivSize)) (slice packet 0 8)) espStrip))"

section \<open>Round trip\<close>

lemma espPadLen_bounds:
  assumes "0 < b"
  shows "espPadLen n b < b" "(n + espPadLen n b + 2) mod b = 0"
proof -
  have lt: "(n + 2) mod b < b" using assms by simp
  then show "espPadLen n b < b" using assms by (auto simp: espPadLen_def Let_def)
  show "(n + espPadLen n b + 2) mod b = 0"
  proof (cases "(n + 2) mod b = 0")
    case False
    have "espPadLen n b = b - (n + 2) mod b" using False by (simp add: espPadLen_def Let_def)
    with lt div_mult_mod_eq [of "n + 2" b] have "n + espPadLen n b + 2 = (n + 2) div b * b + b"
      by linarith
    then show ?thesis by (metis mod_mult_self2_is_0 mod_add_self2)
  qed (simp add: espPadLen_def Let_def)
qed

lemma length_espTrailer: "length (espTrailer p b) = length p + espPadLen (length p) b + 2"
  by (simp add: espTrailer_def Let_def)

lemma espStrip_espTrailer:
  assumes "0 < b" "b \<le> 256"
  shows "espStrip (espTrailer p b) = Inr p"
proof -
  have n: "espPadLen (length p) b < 256" using espPadLen_bounds(1) [OF assms(1), of "length p"] assms(2) by simp
  have "espTrailer p b ! (length (espTrailer p b) - 2) = of_nat (espPadLen (length p) b)"
    unfolding length_espTrailer by (simp add: espTrailer_def Let_def nth_append)
  with n show ?thesis
    by (simp add: espStrip_def length_espTrailer Let_def) (simp add: espTrailer_def Let_def)
qed

text \<open>Padding starts at one, increases by one and ends below the pad length byte.\<close>

lemma espTrailer_padding:
  "i < espPadLen (length p) b \<Longrightarrow> espTrailer p b ! (length p + i) = of_nat (i + 1)"
  by (simp add: espTrailer_def Let_def nth_append)

definition esp_packet :: "SecurityAssociation \<Rightarrow> u32 \<Rightarrow> bytes \<Rightarrow> bytes \<Rightarrow> bytes" where
  "esp_packet sa seq iv ct =
     (let e = put32 (sa_SPI sa) @ put32 seq @ iv @ ct
      in case (if IsAEAD sa then None else IntegrityAlg2 sa) of
           Some a \<Rightarrow> e @ Compute a (IntegrityKey sa) e | None \<Rightarrow> e)"

lemma Encapsulate_packet:
  "snd (Encapsulate (Inr iv) p sa) = Inr pkt \<Longrightarrow>
     \<exists>ct. Encrypt (EncryptionAlg sa) (espTrailer p (BlockSize (EncryptionAlg sa))) (EncryptionKey sa) iv
         (put32 (sa_SPI sa) @ put32 (ucast (SequenceNumber sa + 1))) = Inr ct \<and>
       pkt = esp_packet sa (ucast (SequenceNumber sa + 1)) iv ct"
  by (auto simp: Encapsulate_def NextSequenceNumber_def esp_packet_def Let_def rbind_Inr_iff
      split: option.splits)

text \<open>Two ends of one association: the same SPI, algorithms and keys.\<close>

definition sa_peer :: "SecurityAssociation \<Rightarrow> SecurityAssociation \<Rightarrow> bool" where
  "sa_peer a b \<longleftrightarrow> sa_SPI b = sa_SPI a \<and> EncryptionAlg b = EncryptionAlg a \<and>
     EncryptionKey b = EncryptionKey a \<and> IntegrityAlg2 b = IntegrityAlg2 a \<and>
     IntegrityKey b = IntegrityKey a \<and> IsAEAD b = IsAEAD a"

lemma espCiphertext_packet:
  assumes "sa_peer a b" "length iv = IVSize (EncryptionAlg b)"
  shows "espCiphertext (esp_packet a seq iv ct) b (IVSize (EncryptionAlg b)) = Inr ct"
proof (cases "if IsAEAD a then None else IntegrityAlg2 a")
  case None
  with assms show ?thesis
    by (auto simp: espCiphertext_def esp_packet_def sa_peer_def Let_def drop_numeral_add)
next
  case (Some m)
  then have m: "\<not> IsAEAD a" "IntegrityAlg2 a = Some m" by (auto split: if_splits)
  define e where "e = put32 (sa_SPI a) @ put32 seq @ iv @ ct"
  have pkt: "esp_packet a seq iv ct = e @ Compute m (IntegrityKey a) e"
    using Some by (simp add: esp_packet_def e_def Let_def)
  have "slice (e @ Compute m (IntegrityKey a) e) (8 + length iv) (length e) = ct"
    by (simp add: slice_def e_def drop_numeral_add)
  moreover have "8 + length iv \<le> length e" by (simp add: e_def)
  ultimately show ?thesis
    using assms m pkt integ.verify_compute [of m "IntegrityKey a" e]
    by (simp add: espCiphertext_def sa_peer_def Let_def)
qed

lemma esp_packet_prefix:
  "\<exists>rest. esp_packet a seq iv ct = put32 (sa_SPI a) @ put32 seq @ iv @ rest"
  by (auto simp: esp_packet_def Let_def split: option.split)

lemma Decapsulate_Encapsulate:
  assumes "sa_peer a b" "length iv = IVSize (EncryptionAlg a)"
    and "snd (Encapsulate (Inr iv) p a) = Inr pkt"
  shows "Decapsulate pkt b = Inr p"
proof -
  let ?seq = "ucast (SequenceNumber a + 1) :: u32"
  let ?data = "espTrailer p (BlockSize (EncryptionAlg a))"
  obtain ct where ct: "Encrypt (EncryptionAlg a) ?data (EncryptionKey a) iv
      (put32 (sa_SPI a) @ put32 ?seq) = Inr ct" and pkt: "pkt = esp_packet a ?seq iv ct"
    using Encapsulate_packet [OF assms(3)] by blast
  obtain rest where rest: "pkt = put32 (sa_SPI a) @ put32 ?seq @ iv @ rest"
    using esp_packet_prefix pkt by blast
  have "Decrypt (EncryptionAlg b) ct (EncryptionKey b) iv (put32 (sa_SPI a) @ put32 ?seq) = Inr ?data"
    using enc.decrypt_encrypt [OF ct] assms(1) by (simp add: sa_peer_def)
  moreover have "espStrip ?data = Inr p"
    by (rule espStrip_espTrailer) (simp_all add: BlockSize_def)
  moreover have "espCiphertext pkt b (IVSize (EncryptionAlg b)) = Inr ct"
    unfolding pkt by (rule espCiphertext_packet) (use assms in \<open>auto simp: sa_peer_def\<close>)
  moreover have "length iv = IVSize (EncryptionAlg b)" "sa_SPI b = sa_SPI a"
    using assms(1,2) by (auto simp: sa_peer_def)
  moreover have "slice pkt 0 4 = put32 (sa_SPI a)" "slice pkt 0 8 = put32 (sa_SPI a) @ put32 ?seq"
    "slice pkt 8 (8 + length iv) = iv" "8 + length iv \<le> length pkt"
    using rest by (simp_all add: slice_def)
  ultimately show ?thesis
    by (simp add: Decapsulate_def Let_def del: slice_0)
qed

section \<open>Safety\<close>

lemma Encapsulate_total:
  assumes "enc_args_ok (EncryptionAlg sa) (EncryptionKey sa) iv"
  shows "\<exists>pkt. snd (Encapsulate (Inr iv) p sa) = Inr pkt"
proof -
  have "length (espTrailer p 16) mod 16 = 0"
    using espPadLen_bounds(2) [of 16 "length p"] by (simp add: length_espTrailer)
  then obtain ct where "Encrypt (EncryptionAlg sa) (espTrailer p (BlockSize (EncryptionAlg sa)))
      (EncryptionKey sa) iv (put32 (sa_SPI sa) @ put32 (ucast (SequenceNumber sa + 1))) = Inr ct"
    using Encrypt_total [OF assms] by (metis BlockSize_def)
  then show ?thesis by (simp add: Encapsulate_def NextSequenceNumber_def Let_def)
qed

text \<open>Whatever arrives, a usable association decapsulates or reports an error.\<close>

lemma Decapsulate_no_panic:
  assumes "\<And>iv. length iv = IVSize (EncryptionAlg sa) \<Longrightarrow> enc_args_ok (EncryptionAlg sa) (EncryptionKey sa) iv"
  shows "Decapsulate pkt sa \<noteq> Inl Panic"
proof
  assume "Decapsulate pkt sa = Inl Panic"
  then have "8 + IVSize (EncryptionAlg sa) \<le> length pkt"
    and "\<exists>c aad. Decrypt (EncryptionAlg sa) c (EncryptionKey sa)
           (slice pkt 8 (8 + IVSize (EncryptionAlg sa))) aad = Inl Panic"
    by (auto simp: Decapsulate_def Let_def rbind_Inl_iff espCiphertext_def espStrip_def
        split: if_splits option.splits)
  moreover from this(1) have "length (slice pkt 8 (8 + IVSize (EncryptionAlg sa))) = IVSize (EncryptionAlg sa)"
    by simp
  ultimately show False using Decrypt_no_panic [OF assms] by blast
qed

text \<open>Without AEAD, an accepted packet ends with the MAC of everything before it.\<close>

lemma Decapsulate_authentic:
  assumes "\<not> IsAEAD sa" "IntegrityAlg2 sa = Some m" "m \<noteq> NullIntegrity" "Decapsulate pkt sa = Inr p"
  shows "\<exists>e. pkt = e @ Compute m (IntegrityKey sa) e"
proof -
  have "Verify m (IntegrityKey sa) (take (length pkt - OutputSize m) pkt)
      (drop (length pkt - OutputSize m) pkt)"
    using assms
    by (auto simp: Decapsulate_def espCiphertext_def Let_def rbind_Inr_iff split: if_splits)
  then have "drop (length pkt - OutputSize m) pkt =
      Compute m (IntegrityKey sa) (take (length pkt - OutputSize m) pkt)"
    using assms(3) by (simp add: Verify_iff)
  then show ?thesis by (metis append_take_drop_id)
qed

text \<open>The packet number after \<open>n\<close> packets, and that it wraps.\<close>

lemma Encapsulate_counter:
  "SequenceNumber (fst (Encapsulate r p sa)) = SequenceNumber sa + 1"
  by (simp add: Encapsulate_def NextSequenceNumber_def Let_def)

end
