(* ===== verification/Swu_Config.thy ===== *)
theory Swu_Config
  imports Go_Strings Ikev2_TS
begin

text \<open>
  The configuration of a session (\<^verbatim>\<open>pkg/swu/config.go\<close>), the interface of the SIM
  (\<^verbatim>\<open>pkg/sim/provider.go\<close>), the identity made of it (\<^verbatim>\<open>pkg/swu/plmn.go\<close>), and the texts of
  addresses.
\<close>

section \<open>Strings, bytes and addresses\<close>

definition str_bytes :: "string \<Rightarrow> bytes" where
  "str_bytes s = map of_char s"

definition bytes_str :: "bytes \<Rightarrow> string" where
  "bytes_str bs = map (\<lambda>b. char_of (unat b)) bs"

lemma length_str_bytes [simp]: "length (str_bytes s) = length s"
  by (simp add: str_bytes_def)

lemma bytes_str_str_bytes [simp]: "bytes_str (str_bytes s) = s"
proof -
  have "char_of (unat (of_char c :: byte)) = c" for c
  proof -
    have "unat (of_char c :: byte) = of_char c"
      by (metis of_nat_of_char unat_of_nat_byte nat_of_char_less_256)
    then show ?thesis by simp
  qed
  then show ?thesis by (simp add: bytes_str_def str_bytes_def o_def)
qed

text \<open>\<^verbatim>\<open>net.ParseIP(s).To4()\<close> for a dotted decimal text; anything else gives nil.\<close>

definition octet_ok :: "string \<Rightarrow> bool" where
  "octet_ok s \<longleftrightarrow> s \<noteq> [] \<and> length s \<le> 3 \<and> list_all is_digit s \<and> (length s = 1 \<or> hd s \<noteq> CHR ''0'') \<and>
     dec_value s \<le> 255"

definition ParseIP4 :: "string \<Rightarrow> bytes" where
  "ParseIP4 s =
     (let ps = split_on CHR ''.'' s
      in if length ps = 4 \<and> list_all octet_ok ps then map (\<lambda>p. of_nat (dec_value p)) ps else [])"

text \<open>\<^verbatim>\<open>net.IP.String\<close>: dotted decimal, or hexadecimal groups with the first longest run of zeros cut.\<close>

definition ip4_String :: "bytes \<Rightarrow> string" where
  "ip4_String ip = join_with ''.'' (map (\<lambda>b. itoa (unat b)) ip)"

definition hex_digit :: "nat \<Rightarrow> char" where
  "hex_digit n = char_of (if n < 10 then 48 + n else 87 + n)"

fun hex_String :: "nat \<Rightarrow> string" where
  "hex_String n = (if n < 16 then [hex_digit n] else hex_String (n div 16) @ [hex_digit (n mod 16)])"

declare hex_String.simps [simp del]

definition ip6_groups :: "bytes \<Rightarrow> u16 list" where
  "ip6_groups ip = map (\<lambda>i. get16 (slice ip (2 * i) (2 * i + 2))) [0..<8]"

text \<open>The first longest run of at least two zero groups, as its start and end.\<close>

definition zero_run :: "u16 list \<Rightarrow> nat \<times> nat" where
  "zero_run gs = foldl (\<lambda>(a, b) i.
     let j = i + length (takeWhile (\<lambda>g. g = 0) (drop i gs))
     in if 2 \<le> j - i \<and> b - a < j - i then (i, j) else (a, b)) (0, 0) [0..<length gs]"

definition ip6_String :: "bytes \<Rightarrow> string" where
  "ip6_String ip =
     (let gs = ip6_groups ip; hs = map (\<lambda>g. hex_String (unat g)) gs; (a, b) = zero_run gs
      in if a = b then join_with '':'' hs
         else join_with '':'' (take a hs) @ ''::'' @ join_with '':'' (drop b hs))"

definition ip_String :: "bytes \<Rightarrow> string" where
  "ip_String ip = (let p4 = To4 ip in if p4 \<noteq> [] then ip4_String p4 else ip6_String ip)"

text \<open>A dotted address parses back.\<close>

lemma octet_itoa:
  assumes "n \<le> 255"
  shows "octet_ok (itoa n)"
proof -
  consider "n < 10" | "10 \<le> n" "n < 100" | "100 \<le> n" by linarith
  then show ?thesis
  proof cases
    case 1
    then have "itoa n = [char_of (48 + n)]" by (subst itoa.simps) simp
    with 1 show ?thesis by (simp add: octet_ok_def dec_value_def)
  next
    case 2
    then have d: "n div 10 < 10" "n div 10 \<noteq> 0" by auto
    then have i: "itoa n = [char_of (48 + n div 10), char_of (48 + n mod 10)]"
      using 2 by (subst itoa.simps, subst itoa.simps) simp
    have "char_of (48 + n div 10) \<noteq> CHR ''0''"
    proof
      assume "char_of (48 + n div 10) = CHR ''0''"
      then have "digit_val (char_of (48 + n div 10)) = digit_val (CHR ''0'')" by simp
      then show False using d by (simp add: digit_val_def)
    qed
    with 2 i dec_value_itoa [of n] show ?thesis by (simp add: octet_ok_def)
  next
    case 3
    then have d: "n div 100 < 10" "n div 100 \<noteq> 0" "n div 10 div 10 = n div 100" "10 \<le> n div 10"
      using assms by (auto simp: div_mult2_eq [symmetric])
    then have i: "itoa n = [char_of (48 + n div 100), char_of (48 + n div 10 mod 10), char_of (48 + n mod 10)]"
      using 3 by (subst itoa.simps, subst itoa.simps, subst itoa.simps) simp
    have "char_of (48 + n div 100) \<noteq> CHR ''0''"
    proof
      assume "char_of (48 + n div 100) = CHR ''0''"
      then have "digit_val (char_of (48 + n div 100)) = digit_val (CHR ''0'')" by simp
      then show False using d by (simp add: digit_val_def)
    qed
    with assms i dec_value_itoa [of n] show ?thesis by (simp add: octet_ok_def)
  qed
qed

lemma ParseIP4_ip4_String:
  assumes "length ip = 4"
  shows "ParseIP4 (ip4_String ip) = ip"
proof -
  have nodot: "CHR ''.'' \<notin> set (itoa n)" for n
    using itoa_digits [of n] by (auto simp: is_digit_def Let_def)
  have "split_on CHR ''.'' (ip4_String ip) = map (\<lambda>b. itoa (unat b)) ip"
    unfolding ip4_String_def by (rule split_join) (use assms nodot in auto)
  moreover have "list_all octet_ok (map (\<lambda>b. itoa (unat b)) ip)"
  proof (simp add: list_all_iff, intro ballI)
    fix b :: byte show "octet_ok (itoa (unat b))"
      using unat_byte_less [of b] by (intro octet_itoa) linarith
  qed
  ultimately show ?thesis using assms by (simp add: ParseIP4_def o_def)
qed

section \<open>The SIM\<close>

text \<open>
  What \<^verbatim>\<open>CalculateAKA\<close> returned: the three keys, an error that is \<^verbatim>\<open>sim.ErrSyncFailure\<close> with the
  token, or another error. \<open>GetIMEI\<close> is \<open>None\<close> when the provider has no such method. A SIM
  answers the same each time it is asked.
\<close>

datatype aka_result = AkaOk bytes bytes bytes | AkaSync bytes | AkaErr err

record SIMProvider =
  GetIMSI :: "string result"
  CalculateAKA :: "bytes \<Rightarrow> bytes \<Rightarrow> aka_result"
  GetIMEI :: "string result option"

text \<open>\<^verbatim>\<open>imsi, _ := SIM.GetIMSI()\<close>: the string next to an error is empty.\<close>

definition imsi_of :: "SIMProvider \<Rightarrow> string" where
  "imsi_of p = (case GetIMSI p of Inr s \<Rightarrow> s | Inl _ \<Rightarrow> [])"

section \<open>Configuration\<close>

text \<open>The data of the configuration; its factories and callbacks are elsewhere.\<close>

record Config =
  EpDGAddr :: string
  EpDGPort :: u16
  APN :: string
  LocalAddr :: string
  DNSServer :: string
  SIM :: SIMProvider
  EnableDriver :: bool
  DataplaneMode :: string
  XFRMIfID :: u32
  cfg_MCC :: string
  cfg_MNC :: string
  cfg_IMSI :: string
  cfg_LocalPort :: u16
  ReauthInterval :: int
  TUNName :: string
  TUNMTU :: int
  cfg_ReplayWindow :: int
  EnableESN :: bool
  EAPMACValidation :: bool
  EnableWiresharkKeyLog :: bool
  WiresharkKeyLogPath :: string
  cfg_ResumeTicket :: bytes
  cfg_ResumeOldSKd :: bytes
  FastReauthID :: string
  FastReauthMK :: bytes
  FastReauthKAut :: bytes
  FastReauthKEncr :: bytes
  IKEProposals :: "string list"
  ESPProposals :: "string list"
  ESPRekeyPFS :: int
  DPDInterval :: int
  NATKeepaliveInterval :: int
  DeviceIdentityEnabled :: "bool option"
  AKAChallengeMode :: string
  TicketRequestEnabled :: "bool option"
  CPInFirstAuth :: "bool option"
  CPInFinalAuth :: "bool option"
  EAPIdentity :: string
  cfg_IMEI :: string
  IPStack :: string
  DeviceModel :: string
  DeviceID :: string
  TraceID :: string
  IKERetryCount :: int
  CookiePayloadType :: string
  AutoPRF :: bool

section \<open>Identities\<close>

definition normalizeMNC :: "string \<Rightarrow> string" where
  "normalizeMNC mnc = (if length mnc = 2 then ''0'' @ mnc else mnc)"

definition normalizeMCC :: "string \<Rightarrow> string" where
  "normalizeMCC mcc = mcc"

text \<open>\<open>None\<close> is the nil configuration, which this function dereferences.\<close>

definition effectiveMCCMNC :: "string \<Rightarrow> Config option \<Rightarrow> (string \<times> string) result" where
  "effectiveMCCMNC imsi cfg =
     (let (mcc, mnc) = (if 5 \<le> length imsi then (slice imsi 0 3, slice imsi 3 5) else ([], []))
      in case cfg of None \<Rightarrow> Inl Panic
         | Some c \<Rightarrow>
             let mcc = (if cfg_MCC c \<noteq> [] then cfg_MCC c else mcc);
                 mnc = (if cfg_MNC c \<noteq> [] then cfg_MNC c else mnc)
             in Inr (normalizeMCC mcc, normalizeMNC mnc))"

definition buildNAI :: "string \<Rightarrow> Config option \<Rightarrow> string result" where
  "buildNAI imsi cfg =
     (case cfg of
        Some c \<Rightarrow> if trim_space (EAPIdentity c) \<noteq> [] then Inr (trim_space (EAPIdentity c))
                  else rbind (effectiveMCCMNC imsi cfg) (\<lambda>(mcc, mnc).
                    Inr (''0'' @ imsi @ ''@nai.epc.mnc'' @ mnc @ ''.mcc'' @ mcc @ ''.3gppnetwork.org''))
      | None \<Rightarrow> rbind (effectiveMCCMNC imsi cfg) (\<lambda>(mcc, mnc).
                    Inr (''0'' @ imsi @ ''@nai.epc.mnc'' @ mnc @ ''.mcc'' @ mcc @ ''.3gppnetwork.org'')))"

text \<open>The test for nil in \<open>buildNAI\<close> is in vain.\<close>

lemma buildNAI_panics_iff: "buildNAI imsi cfg = Inl Panic \<longleftrightarrow> cfg = None"
  by (auto simp: buildNAI_def effectiveMCCMNC_def Let_def split: option.splits if_splits)

text \<open>The identity of a session: its configuration is never nil.\<close>

definition nai :: "string \<Rightarrow> Config \<Rightarrow> string" where
  "nai imsi c = (case buildNAI imsi (Some c) of Inr s \<Rightarrow> s | Inl _ \<Rightarrow> [])"

lemma buildNAI_Some: "buildNAI imsi (Some c) = Inr (nai imsi c)"
  by (auto simp: nai_def buildNAI_def effectiveMCCMNC_def Let_def split: prod.splits)

end
