(* ===== verification/Swu_Session.thy ===== *)
theory Swu_Session
  imports Ikev2_Packet Crypto_Prf Crypto_Integrity Crypto_Cipher Crypto_Dh Ipsec_Esp Eap_Auts Swu_Config
begin

text \<open>
  The state of a session (\<^verbatim>\<open>Session\<close> of \<^verbatim>\<open>pkg/swu/session.go\<close>) as the modelled operations see
  it, the keys of an IKE SA, the message counter, and the framing that the two encrypted payload
  kinds share: the chain of inner payloads and the padding of the non-AEAD ciphers.
\<close>

section \<open>State\<close>

record IKESAKeys =
  SK_d :: bytes
  SK_ai :: bytes
  SK_ar :: bytes
  SK_ei :: bytes
  SK_er :: bytes
  SK_pi :: bytes
  SK_pr :: bytes

text \<open>\<^verbatim>\<open>fragmentSet\<close>: the received fragments by number, in order of arrival, without duplicates.\<close>

record fragmentSet =
  frag_total :: u16
  received :: "(u16 \<times> bytes) list"
  totalLen :: nat

text \<open>
  A security association is reached through a pointer; a policy and the session share one. The
  references stand for the pointers.
\<close>

type_synonym sa_ref = nat

record childOutPolicy =
  saOut :: "sa_ref option"
  pol_tsr :: "TrafficSelector option list"

text \<open>Calls of the callbacks that the session's user installed, in order.\<close>

datatype session_event =
    TicketUpdate bytes bytes
  | FastReauthUpdate string bytes bytes bytes
  | RedirectTo string
  | SessionDown

text \<open>
  \<open>None\<close> is the nil pointer or interface. \<^verbatim>\<open>ikeFragmentMTU\<close> and the counter keep their 32 bits.
  \<open>sas\<close> holds the associations that the references point to, \<open>outbox\<close> what \<^verbatim>\<open>SendIKE\<close> was called
  with, \<open>natPort\<close> the last argument of \<^verbatim>\<open>SetRemotePort\<close>; a held \<open>rekeyMu\<close> is \<open>True\<close>, and a time is
  a number of nanoseconds, \<open>None\<close> the zero time.
\<close>

record Session =
  s_cfg :: Config
  s_SPIi :: u64
  s_SPIr :: u64
  EncAlg :: "Encrypter option"
  IntegAlg :: "IntegrityAlgorithm option"
  PRFAlg :: "prf_alg option"
  DH :: "DiffieHellman option"
  Keys :: "IKESAKeys option"
  s_SequenceNumber :: u32
  ikeEncrID :: u16
  ikeIntegID :: u16
  ikeIsAEAD :: bool
  ikePRFID :: u16
  ikeDHID :: u16
  ikeEncrKeyLenBits :: int
  sas :: "SecurityAssociation list"
  ChildSAIn :: "sa_ref option"
  ChildSAOut :: "sa_ref option"
  ChildSAsIn :: "u32 \<rightharpoonup> sa_ref"
  childSPI :: u32
  childDH :: "DiffieHellman option"
  childEncrID :: u16
  childIntegID :: u16
  childEncrKeyLenBits :: int
  childESN :: bool
  childOutPolicies :: "childOutPolicy list"
  cpConfig :: "CPConfig option"
  s_tsi :: "TrafficSelector list"
  s_tsr :: "TrafficSelector list"
  rekeyMu :: bool
  lastRekeyTime :: "int option"
  authLifetime :: u32
  s_ni :: bytes
  s_nr :: bytes
  msgBuffer :: bytes
  MSK :: bytes
  eapKAut :: bytes
  eapRand :: bytes
  eapAutn :: bytes
  eapRES :: bytes
  eapCK :: bytes
  eapIK :: bytes
  s_cookie :: bytes
  sendCookie :: bool
  cookieRetryCount :: int
  keRetryGroup :: u16
  resumeTicket :: bytes
  resumeOldSKd :: bytes
  fastReauthCtx :: "FastReauthContext option"
  mobikeSupported :: bool
  fragmentationSupported :: bool
  ikeFragmentMTU :: u32
  fragmentBuf :: "u32 \<rightharpoonup> fragmentSet"
  natPort :: "int option"
  events :: "session_event list"
  outbox :: "bytes list"

definition initFastReauthCtx :: "Config \<Rightarrow> FastReauthContext" where
  "initFastReauthCtx cfg =
     (if FastReauthID cfg \<noteq> [] \<and> 0 < length (FastReauthMK cfg)
      then SaveReauthData NewFastReauthContext (FastReauthID cfg) (FastReauthMK cfg) (FastReauthKEncr cfg)
             (FastReauthKAut cfg)
      else NewFastReauthContext)"

text \<open>A new session, from the eight random bytes of the SPI; the fields not set are Go's zero values.\<close>

definition NewSession :: "Config \<Rightarrow> bytes \<Rightarrow> Session" where
  "NewSession cfg spiBytes =
     \<lparr>s_cfg = cfg, s_SPIi = get64 spiBytes, s_SPIr = 0, EncAlg = None, IntegAlg = None, PRFAlg = None,
      DH = None, Keys = None, s_SequenceNumber = 0, ikeEncrID = 0, ikeIntegID = 0, ikeIsAEAD = False,
      ikePRFID = 0, ikeDHID = 0, ikeEncrKeyLenBits = 0, sas = [], ChildSAIn = None, ChildSAOut = None,
      ChildSAsIn = (\<lambda>_. None), childSPI = 0, childDH = None, childEncrID = 0, childIntegID = 0,
      childEncrKeyLenBits = 0, childESN = False, childOutPolicies = [], cpConfig = None, s_tsi = [],
      s_tsr = [], rekeyMu = False, lastRekeyTime = None, authLifetime = 0, s_ni = [], s_nr = [],
      msgBuffer = [], MSK = [], eapKAut = [], eapRand = [], eapAutn = [], eapRES = [], eapCK = [],
      eapIK = [], s_cookie = [], sendCookie = False, cookieRetryCount = 0, keRetryGroup = 0,
      resumeTicket = cfg_ResumeTicket cfg, resumeOldSKd = cfg_ResumeOldSKd cfg,
      fastReauthCtx = Some (initFastReauthCtx cfg), mobikeSupported = False,
      fragmentationSupported = False, ikeFragmentMTU = 1280, fragmentBuf = (\<lambda>_. None),
      natPort = None, events = [], outbox = []\<rparr>"

text \<open>A method call on a nil interface and a field of a nil pointer panic.\<close>

definition deref :: "'a option \<Rightarrow> 'a result" where
  "deref p = (case p of None \<Rightarrow> Inl Panic | Some x \<Rightarrow> Inr x)"

lemma deref_simps [simp]: "deref None = Inl Panic" "deref (Some x) = Inr x"
  by (simp_all add: deref_def)

lemma deref_Inr_iff [simp]: "deref p = Inr x \<longleftrightarrow> p = Some x"
  by (cases p) auto

text \<open>\<^verbatim>\<open>SequenceNumber.Add(1) - 1\<close>: the counter is used, then incremented, modulo \<open>2 ^ 32\<close>.\<close>

definition NextMsgID :: "Session \<Rightarrow> Session \<times> u32" where
  "NextMsgID s = (s\<lparr>s_SequenceNumber := s_SequenceNumber s + 1\<rparr>, (s_SequenceNumber s + 1) - 1)"

lemma NextMsgID_simp [simp]:
  "NextMsgID s = (s\<lparr>s_SequenceNumber := s_SequenceNumber s + 1\<rparr>, s_SequenceNumber s)"
  by (simp add: NextMsgID_def)

text \<open>The integrity algorithm in force: AEAD ciphers and a nil interface have none.\<close>

definition activeInteg :: "Session \<Rightarrow> IntegrityAlgorithm option" where
  "activeInteg s = (if ikeIsAEAD s then None else IntegAlg s)"

definition icvLen :: "Session \<Rightarrow> nat" where
  "icvLen s = (case activeInteg s of None \<Rightarrow> 0 | Some a \<Rightarrow> OutputSize a)"

section \<open>Padding of the non-AEAD ciphers\<close>

definition ikePadLen :: "nat \<Rightarrow> nat \<Rightarrow> nat" where
  "ikePadLen n blockSize =
     (let r = (n + 1) mod blockSize in if r \<noteq> 0 then blockSize - r else 0)"

definition ikePad :: "nat \<Rightarrow> bytes \<Rightarrow> bytes" where
  "ikePad blockSize plain =
     (let padLen = ikePadLen (length plain) blockSize
      in plain @ replicate padLen 0 @ [of_nat padLen])"

definition ikeUnpad :: "string \<Rightarrow> string \<Rightarrow> bytes \<Rightarrow> bytes result" where
  "ikeUnpad short bad plaintext =
     (if length plaintext < 1 then fail short
      else let padLen = unat (plaintext ! (length plaintext - 1))
           in if length plaintext < 1 + padLen then fail bad
              else Inr (take (length plaintext - 1 - padLen) plaintext))"

lemma ikePadLen_bounds:
  assumes "0 < b"
  shows "ikePadLen n b < b" "(n + ikePadLen n b + 1) mod b = 0"
proof -
  have lt: "(n + 1) mod b < b" using assms by simp
  then show "ikePadLen n b < b" using assms by (auto simp: ikePadLen_def Let_def)
  show "(n + ikePadLen n b + 1) mod b = 0"
  proof (cases "(n + 1) mod b = 0")
    case False
    have "ikePadLen n b = b - (n + 1) mod b" using False by (simp add: ikePadLen_def Let_def)
    with lt div_mult_mod_eq [of "n + 1" b] have "n + ikePadLen n b + 1 = (n + 1) div b * b + b"
      by linarith
    then show ?thesis by (metis mod_mult_self2_is_0 mod_add_self2)
  qed (simp add: ikePadLen_def Let_def)
qed

lemma length_ikePad: "length (ikePad b p) = length p + ikePadLen (length p) b + 1"
  by (simp add: ikePad_def Let_def)

lemma ikePad_aligned: "0 < b \<Longrightarrow> length (ikePad b p) mod b = 0"
  using ikePadLen_bounds(2) [of b "length p"] by (simp add: length_ikePad)

lemma ikeUnpad_ikePad:
  assumes "0 < b" "b \<le> 256"
  shows "ikeUnpad x y (ikePad b p) = Inr p"
proof -
  have n: "ikePadLen (length p) b < 256"
    using ikePadLen_bounds(1) [OF assms(1), of "length p"] assms(2) by simp
  have "ikePad b p ! (length (ikePad b p) - 1) = of_nat (ikePadLen (length p) b)"
    unfolding length_ikePad by (simp add: ikePad_def Let_def nth_append)
  with n show ?thesis
    by (simp add: ikeUnpad_def length_ikePad Let_def) (simp add: ikePad_def Let_def)
qed

lemma ikeUnpad_no_panic [simp]: "ikeUnpad x y p \<noteq> Inl Panic"
  by (simp add: ikeUnpad_def Let_def)

section \<open>Opening a protected payload\<close>

text \<open>
  The integrity check of both encrypted payloads: \<open>off\<close> bytes of the message stand before the
  ciphertext, and the value covers everything up to the end of the ciphertext.
\<close>

definition stripICV ::
    "string \<Rightarrow> string \<Rightarrow> Session \<Rightarrow> IKESAKeys \<Rightarrow> bytes \<Rightarrow> nat \<Rightarrow> bytes \<Rightarrow> bytes result" where
  "stripICV short bad s k data off ciphertext =
     (case activeInteg s of
        None \<Rightarrow> Inr ciphertext
      | Some a \<Rightarrow>
          let icvSize = OutputSize a
          in if length ciphertext < icvSize then fail short
             else let receivedICV = drop (length ciphertext - icvSize) ciphertext;
                      ciphertext = take (length ciphertext - icvSize) ciphertext;
                      dataToVerify = take (off + length ciphertext) data
                  in if \<not> Verify a (SK_ar k) dataToVerify receivedICV then fail bad
                     else Inr ciphertext)"

definition openCiphertext ::
    "string \<Rightarrow> string \<Rightarrow> Session \<Rightarrow> Encrypter \<Rightarrow> bytes \<Rightarrow> bytes \<Rightarrow> bytes \<Rightarrow> bytes \<Rightarrow> bytes result" where
  "openCiphertext short bad s e ciphertext key iv aad =
     rbind (relabel ''decryption failed'' (Decrypt e ciphertext key iv aad)) (\<lambda>plaintext.
       if ikeIsAEAD s then Inr plaintext else ikeUnpad short bad plaintext)"

text \<open>The sending side: what is encrypted, and the integrity value behind the ciphertext.\<close>

definition sealPlain :: "Session \<Rightarrow> Encrypter \<Rightarrow> bytes \<Rightarrow> bytes" where
  "sealPlain s e plain = (if ikeIsAEAD s then plain else ikePad (BlockSize e) plain)"

definition appendICV :: "Session \<Rightarrow> IKESAKeys \<Rightarrow> bytes \<Rightarrow> bytes" where
  "appendICV s k packet =
     (case activeInteg s of None \<Rightarrow> packet | Some a \<Rightarrow> packet @ Compute a (SK_ai k) packet)"

text \<open>Two ends of an IKE SA: the algorithms agree and one side's outgoing keys are the other's
  incoming ones.\<close>

definition ike_peer :: "Session \<Rightarrow> IKESAKeys \<Rightarrow> Session \<Rightarrow> IKESAKeys \<Rightarrow> bool" where
  "ike_peer a ka b kb \<longleftrightarrow> EncAlg b = EncAlg a \<and> IntegAlg b = IntegAlg a \<and> ikeIsAEAD b = ikeIsAEAD a \<and>
     Keys a = Some ka \<and> Keys b = Some kb \<and> SK_er kb = SK_ei ka \<and> SK_ar kb = SK_ai ka"

lemma length_appendICV: "length (appendICV s k p) = length p + icvLen s"
  by (simp add: appendICV_def icvLen_def split: option.split)

lemma appendICV_prefix: "\<exists>r. appendICV s k (pre @ ct) = pre @ r"
  by (simp add: appendICV_def split: option.split)

lemma stripICV_append:
  assumes "ike_peer a ka b kb" "length pre = off"
  shows "stripICV x y b kb (appendICV a ka (pre @ ct)) off (drop off (appendICV a ka (pre @ ct))) = Inr ct"
proof (cases "activeInteg a")
  case None
  with assms show ?thesis by (auto simp: stripICV_def appendICV_def activeInteg_def ike_peer_def)
next
  case (Some m)
  with assms have b: "activeInteg b = Some m" "SK_ar kb = SK_ai ka"
    by (auto simp: ike_peer_def activeInteg_def)
  have p: "appendICV a ka (pre @ ct) = (pre @ ct) @ Compute m (SK_ai ka) (pre @ ct)"
    using Some by (simp add: appendICV_def)
  show ?thesis
    using assms(2) b integ.verify_compute [of m "SK_ai ka" "pre @ ct"]
    by (simp add: stripICV_def p Let_def)
qed

lemma openCiphertext_seal:
  assumes "ikeIsAEAD b = ikeIsAEAD a" "Encrypt e (sealPlain a e p) k iv aad = Inr ct"
  shows "openCiphertext x y b e ct k iv aad = Inr p"
  using enc.decrypt_encrypt [OF assms(2)] assms(1) ikeUnpad_ikePad [of "BlockSize e"]
  by (simp add: openCiphertext_def sealPlain_def BlockSize_def)

lemma length_sealed:
  assumes "Encrypt e (sealPlain a e p) k iv aad = Inr ct"
  shows "length ct \<le> length p + 32"
  using enc.length_encrypt [OF assms] ikePadLen_bounds(1) [of 16 "length p"]
  by (auto simp: sealPlain_def length_ikePad BlockSize_def overhead_def split: if_splits Encrypter.splits)

text \<open>A sealed message that is accepted ends with the integrity value of what precedes it.\<close>

lemma stripICV_verified:
  assumes "stripICV x y s k data off (drop off data) = Inr ct" "activeInteg s = Some a"
    "a \<noteq> NullIntegrity" "off \<le> length data"
  shows "data = take (off + length ct) data @ Compute a (SK_ar k) (take (off + length ct) data)"
proof -
  let ?n = "length data - OutputSize a"
  have *: "OutputSize a \<le> length data - off" "ct = take (?n - off) (drop off data)"
    "Verify a (SK_ar k) (take (off + length ct) data) (drop (length data - off - OutputSize a) (drop off data))"
    using assms(1,2) by (auto simp: stripICV_def Let_def not_less add.commute split: if_splits)
  have n: "off + length ct = ?n" using * assms(4) by simp
  moreover have "drop (length data - off - OutputSize a) (drop off data) = drop ?n data"
    using * assms(4) by simp
  ultimately show ?thesis
    using *(3) assms(3) append_take_drop_id [of ?n data] by (simp add: Verify_iff)
qed

section \<open>The inner payload chain\<close>

text \<open>
  \<^verbatim>\<open>parsePayloads\<close> on decrypted data. It differs from \<^verbatim>\<open>ikev2.DecodePacket\<close> in two points: data
  too short for a header ends the loop without an error, and errors are passed on as they are.
\<close>

function parsePayloads :: "bytes \<Rightarrow> byte \<Rightarrow> Payload list result" where
  "parsePayloads data nextType =
     (if nextType = PT_NoNextPayload \<or> data = [] then Inr []
      else if length data < 4 then Inr []
      else rbind (DecodePayloadHeader (slice data 0 4)) (\<lambda>genHeader.
        let n = unat (PayloadLength genHeader)
        in if length data < n then fail ''payload too short''
           else rbind (go_slice data 4 n) (\<lambda>body.
             rbind (decodeBody nextType body) (\<lambda>p.
               rbind (parsePayloads (drop n data) (gen_NextPayload genHeader)) (\<lambda>ps.
                 Inr (p # ps))))))"
  by pat_completeness auto
termination
  by (relation "measure (\<lambda>(data, _). length data)") (auto simp: go_slice_Inr_iff)

declare parsePayloads.simps [simp del]

lemma parsePayloads_Nil [simp]: "parsePayloads [] t = Inr []" "parsePayloads d 0 = Inr []"
  by (simp_all add: parsePayloads.simps [of "[]" t] parsePayloads.simps [of d 0])

lemma rbind_relabel_Inr: "rbind (relabel l r) f = Inr y \<longleftrightarrow> rbind r f = Inr y"
  by (auto simp: rbind_Inr_iff)

text \<open>Everything \<^verbatim>\<open>DecodePacket\<close> accepts, this loop accepts with the same result.\<close>

lemma parsePayloads_decodeChain: "decodeChain t d = Inr ps \<Longrightarrow> parsePayloads d t = Inr ps"
proof (induction t d arbitrary: ps rule: decodeChain.induct)
  case (1 t d)
  show ?case
  proof (cases "t = 0 \<or> d = []")
    case True
    with "1.prems" show ?thesis by (auto simp: decodeChain.simps [of t d])
  next
    case False
    from "1.prems" False obtain h where h: "DecodePayloadHeader (slice d 0 4) = Inr h"
      and d: "4 \<le> length d"
      by (auto simp: decodeChain.simps [of t d] rbind_Inr_iff split: if_splits)
    with "1.prems" False obtain body p qs where *:
      "unat (PayloadLength h) \<le> length d" "go_slice d 4 (unat (PayloadLength h)) = Inr body"
      "decodeBody t body = Inr p"
      "decodeChain (gen_NextPayload h) (drop (unat (PayloadLength h)) d) = Inr qs" "ps = p # qs"
      by (auto simp: decodeChain.simps [of t d] rbind_Inr_iff Let_def split: if_splits)
    have "parsePayloads (drop (unat (PayloadLength h)) d) (gen_NextPayload h) = Inr qs"
      using False d * h by (intro "1.IH") auto
    then show ?thesis
      using False d h * by (subst parsePayloads.simps) (simp add: Let_def del: slice_0)
  qed
qed

lemma parsePayloads_encode:
  assumes "\<forall>p\<in>set ps. payload_wf p \<and> fits p"
  shows "\<exists>b. encode_payloads ps = Inr b \<and> parsePayloads b (firstType ps) = Inr ps"
  using decodeChain_encode [OF assms] parsePayloads_decodeChain by blast

end
