(* ===== verification/Swu_Fragment.thy ===== *)
theory Swu_Fragment
  imports Swu_Session "HOL-Library.Signed_Division" "HOL-Library.Multiset"
begin

text \<open>
  IKE fragmentation after RFC 7383 (\<^verbatim>\<open>pkg/swu/fragment.go\<close>): the reassembly buffer, which collects
  fragments in any order within 64 KB per message, and the sending side, with the memory that the
  chunks of one message share.
\<close>

section \<open>The reassembly buffer\<close>

abbreviation (input) maxFragmentedPacket :: nat where "maxFragmentedPacket \<equiv> 65536"
abbreviation (input) maxFragments :: int where "maxFragments \<equiv> 255"
abbreviation (input) ikeOverhead :: int where "ikeOverhead \<equiv> 28 + 8 + 20 + 8"
abbreviation (input) defaultFragmentMTU :: int where "defaultFragmentMTU \<equiv> 1280"

type_synonym fragmentBuffer = "u32 \<rightharpoonup> fragmentSet"

definition newFragmentBuffer :: fragmentBuffer where
  "newFragmentBuffer = (\<lambda>_. None)"

definition newFragmentSet :: "u16 \<Rightarrow> fragmentSet" where
  "newFragmentSet totalFrags = \<lparr>frag_total = totalFrags, received = [], totalLen = 0\<rparr>"

definition addFragment ::
    "u32 \<Rightarrow> u16 \<Rightarrow> u16 \<Rightarrow> bytes \<Rightarrow> fragmentBuffer \<Rightarrow> fragmentBuffer \<times> bool result" where
  "addFragment msgID fragNum totalFrags plaintext frags =
     (let fs = (case frags msgID of None \<Rightarrow> newFragmentSet totalFrags | Some fs \<Rightarrow> fs)
      in if \<not> frag_total fs < totalFrags \<and> frag_total fs \<noteq> totalFrags
         then (frags(msgID \<mapsto> fs), fail ''fragment totals differ'')
         else
           let fs = (if frag_total fs < totalFrags then newFragmentSet totalFrags else fs)
           in if map_of (received fs) fragNum \<noteq> None then (frags(msgID \<mapsto> fs), Inr False)
              else
                let n = totalLen fs + length plaintext
                in if maxFragmentedPacket < n
                   then (frags(msgID := None), fail ''reassembled packet too large'')
                   else
                     let fs = fs\<lparr>received := received fs @ [(fragNum, plaintext)], totalLen := n\<rparr>
                     in (frags(msgID \<mapsto> fs), Inr (of_nat (length (received fs)) = frag_total fs)))"

text \<open>
  \<^verbatim>\<open>for i := uint16(1); i <= fs.total; i++\<close>: the counter wraps, so with \<open>tot = 65535\<close> the loop
  ends only at a missing fragment. 65537 rounds see every counter value; more mean no end.
\<close>

fun reasm_loop :: "nat \<Rightarrow> u16 \<Rightarrow> u16 \<Rightarrow> (u16 \<times> bytes) list \<Rightarrow> bytes \<Rightarrow> bytes result" where
  "reasm_loop fuel i tot recv acc =
     (if fuel = 0 then Inl Hang
      else if \<not> i \<le> tot then Inr acc
      else case map_of recv i of
        None \<Rightarrow> fail ''missing fragment''
      | Some d \<Rightarrow> reasm_loop (fuel - 1) (i + 1) tot recv (acc @ d))"

declare reasm_loop.simps [simp del]

definition reassemble :: "u32 \<Rightarrow> fragmentBuffer \<Rightarrow> fragmentBuffer \<times> bytes result" where
  "reassemble msgID frags =
     (case frags msgID of
        None \<Rightarrow> (frags, fail ''no fragments'')
      | Some fs \<Rightarrow>
          (case reasm_loop 65537 1 (frag_total fs) (received fs) [] of
             Inr d \<Rightarrow> (frags(msgID := None), Inr d)
           | Inl f \<Rightarrow> (frags, Inl f)))"

section \<open>Invariant\<close>

text \<open>Fragment numbers are distinct, and the byte count is right and bounded.\<close>

definition fragSet_inv :: "fragmentSet \<Rightarrow> bool" where
  "fragSet_inv fs \<longleftrightarrow> distinct (map fst (received fs)) \<and>
     totalLen fs = sum_list (map (\<lambda>x. length (snd x)) (received fs)) \<and> totalLen fs \<le> maxFragmentedPacket"

definition frag_inv :: "fragmentBuffer \<Rightarrow> bool" where
  "frag_inv frags \<longleftrightarrow> (\<forall>m fs. frags m = Some fs \<longrightarrow> fragSet_inv fs)"

datatype fragEvent = Add u32 u16 u16 bytes | Reassemble u32

fun frag_step :: "fragmentBuffer \<Rightarrow> fragEvent \<Rightarrow> fragmentBuffer" where
  "frag_step frags (Add m i n p) = fst (addFragment m i n p frags)"
| "frag_step frags (Reassemble m) = fst (reassemble m frags)"

lemma frag_invD: "frag_inv frags \<Longrightarrow> frags m = Some fs \<Longrightarrow> fragSet_inv fs"
  by (simp add: frag_inv_def)

lemma frag_inv_upd: "frag_inv frags \<Longrightarrow> fragSet_inv fs \<Longrightarrow> frag_inv (frags(m \<mapsto> fs))"
  by (simp add: frag_inv_def)

lemma frag_inv_del: "frag_inv frags \<Longrightarrow> frag_inv (frags(m := None))"
  by (simp add: frag_inv_def)

lemma newFragmentSet_inv [simp]: "fragSet_inv (newFragmentSet n)"
  by (simp add: newFragmentSet_def fragSet_inv_def)

lemma fragSet_inv_add:
  "fragSet_inv fs \<Longrightarrow> map_of (received fs) i = None \<Longrightarrow> totalLen fs + length p \<le> maxFragmentedPacket \<Longrightarrow>
     fragSet_inv (fs\<lparr>received := received fs @ [(i, p)], totalLen := totalLen fs + length p\<rparr>)"
  by (auto simp: fragSet_inv_def map_of_eq_None_iff)

lemma frag_step_inv: "frag_inv frags \<Longrightarrow> frag_inv (frag_step frags e)"
  by (cases e)
    (auto simp: addFragment_def reassemble_def Let_def
      intro!: frag_inv_upd frag_inv_del fragSet_inv_add dest: frag_invD split: option.splits sum.splits)

interpretation frag: machine "\<lambda>s. s = newFragmentBuffer" frag_step frag_inv
  by unfold_locales (auto simp: frag_step_inv, simp add: frag_inv_def newFragmentBuffer_def)

section \<open>Reassembly returns\<close>

lemma reasm_loop_Hang:
  "reasm_loop fuel i tot recv acc = Inl Hang \<Longrightarrow> j < fuel \<Longrightarrow> map_of recv (i + of_nat j) \<noteq> None"
proof (induction fuel i tot recv acc arbitrary: j rule: reasm_loop.induct)
  case (1 fuel i tot recv acc)
  from "1.prems" obtain d where d: "fuel \<noteq> 0" "i \<le> tot" "map_of recv i = Some d"
    "reasm_loop (fuel - 1) (i + 1) tot recv (acc @ d) = Inl Hang"
    by (subst (asm) reasm_loop.simps) (auto split: if_splits option.splits)
  show ?case
  proof (cases j)
    case (Suc k)
    with "1.IH" d "1.prems"(2) have "map_of recv (i + 1 + of_nat k) \<noteq> None" by auto
    with Suc show ?thesis by (simp add: add.assoc)
  qed (use d in simp)
qed

lemma reasm_loop_Hang_total:
  "reasm_loop fuel i tot recv acc = Inl Hang \<Longrightarrow> j < fuel \<Longrightarrow> i + of_nat j \<le> tot"
proof (induction fuel i tot recv acc arbitrary: j rule: reasm_loop.induct)
  case (1 fuel i tot recv acc)
  from "1.prems" obtain d where d: "fuel \<noteq> 0" "i \<le> tot" "map_of recv i = Some d"
    "reasm_loop (fuel - 1) (i + 1) tot recv (acc @ d) = Inl Hang"
    by (subst (asm) reasm_loop.simps) (auto split: if_splits option.splits)
  show ?case
  proof (cases j)
    case (Suc k)
    with "1.IH" d "1.prems"(2) have "i + 1 + of_nat k \<le> tot" by auto
    with Suc show ?thesis by (simp add: add.assoc)
  qed (use d in simp)
qed

text \<open>A buffer that was reported complete is reassembled, or a fragment is missing: no endless loop.\<close>

lemma reassemble_returns:
  assumes "frags m = Some fs" "of_nat (length (received fs)) = frag_total fs" "fragSet_inv fs"
  shows "snd (reassemble m frags) \<noteq> Inl Hang"
proof
  assume "snd (reassemble m frags) = Inl Hang"
  with assms(1) have H: "reasm_loop 65537 1 (frag_total fs) (received fs) [] = Inl Hang"
    by (simp add: reassemble_def split: sum.splits)
  have "w \<in> fst ` set (received fs)" for w :: u16
  proof -
    have "map_of (received fs) (1 + of_nat (unat (w - 1))) \<noteq> None"
      using unat_u16_less [of "w - 1"] by (intro reasm_loop_Hang [OF H]) linarith
    then show ?thesis by (simp add: map_of_eq_None_iff)
  qed
  then have "UNIV \<subseteq> fst ` set (received fs)" by auto
  then have "card (UNIV :: u16 set) \<le> card (fst ` set (received fs))" by (intro card_mono) auto
  also have "\<dots> = length (received fs)"
    using assms(3) distinct_card by (fastforce simp: fragSet_inv_def)
  finally have "65536 \<le> length (received fs)" by (simp add: card_word)
  moreover have "length (received fs) \<le> card (UNIV :: u16 set)"
    using assms(3) distinct_card [of "map fst (received fs)"]
    by (metis card_mono finite fragSet_inv_def length_map subset_UNIV)
  ultimately have "length (received fs) = 65536" by (simp add: card_word)
  with assms(2) have "frag_total fs = 0" by simp
  with reasm_loop_Hang_total [OF H, of 0] show False by simp
qed

section \<open>Fragments in any order\<close>

text \<open>What the buffer holds of a message cut into \<open>cs\<close> after the fragments \<open>js\<close> (from 0) came.\<close>

definition collected :: "bytes list \<Rightarrow> nat list \<Rightarrow> fragmentSet" where
  "collected cs js = \<lparr>frag_total = of_nat (length cs),
     received = map (\<lambda>i. (of_nat (i + 1), cs ! i)) js,
     totalLen = sum_list (map (\<lambda>i. length (cs ! i)) js)\<rparr>"

definition holds_frags :: "u32 \<Rightarrow> bytes list \<Rightarrow> nat list \<Rightarrow> fragmentBuffer \<Rightarrow> bool" where
  "holds_frags m cs js frags \<longleftrightarrow>
     frags m = (if js = [] then None else Some (collected cs js))"

lemma of_nat_u16_eq: "i < 65536 \<Longrightarrow> j < 65536 \<Longrightarrow> (of_nat i :: u16) = of_nat j \<longleftrightarrow> i = j"
  by (metis unat_of_nat_u16)

lemma map_of_collected:
  assumes "\<forall>j\<in>set js. j < 65535" "i < 65535"
  shows "map_of (received (collected cs js)) (of_nat (i + 1)) = (if i \<in> set js then Some (cs ! i) else None)"
  using assms
  by (induction js) (auto simp: collected_def of_nat_u16_eq [of "Suc _" "Suc _", simplified])

lemma addFragment_step:
  assumes "holds_frags m cs js frags" "length cs < 65535" "i < length cs" "i \<notin> set js"
    and "\<forall>j\<in>set js. j < length cs" "sum_list (map (\<lambda>j. length (cs ! j)) (js @ [i])) \<le> maxFragmentedPacket"
  shows "addFragment m (of_nat (i + 1)) (of_nat (length cs)) (cs ! i) frags =
    (frags(m \<mapsto> collected cs (js @ [i])), Inr (of_nat (length js + 1) = (of_nat (length cs) :: u16)))"
proof -
  have fs: "(case frags m of None \<Rightarrow> newFragmentSet (of_nat (length cs)) | Some fs \<Rightarrow> fs) = collected cs js"
    using assms(1) by (auto simp: holds_frags_def collected_def newFragmentSet_def)
  have "map_of (received (collected cs js)) (of_nat (i + 1)) = None"
    using assms map_of_collected [of js i cs] by force
  moreover have "frag_total (collected cs js) = of_nat (length cs)"
    and "length (received (collected cs (js @ [i]))) = length js + 1"
    and "frag_total (collected cs (js @ [i])) = of_nat (length cs)"
    and "totalLen (collected cs js) + length (cs ! i) \<le> maxFragmentedPacket"
    and upd: "(collected cs js)\<lparr>received := received (collected cs js) @ [(of_nat (i + 1), cs ! i)],
      totalLen := totalLen (collected cs js) + length (cs ! i)\<rparr> = collected cs (js @ [i])"
    using assms(6) by (simp_all add: collected_def)
  ultimately show ?thesis
    unfolding addFragment_def fs Let_def by (simp add: upd [simplified])
qed

text \<open>A second copy of a fragment changes nothing.\<close>

lemma addFragment_dup:
  assumes "frags m = Some fs" "frag_total fs = n" "map_of (received fs) i \<noteq> None"
  shows "addFragment m i n p frags = (frags, Inr False)"
  using assms by (auto simp: addFragment_def Let_def fun_upd_idem)

definition feed :: "u32 \<Rightarrow> bytes list \<Rightarrow> nat list \<Rightarrow> fragmentBuffer \<times> bool result \<Rightarrow> fragmentBuffer \<times> bool result" where
  "feed m cs js st =
     foldl (\<lambda>(frags, _) i. addFragment m (of_nat (i + 1)) (of_nat (length cs)) (cs ! i) frags) st js"

lemma sum_list_distinct_le:
  fixes f :: "nat \<Rightarrow> nat"
  assumes "distinct js" "set js \<subseteq> {..<n}"
  shows "sum_list (map f js) \<le> sum_list (map f [0..<n])"
proof -
  have "sum_list (map f js) = sum f (set js)"
    using assms(1) by (simp add: sum_list_distinct_conv_sum_set)
  also have "\<dots> \<le> sum f {..<n}" using assms(2) by (intro sum_mono2) auto
  also have "\<dots> = sum_list (map f [0..<n])"
    by (simp add: sum_list_distinct_conv_sum_set atLeast0LessThan)
  finally show ?thesis .
qed

lemma feed_collects:
  assumes "frags m = None" "length cs < 65535" "sum_list (map length cs) \<le> maxFragmentedPacket"
    and "distinct js" "set js \<subseteq> {..<length cs}" "js \<noteq> []"
  shows "feed m cs js (frags, r) =
    (frags(m \<mapsto> collected cs js), Inr (length js = length cs))"
  using assms(4-6)
proof (induction js rule: rev_induct)
  case (snoc i js)
  let ?st = "feed m cs js (frags, r)"
  have st: "holds_frags m cs js (fst ?st)" "(fst ?st)(m \<mapsto> x) = frags(m \<mapsto> x)" for x
    using snoc assms(1) by (cases "js = []"; auto simp: feed_def holds_frags_def)+
  have mono: "sum_list (map (\<lambda>j. length (cs ! j)) (js @ [i])) \<le> maxFragmentedPacket"
  proof -
    have "sum_list (map (\<lambda>j. length (cs ! j)) (js @ [i])) \<le> sum_list (map (\<lambda>j. length (cs ! j)) [0..<length cs])"
      by (rule sum_list_distinct_le) (use snoc.prems in auto)
    also have "map (\<lambda>j. length (cs ! j)) [0..<length cs] = map length cs"
      by (rule nth_equalityI) auto
    finally show ?thesis using assms(3) by simp
  qed
  have le: "Suc (length js) \<le> length cs"
    using snoc.prems distinct_card [of "js @ [i]"] card_mono [of "{..<length cs}" "set (js @ [i])"]
    by auto
  have "feed m cs (js @ [i]) (frags, r) =
      addFragment m (of_nat (i + 1)) (of_nat (length cs)) (cs ! i) (fst ?st)"
    by (simp add: feed_def split_beta)
  also have "\<dots> = ((fst ?st)(m \<mapsto> collected cs (js @ [i])),
      Inr (of_nat (length js + 1) = (of_nat (length cs) :: u16)))"
    by (rule addFragment_step) (use st(1) assms(2) snoc.prems mono in auto)
  finally show ?case
    using le assms(2) of_nat_u16_eq [of "Suc (length js)" "length cs"] by (auto simp: st(2))
qed simp

lemma reasm_loop_concat:
  assumes "\<forall>j\<in>{k..<n}. map_of recv (of_nat (j + 1)) = Some (cs ! j)" "k \<le> n" "n < 65535" "n - k < fuel"
  shows "reasm_loop fuel (of_nat (k + 1)) (of_nat n) recv acc = Inr (acc @ concat (map ((!) cs) [k..<n]))"
  using assms
proof (induction "n - k" arbitrary: k fuel acc)
  case 0
  then have "(of_nat n :: u16) < of_nat (k + 1)" by (simp add: word_less_nat_alt)
  with 0 show ?case by (subst reasm_loop.simps) auto
next
  case (Suc x)
  then have "(of_nat (k + 1) :: u16) \<le> of_nat n" by (simp add: word_le_nat_alt)
  moreover have "map_of recv (of_nat (k + 1)) = Some (cs ! k)" using Suc by auto
  moreover have "reasm_loop (fuel - 1) (of_nat (Suc k + 1)) (of_nat n) recv (acc @ cs ! k) =
      Inr ((acc @ cs ! k) @ concat (map ((!) cs) [Suc k..<n]))"
    using Suc by (intro Suc.hyps) auto
  ultimately show ?case
    using Suc.hyps(2) Suc.prems by (subst reasm_loop.simps) (simp add: upt_conv_Cons add_ac)
qed

text \<open>
  A message cut into fewer than 65535 pieces of at most 64 KB in all arrives complete whatever the
  order of its fragments: the last one reports completion, and reassembly gives the message back
  and frees the buffer.
\<close>

lemma fragments_any_order:
  assumes "frags m = None" "cs \<noteq> []" "length cs < 65535" "sum_list (map length cs) \<le> maxFragmentedPacket"
    and "mset js = mset [0..<length cs]"
  shows "snd (feed m cs js (frags, r)) = Inr True \<and>
    reassemble m (fst (feed m cs js (frags, r))) = (frags, Inr (concat cs))"
proof -
  have "distinct js" using mset_eq_imp_distinct_iff [OF assms(5)] by simp
  moreover have "set js = {..<length cs}" using mset_eq_setD [OF assms(5)] unfolding set_upt atLeast0LessThan .
  moreover have "length js = length cs" using mset_eq_length [OF assms(5)] by simp
  ultimately have js: "distinct js" "set js = {..<length cs}" "length js = length cs" .
  have "js \<noteq> []" using assms(2) js(3) by (cases cs) auto
  with js have f: "feed m cs js (frags, r) = (frags(m \<mapsto> collected cs js), Inr True)"
    using feed_collects [of frags m cs js r] assms(1,3,4) by simp
  have all: "\<forall>j\<in>{0..<length cs}. map_of (received (collected cs js)) (of_nat (j + 1)) = Some (cs ! j)"
  proof
    fix j assume "j \<in> {0..<length cs}"
    then show "map_of (received (collected cs js)) (of_nat (j + 1)) = Some (cs ! j)"
      using map_of_collected [of js j cs] assms(3) by (simp only: js(2)) simp
  qed
  have "reasm_loop 65537 (of_nat (0 + 1)) (of_nat (length cs)) (received (collected cs js)) [] =
      Inr ([] @ concat (map ((!) cs) [0..<length cs]))"
    by (rule reasm_loop_concat [OF all]) (use assms(3) in simp_all)
  then have "reasm_loop 65537 1 (frag_total (collected cs js)) (received (collected cs js)) [] = Inr (concat cs)"
    by (simp add: map_nth) (simp add: collected_def)
  moreover have "frags(m := None) = frags" using assms(1) by (rule fun_upd_idem)
  ultimately have "reassemble m (frags(m \<mapsto> collected cs js)) = (frags, Inr (concat cs))"
    unfolding reassemble_def by simp
  with f show ?thesis by simp
qed

end
