(* ===== verification/Swu_Skf.thy ===== *)
theory Swu_Skf
  imports Swu_Fragment
begin

text \<open>
  Encrypted fragments (SKF payloads) of \<^verbatim>\<open>pkg/swu/fragment.go\<close>: building, opening, cutting a
  message. The chunks of a message are slices of one array, so the padding that the CBC branch
  appends to a chunk lands in the next one: the model keeps that array.
\<close>

section \<open>Building one fragment\<close>

text \<open>
  The two calls of \<^verbatim>\<open>append\<close> on the chunk: the second works on the new array once the first has
  left the old one.
\<close>

definition skfPlain :: "bool \<Rightarrow> nat \<Rightarrow> bytes \<Rightarrow> go_slice_ref \<Rightarrow> bytes \<times> bytes" where
  "skfPlain aead blockSize mem chunk =
     (if aead \<or> blockSize = 0 then (mem, slice_val mem chunk)
      else let padLen = ikePadLen (ref_len chunk) blockSize
           in if ref_len chunk + padLen \<le> ref_cap chunk
              then let (mem, _) = go_append mem chunk (replicate padLen 0)
                   in go_append mem (chunk\<lparr>ref_len := ref_len chunk + padLen\<rparr>) [of_nat padLen]
              else (mem, slice_val mem chunk @ replicate padLen 0 @ [of_nat padLen]))"

text \<open>The array afterwards and the packet. \<open>rnd\<close> is what \<^verbatim>\<open>crypto.RandomBytes\<close> returned.\<close>

definition buildSKFPacket ::
    "bytes result \<Rightarrow> bytes \<Rightarrow> go_slice_ref \<Rightarrow> u16 \<Rightarrow> u16 \<Rightarrow> u32 \<Rightarrow> byte \<Rightarrow> byte \<Rightarrow> Session \<Rightarrow> bytes \<times> bytes result" where
  "buildSKFPacket rnd mem chunk fragNum totalFrags msgID exchangeType firstPayloadType s =
     (case rbind (deref (Keys s)) (\<lambda>k. rbind (deref (EncAlg s)) (\<lambda>e. rbind rnd (\<lambda>iv. Inr (k, e, iv)))) of
        Inl f \<Rightarrow> (mem, Inl f)
      | Inr (k, e, iv) \<Rightarrow>
          let (mem, plainToEncrypt) = skfPlain (ikeIsAEAD s) (BlockSize e) mem chunk;
              expectedCipherLen = length plainToEncrypt + (if ikeIsAEAD s then 16 else 0);
              fragHeader = put16 fragNum @ put16 totalFrags;
              skfPayloadLen = of_nat (4 + 4 + length iv + expectedCipherLen + icvLen s) :: u16;
              nextPayload = (if fragNum = 1 then firstPayloadType else PT_NoNextPayload);
              hdr = \<lparr>SPIi = s_SPIi s, SPIr = s_SPIr s, NextPayload = PT_EncryptedFragment, Version = 0x20,
                ExchangeType = exchangeType, Flags = FlagInitiator, MessageID = msgID,
                hdr_Length = of_nat IKE_HEADER_LEN + ucast skfPayloadLen\<rparr>;
              aad = Header_Encode hdr;
              skfGenHeader = \<lparr>gen_NextPayload = nextPayload, Critical = False, Reserved = 0,
                PayloadLength = skfPayloadLen\<rparr>
          in (mem, rbind (Encrypt e plainToEncrypt (SK_ei k) iv aad) (\<lambda>ciphertext.
               Inr (appendICV s k ((aad @ PayloadHeader_Encode skfGenHeader @ fragHeader @ iv) @ ciphertext)))))"

lemma snd_skfPlain:
  assumes "slice_ok mem chunk"
  shows "snd (skfPlain aead b mem chunk) =
    (if aead \<or> b = 0 then slice_val mem chunk else ikePad b (slice_val mem chunk))"
proof (cases "ref_len chunk + ikePadLen (ref_len chunk) b \<le> ref_cap chunk")
  case True
  let ?n = "ikePadLen (ref_len chunk) b"
  have "slice_val (copy_at mem (ref_off chunk + ref_len chunk) (replicate ?n 0))
      (chunk\<lparr>ref_len := ref_len chunk + ?n\<rparr>) = slice_val mem chunk @ replicate ?n 0"
    using assms True
    by (auto simp: slice_val_def slice_def slice_ok_def copy_at_fits drop_take min_def)
  with True assms show ?thesis
    by (simp add: skfPlain_def go_append_def ikePad_def length_slice_val Let_def split_beta)
next
  case False
  with assms show ?thesis
    by (simp add: skfPlain_def ikePad_def length_slice_val Let_def)
qed

section \<open>Opening one fragment\<close>

text \<open>The generic header is decoded and ignored: neither its type nor its length is looked at.\<close>

definition decryptSKF :: "bytes \<Rightarrow> Session \<Rightarrow> (bytes \<times> u16 \<times> u16 \<times> u32) result" where
  "decryptSKF data s =
     rbind (DecodeHeader data) (\<lambda>header.
       let msgID = MessageID header; offset = IKE_HEADER_LEN
       in if length data < offset + 4 then fail ''SKF too short (generic header)''
          else rbind (DecodePayloadHeader (slice data offset (offset + 4))) (\<lambda>genHeader.
            let offset = offset + 4
            in if length data < offset + 4 then fail ''SKF too short (fragment header)''
               else
                 let fragNum = get16 (slice data offset (offset + 2));
                     totalFrags = get16 (slice data (offset + 2) (offset + 4));
                     offset = offset + 4
                 in rbind (deref (EncAlg s)) (\<lambda>e.
                      let ivSize = IVSize e
                      in if length data < offset + ivSize then fail ''SKF too short (IV)''
                         else
                           let iv = slice data offset (offset + ivSize); offset = offset + ivSize;
                               aad = take IKE_HEADER_LEN data
                           in rbind (deref (Keys s)) (\<lambda>k.
                                rbind (stripICV ''SKF too short (ICV)'' ''SKF integrity check failed''
                                    s k data offset (drop offset data)) (\<lambda>ciphertext.
                                  rbind (openCiphertext ''SKF plaintext too short'' ''SKF padding invalid''
                                      s e ciphertext (SK_er k) iv aad) (\<lambda>plaintext.
                                    Inr (plaintext, fragNum, totalFrags, msgID)))))))"

lemma drop_append_shift: "length xs = n \<Longrightarrow> n \<le> k \<Longrightarrow> drop k (xs @ ys) = drop (k - n) ys"
  by simp

lemma decryptSKF_packet:
  assumes peer: "ike_peer a ka b kb" and e: "EncAlg a = Some e" and iv: "length iv = IVSize e"
    and H: "length H = 28" "DecodeHeader H = Inr h" and G: "length G = 4"
    and c: "Encrypt e (sealPlain a e p) (SK_ei ka) iv H = Inr ct"
  shows "decryptSKF (appendICV a ka ((H @ G @ (put16 n @ put16 t) @ iv) @ ct)) b = Inr (p, n, t, MessageID h)"
proof -
  let ?pre = "H @ G @ (put16 n @ put16 t) @ iv"
  define d where "d = appendICV a ka (?pre @ ct)"
  then obtain r where r: "d = ?pre @ r"
    using appendICV_prefix [of a ka ?pre ct] by blast
  have off: "length ?pre = 36 + IVSize e" using H G iv by simp
  have hdr: "DecodeHeader d = Inr h"
    using DecodeHeader_Encode [of h "G @ (put16 n @ put16 t) @ iv @ r"] Header_Encode_decoded [OF H(2)] H(1)
    by (simp add: r)
  have gen: "\<exists>g. DecodePayloadHeader (slice d 28 32) = Inr g"
    using H G by (simp add: r DecodePayloadHeader_def slice_def)
  have parts: "slice d 32 34 = put16 n" "slice d 34 36 = put16 t" "take 28 d = H"
    "slice d 36 (36 + IVSize e) = iv" "36 + IVSize e \<le> length d"
    using H G iv by (simp_all add: r slice_shift slice_append_left slice_def)
  have strip: "stripICV x y b kb d (36 + IVSize e) (drop (36 + IVSize e) d) = Inr ct" for x y
    unfolding d_def by (rule stripICV_append [OF peer off])
  have "openCiphertext x y b e ct (SK_er kb) iv H = Inr p" for x y
    using openCiphertext_seal [of b a e p "SK_ei ka" iv H ct] c peer by (simp add: ike_peer_def)
  moreover have "EncAlg b = Some e" "Keys b = Some kb" using peer e by (simp_all add: ike_peer_def)
  ultimately show ?thesis
    using hdr gen parts strip unfolding d_def [symmetric] by (auto simp: decryptSKF_def Let_def simp del: slice_0)
qed

lemma sealPlain_skf:
  "slice_ok mem chunk \<Longrightarrow> snd (skfPlain (ikeIsAEAD s) (BlockSize e) mem chunk) = sealPlain s e (slice_val mem chunk)"
  by (simp add: snd_skfPlain sealPlain_def BlockSize_def)

text \<open>What one side puts into a fragment the other side takes out, with its number.\<close>

lemma decryptSKF_buildSKFPacket:
  assumes peer: "ike_peer a ka b kb" and e: "EncAlg a = Some e" and iv: "length iv = IVSize e"
    and chunk: "slice_ok mem chunk"
    and pkt: "snd (buildSKFPacket (Inr iv) mem chunk n t msgID exch first a) = Inr pkt"
  shows "decryptSKF pkt b = Inr (slice_val mem chunk, n, t, msgID)"
proof -
  have k: "Keys a = Some ka" using peer by (simp add: ike_peer_def)
  obtain L g ct where ct: "Encrypt e (sealPlain a e (slice_val mem chunk)) (SK_ei ka) iv
      (Header_Encode \<lparr>SPIi = s_SPIi a, SPIr = s_SPIr a, NextPayload = PT_EncryptedFragment, Version = 0x20,
        ExchangeType = exch, Flags = FlagInitiator, MessageID = msgID, hdr_Length = L\<rparr>) = Inr ct"
    and p: "pkt = appendICV a ka ((Header_Encode \<lparr>SPIi = s_SPIi a, SPIr = s_SPIr a,
        NextPayload = PT_EncryptedFragment, Version = 0x20, ExchangeType = exch, Flags = FlagInitiator,
        MessageID = msgID, hdr_Length = L\<rparr> @ PayloadHeader_Encode g @ (put16 n @ put16 t) @ iv) @ ct)"
    using pkt e k sealPlain_skf [OF chunk, of a e]
    by (auto simp: buildSKFPacket_def Let_def split_beta rbind_Inr_iff)
  show ?thesis
    unfolding p using decryptSKF_packet [OF peer e iv _ _ _ ct, of _ "PayloadHeader_Encode g" n t]
      DecodeHeader_Encode [of _ "[]"] by simp
qed

text \<open>Without AEAD, an accepted fragment carries the integrity value of the rest of the packet.\<close>

lemma decryptSKF_authentic:
  assumes "decryptSKF data s = Inr r" "activeInteg s = Some a" "a \<noteq> NullIntegrity" "Keys s = Some k"
  shows "\<exists>x. data = x @ Compute a (SK_ar k) x"
proof -
  obtain e ct where "\<not> length data < 36 + IVSize e"
    "stripICV ''SKF too short (ICV)'' ''SKF integrity check failed'' s k data (36 + IVSize e)
       (drop (36 + IVSize e) data) = Inr ct"
    using assms(1,4) by (auto simp: decryptSKF_def Let_def rbind_Inr_iff split: if_splits)
  then show ?thesis using stripICV_verified [OF _ assms(2,3)] by (meson not_less)
qed

section \<open>Cutting a message\<close>

text \<open>
  The loop over the fragments: \<open>i\<close> counts from 0, chunk \<open>i\<close> is \<open>innerData[i*n : min((i+1)*n, len)]\<close>
  with all the room of the array behind it, and \<open>rnd i\<close> is the IV drawn for it.
\<close>

definition chunkRef :: "nat \<Rightarrow> nat \<Rightarrow> nat \<Rightarrow> nat \<Rightarrow> go_slice_ref" where
  "chunkRef innerLen innerCap n i =
     (let start = i * n; stop = (if innerLen < start + n then innerLen else start + n)
      in \<lparr>ref_off = start, ref_len = stop - start, ref_cap = innerCap - start\<rparr>)"

fun skf_loop :: "(nat \<Rightarrow> bytes result) \<Rightarrow> bytes \<Rightarrow> nat \<Rightarrow> nat \<Rightarrow> nat \<Rightarrow> u32 \<Rightarrow> byte \<Rightarrow> byte \<Rightarrow> Session \<Rightarrow>
    nat list \<Rightarrow> bytes list result" where
  "skf_loop rnd mem innerLen n numFrags msgID exch first s [] = Inr []"
| "skf_loop rnd mem innerLen n numFrags msgID exch first s (i # is) =
     (let (mem, r) = buildSKFPacket (rnd i) mem (chunkRef innerLen (length mem) n i)
            (of_nat (i + 1)) (of_nat numFrags) msgID exch first s
      in rbind (relabel ''building fragment failed'' r) (\<lambda>fragData.
           rbind (skf_loop rnd mem innerLen n numFrags msgID exch first s is) (\<lambda>packets.
             Inr (fragData # packets))))"

text \<open>
  \<open>spare\<close> is the content of the array of \<^verbatim>\<open>innerData\<close> beyond its length. Go's division truncates.
  An empty list is the result \<^verbatim>\<open>nil\<close> that says no fragmentation is needed.
\<close>

definition fragmentMessage :: "(nat \<Rightarrow> bytes result) \<Rightarrow> bytes \<Rightarrow> Payload list \<Rightarrow> byte \<Rightarrow> Session \<Rightarrow>
    Session \<times> bytes list result" where
  "fragmentMessage rnd spare payloads exchangeType s =
     (case rbind (encode_payloads payloads) (\<lambda>innerData.
             rbind (deref (EncAlg s)) (\<lambda>e. Inr (innerData, e))) of
        Inl f \<Rightarrow> (s, Inl f)
      | Inr (innerData, e) \<Rightarrow>
          let icvSize = (if ikeIsAEAD s then 16 else icvLen s);
              maxPlaintextPerFrag = int (unat (ikeFragmentMTU s)) - ikeOverhead - int (IVSize e) - int icvSize
          in if maxPlaintextPerFrag \<le> 0 then (s, fail ''fragment MTU too small'')
             else
               let maxPlaintextPerFrag =
                     (if \<not> ikeIsAEAD s \<and> 0 < BlockSize e then maxPlaintextPerFrag - int (BlockSize e)
                      else maxPlaintextPerFrag)
               in if maxPlaintextPerFrag = 0 then (s, Inl Panic)
                  else
                    let numFrags = (int (length innerData) + maxPlaintextPerFrag - 1) sdiv maxPlaintextPerFrag
                    in if maxFragments < numFrags then (s, fail ''too many fragments'')
                       else if numFrags \<le> 1 then (s, Inr [])
                       else
                         let (s, msgID) = NextMsgID s
                         in (s, skf_loop rnd (innerData @ spare) (length innerData) (nat maxPlaintextPerFrag)
                                  (nat numFrags) msgID exchangeType (firstType payloads) s [0..<nat numFrags]))"

definition shouldFragment :: "Payload list \<Rightarrow> Session \<Rightarrow> bool result" where
  "shouldFragment payloads s =
     (if \<not> fragmentationSupported s then Inr False
      else rbind (deref (EncAlg s)) (\<lambda>e.
        case rconcat (\<lambda>p. rbind (Payload_Encode p) (\<lambda>b. Inr (replicate 4 0 @ b))) payloads of
          Inl (Fail _) \<Rightarrow> Inr False
        | Inl f \<Rightarrow> Inl f
        | Inr bodies \<Rightarrow>
            let totalSize = IKE_HEADER_LEN + 4 + IVSize e + length bodies +
                  (if ikeIsAEAD s then 16 else icvLen s)
            in Inr (unat (ikeFragmentMTU s) < totalSize)))"

subsection \<open>AEAD: the chunks arrive\<close>

lemma chunkRef_ok:
  "i * n \<le> innerLen \<Longrightarrow> innerLen \<le> length mem \<Longrightarrow> slice_ok mem (chunkRef innerLen (length mem) n i)"
  by (auto simp: chunkRef_def slice_ok_def Let_def)

lemma chunkRef_val:
  "i * n \<le> length d \<Longrightarrow> slice_val (d @ r) (chunkRef (length d) c n i) = take n (drop (i * n) d)"
  by (auto simp: chunkRef_def slice_val_def slice_def Let_def)

lemma concat_chunkRefs:
  "length d \<le> k * n \<Longrightarrow> concat (map (\<lambda>i. take n (drop (i * n) d)) [0..<k]) = d"
proof -
  have "concat (map (\<lambda>i. take n (drop (i * n) d)) [0..<k]) = take (k * n) d"
  proof (induction k)
    case (Suc k)
    have "take (Suc k * n) d = take (k * n) d @ take n (drop (k * n) d)"
      by (metis take_add mult_Suc add.commute)
    with Suc show ?case by simp
  qed simp
  then show "length d \<le> k * n \<Longrightarrow> ?thesis" by simp
qed

lemma buildSKFPacket_aead_mem:
  "ikeIsAEAD s \<Longrightarrow> fst (buildSKFPacket rnd mem chunk n t m x f s) = mem"
  by (auto simp: buildSKFPacket_def skfPlain_def Let_def split: sum.split)

lemma skf_loop_aead:
  assumes peer: "ike_peer a ka b kb" and e: "EncAlg a = Some e" and aead: "ikeIsAEAD a"
    and iv: "\<And>i v. rnd i = Inr v \<Longrightarrow> length v = IVSize e"
  shows "skf_loop rnd (d @ r) (length d) n k m x f a is = Inr pkts \<Longrightarrow> \<forall>i\<in>set is. i * n \<le> length d \<Longrightarrow>
    map (\<lambda>p. decryptSKF p b) pkts =
      map (\<lambda>i. Inr (take n (drop (i * n) d), of_nat (i + 1), of_nat k, m)) is"
proof (induction "is" arbitrary: pkts)
  case (Cons i "is")
  let ?chunk = "chunkRef (length d) (length (d @ r)) n i"
  let ?b = "buildSKFPacket (rnd i) (d @ r) ?chunk (of_nat (i + 1)) (of_nat k) m x f a"
  have mem: "fst ?b = d @ r" by (rule buildSKFPacket_aead_mem [OF aead])
  obtain p ps where p: "snd ?b = Inr p" "pkts = p # ps"
    and ps: "skf_loop rnd (d @ r) (length d) n k m x f a is = Inr ps"
    using Cons.prems(1) mem by (auto simp: Let_def split_beta rbind_Inr_iff)
  obtain v where v: "rnd i = Inr v"
    using p(1) peer e by (cases "rnd i") (auto simp: buildSKFPacket_def ike_peer_def)
  have "decryptSKF p b = Inr (slice_val (d @ r) ?chunk, of_nat (i + 1), of_nat k, m)"
    by (rule decryptSKF_buildSKFPacket [OF peer e iv [OF v]])
      (use Cons.prems p(1) v chunkRef_ok [of i n "length d" "d @ r"] in \<open>simp_all\<close>)
  with Cons p(2) ps show ?case by (simp add: chunkRef_val)
qed simp

lemma ceil_div:
  fixes n a :: int
  assumes "0 < n"
  shows "a \<le> (a + n - 1) div n * n" "((a + n - 1) div n - 1) * n \<le> a"
proof -
  have "(a + n - 1) div n * n + (a + n - 1) mod n = a + n - 1" by (rule div_mult_mod_eq)
  moreover have "0 \<le> (a + n - 1) mod n" "(a + n - 1) mod n < n" using assms by simp_all
  ultimately have *: "a \<le> (a + n - 1) div n * n" "(a + n - 1) div n * n - n \<le> a"
    by linarith+
  from * show "a \<le> (a + n - 1) div n * n" "((a + n - 1) div n - 1) * n \<le> a"
    unfolding left_diff_distrib by simp_all
qed

text \<open>The cut of a message: \<open>k\<close> chunks of \<open>n\<close> bytes, the last one possibly shorter.\<close>

definition cut :: "nat \<Rightarrow> nat \<Rightarrow> bytes \<Rightarrow> bytes list" where
  "cut n k d = map (\<lambda>i. take n (drop (i * n) d)) [0..<k]"

lemma length_cut [simp]: "length (cut n k d) = k"
  by (simp add: cut_def)

lemma nth_cut: "i < k \<Longrightarrow> cut n k d ! i = take n (drop (i * n) d)"
  by (simp add: cut_def)

lemma concat_cut: "length d \<le> k * n \<Longrightarrow> concat (cut n k d) = d"
  unfolding cut_def by (rule concat_chunkRefs)

lemma fragmentMessage_loop:
  assumes e: "EncAlg a = Some e" and aead: "ikeIsAEAD a"
    and f: "fragmentMessage rnd spare ps x a = (a', Inr pkts)" "pkts \<noteq> []"
  obtains d n k where "encode_payloads ps = Inr d" "1 < k" "k \<le> 255" "length d \<le> k * n"
    "\<forall>i<k. i * n \<le> length d" "a' = a\<lparr>s_SequenceNumber := s_SequenceNumber a + 1\<rparr>"
    "skf_loop rnd (d @ spare) (length d) n k (s_SequenceNumber a) x (firstType ps) a' [0..<k] = Inr pkts"
proof -
  obtain d where d: "encode_payloads ps = Inr d"
    using f by (cases "encode_payloads ps") (auto simp: fragmentMessage_def)
  define n where "n = int (unat (ikeFragmentMTU a)) - 64 - int (IVSize e) - 16"
  define k where "k = (int (length d) + n - 1) sdiv n"
  from f d e aead have n: "0 < n" "1 < k" "k \<le> 255"
    and a': "a' = a\<lparr>s_SequenceNumber := s_SequenceNumber a + 1\<rparr>"
    and loop: "skf_loop rnd (d @ spare) (length d) (nat n) (nat k) (s_SequenceNumber a) x (firstType ps)
      a' [0..<nat k] = Inr pkts"
    by (auto simp: fragmentMessage_def Let_def n_def k_def split: if_splits)
  have k_div: "k = (int (length d) + n - 1) div n"
    using n(1) by (cases "int (length d) + n - 1 = 0") (auto simp: k_def signed_divide_int_def sgn_if)
  note kn = ceil_div [OF n(1), of "int (length d)", folded k_div]
  have "i * nat n \<le> length d" if "i < nat k" for i
  proof -
    have "int i \<le> k - 1" using that by linarith
    then have "int i * n \<le> (k - 1) * n" using n(1) by (intro mult_right_mono) auto
    with kn(2) have "int i * n \<le> int (length d)" by (rule order_trans [rotated])
    then have "int (i * nat n) \<le> int (length d)" using n(1) by simp
    then show ?thesis by (simp only: of_nat_le_iff)
  qed
  moreover have "int (length d) \<le> int (nat k * nat n)" using kn(1) n by simp
  then have "length d \<le> nat k * nat n" by (simp only: of_nat_le_iff)
  moreover have "1 < nat k" "nat k \<le> 255" using n by simp_all
  ultimately show ?thesis using d a' loop by (intro that [of d "nat k" "nat n"]) blast+
qed

text \<open>
  The whole way: with AEAD, the fragments of a message open at the other end, numbered from 1, to
  pieces whose concatenation is the inner payload chain.
\<close>

lemma fragmentMessage_aead:
  assumes peer: "ike_peer a ka b kb" and e: "EncAlg a = Some e" and aead: "ikeIsAEAD a"
    and iv: "\<And>i v. rnd i = Inr v \<Longrightarrow> length v = IVSize e"
    and f: "fragmentMessage rnd spare ps x a = (a', Inr pkts)" "pkts \<noteq> []"
  shows "\<exists>cs. encode_payloads ps = Inr (concat cs) \<and> length pkts = length cs \<and> length cs \<le> 255 \<and>
    a' = a\<lparr>s_SequenceNumber := s_SequenceNumber a + 1\<rparr> \<and>
    (\<forall>i<length cs. decryptSKF (pkts ! i) b =
       Inr (cs ! i, of_nat (i + 1), of_nat (length cs), s_SequenceNumber a))"
proof -
  obtain d n k where d: "encode_payloads ps = Inr d" and k: "k \<le> 255" "length d \<le> k * n"
    "\<forall>i<k. i * n \<le> length d" and a': "a' = a\<lparr>s_SequenceNumber := s_SequenceNumber a + 1\<rparr>"
    and loop: "skf_loop rnd (d @ spare) (length d) n k (s_SequenceNumber a) x (firstType ps) a' [0..<k] = Inr pkts"
    using fragmentMessage_loop [OF e aead f] by metis
  have "ike_peer a' ka b kb" "EncAlg a' = Some e" "ikeIsAEAD a'"
    using peer e aead by (simp_all add: a' ike_peer_def)
  from skf_loop_aead [OF this iv loop]
  have opened: "map (\<lambda>p. decryptSKF p b) pkts = map (\<lambda>i. Inr (take n (drop (i * n) d),
      of_nat (i + 1), of_nat k, s_SequenceNumber a)) [0..<k]"
    using k(3) by simp
  then have len: "length pkts = k"
    using map_eq_imp_length_eq [OF opened] by simp
  have each: "decryptSKF (pkts ! i) b = Inr (cut n k d ! i, of_nat (i + 1), of_nat k, s_SequenceNumber a)"
    if i: "i < k" for i
  proof -
    have "decryptSKF (pkts ! i) b = map (\<lambda>p. decryptSKF p b) pkts ! i"
      using i len by (simp only: nth_map)
    also have "\<dots> = Inr (take n (drop (i * n) d), of_nat (i + 1), of_nat k, s_SequenceNumber a)"
      unfolding opened using i by (simp only: nth_map length_upt nth_upt diff_zero add_0)
    finally show ?thesis by (simp add: nth_cut i)
  qed
  show ?thesis
    using d k concat_cut [OF k(2)] len a' each by (intro exI [of _ "cut n k d"]) simp
qed

text \<open>Only the first fragment names the type of the first inner payload.\<close>

definition skf_shape :: "byte \<Rightarrow> u64 \<Rightarrow> bytes \<Rightarrow> bool" where
  "skf_shape t spi pkt \<longleftrightarrow> pkt ! 28 = t \<and>
     (\<exists>h. DecodeHeader pkt = Inr h \<and> NextPayload h = PT_EncryptedFragment \<and> SPIr h = spi)"

lemma buildSKFPacket_shape:
  assumes "snd (buildSKFPacket rnd mem chunk n t m x f s) = Inr pkt"
  shows "skf_shape (if n = 1 then f else 0) (s_SPIr s) pkt"
proof -
  have shape: "skf_shape y spi (appendICV s k ((Header_Encode h @ PayloadHeader_Encode g @ r) @ ct))"
    if "NextPayload h = PT_EncryptedFragment" "y = gen_NextPayload g" "spi = SPIr h" for h g r ct k y spi
  proof -
    obtain r' where "appendICV s k ((Header_Encode h @ PayloadHeader_Encode g @ r) @ ct) =
        Header_Encode h @ PayloadHeader_Encode g @ r'"
      using appendICV_prefix [of s k "Header_Encode h @ PayloadHeader_Encode g @ r" ct]
      by (metis append.assoc)
    then show ?thesis
      using that by (simp add: skf_shape_def DecodeHeader_Encode nth_append PayloadHeader_Encode_def)
  qed
  from assms show ?thesis
    by (auto simp: buildSKFPacket_def Let_def split_beta rbind_Inr_iff simp del: append_assoc
        split: sum.splits intro!: shape)
qed

subsection \<open>CBC: the padding overwrites the next chunk\<close>

text \<open>
  Without AEAD, a chunk with room behind it leaves its padding in the array: the first bytes of the
  next chunk are gone before they are encrypted.
\<close>

lemma copy_at_copy_at:
  assumes "off + length xs + length ys \<le> length m"
  shows "copy_at (copy_at m off xs) (off + length xs) ys = copy_at m off (xs @ ys)"
proof -
  have "drop (off + length xs + length ys) (take off m @ xs @ drop (off + length xs) m) =
      drop (off + length (xs @ ys)) m"
    using assms by (simp add: ac_simps)
  then show ?thesis using assms by (simp add: copy_at_fits add.assoc)
qed

lemma skfPlain_overwrites:
  assumes "slice_ok mem chunk" "0 < b" "ref_len chunk + ikePadLen (ref_len chunk) b < ref_cap chunk"
  shows "fst (skfPlain False b mem chunk) = copy_at mem (ref_off chunk + ref_len chunk)
    (replicate (ikePadLen (ref_len chunk) b) 0 @ [of_nat (ikePadLen (ref_len chunk) b)])"
  using assms copy_at_copy_at [of "ref_off chunk + ref_len chunk" "replicate (ikePadLen (ref_len chunk) b) 0"
      "[of_nat (ikePadLen (ref_len chunk) b)]" mem]
  by (simp add: skfPlain_def go_append_def Let_def slice_ok_def add.assoc)

end
