(* ===== verification/Swu_Message.thy ===== *)
theory Swu_Message
  imports Swu_Skf
begin

text \<open>
  Encrypted IKE messages (\<^verbatim>\<open>pkg/swu/msg_handler.go\<close>): wrapping payloads into an SK payload, and
  the entry point for everything received, which opens SK payloads, collects encrypted fragments
  and decodes messages in the clear.
\<close>

section \<open>Sending\<close>

definition ikeFlags :: "bool \<Rightarrow> byte" where
  "ikeFlags isResponse = (if isResponse then FlagInitiator OR FlagResponse else FlagInitiator)"

definition encryptAndWrapWithMsgID ::
    "bytes result \<Rightarrow> Payload list \<Rightarrow> byte \<Rightarrow> u32 \<Rightarrow> bool \<Rightarrow> Session \<Rightarrow> bytes result" where
  "encryptAndWrapWithMsgID rnd payloads exchangeType msgID isResponse s =
     rbind (encode_payloads payloads) (\<lambda>innerData.
     rbind (deref (Keys s)) (\<lambda>k.
     rbind (deref (EncAlg s)) (\<lambda>e.
     rbind rnd (\<lambda>iv.
       if \<not> ikeIsAEAD s \<and> BlockSize e \<le> 0 then fail ''invalid block size''
       else
         let plainToEncrypt = sealPlain s e innerData;
             expectedCipherLen = length plainToEncrypt + (if ikeIsAEAD s then 16 else 0);
             hdr = \<lparr>SPIi = s_SPIi s, SPIr = s_SPIr s, NextPayload = PT_SK, Version = 0x20,
               ExchangeType = exchangeType, Flags = ikeFlags isResponse, MessageID = msgID,
               hdr_Length = of_nat (IKE_HEADER_LEN + 4 + length iv + expectedCipherLen + icvLen s)\<rparr>;
             aad = Header_Encode hdr
         in rbind (Encrypt e plainToEncrypt (SK_ei k) iv aad) (\<lambda>ciphertext.
              if length ciphertext \<noteq> expectedCipherLen then fail ''ciphertext length mismatch''
              else
                let skHeader = \<lparr>gen_NextPayload = firstType payloads, Critical = False, Reserved = 0,
                      PayloadLength = of_nat (4 + length iv + length ciphertext + icvLen s)\<rparr>;
                    packet = appendICV s k ((aad @ PayloadHeader_Encode skHeader @ iv) @ ciphertext)
                in if of_nat (length packet) \<noteq> hdr_Length hdr then fail ''IKE length mismatch''
                   else Inr packet)))))"

definition encryptAndWrap ::
    "bytes result \<Rightarrow> Payload list \<Rightarrow> byte \<Rightarrow> bool \<Rightarrow> Session \<Rightarrow> Session \<times> bytes result" where
  "encryptAndWrap rnd payloads exchangeType isResponse s =
     (let (s, msgID) = NextMsgID s
      in (s, encryptAndWrapWithMsgID rnd payloads exchangeType msgID isResponse s))"

section \<open>Receiving\<close>

text \<open>
  The branch for an SK payload. The message identifier that the source returns next to an error is
  not part of the result.
\<close>

definition decryptSK :: "IKEHeader \<Rightarrow> bytes \<Rightarrow> Session \<Rightarrow> (u32 \<times> Payload list) result" where
  "decryptSK header data s =
     rbind (go_slice data IKE_HEADER_LEN (IKE_HEADER_LEN + 4)) (\<lambda>gh.
     rbind (DecodePayloadHeader gh) (\<lambda>genHeader.
       let n = unat (PayloadLength genHeader)
       in if length data < IKE_HEADER_LEN + n then fail ''SK payload too short''
          else rbind (go_slice data (IKE_HEADER_LEN + 4) (IKE_HEADER_LEN + n)) (\<lambda>skContent.
            rbind (deref (EncAlg s)) (\<lambda>e.
              let ivSize = IVSize e
              in if length skContent < ivSize then fail ''SK content too short for IV''
                 else
                   let iv = take ivSize skContent; aad = take IKE_HEADER_LEN data
                   in rbind (deref (Keys s)) (\<lambda>k.
                        rbind (stripICV ''SK content too short for ICV'' ''IKE integrity check failed''
                            s k data (IKE_HEADER_LEN + 4 + ivSize) (drop ivSize skContent)) (\<lambda>ciphertext.
                          rbind (openCiphertext ''SK plaintext too short'' ''SK padding invalid''
                              s e ciphertext (SK_er k) iv aad) (\<lambda>plaintext.
                            rbind (parsePayloads plaintext (gen_NextPayload genHeader)) (\<lambda>ps.
                              Inr (MessageID header, ps)))))))))"

text \<open>
  The branch for an encrypted fragment. When the last fragment arrives, the type of the first inner
  payload is read from that fragment's header.
\<close>

definition receiveSKF :: "bytes \<Rightarrow> Session \<Rightarrow> Session \<times> (u32 \<times> Payload list) result" where
  "receiveSKF data s =
     (case relabel ''SKF decryption failed'' (decryptSKF data s) of
        Inl f \<Rightarrow> (s, Inl f)
      | Inr (plaintext, fragNum, totalFrags, msgID) \<Rightarrow>
          (case addFragment msgID fragNum totalFrags plaintext (fragmentBuf s) of
             (buf, Inl f) \<Rightarrow> (s\<lparr>fragmentBuf := buf\<rparr>, Inl f)
           | (buf, Inr False) \<Rightarrow> (s\<lparr>fragmentBuf := buf\<rparr>, Inr (msgID, []))
           | (buf, Inr True) \<Rightarrow>
               (case reassemble msgID buf of
                  (buf, Inl f) \<Rightarrow> (s\<lparr>fragmentBuf := buf\<rparr>, Inl f)
                | (buf, Inr d) \<Rightarrow> (s\<lparr>fragmentBuf := buf\<rparr>,
                    rbind (parsePayloads d (data ! IKE_HEADER_LEN)) (\<lambda>ps. Inr (msgID, ps))))))"

text \<open>The responder's SPI is taken from every message before anything of it is checked.\<close>

definition decryptAndParse :: "bytes \<Rightarrow> Session \<Rightarrow> Session \<times> (u32 \<times> Payload list) result" where
  "decryptAndParse data s =
     (case DecodeHeader data of
        Inl f \<Rightarrow> (s, Inl f)
      | Inr header \<Rightarrow>
          let s = s\<lparr>s_SPIr := SPIr header\<rparr>
          in if NextPayload header = PT_EncryptedFragment then receiveSKF data s
             else if NextPayload header \<noteq> PT_SK then
               (s, rbind (DecodePacket data) (\<lambda>packet. Inr (MessageID header, Payloads packet)))
             else (s, decryptSK header data s))"

section \<open>Round trip\<close>

lemma decryptSK_packet:
  assumes peer: "ike_peer a ka b kb" and e: "EncAlg a = Some e" and iv: "length iv = IVSize e"
    and H: "length H = 28" "DecodeHeader H = Inr h"
    and G: "DecodePayloadHeader G = Inr g" "length G = 4"
      "unat (PayloadLength g) = 4 + length iv + length ct + icvLen a"
    and c: "Encrypt e (sealPlain a e p) (SK_ei ka) iv H = Inr ct"
  shows "decryptSK h (appendICV a ka ((H @ G @ iv) @ ct)) b =
    rbind (parsePayloads p (gen_NextPayload g)) (\<lambda>ps. Inr (MessageID h, ps))"
proof -
  define d where "d = appendICV a ka ((H @ G @ iv) @ ct)"
  then obtain r where r: "d = (H @ G @ iv) @ r"
    using appendICV_prefix [of a ka "H @ G @ iv" ct] by blast
  have off: "length (H @ G @ iv) = 28 + 4 + IVSize e" using H G iv by simp
  have len: "length d = 28 + unat (PayloadLength g)"
    using H G by (simp add: d_def length_appendICV)
  have body: "slice d 32 (28 + unat (PayloadLength g)) = drop 32 d"
    unfolding len [symmetric] by (rule slice_to_end)
  have parts: "slice d 28 32 = G" "take 28 d = H"
    "take (IVSize e) (drop 32 d) = iv" "drop (IVSize e) (drop 32 d) = drop (28 + 4 + IVSize e) d"
    using H G iv by (simp_all add: r slice_shift slice_append_left slice_def add.commute)
  have strip: "stripICV x y b kb d (28 + 4 + IVSize e) (drop (28 + 4 + IVSize e) d) = Inr ct" for x y
    unfolding d_def by (rule stripICV_append [OF peer off])
  have "openCiphertext x y b e ct (SK_er kb) iv H = Inr p" for x y
    using openCiphertext_seal [of b a e p "SK_ei ka" iv H ct] c peer by (simp add: ike_peer_def)
  moreover have "EncAlg b = Some e" "Keys b = Some kb" using peer e by (simp_all add: ike_peer_def)
  moreover have "32 \<le> 28 + unat (PayloadLength g)" "IVSize e \<le> length (drop 32 d)"
    using G iv by (simp_all add: len)
  ultimately show ?thesis
    using parts body strip len G(1) unfolding d_def [symmetric]
    by (simp add: decryptSK_def Let_def del: slice_0 drop_drop length_drop)
qed

text \<open>
  What one end wraps, the other end receives: the same message identifier and payloads, and only
  the SPI of the responder may change in the receiver. The SK payload has to fit its 16-bit length.
\<close>

lemma decryptAndParse_wrap:
  assumes peer: "ike_peer a ka b kb" and e: "EncAlg a = Some e" and iv: "length iv = IVSize e"
    and ps: "\<forall>p\<in>set ps. payload_wf p \<and> fits p"
    and pkt: "encryptAndWrapWithMsgID (Inr iv) ps x m isResp a = Inr pkt" "length pkt < 65536"
  shows "decryptAndParse pkt b = (b\<lparr>s_SPIr := s_SPIr a\<rparr>, Inr (m, ps))"
proof -
  obtain d where d: "encode_payloads ps = Inr d" "parsePayloads d (firstType ps) = Inr ps"
    using parsePayloads_encode [OF ps] by blast
  have k: "Keys a = Some ka" using peer by (simp add: ike_peer_def)
  define h where "h L = \<lparr>SPIi = s_SPIi a, SPIr = s_SPIr a, NextPayload = PT_SK, Version = 0x20,
    ExchangeType = x, Flags = ikeFlags isResp, MessageID = m, hdr_Length = L\<rparr>" for L
  obtain L ct where ct: "Encrypt e (sealPlain a e d) (SK_ei ka) iv (Header_Encode (h L)) = Inr ct"
    and p: "pkt = appendICV a ka ((Header_Encode (h L) @ PayloadHeader_Encode
      \<lparr>gen_NextPayload = firstType ps, Critical = False, Reserved = 0,
       PayloadLength = of_nat (4 + length iv + length ct + icvLen a)\<rparr> @ iv) @ ct)"
    using pkt(1) d(1) k e unfolding encryptAndWrapWithMsgID_def h_def
    by (auto simp: Let_def rbind_Inr_iff split: if_splits)
  let ?G = "\<lparr>gen_NextPayload = firstType ps, Critical = False, Reserved = 0,
       PayloadLength = of_nat (4 + length iv + length ct + icvLen a)\<rparr>"
  have n: "unat (of_nat (4 + length iv + length ct + icvLen a) :: u16) = 4 + length iv + length ct + icvLen a"
    using pkt(2) by (intro unat_of_nat_u16) (simp add: p length_appendICV)
  have H: "DecodeHeader (Header_Encode (h L)) = Inr (h L)"
    using DecodeHeader_Encode [of "h L" "[]"] by simp
  have "DecodePayloadHeader (PayloadHeader_Encode ?G) = Inr ?G"
    using DecodePayloadHeader_Encode [of ?G "[]"] by simp
  then have sk: "decryptSK (h L) pkt (b\<lparr>s_SPIr := s_SPIr a\<rparr>) = Inr (m, ps)"
    unfolding p using peer e iv d(2) n
    by (subst decryptSK_packet [OF _ e iv _ H _ _ _ ct])
      (auto simp: ike_peer_def h_def)
  obtain r where "pkt = Header_Encode (h L) @ r"
    using appendICV_prefix [of a ka] unfolding p by (metis append.assoc)
  then have "DecodeHeader pkt = Inr (h L)" by (simp add: DecodeHeader_Encode)
  with sk show ?thesis by (simp add: decryptAndParse_def Let_def) (simp add: h_def)
qed

end
