(* ===== verification/Swu_Defrag.thy ===== *)
theory Swu_Defrag
  imports Swu_Message
begin

text \<open>
  Fragmentation from end to end (\<^verbatim>\<open>fragmentMessage\<close> on one side, \<^verbatim>\<open>decryptAndParse\<close> on the other):
  every order of arrival completes the message, and the payloads come out exactly when the first
  fragment is the last to arrive.
\<close>

lemma skf_loop_shape:
  "skf_loop rnd mem L n K m x f s is = Inr pkts \<Longrightarrow> length pkts = length is \<and>
     (\<forall>j<length is. skf_shape (if of_nat (is ! j + 1) = (1 :: u16) then f else 0) (s_SPIr s) (pkts ! j))"
proof (induction "is" arbitrary: mem pkts)
  case (Cons i "is")
  let ?b = "buildSKFPacket (rnd i) mem (chunkRef L (length mem) n i) (of_nat (i + 1)) (of_nat K) m x f s"
  obtain p ps where p: "snd ?b = Inr p" "pkts = p # ps" "skf_loop rnd (fst ?b) L n K m x f s is = Inr ps"
    using Cons.prems by (auto simp: Let_def split_beta rbind_Inr_iff)
  with Cons.IH [OF p(3)] buildSKFPacket_shape [OF p(1)] show ?case
    by (auto simp: nth_Cons split: nat.split)
qed simp

lemma open_frame [simp]:
  "stripICV a b (s\<lparr>s_SPIr := x, fragmentBuf := y\<rparr>) = stripICV a b s"
  "openCiphertext a b (s\<lparr>s_SPIr := x, fragmentBuf := y\<rparr>) = openCiphertext a b s"
  "stripICV a b (s\<lparr>s_SPIr := x\<rparr>) = stripICV a b s"
  "openCiphertext a b (s\<lparr>s_SPIr := x\<rparr>) = openCiphertext a b s"
  by (simp_all add: fun_eq_iff stripICV_def openCiphertext_def activeInteg_def)

lemma decryptSKF_frame [simp]:
  "decryptSKF d (s\<lparr>s_SPIr := x, fragmentBuf := y\<rparr>) = decryptSKF d s"
  "decryptSKF d (s\<lparr>s_SPIr := x\<rparr>) = decryptSKF d s"
  by (simp_all add: decryptSKF_def Let_def cong del: if_weak_cong)

text \<open>The packets of one message as the receiver sees them.\<close>

definition frag_packets :: "Session \<Rightarrow> u32 \<Rightarrow> u64 \<Rightarrow> byte \<Rightarrow> bytes list \<Rightarrow> bytes list \<Rightarrow> bool" where
  "frag_packets b m spi f cs pkts \<longleftrightarrow> length pkts = length cs \<and>
     (\<forall>i<length cs. decryptSKF (pkts ! i) b = Inr (cs ! i, of_nat (i + 1), of_nat (length cs), m) \<and>
        skf_shape (if i = 0 then f else 0) spi (pkts ! i))"

lemma frag_packets_frame:
  "frag_packets b m spi f cs pkts \<Longrightarrow> frag_packets (b\<lparr>s_SPIr := x, fragmentBuf := y\<rparr>) m spi f cs pkts"
  by (simp add: frag_packets_def)

lemma receive_fragment:
  assumes "frag_packets s m spi f cs pkts" "i < length cs"
  shows "decryptAndParse (pkts ! i) s =
    (case addFragment m (of_nat (i + 1)) (of_nat (length cs)) (cs ! i) (fragmentBuf s) of
       (buf, Inl e) \<Rightarrow> (s\<lparr>s_SPIr := spi, fragmentBuf := buf\<rparr>, Inl e)
     | (buf, Inr False) \<Rightarrow> (s\<lparr>s_SPIr := spi, fragmentBuf := buf\<rparr>, Inr (m, []))
     | (buf, Inr True) \<Rightarrow>
         (case reassemble m buf of
            (buf, Inl e) \<Rightarrow> (s\<lparr>s_SPIr := spi, fragmentBuf := buf\<rparr>, Inl e)
          | (buf, Inr d) \<Rightarrow> (s\<lparr>s_SPIr := spi, fragmentBuf := buf\<rparr>,
              rbind (parsePayloads d (if i = 0 then f else 0)) (\<lambda>ps. Inr (m, ps)))))"
proof -
  obtain h where h: "DecodeHeader (pkts ! i) = Inr h" "NextPayload h = PT_EncryptedFragment"
    "SPIr h = spi" "pkts ! i ! 28 = (if i = 0 then f else 0)"
    using assms by (auto simp: frag_packets_def skf_shape_def)
  have "decryptSKF (pkts ! i) (s\<lparr>s_SPIr := spi\<rparr>) = Inr (cs ! i, of_nat (i + 1), of_nat (length cs), m)"
    using assms by (simp add: frag_packets_def)
  then show ?thesis
    unfolding decryptAndParse_def receiveSKF_def using h
    by (simp add: Let_def split: prod.split sum.split bool.split)
qed

definition recvAll :: "bytes list \<Rightarrow> nat list \<Rightarrow> Session \<Rightarrow> Session \<times> (u32 \<times> Payload list) result" where
  "recvAll pkts js s = foldl (\<lambda>(s, _) i. decryptAndParse (pkts ! i) s) (s, Inr (0, [])) js"

lemma recvAll_snoc: "recvAll pkts (js @ [i]) s = decryptAndParse (pkts ! i) (fst (recvAll pkts js s))"
  by (simp add: recvAll_def split_beta)

lemma feed_snoc:
  "feed m cs (js @ [i]) st = addFragment m (of_nat (i + 1)) (of_nat (length cs)) (cs ! i) (fst (feed m cs js st))"
  by (simp add: feed_def split_beta)

lemma distinct_subset_length:
  "distinct js \<Longrightarrow> set js \<subseteq> {..<n} \<Longrightarrow> length js \<le> n"
  by (metis card_lessThan card_mono distinct_card finite_lessThan)

text \<open>As long as fragments are missing, the receiver's state moves with the buffer and nothing else.\<close>

lemma recvAll_incomplete:
  assumes p: "frag_packets b m spi f cs pkts" and fresh: "fragmentBuf b m = None"
    and cs: "length cs < 65535" "sum_list (map length cs) \<le> 65536"
  shows "distinct js \<Longrightarrow> set js \<subseteq> {..<length cs} \<Longrightarrow> js \<noteq> [] \<Longrightarrow> length js < length cs \<Longrightarrow>
    recvAll pkts js b =
      (b\<lparr>s_SPIr := spi, fragmentBuf := (fragmentBuf b)(m \<mapsto> collected cs js)\<rparr>, Inr (m, []))"
proof (induction js rule: rev_induct)
  case (snoc i js)
  define s where "s = fst (recvAll pkts js b)"
  have ds: "distinct js" "set js \<subseteq> {..<length cs}" "length js < length cs"
    using snoc.prems by simp_all
  have s: "frag_packets s m spi f cs pkts" "fragmentBuf s = fst (feed m cs js (fragmentBuf b, Inr False))"
    "s\<lparr>s_SPIr := spi, fragmentBuf := y\<rparr> = b\<lparr>s_SPIr := spi, fragmentBuf := y\<rparr>" for y
  proof -
    have "frag_packets s m spi f cs pkts \<and> fragmentBuf s = fst (feed m cs js (fragmentBuf b, Inr False)) \<and>
      s\<lparr>s_SPIr := spi, fragmentBuf := y\<rparr> = b\<lparr>s_SPIr := spi, fragmentBuf := y\<rparr>"
    proof (cases "js = []")
      case True
      then show ?thesis using p by (simp add: s_def recvAll_def feed_def)
    next
      case False
      then have "s = b\<lparr>s_SPIr := spi, fragmentBuf := (fragmentBuf b)(m \<mapsto> collected cs js)\<rparr>"
        by (simp only: s_def snoc.IH [OF ds(1,2) False ds(3)] fst_conv)
      moreover have "feed m cs js (fragmentBuf b, Inr False) =
          ((fragmentBuf b)(m \<mapsto> collected cs js), Inr (length js = length cs))"
        by (rule feed_collects) (use fresh cs ds False in simp_all)
      ultimately show ?thesis using p by (simp add: frag_packets_frame)
    qed
    then show "frag_packets s m spi f cs pkts" "fragmentBuf s = fst (feed m cs js (fragmentBuf b, Inr False))"
      "s\<lparr>s_SPIr := spi, fragmentBuf := y\<rparr> = b\<lparr>s_SPIr := spi, fragmentBuf := y\<rparr>" by auto
  qed
  have "addFragment m (of_nat (i + 1)) (of_nat (length cs)) (cs ! i) (fragmentBuf s) =
      ((fragmentBuf b)(m \<mapsto> collected cs (js @ [i])), Inr False)"
    using feed_collects [OF _ cs snoc.prems(1,2,3), of "fragmentBuf b" m "Inr False"] fresh snoc.prems(4)
    unfolding s(2) by (simp add: feed_snoc)
  moreover have "i < length cs" using snoc.prems by simp
  ultimately show ?case
    using receive_fragment [OF s(1)] by (simp add: recvAll_snoc s_def [symmetric] s(3) fun_upd_def)
qed simp

text \<open>The last fragment delivers, with the type that its own header names.\<close>

lemma recvAll_complete:
  assumes p: "frag_packets b m spi f cs pkts" and fresh: "fragmentBuf b m = None"
    and cs: "1 < length cs" "length cs < 65535" "sum_list (map length cs) \<le> 65536"
    and js: "mset (js @ [i]) = mset [0..<length cs]"
  shows "recvAll pkts (js @ [i]) b =
    (b\<lparr>s_SPIr := spi\<rparr>, rbind (parsePayloads (concat cs) (if i = 0 then f else 0)) (\<lambda>ps. Inr (m, ps)))"
proof -
  have "distinct (js @ [i])" using mset_eq_imp_distinct_iff [OF js] by simp
  then have d1: "distinct js" by simp
  have set: "set (js @ [i]) = {..<length cs}"
    using mset_eq_setD [OF js] unfolding set_upt atLeast0LessThan .
  have d2: "set js \<subseteq> {..<length cs}" unfolding set [symmetric] by auto
  have d3: "i < length cs" using equalityD1 [OF set] by simp
  have "Suc (length js) = length cs" using mset_eq_length [OF js] by simp
  with cs(1) have "js \<noteq> []" "length js < length cs" by auto
  note d = d1 d2 d3 this
  let ?b = "b\<lparr>s_SPIr := spi, fragmentBuf := (fragmentBuf b)(m \<mapsto> collected cs js)\<rparr>"
  have r: "recvAll pkts js b = (?b, Inr (m, []))"
    by (rule recvAll_incomplete [OF p fresh cs(2,3) d(1,2,4,5)])
  have "feed m cs js (fragmentBuf b, Inr False) = ((fragmentBuf b)(m \<mapsto> collected cs js), Inr (length js = length cs))"
    by (rule feed_collects) (use fresh cs d in simp_all)
  then obtain buf where buf:
    "addFragment m (of_nat (i + 1)) (of_nat (length cs)) (cs ! i) (fragmentBuf ?b) = (buf, Inr True)"
    "reassemble m buf = (fragmentBuf b, Inr (concat cs))"
    using fragments_any_order [of "fragmentBuf b" m cs "js @ [i]" "Inr False", OF fresh _ cs(2,3) js] cs(1)
    by (cases cs) (auto simp: feed_snoc split_beta prod_eq_iff)
  show ?thesis
    using receive_fragment [OF frag_packets_frame [OF p] d(3)] buf
    by (simp add: recvAll_snoc r)
qed

text \<open>
  A message of several AEAD fragments that reaches the other end in any order: it is complete with
  the last fragment, and its payloads are delivered if that is the first fragment; otherwise the
  receiver reports a message without payloads. Delivery in order, in particular, loses them all.
\<close>

lemma fragments_delivered:
  assumes peer: "ike_peer a ka b kb" and e: "EncAlg a = Some e" and aead: "ikeIsAEAD a"
    and iv: "\<And>i v. rnd i = Inr v \<Longrightarrow> length v = IVSize e"
    and ps: "\<forall>p\<in>set ps. payload_wf p \<and> fits p"
    and size: "\<And>d. encode_payloads ps = Inr d \<Longrightarrow> length d \<le> 65536"
    and f: "fragmentMessage rnd spare ps x a = (a', Inr pkts)" "pkts \<noteq> []"
    and fresh: "fragmentBuf b (s_SequenceNumber a) = None"
    and js: "mset (js @ [i]) = mset [0..<length pkts]"
  shows "recvAll pkts (js @ [i]) b =
    (b\<lparr>s_SPIr := s_SPIr a\<rparr>, Inr (s_SequenceNumber a, if i = 0 then ps else []))"
proof -
  obtain d n k where d: "encode_payloads ps = Inr d" and k: "1 < k" "k \<le> 255" "length d \<le> k * n"
    "\<forall>i<k. i * n \<le> length d" and a': "a' = a\<lparr>s_SequenceNumber := s_SequenceNumber a + 1\<rparr>"
    and loop: "skf_loop rnd (d @ spare) (length d) n k (s_SequenceNumber a) x (firstType ps) a' [0..<k] = Inr pkts"
    using fragmentMessage_loop [OF e aead f] by metis
  obtain cs where cs: "encode_payloads ps = Inr (concat cs)" "length pkts = length cs"
    "\<forall>i<length cs. decryptSKF (pkts ! i) b = Inr (cs ! i, of_nat (i + 1), of_nat (length cs), s_SequenceNumber a)"
    using fragmentMessage_aead [OF peer e aead _ f] iv by blast
  from skf_loop_shape [OF loop] have shape: "length pkts = k"
    "\<forall>j<k. skf_shape (if of_nat (j + 1) = (1 :: u16) then firstType ps else 0) (s_SPIr a) (pkts ! j)"
    by (simp_all add: a')
  have one: "of_nat (j + 1) = (1 :: u16) \<longleftrightarrow> j = 0" if "j < k" for j
    using of_nat_u16_eq [of "j + 1" 1] that k(2) by simp
  have p: "frag_packets b (s_SequenceNumber a) (s_SPIr a) (firstType ps) cs pkts"
    unfolding frag_packets_def
  proof (intro conjI allI impI)
    fix j assume j: "j < length cs"
    with shape(1) cs(2) have "j < k" by (simp only:)
    then have "skf_shape (if of_nat (j + 1) = (1 :: u16) then firstType ps else 0) (s_SPIr a) (pkts ! j)"
      using shape(2) by blast
    then show "skf_shape (if j = 0 then firstType ps else 0) (s_SPIr a) (pkts ! j)"
      unfolding one [OF \<open>j < k\<close>] .
  qed (use cs in simp_all)
  have "sum_list (map length cs) \<le> 65536"
    using size [OF cs(1)] by (simp add: length_concat)
  then have "recvAll pkts (js @ [i]) b = (b\<lparr>s_SPIr := s_SPIr a\<rparr>,
      rbind (parsePayloads (concat cs) (if i = 0 then firstType ps else 0)) (\<lambda>ps. Inr (s_SequenceNumber a, ps)))"
    by (intro recvAll_complete [OF p fresh]) (use k shape(1) cs(2) js in simp_all)
  moreover have "parsePayloads (concat cs) (firstType ps) = Inr ps"
    using parsePayloads_encode [OF ps] cs(1) by auto
  ultimately show ?thesis by (cases "i = 0") simp_all
qed

end
