(* ===== verification/Swu_Window.thy ===== *)
theory Swu_Window
  imports Interfaces "HOL-Library.AList"
begin

text \<open>
  The request window (\<^verbatim>\<open>TaskManager\<close> of \<^verbatim>\<open>pkg/swu/window.go\<close>): requests in flight up to the window
  size, a queue of waiting ones, retransmission with back-off, and the completion channels. Under
  its invariant no step panics or blocks, and a waiting request is never stranded.
\<close>

section \<open>Channels\<close>

text \<open>
  A completion channel has a buffer of one message. Sending on a closed channel and closing twice
  panic; sending on a full one blocks.
\<close>

type_synonym chan_map = "nat \<rightharpoonup> bytes list \<times> bool"

definition chan_send :: "nat \<Rightarrow> bytes \<Rightarrow> chan_map \<Rightarrow> chan_map result" where
  "chan_send ch d m = (case m ch of
     None \<Rightarrow> Inl Hang
   | Some (buf, closed) \<Rightarrow>
       if closed then Inl Panic
       else if length buf < 1 then Inr (m(ch \<mapsto> (buf @ [d], False))) else Inl Hang)"

definition chan_close :: "nat \<Rightarrow> chan_map \<Rightarrow> chan_map result" where
  "chan_close ch m = (case m ch of
     None \<Rightarrow> Inl Panic
   | Some (buf, closed) \<Rightarrow> if closed then Inl Panic else Inr (m(ch \<mapsto> (buf, True))))"

section \<open>State\<close>

text \<open>Durations and times are nanoseconds. \<open>backoff\<close> is the product with the float factor, truncated.\<close>

record RetryConfig =
  MaxRetries :: int
  InitialTimeout :: int
  MaxTimeout :: int
  backoff :: "int \<Rightarrow> int"

definition DefaultRetryConfig :: RetryConfig where
  "DefaultRetryConfig = \<lparr>MaxRetries = 5, InitialTimeout = 4 * 1000000000, MaxTimeout = 0,
     backoff = (\<lambda>d. d * 18 div 10)\<rparr>"

record OutgoingMessage =
  MsgID :: u32
  Packets :: "bytes list"
  RetryCount :: int
  msg_MaxRetries :: int
  NextTimeout :: int
  Deadline :: int
  CompletionCh :: nat

text \<open>\<open>sent\<close> is what \<^verbatim>\<open>sendFunc\<close> was called with; \<open>pending\<close> is the map, in order of insertion.\<close>

record TaskManager =
  config :: RetryConfig
  windowSize :: int
  pending :: "(u32 \<times> OutgoingMessage) list"
  queue :: "OutgoingMessage list"
  wakeup :: bool
  channels :: chan_map
  sent :: "bytes list list"

definition NewTaskManager :: "RetryConfig option \<Rightarrow> int \<Rightarrow> TaskManager" where
  "NewTaskManager cfg winSize =
     \<lparr>config = (case cfg of None \<Rightarrow> DefaultRetryConfig | Some c \<Rightarrow> c),
      windowSize = (if winSize < 1 then 1 else winSize), pending = [], queue = [], wakeup = False,
      channels = (\<lambda>_. None), sent = []\<rparr>"

section \<open>Operations\<close>

definition activateMessage :: "int \<Rightarrow> OutgoingMessage \<Rightarrow> TaskManager \<Rightarrow> TaskManager" where
  "activateMessage now msg tm =
     (let msg = msg\<lparr>Deadline := now + NextTimeout msg\<rparr>
      in tm\<lparr>pending := AList.update (MsgID msg) msg (pending tm), sent := sent tm @ [Packets msg],
            wakeup := True\<rparr>)"

text \<open>\<open>ch\<close> is the channel that \<^verbatim>\<open>make\<close> returned, and the call's result.\<close>

definition EnqueueRequest :: "int \<Rightarrow> u32 \<Rightarrow> bytes list \<Rightarrow> nat \<Rightarrow> TaskManager \<Rightarrow> TaskManager" where
  "EnqueueRequest now msgID packets ch tm =
     (let outMsg = \<lparr>MsgID = msgID, Packets = packets, RetryCount = 0,
            msg_MaxRetries = MaxRetries (config tm), NextTimeout = InitialTimeout (config tm),
            Deadline = 0, CompletionCh = ch\<rparr>;
          tm = tm\<lparr>channels := (channels tm)(ch \<mapsto> ([], False))\<rparr>
      in if int (length (pending tm)) < windowSize tm then activateMessage now outMsg tm
         else tm\<lparr>queue := queue tm @ [outMsg]\<rparr>)"

definition pumpQueue :: "int \<Rightarrow> TaskManager \<Rightarrow> TaskManager" where
  "pumpQueue now tm = (case queue tm of
     [] \<Rightarrow> tm
   | m # ms \<Rightarrow> if int (length (pending tm)) < windowSize tm
                then activateMessage now m (tm\<lparr>queue := ms\<rparr>) else tm)"

definition HandleResponse :: "int \<Rightarrow> u32 \<Rightarrow> bytes \<Rightarrow> TaskManager \<Rightarrow> (TaskManager \<times> bool) result" where
  "HandleResponse now msgID responseData tm = (case map_of (pending tm) msgID of
     None \<Rightarrow> Inr (tm, False)
   | Some msg \<Rightarrow>
       let tm = tm\<lparr>pending := AList.delete msgID (pending tm)\<rparr>
       in rbind (chan_send (CompletionCh msg) responseData (channels tm)) (\<lambda>chs.
            Inr (pumpQueue now (tm\<lparr>channels := chs\<rparr>), True)))"

definition retry :: "RetryConfig \<Rightarrow> int \<Rightarrow> OutgoingMessage \<Rightarrow> OutgoingMessage" where
  "retry cfg now msg =
     (let next = backoff cfg (NextTimeout msg);
          next = (if 0 < MaxTimeout cfg \<and> MaxTimeout cfg < next then MaxTimeout cfg else next)
      in msg\<lparr>RetryCount := RetryCount msg + 1, NextTimeout := next, Deadline := now + next\<rparr>)"

text \<open>The loop over the pending requests: the ones kept, the channels, the packets sent again.\<close>

fun checkLoop :: "RetryConfig \<Rightarrow> int \<Rightarrow> (u32 \<times> OutgoingMessage) list \<Rightarrow> chan_map \<Rightarrow>
    ((u32 \<times> OutgoingMessage) list \<times> chan_map \<times> bytes list list) result" where
  "checkLoop cfg now [] chs = Inr ([], chs, [])"
| "checkLoop cfg now ((i, msg) # ms) chs =
     (if Deadline msg \<le> now then
        if msg_MaxRetries msg \<le> RetryCount msg then
          rbind (chan_close (CompletionCh msg) chs) (\<lambda>chs. checkLoop cfg now ms chs)
        else
          rbind (checkLoop cfg now ms chs) (\<lambda>(ps, chs, out).
            Inr ((i, retry cfg now msg) # ps, chs, Packets msg # out))
      else rbind (checkLoop cfg now ms chs) (\<lambda>(ps, chs, out). Inr ((i, msg) # ps, chs, out)))"

definition checkTimeouts :: "int \<Rightarrow> TaskManager \<Rightarrow> TaskManager result" where
  "checkTimeouts now tm =
     rbind (checkLoop (config tm) now (pending tm) (channels tm)) (\<lambda>(ps, chs, out).
       let tm' = tm\<lparr>pending := ps, channels := chs, sent := sent tm @ out\<rparr>
       in Inr (if length ps < length (pending tm) then pumpQueue now tm' else tm'))"

fun closeAll :: "OutgoingMessage list \<Rightarrow> chan_map \<Rightarrow> chan_map result" where
  "closeAll [] chs = Inr chs"
| "closeAll (m # ms) chs = rbind (chan_close (CompletionCh m) chs) (closeAll ms)"

text \<open>The branch of \<^verbatim>\<open>windowLoop\<close> on a cancelled context.\<close>

definition windowStop :: "TaskManager \<Rightarrow> TaskManager result" where
  "windowStop tm =
     rbind (closeAll (map snd (pending tm) @ queue tm) (channels tm)) (\<lambda>chs.
       Inr (tm\<lparr>channels := chs, pending := [], queue := []\<rparr>))"

text \<open>What can happen to the manager: the calls, and the rounds of \<^verbatim>\<open>windowLoop\<close>.\<close>

datatype win_event =
    Enqueue int u32 "bytes list" nat
  | Response int u32 bytes
  | Wakeup int
  | Ticker int
  | Cancel

fun win_step :: "TaskManager \<Rightarrow> win_event \<Rightarrow> TaskManager result" where
  "win_step tm (Enqueue now i ps ch) =
     (if channels tm ch = None then Inr (EnqueueRequest now i ps ch tm) else Inr tm)"
| "win_step tm (Response now i d) = rmap fst (HandleResponse now i d tm)"
| "win_step tm (Wakeup now) = checkTimeouts now (tm\<lparr>wakeup := False\<rparr>)"
| "win_step tm (Ticker now) = checkTimeouts now tm"
| "win_step tm Cancel = windowStop tm"

section \<open>Invariant\<close>

text \<open>The requests the manager still answers for.\<close>

definition live :: "TaskManager \<Rightarrow> OutgoingMessage list" where
  "live tm = map snd (pending tm) @ queue tm"

definition open_chans :: "chan_map \<Rightarrow> OutgoingMessage list \<Rightarrow> bool" where
  "open_chans chs ms \<longleftrightarrow> distinct (map CompletionCh ms) \<and> (\<forall>c\<in>set (map CompletionCh ms). chs c = Some ([], False))"

definition tm_inv :: "TaskManager \<Rightarrow> bool" where
  "tm_inv tm \<longleftrightarrow> 1 \<le> windowSize tm \<and> int (length (pending tm)) \<le> windowSize tm \<and>
     distinct (map fst (pending tm)) \<and> (\<forall>(i, m)\<in>set (pending tm). MsgID m = i) \<and>
     (queue tm \<noteq> [] \<longrightarrow> pending tm \<noteq> []) \<and> open_chans (channels tm) (live tm)"

lemma open_chans_simps [simp]:
  "open_chans chs []"
  "open_chans chs (m # ms) \<longleftrightarrow>
     CompletionCh m \<notin> CompletionCh ` set ms \<and> chs (CompletionCh m) = Some ([], False) \<and> open_chans chs ms"
  by (auto simp: open_chans_def)

lemma open_chans_sub:
  "open_chans chs ms \<Longrightarrow> set zs \<subseteq> set ms \<Longrightarrow> distinct (map CompletionCh zs) \<Longrightarrow> open_chans chs zs"
  by (auto simp: open_chans_def)

lemma open_chans_upd: "open_chans chs ms \<Longrightarrow> c \<notin> CompletionCh ` set ms \<Longrightarrow> open_chans (chs(c \<mapsto> x)) ms"
  by (auto simp: open_chans_def)

lemma open_chans_fresh: "open_chans chs ms \<Longrightarrow> chs c = None \<Longrightarrow> c \<notin> CompletionCh ` set ms"
  by (auto simp: open_chans_def)

lemma open_chans_cong:
  "map CompletionCh ms = map CompletionCh ms' \<Longrightarrow> open_chans chs ms \<longleftrightarrow> open_chans chs ms'"
  unfolding open_chans_def by (simp only:)

lemma open_chans_update:
  "open_chans chs (v # map snd xs @ q) \<Longrightarrow> open_chans chs (map snd (AList.update k v xs) @ q)"
proof (induction xs)
  case (Cons x xs)
  have "snd ` set (AList.update k v xs) \<subseteq> insert v (snd ` set xs)"
    by (induction xs) auto
  with Cons show ?case by (cases x) (auto 0 3)
qed simp

lemma open_chans_delete:
  "open_chans chs (map snd xs @ q) \<Longrightarrow> open_chans chs (map snd (AList.delete k xs) @ q)"
  by (induction xs) (auto simp: AList.delete_eq)

lemma open_chans_lookup:
  "open_chans chs (map snd xs @ q) \<Longrightarrow> map_of xs k = Some m \<Longrightarrow> distinct (map fst xs) \<Longrightarrow>
     chs (CompletionCh m) = Some ([], False) \<and>
     CompletionCh m \<notin> CompletionCh ` set (map snd (AList.delete k xs) @ q)"
proof (induction xs)
  case (Cons x xs)
  obtain i n where x: "x = (i, n)" by (cases x)
  show ?case
  proof (cases "k = i")
    case True
    with Cons.prems x have "AList.delete k xs = xs" by simp
    with True Cons.prems x show ?thesis by auto
  next
    case False
    with Cons x have m: "map_of xs k = Some m" by simp
    then have "CompletionCh m \<in> CompletionCh ` set (map snd xs @ q)"
      by (auto dest!: map_of_SomeD intro!: rev_image_eqI)
    moreover have "CompletionCh n \<notin> CompletionCh ` set (map snd xs @ q)"
      using Cons.prems(1) x by simp
    ultimately have "CompletionCh m \<noteq> CompletionCh n" by metis
    with False Cons x m show ?thesis by simp
  qed
qed simp

lemma MsgID_update:
  "\<forall>(i, x)\<in>set xs. MsgID x = i \<Longrightarrow> MsgID v = k \<Longrightarrow> \<forall>(i, x)\<in>set (AList.update k v xs). MsgID x = i"
  by (induction xs) auto

lemma length_update_le: "length (AList.update k v xs) \<le> Suc (length xs)"
  by (induction xs) auto

lemma length_delete_less: "k \<in> fst ` set xs \<Longrightarrow> length (AList.delete k xs) < length xs"
  by (auto simp: AList.delete_eq intro!: length_filter_less)

subsection \<open>One operation at a time\<close>

lemma activate_inv:
  assumes "1 \<le> windowSize tm" "int (length (pending tm)) < windowSize tm"
    and "distinct (map fst (pending tm))" "\<forall>(i, m)\<in>set (pending tm). MsgID m = i"
    and "open_chans (channels tm) (m # live tm)"
  shows "tm_inv (activateMessage now m tm)"
proof -
  let ?m = "m\<lparr>Deadline := now + NextTimeout m\<rparr>"
  have "open_chans (channels tm) (?m # map snd (pending tm) @ queue tm)"
    using assms(5) by (simp add: live_def)
  then have "open_chans (channels tm) (map snd (AList.update (MsgID m) ?m (pending tm)) @ queue tm)"
    by (rule open_chans_update)
  moreover have "int (length (AList.update (MsgID m) ?m (pending tm))) \<le> windowSize tm"
    using length_update_le [of "MsgID m" ?m "pending tm"] assms(2) by linarith
  moreover have "AList.update (MsgID m) ?m (pending tm) \<noteq> []"
    by (cases "pending tm") auto
  moreover have "\<forall>(i, x)\<in>set (AList.update (MsgID m) ?m (pending tm)). MsgID x = i"
    using assms(4) by (intro MsgID_update) auto
  ultimately show ?thesis
    using assms(1,3) by (simp add: tm_inv_def activateMessage_def live_def Let_def distinct_update)
qed

lemma pump_inv:
  assumes "1 \<le> windowSize tm" "int (length (pending tm)) < windowSize tm"
    and "distinct (map fst (pending tm))" "\<forall>(i, m)\<in>set (pending tm). MsgID m = i"
    and "open_chans (channels tm) (live tm)"
  shows "tm_inv (pumpQueue now tm)"
proof (cases "queue tm")
  case (Cons m ms)
  have "open_chans (channels tm) (m # live (tm\<lparr>queue := ms\<rparr>))"
    using assms(5) Cons by (auto simp: live_def open_chans_def)
  with assms Cons show ?thesis
    by (auto simp: pumpQueue_def intro!: activate_inv)
qed (use assms in \<open>simp add: tm_inv_def pumpQueue_def\<close>)

lemma EnqueueRequest_inv:
  assumes "tm_inv tm" "channels tm ch = None"
  shows "tm_inv (EnqueueRequest now i ps ch tm)"
proof -
  have o: "open_chans (channels tm) (live tm)" using assms(1) by (simp add: tm_inv_def)
  note f = open_chans_fresh [OF o assms(2)]
  let ?m = "\<lparr>MsgID = i, Packets = ps, RetryCount = 0, msg_MaxRetries = MaxRetries (config tm),
    NextTimeout = InitialTimeout (config tm), Deadline = 0, CompletionCh = ch\<rparr>"
  let ?tm = "tm\<lparr>channels := (channels tm)(ch \<mapsto> ([], False))\<rparr>"
  have c: "open_chans (channels ?tm) (?m # live ?tm)"
    using f open_chans_upd [OF o f] by (simp add: live_def)
  show ?thesis
  proof (cases "int (length (pending tm)) < windowSize tm")
    case True
    have "tm_inv (activateMessage now ?m ?tm)"
      by (rule activate_inv [OF _ _ _ _ c]) (use True assms(1) in \<open>simp_all add: tm_inv_def\<close>)
    with True show ?thesis by (simp add: EnqueueRequest_def Let_def)
  next
    case False
    have "open_chans ((channels tm)(ch \<mapsto> ([], False))) (live tm @ [?m])"
      using c by (auto simp: open_chans_def live_def)
    moreover have "pending tm \<noteq> []" using False assms(1) by (auto simp: tm_inv_def)
    ultimately show ?thesis
      using False assms(1) by (simp add: EnqueueRequest_def tm_inv_def live_def)
  qed
qed

lemma HandleResponse_inv:
  assumes "tm_inv tm"
  shows "\<exists>tm'. HandleResponse now i d tm = Inr (tm', map_of (pending tm) i \<noteq> None) \<and> tm_inv tm'"
proof (cases "map_of (pending tm) i")
  case (Some m)
  let ?p = "AList.delete i (pending tm)"
  let ?chs = "(channels tm)(CompletionCh m \<mapsto> ([d], False))"
  have inv: "open_chans (channels tm) (map snd (pending tm) @ queue tm)" "distinct (map fst (pending tm))"
    "1 \<le> windowSize tm" "int (length (pending tm)) \<le> windowSize tm"
    "\<forall>(i, m)\<in>set (pending tm). MsgID m = i"
    using assms by (auto simp: tm_inv_def live_def)
  have m: "channels tm (CompletionCh m) = Some ([], False)"
    "CompletionCh m \<notin> CompletionCh ` set (map snd ?p @ queue tm)"
    using open_chans_lookup [OF inv(1) Some inv(2)] by auto
  have "open_chans ?chs (map snd ?p @ queue tm)"
    by (rule open_chans_upd [OF open_chans_delete [OF inv(1)] m(2)])
  moreover have "i \<in> fst ` set (pending tm)"
    using Some by (auto dest!: map_of_SomeD intro!: rev_image_eqI)
  then have "length ?p < length (pending tm)" by (rule length_delete_less)
  moreover have "\<forall>(i, m)\<in>set ?p. MsgID m = i" using inv(5) by (auto simp: AList.delete_eq)
  ultimately have "tm_inv (pumpQueue now (tm\<lparr>pending := ?p, channels := ?chs\<rparr>))"
    using inv by (intro pump_inv) (auto simp: live_def distinct_delete)
  with Some m(1) show ?thesis by (simp add: HandleResponse_def Let_def chan_send_def)
qed (use assms in \<open>simp add: HandleResponse_def\<close>)

text \<open>What one round of the timer does to the requests in flight.\<close>

definition due :: "int \<Rightarrow> OutgoingMessage \<Rightarrow> bool" where
  "due now m \<longleftrightarrow> Deadline m \<le> now"

definition expired :: "int \<Rightarrow> OutgoingMessage \<Rightarrow> bool" where
  "expired now m \<longleftrightarrow> due now m \<and> msg_MaxRetries m \<le> RetryCount m"

definition ticked :: "RetryConfig \<Rightarrow> int \<Rightarrow> OutgoingMessage \<Rightarrow> OutgoingMessage" where
  "ticked cfg now m = (if due now m then retry cfg now m else m)"

lemma ticked_same [simp]: "MsgID (ticked c now m) = MsgID m" "CompletionCh (ticked c now m) = CompletionCh m"
  by (simp_all add: ticked_def retry_def Let_def)

lemma checkLoop_spec:
  "open_chans chs (map snd ms @ q) \<Longrightarrow>
     \<exists>chs'. checkLoop cfg now ms chs =
         Inr (map (\<lambda>(i, m). (i, ticked cfg now m)) (filter (\<lambda>(i, m). \<not> expired now m) ms), chs',
           map (\<lambda>(i, m). Packets m) (filter (\<lambda>(i, m). due now m \<and> \<not> expired now m) ms)) \<and>
       open_chans chs' (map snd (filter (\<lambda>(i, m). \<not> expired now m) ms) @ q) \<and>
       (\<forall>(i, m)\<in>set ms. expired now m \<longrightarrow> chs' (CompletionCh m) = Some ([], True)) \<and>
       (\<forall>c. c \<notin> CompletionCh ` set (map snd ms) \<longrightarrow> chs' c = chs c)"
proof (induction ms arbitrary: chs)
  case (Cons x ms)
  obtain i m where x: "x = (i, m)" by (cases x)
  have c: "CompletionCh m \<notin> CompletionCh ` set (map snd ms @ q)" "chs (CompletionCh m) = Some ([], False)"
    "open_chans chs (map snd ms @ q)"
    using Cons.prems x by auto
  have sub: "CompletionCh m \<notin> CompletionCh ` set (map snd (filter (\<lambda>(i, m). \<not> expired now m) ms) @ q)"
    using c(1) by auto
  have off: "CompletionCh m \<notin> CompletionCh ` set (map snd ms)" using c(1) by auto
  show ?case
  proof (cases "expired now m")
    case True
    then have "Deadline m \<le> now" "msg_MaxRetries m \<le> RetryCount m" by (auto simp: expired_def due_def)
    with Cons.IH [OF open_chans_upd [OF c(3,1)], of "([], True)"] True c(2) off show ?thesis
      by (auto simp: x chan_close_def fun_upd_def)
  next
    case False
    from Cons.IH [OF c(3)] False c(2) sub off show ?thesis
      by (auto simp: x expired_def due_def ticked_def)
  qed
qed simp

lemma checkTimeouts_inv:
  assumes "tm_inv tm"
  shows "\<exists>tm'. checkTimeouts now tm = Inr tm' \<and> tm_inv tm'"
proof -
  let ?keep = "filter (\<lambda>(i, m). \<not> expired now m) (pending tm)"
  let ?ps = "map (\<lambda>(i, m). (i, ticked (config tm) now m)) ?keep"
  have inv: "1 \<le> windowSize tm" "int (length (pending tm)) \<le> windowSize tm" "distinct (map fst (pending tm))"
    "\<forall>(i, m)\<in>set (pending tm). MsgID m = i" "queue tm \<noteq> [] \<longrightarrow> pending tm \<noteq> []"
    "open_chans (channels tm) (map snd (pending tm) @ queue tm)"
    using assms by (auto simp: tm_inv_def live_def)
  obtain chs' out where loop: "checkLoop (config tm) now (pending tm) (channels tm) = Inr (?ps, chs', out)"
    and chs': "open_chans chs' (map snd ?keep @ queue tm)"
    using checkLoop_spec [OF inv(6), of "config tm" now] by blast
  have "map CompletionCh (map snd ?ps @ queue tm) = map CompletionCh (map snd ?keep @ queue tm)"
    by (simp add: split_beta)
  with chs' have chs: "open_chans chs' (map snd ?ps @ queue tm)" using open_chans_cong by blast
  have fst: "map fst ?ps = map fst ?keep" by (simp add: split_beta)
  have keys: "distinct (map fst ?ps)" unfolding fst by (rule distinct_map_filter [OF inv(3)])
  have ids: "\<forall>(i, m)\<in>set ?ps. MsgID m = i" using inv(4) by auto
  have len: "length ?ps \<le> length (pending tm)" by simp
  let ?tm = "tm\<lparr>pending := ?ps, channels := chs', sent := sent tm @ out\<rparr>"
  show ?thesis
  proof (cases "length ?ps < length (pending tm)")
    case True
    have "tm_inv (pumpQueue now ?tm)"
      by (rule pump_inv) (use True inv chs keys ids in \<open>simp_all add: live_def\<close>)
    with True show ?thesis by (simp add: checkTimeouts_def loop Let_def)
  next
    case False
    then have "length ?ps = length (pending tm)" using len by linarith
    then have "?ps = [] \<longleftrightarrow> pending tm = []" "int (length ?ps) \<le> windowSize tm"
      using inv(2) by (metis length_0_conv, simp only:)
    then have "tm_inv ?tm"
      unfolding tm_inv_def using inv(1,5) chs keys ids by (simp only: TaskManager.simps live_def) simp
    with False show ?thesis by (simp add: checkTimeouts_def loop Let_def)
  qed
qed

lemma closeAll_ok:
  "open_chans chs ms \<Longrightarrow> \<exists>chs'. closeAll ms chs = Inr chs' \<and>
     (\<forall>m\<in>set ms. chs' (CompletionCh m) = Some ([], True)) \<and>
     (\<forall>c. c \<notin> CompletionCh ` set ms \<longrightarrow> chs' c = chs c)"
proof (induction ms arbitrary: chs)
  case (Cons m ms)
  then have "open_chans (chs(CompletionCh m \<mapsto> ([], True))) ms"
    by (intro open_chans_upd) simp_all
  from Cons.IH [OF this] Cons.prems show ?case
    by (auto simp: chan_close_def fun_upd_def)
qed simp

lemma windowStop_inv: "tm_inv tm \<Longrightarrow> \<exists>tm'. windowStop tm = Inr tm' \<and> tm_inv tm'"
  using closeAll_ok [of "channels tm" "live tm"]
  by (auto simp: windowStop_def live_def tm_inv_def)

section \<open>Every event\<close>

lemma win_step_inv:
  assumes "tm_inv tm"
  shows "\<exists>tm'. win_step tm e = Inr tm' \<and> tm_inv tm'"
proof (cases e)
  case (Response now i d)
  with HandleResponse_inv [OF assms, of now i d] show ?thesis by (auto simp: rmap_def)
next
  case (Wakeup now)
  have "tm_inv (tm\<lparr>wakeup := False\<rparr>)" using assms by (simp add: tm_inv_def live_def)
  with checkTimeouts_inv Wakeup show ?thesis by simp
qed (use assms EnqueueRequest_inv checkTimeouts_inv windowStop_inv in auto)

definition win_next :: "TaskManager \<Rightarrow> win_event \<Rightarrow> TaskManager" where
  "win_next tm e = (case win_step tm e of Inr tm' \<Rightarrow> tm' | Inl _ \<Rightarrow> tm)"

interpretation window: machine "\<lambda>tm. \<exists>c n. tm = NewTaskManager c n" win_next tm_inv
proof
  show "tm_inv tm" if "\<exists>c n. tm = NewTaskManager c n" for tm
    using that by (auto simp: NewTaskManager_def tm_inv_def live_def)
  show "tm_inv (win_next tm e)" if "tm_inv tm" for tm e
    using win_step_inv [OF that, of e] by (auto simp: win_next_def)
qed

section \<open>Completion\<close>

text \<open>A response completes its request once: the data is in the channel, a second one is refused.\<close>

lemma HandleResponse_once:
  assumes "tm_inv tm" "map_of (pending tm) i = Some m" "i \<notin> MsgID ` set (queue tm)"
    and "HandleResponse now i d tm = Inr (tm', b)"
  shows "b \<and> channels tm' (CompletionCh m) = Some ([d], False) \<and>
    HandleResponse now' i d' tm' = Inr (tm', False)"
proof -
  have m: "channels tm (CompletionCh m) = Some ([], False)"
    using open_chans_lookup [of "channels tm" "pending tm" "queue tm" i m] assms(1,2)
    by (simp add: tm_inv_def live_def)
  have "map_of (AList.delete i (pending tm)) i = None"
    by (simp add: map_of_eq_None_iff delete_notin_dom)
  moreover have "map_of (AList.update k v xs) i = map_of xs i" if "k \<noteq> i" for k v and xs :: "(u32 \<times> OutgoingMessage) list"
    using that by (simp add: update_conv')
  ultimately show ?thesis
    using assms m
    by (auto simp: HandleResponse_def Let_def chan_send_def pumpQueue_def activateMessage_def split: list.splits)
qed

text \<open>A round of the timer with an empty queue.\<close>

lemma Ticker_step:
  assumes "tm_inv tm" "queue tm = []"
  shows "tm_inv (win_next tm (Ticker now))" "queue (win_next tm (Ticker now)) = []"
    "config (win_next tm (Ticker now)) = config tm"
    "pending (win_next tm (Ticker now)) =
       map (\<lambda>(i, m). (i, ticked (config tm) now m)) (filter (\<lambda>(i, m). \<not> expired now m) (pending tm))"
    "(i, m) \<in> set (pending tm) \<Longrightarrow> expired now m \<Longrightarrow>
       channels (win_next tm (Ticker now)) (CompletionCh m) = Some ([], True)"
    "c \<notin> CompletionCh ` set (map snd (pending tm)) \<Longrightarrow> channels (win_next tm (Ticker now)) c = channels tm c"
proof -
  have "open_chans (channels tm) (map snd (pending tm) @ [])"
    using assms by (simp add: tm_inv_def live_def)
  from checkLoop_spec [OF this, of "config tm" now] obtain chs' out where
    c: "checkLoop (config tm) now (pending tm) (channels tm) =
        Inr (map (\<lambda>(i, m). (i, ticked (config tm) now m)) (filter (\<lambda>(i, m). \<not> expired now m) (pending tm)), chs', out)"
      "\<forall>(i, m)\<in>set (pending tm). expired now m \<longrightarrow> chs' (CompletionCh m) = Some ([], True)"
      "\<forall>c. c \<notin> CompletionCh ` set (map snd (pending tm)) \<longrightarrow> chs' c = channels tm c"
    by blast
  have "checkTimeouts now tm = Inr (tm\<lparr>pending := map (\<lambda>(i, m). (i, ticked (config tm) now m))
      (filter (\<lambda>(i, m). \<not> expired now m) (pending tm)), channels := chs', sent := sent tm @ out\<rparr>)"
    using assms(2) by (simp add: checkTimeouts_def c(1) Let_def pumpQueue_def)
  then have w: "win_next tm (Ticker now) = tm\<lparr>pending := map (\<lambda>(i, m). (i, ticked (config tm) now m))
      (filter (\<lambda>(i, m). \<not> expired now m) (pending tm)), channels := chs', sent := sent tm @ out\<rparr>"
    by (simp add: win_next_def)
  show "tm_inv (win_next tm (Ticker now))" by (rule window.inv_step [OF assms(1)])
  show "queue (win_next tm (Ticker now)) = []" "config (win_next tm (Ticker now)) = config tm"
    "pending (win_next tm (Ticker now)) =
       map (\<lambda>(i, m). (i, ticked (config tm) now m)) (filter (\<lambda>(i, m). \<not> expired now m) (pending tm))"
    unfolding w using assms(2) by simp_all
  show "channels (win_next tm (Ticker now)) (CompletionCh m) = Some ([], True)"
    if "(i, m) \<in> set (pending tm)" "expired now m"
    unfolding w using c(2) that by auto
  show "channels (win_next tm (Ticker now)) c = channels tm c"
    if "c \<notin> CompletionCh ` set (map snd (pending tm))"
    unfolding w using c(3) that by simp
qed

text \<open>Times that are at least \<open>d\<close> apart, the first not before \<open>t\<close>.\<close>

fun spaced :: "int \<Rightarrow> int \<Rightarrow> int list \<Rightarrow> bool" where
  "spaced d t [] = True"
| "spaced d t (x # xs) = (t \<le> x \<and> spaced d (x + d) xs)"

lemma spaced_mono: "spaced d t xs \<Longrightarrow> s \<le> t \<Longrightarrow> spaced d s xs"
  by (cases xs) auto

lemma closed_stays:
  "tm_inv tm \<Longrightarrow> queue tm = [] \<Longrightarrow> channels tm c = Some ([], True) \<Longrightarrow>
     channels (foldl win_next tm (map Ticker ts)) c = Some ([], True)"
proof (induction ts arbitrary: tm)
  case (Cons t ts)
  note tm' = Ticker_step [OF Cons.prems(1,2), where now = t]
  have "c \<notin> CompletionCh ` set (map snd (pending tm))"
    using Cons.prems by (auto simp: tm_inv_def live_def open_chans_def)
  then have "channels (win_next tm (Ticker t)) c = Some ([], True)"
    using tm'(6) Cons.prems(3) by simp
  from Cons.IH [OF tm'(1,2) this] show ?case by simp
qed simp

text \<open>
  A silent peer: with a bound on the timeouts and rounds that are at least that far apart, a request
  in flight is given up, its channel closed, after its remaining retries and one more round.
\<close>

lemma silent_peer:
  assumes "tm_inv tm" "queue tm = []" "(i, m) \<in> set (pending tm)" "0 < MaxTimeout (config tm)"
    and "spaced (MaxTimeout (config tm)) (Deadline m) ts" "msg_MaxRetries m - RetryCount m < int (length ts)"
    and "RetryCount m \<le> msg_MaxRetries m"
  shows "channels (foldl win_next tm (map Ticker ts)) (CompletionCh m) = Some ([], True)"
  using assms
proof (induction ts arbitrary: tm m)
  case (Cons t ts)
  define tm' where "tm' = win_next tm (Ticker t)"
  note tm' = Ticker_step [OF Cons.prems(1,2), where now = t, folded tm'_def]
  have due: "due t m" using Cons.prems(5) by (simp add: due_def)
  have "channels (foldl win_next tm' (map Ticker ts)) (CompletionCh m) = Some ([], True)"
  proof (cases "expired t m")
    case True
    from closed_stays [OF tm'(1,2) tm'(5) [OF Cons.prems(3) True]] show ?thesis .
  next
    case False
    let ?m = "retry (config tm) t m"
    have "(i, m) \<in> set (filter (\<lambda>(i, m). \<not> expired t m) (pending tm))"
      using False Cons.prems(3) by simp
    then have "(i, ticked (config tm) t m) \<in> set (pending tm')"
      unfolding tm'(4) set_map by (rule rev_image_eqI) simp
    then have mem: "(i, ?m) \<in> set (pending tm')" using due by (simp add: ticked_def)
    have "Deadline ?m \<le> t + MaxTimeout (config tm)"
      using Cons.prems(4) by (simp add: retry_def Let_def)
    then have sp: "spaced (MaxTimeout (config tm')) (Deadline ?m) ts"
      using Cons.prems(5) spaced_mono by (auto simp: tm'(3))
    have r: "msg_MaxRetries ?m - RetryCount ?m < int (length ts)" "RetryCount ?m \<le> msg_MaxRetries ?m"
      using Cons.prems(6) False due by (auto simp: retry_def Let_def expired_def)
    have "0 < MaxTimeout (config tm')" using Cons.prems(4) tm'(3) by simp
    from Cons.IH [OF tm'(1,2) mem this sp r] show ?thesis
      by (simp add: retry_def Let_def)
  qed
  then show ?case by (simp add: tm'_def)
qed simp

text \<open>
  Two requests with one message identifier: the second takes the place of the first, whose channel
  stays open and is no longer reachable from the manager.
\<close>

lemma EnqueueRequest_replaces:
  assumes "tm_inv tm" "map_of (pending tm) i = Some m" "int (length (pending tm)) < windowSize tm"
    and "channels tm ch = None"
  shows "channels (EnqueueRequest now i ps ch tm) (CompletionCh m) = Some ([], False) \<and>
    CompletionCh m \<notin> CompletionCh ` set (live (EnqueueRequest now i ps ch tm))"
proof -
  have m: "channels tm (CompletionCh m) = Some ([], False)"
    "CompletionCh m \<notin> CompletionCh ` set (map snd (AList.delete i (pending tm)) @ queue tm)"
    using open_chans_lookup [of "channels tm" "pending tm" "queue tm" i m] assms(1,2)
    by (simp_all add: tm_inv_def live_def)
  then have ch: "CompletionCh m \<noteq> ch" using assms(4) by auto
  have "set (AList.update i v xs) \<subseteq> insert (i, v) (set (AList.delete i xs))" if "distinct (map fst xs)"
    for v and xs :: "(u32 \<times> OutgoingMessage) list"
    using that by (induction xs) auto
  then have sub: "set (AList.update i v (pending tm)) \<subseteq> insert (i, v) (set (AList.delete i (pending tm)))" for v
    using assms(1) by (simp add: tm_inv_def)
  define v where "v = \<lparr>MsgID = i, Packets = ps, RetryCount = 0, msg_MaxRetries = MaxRetries (config tm),
    NextTimeout = InitialTimeout (config tm), Deadline = now + InitialTimeout (config tm), CompletionCh = ch\<rparr>"
  have l: "live (EnqueueRequest now i ps ch tm) = map snd (AList.update i v (pending tm)) @ queue tm"
    and c: "channels (EnqueueRequest now i ps ch tm) = (channels tm)(ch \<mapsto> ([], False))"
    using assms(3) by (simp_all add: EnqueueRequest_def activateMessage_def live_def Let_def v_def)
  have v: "CompletionCh v = ch" by (simp add: v_def)
  have "CompletionCh m \<noteq> CompletionCh (snd x)" if "x \<in> set (AList.update i v (pending tm))" for x
  proof (cases "x = (i, v)")
    case False
    with that sub have "x \<in> set (AList.delete i (pending tm))" by blast
    with m(2) show ?thesis by auto
  qed (simp add: v ch)
  moreover have "CompletionCh m \<notin> CompletionCh ` set (queue tm)" using m(2) by auto
  ultimately have "CompletionCh m \<notin> CompletionCh ` set (live (EnqueueRequest now i ps ch tm))"
    unfolding l by auto
  then show ?thesis unfolding c using m(1) ch by simp
qed

end
