(* ===== verification/Swu_Keys.thy ===== *)
theory Swu_Keys
  imports Swu_Session
begin

text \<open>
  The key schedule of an IKE SA (\<^verbatim>\<open>pkg/swu/crypto_keys.go\<close>): the seven keys are consecutive
  slices of the output of \<^verbatim>\<open>prf+\<close>, as RFC 7296 has them. Because they share one array, a GCM call
  with one of them overwrites the beginning of the next.
\<close>

section \<open>Cutting the key material\<close>

text \<open>\<^verbatim>\<open>keyMat[cursor : cursor+n]\<close> with a possibly negative \<open>n\<close>.\<close>

definition key_slice :: "bytes \<Rightarrow> int \<Rightarrow> int \<Rightarrow> bytes result" where
  "key_slice keyMat cursor n =
     (if 0 \<le> cursor \<and> 0 \<le> n \<and> cursor + n \<le> int (length keyMat)
      then Inr (slice keyMat (nat cursor) (nat (cursor + n))) else Inl Panic)"

text \<open>The lengths \<^verbatim>\<open>prfKeyLen\<close>, \<^verbatim>\<open>integKeyLen\<close>, \<^verbatim>\<open>encKeyLen\<close>; the checks come in this order.\<close>

definition keyLens :: "Session \<Rightarrow> (int \<times> int \<times> int) result" where
  "keyLens s =
     rbind (deref (PRFAlg s)) (\<lambda>p.
       let prfKeyLen = int (KeyLen p)
       in case EncAlg s of
            None \<Rightarrow> fail ''IKE encryption algorithm not set''
          | Some e \<Rightarrow>
              let encKeyLen = (if ikeIsAEAD s then Crypto_Cipher.KeySize e + 4 else Crypto_Cipher.KeySize e)
              in if ikeIsAEAD s then Inr (prfKeyLen, 0, encKeyLen)
                 else (case IntegAlg s of
                         None \<Rightarrow> fail ''IKE integrity algorithm not set''
                       | Some a \<Rightarrow> Inr (prfKeyLen, int (integ_KeySize a), encKeyLen)))"

definition splitKeys :: "bytes \<Rightarrow> int \<Rightarrow> int \<Rightarrow> int \<Rightarrow> IKESAKeys result" where
  "splitKeys keyMat prfKeyLen integKeyLen encKeyLen =
     rbind (key_slice keyMat 0 prfKeyLen) (\<lambda>d.
     rbind (if 0 < integKeyLen then key_slice keyMat prfKeyLen integKeyLen else Inr []) (\<lambda>ai.
     rbind (if 0 < integKeyLen then key_slice keyMat (prfKeyLen + integKeyLen) integKeyLen else Inr []) (\<lambda>ar.
       let cursor = (if 0 < integKeyLen then prfKeyLen + integKeyLen + integKeyLen else prfKeyLen)
       in rbind (key_slice keyMat cursor encKeyLen) (\<lambda>ei.
          rbind (key_slice keyMat (cursor + encKeyLen) encKeyLen) (\<lambda>er.
          rbind (key_slice keyMat (cursor + encKeyLen + encKeyLen) prfKeyLen) (\<lambda>pi.
          rbind (key_slice keyMat (cursor + encKeyLen + encKeyLen + prfKeyLen) prfKeyLen) (\<lambda>pr.
            Inr \<lparr>SK_d = d, SK_ai = ai, SK_ar = ar, SK_ei = ei, SK_er = er, SK_pi = pi, SK_pr = pr\<rparr>)))))))"

section \<open>The two derivations\<close>

text \<open>
  The first keys of a session. The nil test of \<^verbatim>\<open>s.DH.SharedKey\<close> dereferences \<^verbatim>\<open>s.DH\<close>; the nonce
  has a capacity equal to its length, so \<^verbatim>\<open>append(s.ni, ...)\<close> makes a new array.
\<close>

definition GenerateIKESAKeys :: "bytes \<Rightarrow> Session \<Rightarrow> Session result" where
  "GenerateIKESAKeys peerNonce s =
     rbind (deref (DH s)) (\<lambda>dh. case SharedKey dh of
         None \<Rightarrow> fail ''DH shared key not computed''
       | Some g \<Rightarrow>
           rbind (deref (PRFAlg s)) (\<lambda>p.
             let seed = s_ni s @ peerNonce; skeyseed = prf_mac p seed g
             in rbind (keyLens s) (\<lambda>(prfKeyLen, integKeyLen, encKeyLen).
                  let totalLen = prfKeyLen * 3 + integKeyLen * 2 + encKeyLen * 2;
                      input = s_ni s @ peerNonce @ put64 (s_SPIi s) @ put64 (s_SPIr s)
                  in rbind (PrfPlus p skeyseed input totalLen) (\<lambda>keyMat.
                     rbind (splitKeys keyMat prfKeyLen integKeyLen encKeyLen) (\<lambda>k.
                       Inr (s\<lparr>Keys := Some k\<rparr>))))))"

definition GenerateIKESARekeyKeys ::
    "bytes \<Rightarrow> bytes \<Rightarrow> bytes \<Rightarrow> bytes \<Rightarrow> u64 \<Rightarrow> u64 \<Rightarrow> Session \<Rightarrow> IKESAKeys result" where
  "GenerateIKESARekeyKeys oldSKd newDHSecret ni nr newSPIi newSPIr s =
     (if length oldSKd = 0 then fail ''old SK_d is empty''
      else if length newDHSecret = 0 then fail ''new DH secret is empty''
      else rbind (deref (PRFAlg s)) (\<lambda>p.
        let skeyseed = prf_mac p oldSKd (newDHSecret @ ni @ nr)
        in rbind (keyLens s) (\<lambda>(prfKeyLen, integKeyLen, encKeyLen).
             let totalLen = prfKeyLen * 3 + integKeyLen * 2 + encKeyLen * 2;
                 input = ni @ nr @ put64 newSPIi @ put64 newSPIr
             in rbind (PrfPlus p skeyseed input totalLen) (\<lambda>keyMat.
                  splitKeys keyMat prfKeyLen integKeyLen encKeyLen))))"

section \<open>Correctness\<close>

definition concat_keys :: "IKESAKeys \<Rightarrow> bytes" where
  "concat_keys k = SK_d k @ SK_ai k @ SK_ar k @ SK_ei k @ SK_er k @ SK_pi k @ SK_pr k"

definition key_lengths :: "IKESAKeys \<Rightarrow> nat \<Rightarrow> nat \<Rightarrow> nat \<Rightarrow> bool" where
  "key_lengths k p i e \<longleftrightarrow> length (SK_d k) = p \<and> length (SK_ai k) = i \<and> length (SK_ar k) = i \<and>
     length (SK_ei k) = e \<and> length (SK_er k) = e \<and> length (SK_pi k) = p \<and> length (SK_pr k) = p"

lemma key_slice_at:
  "cursor = int a \<Longrightarrow> cursor + n = int b \<Longrightarrow> 0 \<le> n \<Longrightarrow> b \<le> length m \<Longrightarrow> key_slice m cursor n = Inr (slice m a b)"
  by (simp add: key_slice_def)

text \<open>Key material of the right length is cut without loss, in the order of the RFC.\<close>

lemma splitKeys_ok:
  assumes "length m = p * 3 + i * 2 + e * 2"
  shows "\<exists>k. splitKeys m (int p) (int i) (int e) = Inr k \<and> concat_keys k = m \<and> key_lengths k p i e"
proof -
  let ?c = "p + i + i"
  define k where "k = \<lparr>SK_d = slice m 0 p, SK_ai = slice m p (p + i), SK_ar = slice m (p + i) ?c,
    SK_ei = slice m ?c (?c + e), SK_er = slice m (?c + e) (?c + e + e),
    SK_pi = slice m (?c + e + e) (?c + e + e + p), SK_pr = slice m (?c + e + e + p) (?c + e + e + p + p)\<rparr>"
  have F: "key_slice m 0 (int p) = Inr (slice m 0 p)"
    "key_slice m (int p) (int i) = Inr (slice m p (p + i))"
    "key_slice m (int p + int i) (int i) = Inr (slice m (p + i) ?c)"
    "key_slice m (int p + int i + int i) (int e) = Inr (slice m ?c (?c + e))"
    "key_slice m (int p + int i + int i + int e) (int e) = Inr (slice m (?c + e) (?c + e + e))"
    "key_slice m (int p + int i + int i + int e + int e) (int p) = Inr (slice m (?c + e + e) (?c + e + e + p))"
    "key_slice m (int p + int i + int i + int e + int e + int p) (int p) =
       Inr (slice m (?c + e + e + p) (?c + e + e + p + p))"
    using assms by (intro key_slice_at; simp)+
  have "splitKeys m (int p) (int i) (int e) = Inr k"
  proof (cases "i = 0")
    case False
    then have "0 < int i" by simp
    then show ?thesis unfolding splitKeys_def k_def Let_def by (simp only: F if_True rbind_simps)
  next
    case True
    have G: "key_slice m (int p) (int e) = Inr (slice m ?c (?c + e))"
      "key_slice m (int p + int e) (int e) = Inr (slice m (?c + e) (?c + e + e))"
      "key_slice m (int p + int e + int e) (int p) = Inr (slice m (?c + e + e) (?c + e + e + p))"
      "key_slice m (int p + int e + int e + int p) (int p) =
         Inr (slice m (?c + e + e + p) (?c + e + e + p + p))"
      using assms True by (intro key_slice_at; simp)+
    have "\<not> 0 < int i" "slice m p (p + i) = []" "slice m (p + i) ?c = []"
      using True by (simp_all add: slice_def)
    then show ?thesis unfolding splitKeys_def k_def Let_def
      by (simp only: F(1) G if_False rbind_simps)
  qed
  moreover have "concat_keys k = slice m 0 (?c + e + e + p + p)"
    unfolding concat_keys_def k_def IKESAKeys.simps
    by (simp only: slice_split le0 le_refl le_add1 trans_le_add1)
  then have "concat_keys k = m"
    using assms by simp
  moreover have "key_lengths k p i e" using assms by (simp add: key_lengths_def k_def)
  ultimately show ?thesis by blast
qed

text \<open>A session whose algorithms are set, and the lengths of its keys.\<close>

definition algs_ok :: "Session \<Rightarrow> nat \<Rightarrow> nat \<Rightarrow> nat \<Rightarrow> bool" where
  "algs_ok s p i e \<longleftrightarrow> keyLens s = Inr (int p, int i, int e)"

lemma KeyLen_of_keyLens: "PRFAlg s = Some p \<Longrightarrow> algs_ok s pl il el \<Longrightarrow> KeyLen p = pl"
  by (auto simp: algs_ok_def keyLens_def Let_def split: option.splits if_splits)

lemma PrfPlus_keys:
  assumes "GetPRF j = Inr p" "pl = KeyLen p" "pl * 3 + il * 2 + el * 2 \<le> 254 * KeyLen p"
  shows "\<exists>k. rbind (PrfPlus p seed input (int pl * 3 + int il * 2 + int el * 2))
      (\<lambda>keyMat. splitKeys keyMat (int pl) (int il) (int el)) = Inr k \<and>
    concat_keys k = take (pl * 3 + il * 2 + el * 2) (prf_stream p seed input 254) \<and> key_lengths k pl il el"
proof -
  define N where "N = pl * 3 + il * 2 + el * 2"
  have n: "int pl * 3 + int il * 2 + int el * 2 = int N" by (simp add: N_def)
  have r: "PrfPlus p seed input (int N) = Inr (take N (prf_stream p seed input 254))"
    using PrfPlus_spec [OF assms(1), of "int N"] assms(3) by (simp add: N_def [symmetric])
  have "length (take N (prf_stream p seed input 254)) = N"
    using length_PrfPlus [OF assms(1) r] by (simp only: of_nat_eq_iff)
  then show ?thesis
    using splitKeys_ok [of "take N (prf_stream p seed input 254)" pl il el]
    unfolding n N_def [symmetric] r rbind_simps by (simp add: N_def)
qed

lemma GenerateIKESAKeys_spec:
  assumes "DH s = Some dh" "SharedKey dh = Some g" "PRFAlg s = Some p" "GetPRF j = Inr p"
    and "algs_ok s pl il el" "pl * 3 + il * 2 + el * 2 \<le> 254 * KeyLen p"
  shows "\<exists>k. GenerateIKESAKeys nr s = Inr (s\<lparr>Keys := Some k\<rparr>) \<and> key_lengths k pl il el \<and>
    concat_keys k = take (pl * 3 + il * 2 + el * 2)
      (prf_stream p (prf_mac p (s_ni s @ nr) g) (s_ni s @ nr @ put64 (s_SPIi s) @ put64 (s_SPIr s)) 254)"
proof -
  from PrfPlus_keys [OF assms(4) KeyLen_of_keyLens [OF assms(3,5), symmetric] assms(6)]
  obtain k where "rbind (PrfPlus p (prf_mac p (s_ni s @ nr) g) (s_ni s @ nr @ put64 (s_SPIi s) @ put64 (s_SPIr s))
      (int pl * 3 + int il * 2 + int el * 2)) (\<lambda>keyMat. splitKeys keyMat (int pl) (int il) (int el)) = Inr k"
    "key_lengths k pl il el" "concat_keys k = take (pl * 3 + il * 2 + el * 2)
      (prf_stream p (prf_mac p (s_ni s @ nr) g) (s_ni s @ nr @ put64 (s_SPIi s) @ put64 (s_SPIr s)) 254)"
    by blast
  with assms show ?thesis
    by (auto simp: GenerateIKESAKeys_def algs_ok_def Let_def rbind_Inr_iff)
qed

lemma GenerateIKESARekeyKeys_spec:
  assumes "oldSKd \<noteq> []" "g \<noteq> []" "PRFAlg s = Some p" "GetPRF j = Inr p"
    and "algs_ok s pl il el" "pl * 3 + il * 2 + el * 2 \<le> 254 * KeyLen p"
  shows "\<exists>k. GenerateIKESARekeyKeys oldSKd g ni nr spi_i spi_r s = Inr k \<and> key_lengths k pl il el \<and>
    concat_keys k = take (pl * 3 + il * 2 + el * 2)
      (prf_stream p (prf_mac p oldSKd (g @ ni @ nr)) (ni @ nr @ put64 spi_i @ put64 spi_r) 254)"
proof -
  from PrfPlus_keys [OF assms(4) KeyLen_of_keyLens [OF assms(3,5), symmetric] assms(6)]
  obtain k where "rbind (PrfPlus p (prf_mac p oldSKd (g @ ni @ nr)) (ni @ nr @ put64 spi_i @ put64 spi_r)
      (int pl * 3 + int il * 2 + int el * 2)) (\<lambda>keyMat. splitKeys keyMat (int pl) (int il) (int el)) = Inr k"
    "key_lengths k pl il el" "concat_keys k = take (pl * 3 + il * 2 + el * 2)
      (prf_stream p (prf_mac p oldSKd (g @ ni @ nr)) (ni @ nr @ put64 spi_i @ put64 spi_r) 254)"
    by blast
  with assms show ?thesis
    by (auto simp: GenerateIKESARekeyKeys_def algs_ok_def Let_def)
qed

section \<open>The keys share an array\<close>

text \<open>
  The key slices as Go has them, for an AEAD cipher: each reaches to the end of the array of
  \<^verbatim>\<open>keyMat\<close>, of which only the first \<open>total\<close> bytes are key material.
\<close>

definition aead_key_ref :: "nat \<Rightarrow> nat \<Rightarrow> nat \<Rightarrow> go_slice_ref" where
  "aead_key_ref cap off n = \<lparr>ref_off = off, ref_len = n, ref_cap = cap - off\<rparr>"

text \<open>
  Encrypting with \<open>SK_ei\<close> writes the IV over the first bytes of \<open>SK_er\<close>, which stands behind it: the
  key for incoming messages is destroyed by the first outgoing one.
\<close>

lemma slice_val_copy_at:
  assumes "off + n \<le> length mem" "length xs \<le> n"
  shows "slice_val (copy_at mem off xs) \<lparr>ref_off = off, ref_len = n, ref_cap = c\<rparr> =
    xs @ drop (length xs) (slice_val mem \<lparr>ref_off = off, ref_len = n, ref_cap = c\<rparr>)"
  using assms by (simp add: slice_val_def slice_def copy_at_fits drop_take add.commute)

lemma GCM_overwrites_next_key:
  assumes "length iv = 8" "aes_key_ok (take (n - 4) (slice_val mem (aead_key_ref (length mem) off n)))"
    and "12 \<le> n" "off + n + n \<le> length mem"
  shows "slice_val (fst (GCM_Encrypt_mem p mem (aead_key_ref (length mem) off n) iv aad))
      (aead_key_ref (length mem) (off + n) n) =
    iv @ drop 8 (slice_val mem (aead_key_ref (length mem) (off + n) n))"
proof -
  let ?k = "aead_key_ref (length mem) off n"
  have "slice_ok mem ?k" using assms(4) by (auto simp: slice_ok_def aead_key_ref_def)
  moreover have "n + 8 \<le> length mem - off" using assms(3,4) by linarith
  ultimately have "slice_ok mem ?k" "n + 8 \<le> length mem - off" .
  with GCM_mem_effect [OF this(1), of "\<lambda>k nonce. Inr (gcm_seal k nonce p aad)" iv] assms
  have "fst (GCM_Encrypt_mem p mem ?k iv aad) = copy_at mem (off + n) iv"
    by (simp add: GCM_Encrypt_mem_def aead_key_ref_def)
  then show ?thesis
    using slice_val_copy_at [of "off + n" n mem iv "length mem - (off + n)"] assms
    by (simp add: aead_key_ref_def)
qed

end
