(* ===== verification/Swu_Policy.thy ===== *)
theory Swu_Policy
  imports Swu_Session
begin

text \<open>
  Which association carries an outgoing packet (\<^verbatim>\<open>pkg/swu/selector.go\<close>), and the routes made of
  the negotiated address ranges (\<^verbatim>\<open>pkg/swu/routes.go\<close>). The decomposition of a range into CIDR
  blocks covers exactly the range, with aligned blocks.
\<close>

section \<open>Selecting an association\<close>

text \<open>\<^verbatim>\<open>bytes.Compare(a, b) <= 0\<close>.\<close>

fun bytes_le :: "bytes \<Rightarrow> bytes \<Rightarrow> bool" where
  "bytes_le [] ys = True"
| "bytes_le (x # xs) [] = False"
| "bytes_le (x # xs) (y # ys) = (x < y \<or> x = y \<and> bytes_le xs ys)"

definition selectorMatches :: "bytes \<Rightarrow> byte \<Rightarrow> u16 \<Rightarrow> TrafficSelector \<Rightarrow> bool" where
  "selectorMatches dstIP proto dstPort ts =
     (if IPProtocol ts \<noteq> 0 \<and> IPProtocol ts \<noteq> proto then False
      else if (IPProtocol ts = 6 \<or> IPProtocol ts = 17) \<and> (dstPort < StartPort ts \<or> EndPort ts < dstPort)
      then False
      else if TSType ts = TS_IPV4_ADDR_RANGE then
        let ip4 = To4 dstIP
        in if ip4 = [] \<or> length (StartAddr ts) \<noteq> 4 \<or> length (EndAddr ts) \<noteq> 4 then False
           else get32 (StartAddr ts) \<le> get32 ip4 \<and> get32 ip4 \<le> get32 (EndAddr ts)
      else if TSType ts = TS_IPV6_ADDR_RANGE then
        let ip6 = To16 dstIP
        in if ip6 = [] \<or> length (StartAddr ts) \<noteq> 16 \<or> length (EndAddr ts) \<noteq> 16 then False
           else bytes_le (StartAddr ts) ip6 \<and> bytes_le ip6 (EndAddr ts)
      else False)"

fun matchSelectors :: "bytes \<Rightarrow> byte \<Rightarrow> u16 \<Rightarrow> TrafficSelector option list \<Rightarrow> bool" where
  "matchSelectors dstIP proto dstPort [] = False"
| "matchSelectors dstIP proto dstPort (None # tss) = matchSelectors dstIP proto dstPort tss"
| "matchSelectors dstIP proto dstPort (Some ts # tss) =
     (if selectorMatches dstIP proto dstPort ts then True else matchSelectors dstIP proto dstPort tss)"

definition dstPortOf :: "byte \<Rightarrow> bytes \<Rightarrow> u16" where
  "dstPortOf proto l4 = (if (proto = 6 \<or> proto = 17) \<and> 4 \<le> length l4 then get16 (slice l4 2 4) else 0)"

definition extractDstTuple :: "bytes \<Rightarrow> (bytes \<times> byte \<times> u16) option" where
  "extractDstTuple packet =
     (if length packet < 1 then None
      else let ver = drop_bit 4 (packet ! 0)
           in if ver = 4 then
                if length packet < 20 then None
                else let ihl = unat (packet ! 0 AND 0x0f) * 4
                     in if ihl < 20 \<or> length packet < ihl then None
                        else let proto = packet ! 9
                             in Some (To4 (slice packet 16 20), proto, dstPortOf proto (drop ihl packet))
              else if ver = 6 then
                if length packet < 40 then None
                else let proto = packet ! 6
                     in Some (To16 (slice packet 24 40), proto, dstPortOf proto (drop 40 packet))
              else None)"

fun firstPolicy :: "bytes \<Rightarrow> byte \<Rightarrow> u16 \<Rightarrow> childOutPolicy list \<Rightarrow> sa_ref option" where
  "firstPolicy dstIP proto dstPort [] = None"
| "firstPolicy dstIP proto dstPort (pol # pols) =
     (case saOut pol of
        None \<Rightarrow> firstPolicy dstIP proto dstPort pols
      | Some sa \<Rightarrow> if matchSelectors dstIP proto dstPort (pol_tsr pol) then Some sa
                   else firstPolicy dstIP proto dstPort pols)"

definition selectOutgoingSA :: "bytes \<Rightarrow> Session \<Rightarrow> sa_ref option" where
  "selectOutgoingSA packet s =
     (if length (childOutPolicies s) = 0 \<or> ChildSAOut s = None then ChildSAOut s
      else case extractDstTuple packet of
             None \<Rightarrow> ChildSAOut s
           | Some (dstIP, proto, dstPort) \<Rightarrow>
               (case firstPolicy dstIP proto dstPort (childOutPolicies s) of
                  Some sa \<Rightarrow> Some sa | None \<Rightarrow> ChildSAOut s))"

subsection \<open>What it selects\<close>

text \<open>Byte-wise comparison of two addresses of one length is comparison of the numbers.\<close>

definition be_nat :: "bytes \<Rightarrow> nat" where
  "be_nat bs = SetBytes bs"

lemma be_nat_Cons: "be_nat (x # xs) = unat x * 256 ^ length xs + be_nat xs"
proof -
  have "foldl (\<lambda>n b. 256 * n + unat b) a bs = a * 256 ^ length bs + foldl (\<lambda>n b. 256 * n + unat b) 0 bs"
    for a and bs :: bytes
    by (induction bs rule: rev_induct) (simp_all add: algebra_simps)
  from this [of "unat x" xs] show ?thesis by (simp add: be_nat_def SetBytes_def)
qed

lemma be_nat_less: "be_nat xs < 256 ^ length xs"
proof (induction xs)
  case (Cons x xs)
  have "unat x * 256 ^ length xs + be_nat xs < (unat x + 1) * 256 ^ length xs"
    using Cons by (simp add: algebra_simps)
  also have "\<dots> \<le> 256 * 256 ^ length xs"
  proof (rule mult_le_mono1)
    show "unat x + 1 \<le> 256" using unat_byte_less [of x] by linarith
  qed
  finally show ?case by (simp add: be_nat_Cons)
qed (simp add: be_nat_def SetBytes_def)

lemma bytes_le_iff: "length xs = length ys \<Longrightarrow> bytes_le xs ys \<longleftrightarrow> be_nat xs \<le> be_nat ys"
proof (induction xs ys rule: list_induct2)
  case (Cons x xs y ys)
  let ?B = "256 ^ length ys :: nat"
  have b: "be_nat xs < ?B" "be_nat ys < ?B" using be_nat_less [of xs] be_nat_less [of ys] Cons.hyps by simp_all
  consider "unat x < unat y" | "x = y" | "unat y < unat x"
    using less_linear [of "unat x" "unat y"] by (auto simp: unsigned_word_eqI)
  then show ?case
  proof cases
    case 1
    then have "unat x * ?B + ?B \<le> unat y * ?B"
      by (metis add.commute mult_Suc mult_le_mono1 Suc_leI)
    with 1 b Cons.hyps show ?thesis by (simp add: be_nat_Cons word_less_nat_alt)
  next
    case 3
    then have "unat y * ?B + ?B \<le> unat x * ?B"
      by (metis add.commute mult_Suc mult_le_mono1 Suc_leI)
    with 3 b Cons.hyps show ?thesis by (auto simp: be_nat_Cons word_less_nat_alt)
  qed (use Cons in \<open>simp add: be_nat_Cons\<close>)
qed simp

lemma matchSelectors_iff:
  "matchSelectors d p q tss \<longleftrightarrow> (\<exists>ts. Some ts \<in> set tss \<and> selectorMatches d p q ts)"
  by (induction d p q tss rule: matchSelectors.induct) auto

text \<open>A packet goes to the first policy whose selectors it matches, else to the default association.\<close>

lemma firstPolicy_Some:
  "firstPolicy d p q pols = Some sa \<longleftrightarrow>
     (\<exists>xs pol ys. pols = xs @ pol # ys \<and> saOut pol = Some sa \<and> matchSelectors d p q (pol_tsr pol) \<and>
        (\<forall>x\<in>set xs. saOut x = None \<or> \<not> matchSelectors d p q (pol_tsr x)))"
proof (induction pols)
  case (Cons pol pols)
  let ?skip = "\<lambda>x. saOut x = None \<or> \<not> matchSelectors d p q (pol_tsr x)"
  let ?take = "\<lambda>x. saOut x = Some sa \<and> matchSelectors d p q (pol_tsr x)"
  have step: "(\<exists>xs y ys. pol # pols = xs @ y # ys \<and> ?take y \<and> (\<forall>x\<in>set xs. ?skip x)) \<longleftrightarrow>
      ?take pol \<or> ?skip pol \<and> (\<exists>xs y ys. pols = xs @ y # ys \<and> ?take y \<and> (\<forall>x\<in>set xs. ?skip x))"
    (is "?L \<longleftrightarrow> ?R")
  proof
    assume ?L
    then obtain xs y ys where l: "pol # pols = xs @ y # ys" "?take y" "\<forall>x\<in>set xs. ?skip x" by blast
    then show ?R by (cases xs) auto
  next
    assume ?R
    then consider "?take pol" | xs y ys where "?skip pol" "pols = xs @ y # ys" "?take y" "\<forall>x\<in>set xs. ?skip x"
      by blast
    then show ?L
    proof cases
      case 1
      then show ?thesis by (intro exI [of _ "[]"] exI [of _ pol] exI [of _ pols]) simp
    next
      case 2
      then show ?thesis by (intro exI [of _ "pol # xs"] exI [of _ y] exI [of _ ys]) simp
    qed
  qed
  have "firstPolicy d p q (pol # pols) = Some sa \<longleftrightarrow>
      ?take pol \<or> ?skip pol \<and> firstPolicy d p q pols = Some sa"
    by (cases "saOut pol") auto
  with step Cons.IH show ?case by (simp only: conj_assoc)
qed simp

lemma selectOutgoingSA_live:
  "ChildSAOut s \<noteq> None \<Longrightarrow> selectOutgoingSA packet s \<noteq> None"
  by (auto simp: selectOutgoingSA_def split: option.split prod.split)

section \<open>Ranges and routes\<close>

definition isFullIPv4Range :: "TrafficSelector option \<Rightarrow> bool" where
  "isFullIPv4Range t = (case t of
     None \<Rightarrow> False
   | Some ts \<Rightarrow>
       if TSType ts \<noteq> TS_IPV4_ADDR_RANGE then False
       else if length (StartAddr ts) \<noteq> 4 \<or> length (EndAddr ts) \<noteq> 4 then False
       else get32 (StartAddr ts) = 0 \<and> get32 (EndAddr ts) = 0xffffffff)"

definition isFullIPv6Range :: "TrafficSelector option \<Rightarrow> bool" where
  "isFullIPv6Range t = (case t of
     None \<Rightarrow> False
   | Some ts \<Rightarrow>
       if TSType ts \<noteq> TS_IPV6_ADDR_RANGE then False
       else if length (StartAddr ts) \<noteq> 16 \<or> length (EndAddr ts) \<noteq> 16 then False
       else (\<forall>b\<in>set (StartAddr ts). b = 0) \<and> (\<forall>b\<in>set (EndAddr ts). b = 0xff))"

text \<open>
  The loop works on 64-bit values below \<open>2 ^ 33\<close>, so natural numbers are exact.
  \<^verbatim>\<open>bits.TrailingZeros32\<close> of a number that is not zero:
\<close>

fun TrailingZeros :: "nat \<Rightarrow> nat" where
  "TrailingZeros n = (if n = 0 then 32 else if n mod 2 = 0 then Suc (TrailingZeros (n div 2)) else 0)"

declare TrailingZeros.simps [simp del]

fun shrinkBlock :: "nat \<Rightarrow> nat \<Rightarrow> nat" where
  "shrinkBlock maxBlock remaining =
     (if remaining < maxBlock then shrinkBlock (maxBlock div 2) remaining else maxBlock)"

declare shrinkBlock.simps [simp del]

definition cidrBlock :: "nat \<Rightarrow> nat \<Rightarrow> nat" where
  "cidrBlock cur endU =
     shrinkBlock (if cur = 0 then 2 ^ 32 else 2 ^ TrailingZeros cur) (endU - cur + 1)"

lemma shrinkBlock_pos: "0 < m \<Longrightarrow> 0 < r \<Longrightarrow> 0 < shrinkBlock m r"
proof (induction m r rule: shrinkBlock.induct)
  case (1 m r)
  show ?case
  proof (cases "r < m")
    case True
    with 1 have "0 < shrinkBlock (m div 2) r" by simp
    with True show ?thesis by (subst shrinkBlock.simps) simp
  qed (use 1 in \<open>subst shrinkBlock.simps; simp\<close>)
qed

function cidrLoop :: "nat \<Rightarrow> nat \<Rightarrow> (nat \<times> nat) list" where
  "cidrLoop cur endU =
     (if cur \<le> endU then
        let maxBlock = cidrBlock cur endU; prefix = 32 - (BitLen maxBlock - 1)
        in (cur, prefix) # cidrLoop (cur + maxBlock) endU
      else [])"
  by pat_completeness auto
termination
proof (relation "measure (\<lambda>(cur, endU). endU + 1 - cur)")
  fix cur endU maxBlock prefix :: nat
  assume "cur \<le> endU" "maxBlock = cidrBlock cur endU"
  moreover have "0 < cidrBlock cur endU" unfolding cidrBlock_def by (rule shrinkBlock_pos) auto
  ultimately show "((cur + maxBlock, endU), cur, endU) \<in> measure (\<lambda>(cur, endU). endU + 1 - cur)"
    by simp
qed simp

declare cidrLoop.simps [simp del]

definition ipv4RangeToCIDRs :: "bytes \<Rightarrow> bytes \<Rightarrow> string list result" where
  "ipv4RangeToCIDRs start stop =
     (let s = To4 start; e = To4 stop
      in if s = [] \<or> e = [] then fail ''not an IPv4 address''
         else if get32 e < get32 s then fail ''invalid IPv4 range''
         else Inr (map (\<lambda>(cur, prefix). ip4_String (put32 (of_nat cur)) @ ''/'' @ itoa prefix)
                     (cidrLoop (unat (get32 s)) (unat (get32 e)))))"

subsection \<open>The blocks are the range\<close>

lemma TrailingZeros_dvd: "n \<noteq> 0 \<Longrightarrow> 2 ^ TrailingZeros n dvd n"
proof (induction n rule: TrailingZeros.induct)
  case (1 n)
  show ?case
  proof (cases "n mod 2 = 0")
    case True
    then obtain k where k: "n = 2 * k" by (metis mod_0_imp_dvd dvdE)
    with 1 have "2 ^ TrailingZeros k dvd k" by simp
    with k 1 show ?thesis by (subst TrailingZeros.simps) simp
  qed (subst TrailingZeros.simps, simp)
qed

lemma shrinkBlock_power:
  "0 < r \<Longrightarrow> \<exists>j\<le>k. shrinkBlock (2 ^ k) r = 2 ^ j \<and> 2 ^ j \<le> r"
proof (induction k)
  case 0
  then show ?case by (subst shrinkBlock.simps) simp
next
  case (Suc k)
  show ?case
  proof (cases "r < 2 ^ Suc k")
    case True
    then have "shrinkBlock (2 ^ Suc k) r = shrinkBlock (2 ^ k) r" by (subst shrinkBlock.simps) simp
    with Suc show ?thesis by (metis le_SucI)
  qed (subst shrinkBlock.simps, auto)
qed

text \<open>Each block is a power of two that divides its start and stays inside the range.\<close>

lemma cidrBlock_power:
  assumes "cur \<le> endU" "endU < 2 ^ 32"
  shows "\<exists>k\<le>32. cidrBlock cur endU = 2 ^ k \<and> 2 ^ k dvd cur \<and> cur + 2 ^ k \<le> endU + 1"
proof (cases "cur = 0")
  case True
  with shrinkBlock_power [of "endU - cur + 1" 32] show ?thesis by (auto simp: cidrBlock_def)
next
  case False
  have d: "2 ^ TrailingZeros cur dvd cur" using False by (rule TrailingZeros_dvd)
  with False have "2 ^ TrailingZeros cur \<le> cur" by (simp add: dvd_imp_le)
  with assms have "(2 :: nat) ^ TrailingZeros cur < 2 ^ 32" by linarith
  then have "TrailingZeros cur < 32" by (rule power_less_imp_less_exp [rotated]) simp
  moreover obtain j where "j \<le> TrailingZeros cur" "cidrBlock cur endU = 2 ^ j" "2 ^ j \<le> endU - cur + 1"
    using shrinkBlock_power [of "endU - cur + 1" "TrailingZeros cur"] False by (auto simp: cidrBlock_def)
  moreover from this(1) d have "2 ^ j dvd cur" by (meson dvd_trans le_imp_power_dvd)
  ultimately show ?thesis using assms(1) by (intro exI [of _ j]) auto
qed

definition blocks :: "(nat \<times> nat) list \<Rightarrow> nat list" where
  "blocks cs = concat (map (\<lambda>(c, p). [c..<c + 2 ^ (32 - p)]) cs)"

lemma cidrLoop_step:
  assumes "cur \<le> endU" "endU < 2 ^ 32"
  obtains k where "k \<le> 32" "2 ^ k dvd cur" "cur + 2 ^ k \<le> endU + 1"
    "cidrLoop cur endU = (cur, 32 - k) # cidrLoop (cur + 2 ^ k) endU"
proof -
  obtain k where k: "k \<le> 32" "cidrBlock cur endU = 2 ^ k" "2 ^ k dvd cur" "cur + 2 ^ k \<le> endU + 1"
    using cidrBlock_power [OF assms] by blast
  have "BitLen (2 ^ k) = Suc k" by (rule BitLen_eq) simp_all
  with k assms(1) have "cidrLoop cur endU = (cur, 32 - k) # cidrLoop (cur + 2 ^ k) endU"
    by (subst cidrLoop.simps) (simp add: Let_def)
  with k that show ?thesis by blast
qed

lemma cidrLoop_exact:
  "endU < 2 ^ 32 \<Longrightarrow> blocks (cidrLoop cur endU) = [cur..<endU + 1] \<and>
     (\<forall>(c, p)\<in>set (cidrLoop cur endU). p \<le> 32 \<and> 2 ^ (32 - p) dvd c)"
proof (induction "endU + 1 - cur" arbitrary: cur rule: less_induct)
  case less
  show ?case
  proof (cases "cur \<le> endU")
    case True
    obtain k where k: "k \<le> 32" "2 ^ k dvd cur" "cur + 2 ^ k \<le> endU + 1"
      "cidrLoop cur endU = (cur, 32 - k) # cidrLoop (cur + 2 ^ k) endU"
      using cidrLoop_step [OF True less.prems] by blast
    have "endU + 1 - (cur + 2 ^ k) < endU + 1 - cur"
      using True by (simp add: diff_less_mono2)
    note ih = less.hyps [OF this less.prems]
    obtain d where d: "endU + 1 = cur + 2 ^ k + d" using k(3) by (metis le_Suc_ex)
    have "[cur..<endU + 1] = [cur..<cur + 2 ^ k] @ [cur + 2 ^ k..<endU + 1]"
      unfolding d by (rule upt_add_eq_append) simp
    then have "blocks (cidrLoop cur endU) = [cur..<endU + 1]"
      using ih k(1) unfolding k(4) by (simp only: blocks_def list.map concat.simps prod.case diff_diff_cancel)
    moreover have "\<forall>(c, p)\<in>set (cidrLoop cur endU). p \<le> 32 \<and> 2 ^ (32 - p) dvd c"
      using ih k(1,2) unfolding k(4) by (simp only: list.set ball_simps prod.case diff_diff_cancel) simp
    ultimately show ?thesis ..
  next
    case False
    then have "cidrLoop cur endU = []" by (subst cidrLoop.simps) simp
    with False show ?thesis by (simp add: blocks_def)
  qed
qed

end
