(* ===== verification/Swu_Action.thy ===== *)
theory Swu_Action
  imports Swu_Message
begin

text \<open>
  Methods of a session that change its state and may fail: state passing with a result, their
  sequencing, and the rules by which a property of the state is carried through a method. The
  sending of datagrams and of encrypted responses is here because every exchange uses it.
\<close>

type_synonym 'a action = "Session \<Rightarrow> Session \<times> 'a result"

definition ret :: "'a \<Rightarrow> 'a action" where
  "ret x s = (s, Inr x)"

definition lift :: "'a result \<Rightarrow> 'a action" where
  "lift r s = (s, r)"

definition modify :: "(Session \<Rightarrow> Session) \<Rightarrow> unit action" where
  "modify f s = (f s, Inr ())"

definition gets :: "(Session \<Rightarrow> 'a result) \<Rightarrow> 'a action" where
  "gets f s = (s, f s)"

definition sbind :: "'a action \<Rightarrow> ('a \<Rightarrow> 'b action) \<Rightarrow> 'b action" where
  "sbind m f s = (case m s of (s', Inl e) \<Rightarrow> (s', Inl e) | (s', Inr x) \<Rightarrow> f x s')"

abbreviation sseq :: "'a action \<Rightarrow> 'b action \<Rightarrow> 'b action" where
  "sseq m n \<equiv> sbind m (\<lambda>_. n)"

abbreviation (input) throw :: "string \<Rightarrow> 'a action" where
  "throw msg \<equiv> lift (fail msg)"

lemma action_simps [simp]:
  "ret x s = (s, Inr x)" "lift r s = (s, r)" "modify u s = (u s, Inr ())" "gets g s = (s, g s)"
  "sbind (ret x) f s = f x s" "sbind (lift (Inr x)) f s = f x s" "sbind (lift (Inl e)) f s = (s, Inl e)"
  "sbind (modify u) h s = h () (u s)"
  by (simp_all add: ret_def lift_def modify_def gets_def sbind_def)

lemma sbind_gets: "sbind (gets g) f s = (case g s of Inl e \<Rightarrow> (s, Inl e) | Inr x \<Rightarrow> f x s)"
  by (simp add: sbind_def gets_def split: sum.split)

lemma sbind_lift: "sbind (lift r) f s = (case r of Inl e \<Rightarrow> (s, Inl e) | Inr x \<Rightarrow> f x s)"
  by (simp add: sbind_def lift_def split: sum.split)

lemma sbind_assoc: "sbind (sbind m f) g = sbind m (\<lambda>x. sbind (f x) g)"
  by (rule ext) (simp add: sbind_def split: prod.split sum.split)

lemma sbind_Inr_iff:
  "sbind m f s = (s', Inr y) \<longleftrightarrow> (\<exists>s1 x. m s = (s1, Inr x) \<and> f x s1 = (s', Inr y))"
  by (auto simp: sbind_def split: prod.splits sum.splits)

lemma sbind_eqI: "m s = (s1, Inr x) \<Longrightarrow> sbind m f s = f x s1"
  by (simp add: sbind_def)

lemma sbind_no_panic:
  "snd (m s) \<noteq> Inl Panic \<Longrightarrow> (\<And>x s'. m s = (s', Inr x) \<Longrightarrow> snd (f x s') \<noteq> Inl Panic) \<Longrightarrow>
     snd (sbind m f s) \<noteq> Inl Panic"
  by (auto simp: sbind_def split: prod.split sum.split)

section \<open>Invariants of methods\<close>

definition preserves :: "(Session \<Rightarrow> bool) \<Rightarrow> 'a action \<Rightarrow> bool" where
  "preserves P m \<longleftrightarrow> (\<forall>s. P s \<longrightarrow> P (fst (m s)))"

named_theorems keeps \<open>methods that preserve a property of the session\<close>

lemma preservesI [intro?]: "(\<And>s. P s \<Longrightarrow> P (fst (m s))) \<Longrightarrow> preserves P m"
  by (simp add: preserves_def)

lemma preservesD: "preserves P m \<Longrightarrow> P s \<Longrightarrow> P (fst (m s))"
  by (simp add: preserves_def)

lemma preserves_pure [keeps]: "preserves P (ret x)" "preserves P (lift r)" "preserves P (gets g)"
  by (simp_all add: preserves_def)

lemma preserves_modify: "(\<And>s. P s \<Longrightarrow> P (f s)) \<Longrightarrow> preserves P (modify f)"
  by (simp add: preserves_def)

lemma preserves_bind [keeps]:
  assumes "preserves P m" "\<And>x. preserves P (f x)"
  shows "preserves P (sbind m f)"
proof
  fix s assume s: "P s"
  show "P (fst (sbind m f s))"
    using preservesD [OF assms(1) s] preservesD [OF assms(2)]
    by (auto simp: sbind_def split: prod.split sum.split)
qed

lemma preserves_if [keeps]:
  "(b \<Longrightarrow> preserves P m) \<Longrightarrow> (\<not> b \<Longrightarrow> preserves P n) \<Longrightarrow> preserves P (if b then m else n)"
  by simp

section \<open>Methods that do not return a value\<close>

text \<open>A method that keeps \<open>P\<close> and does not return a value from a state with \<open>P\<close>.\<close>

definition stuck :: "(Session \<Rightarrow> bool) \<Rightarrow> 'a action \<Rightarrow> bool" where
  "stuck P m \<longleftrightarrow> (\<forall>s. P s \<longrightarrow> P (fst (m s)) \<and> (\<forall>x. snd (m s) \<noteq> Inr x))"

lemma stuck_throw: "stuck P (throw e)"
  by (simp add: stuck_def)

lemma stuck_bind:
  assumes "preserves P m" "\<And>x. stuck P (f x)"
  shows "stuck P (sbind m f)"
  unfolding stuck_def
proof (intro allI impI conjI)
  fix s assume "P s"
  with preservesD [OF assms(1)] have m: "P (fst (m s))" by blast
  show "P (fst (sbind m f s))"
    using m assms(2) by (auto simp: sbind_def stuck_def split: prod.splits sum.splits)
  show "snd (sbind m f s) \<noteq> Inr x" for x
    using m assms(2) by (auto simp: sbind_def stuck_def split: prod.splits sum.splits)
qed

lemma stuck_if: "stuck P m \<Longrightarrow> stuck P n \<Longrightarrow> stuck P (if c then m else n)"
  by simp

lemma stuck_bind_left:
  assumes "stuck P m"
  shows "stuck P (sbind m f)"
  unfolding stuck_def
proof (intro allI impI)
  fix s assume "P s"
  with assms have "P (fst (m s)) \<and> (\<forall>x. snd (m s) \<noteq> Inr x)" by (simp add: stuck_def)
  then show "P (fst (sbind m f s)) \<and> (\<forall>x. snd (sbind m f s) \<noteq> Inr x)"
    by (cases "m s"; cases "snd (m s)") (simp_all add: sbind_def)
qed

lemma stuck_gets: "(\<And>s x. P s \<Longrightarrow> g s \<noteq> Inr x) \<Longrightarrow> stuck P (gets g)"
  by (simp add: stuck_def)

section \<open>Sending\<close>

text \<open>\<^verbatim>\<open>socket.SendIKE\<close>: the datagram is handed over; errors of the socket are not modelled.\<close>

definition SendIKE_out :: "bytes \<Rightarrow> unit action" where
  "SendIKE_out d = modify (\<lambda>s. s\<lparr>outbox := outbox s @ [d]\<rparr>)"

definition emit :: "session_event \<Rightarrow> unit action" where
  "emit e = modify (\<lambda>s. s\<lparr>events := events s @ [e]\<rparr>)"

definition sendEncryptedResponseWithMsgID ::
    "bytes result \<Rightarrow> Payload list \<Rightarrow> byte \<Rightarrow> u32 \<Rightarrow> unit action" where
  "sendEncryptedResponseWithMsgID rnd payloads exchangeType msgID =
     sbind (gets (encryptAndWrapWithMsgID rnd payloads exchangeType msgID True)) SendIKE_out"

text \<open>
  The first half of \<^verbatim>\<open>sendEncryptedWithRetry\<close>: what is handed to the window, as one packet or as
  fragments, with the identifier it is filed under. The second half waits for the channel.
\<close>

definition sendEncrypted ::
    "bytes result \<Rightarrow> (nat \<Rightarrow> bytes result) \<Rightarrow> bytes \<Rightarrow> Payload list \<Rightarrow> byte \<Rightarrow> (u32 \<times> bytes list) action" where
  "sendEncrypted rnd rnds spare payloads exchangeType =
     sbind (gets (shouldFragment payloads)) (\<lambda>frag.
     sbind (if frag then (\<lambda>s. case fragmentMessage rnds spare payloads exchangeType s of
                (s', r) \<Rightarrow> (s', relabel ''IKE fragmentation failed'' r)) else ret []) (\<lambda>packets.
     sbind (if length packets = 0
            then sbind (\<lambda>s. encryptAndWrap rnd payloads exchangeType False s) (\<lambda>p. ret [p])
            else ret packets) (\<lambda>packets.
       gets (\<lambda>s. Inr (s_SequenceNumber s - 1, packets)))))"

end
