(* ===== verification/Swu_Init.thy ===== *)
theory Swu_Init
  imports Swu_Action Swu_Keys Ikev2_Proposal
begin

text \<open>
  The IKE_SA_INIT exchange (\<^verbatim>\<open>pkg/swu/state_init.go\<close>, \<^verbatim>\<open>pkg/swu/cookie.go\<close>,
  \<^verbatim>\<open>pkg/ikev2/nat_detection.go\<close>): the request with its proposals, key exchange, nonce and NAT
  detection hashes; the response with cookies, redirection and retries, the choice of algorithms
  and the keys.
\<close>

section \<open>NAT detection\<close>

definition CalculateNATDetectionHash :: "u64 \<Rightarrow> u64 \<Rightarrow> bytes \<Rightarrow> u16 \<Rightarrow> bytes" where
  "CalculateNATDetectionHash spiI spiR ip port = sha1 ((put64 spiI @ put64 spiR) @ ip @ put16 port)"

definition CreateNATDetectionNotify :: "u16 \<Rightarrow> bytes \<Rightarrow> EncryptedPayloadNotify" where
  "CreateNATDetectionNotify notifyType hash =
     \<lparr>ntf_ProtocolID = ProtoIKE, ntf_SPI = [], NotifyType = notifyType, NotifyData = hash, OverrideType = 0\<rparr>"

text \<open>
  The session's socket as the type assertions see it: \<open>None\<close> where it lacks the methods. \<open>dialUDP\<close> is
  the local address of a UDP socket connected to the given one.
\<close>

record Transport =
  tr_LocalPort :: "u16 option"
  tr_Remote :: "(bytes \<times> int) option"
  tr_LocalIP :: "bytes option"
  tr_SetRemotePort :: bool
  dialUDP :: "bytes \<Rightarrow> u16 \<Rightarrow> bytes result"

definition detectOutboundIPv4 :: "Transport \<Rightarrow> bytes \<Rightarrow> u16 \<Rightarrow> bytes result" where
  "detectOutboundIPv4 tr remoteIP remotePort =
     (if remoteIP = [] then fail ''remote ip is nil''
      else rbind (dialUDP tr remoteIP remotePort) (\<lambda>ua.
        let v4 = To4 ua in if v4 \<noteq> [] then Inr v4 else fail ''cannot detect outbound ip''))"

definition natLocalPort :: "Transport \<Rightarrow> Config \<Rightarrow> u16" where
  "natLocalPort tr cfg =
     (if cfg_LocalPort cfg = 0 then (case tr_LocalPort tr of Some p \<Rightarrow> p | None \<Rightarrow> 0) else cfg_LocalPort cfg)"

definition natRemote :: "Transport \<Rightarrow> Config \<Rightarrow> bytes \<times> u16" where
  "natRemote tr cfg =
     (let remoteIP = ParseIP4 (EpDGAddr cfg);
          remotePort = (if EpDGPort cfg = 0 then 500 else EpDGPort cfg)
      in case tr_Remote tr of None \<Rightarrow> (remoteIP, remotePort)
         | Some (rip, rp) \<Rightarrow> (if To4 rip \<noteq> [] then To4 rip else remoteIP,
                             if rp \<noteq> 0 then of_int rp else remotePort))"

definition natLocalIP :: "Transport \<Rightarrow> Config \<Rightarrow> bytes" where
  "natLocalIP tr cfg =
     (let localIP = ParseIP4 (LocalAddr cfg);
          localIP = (case tr_LocalIP tr of None \<Rightarrow> localIP
            | Some lip \<Rightarrow> if To4 lip \<noteq> [] \<and> To4 lip \<noteq> [0, 0, 0, 0] then To4 lip else localIP);
          (remoteIP, remotePort) = natRemote tr cfg
      in if (localIP = [] \<or> localIP = [0, 0, 0, 0]) \<and> remoteIP \<noteq> [] then
           (case detectOutboundIPv4 tr remoteIP remotePort of Inr out \<Rightarrow> out | Inl _ \<Rightarrow> localIP)
         else localIP)"

definition natHashes :: "Transport \<Rightarrow> Config \<Rightarrow> u64 \<Rightarrow> u64 \<Rightarrow> bytes \<times> bytes" where
  "natHashes tr cfg spiI spiR =
     (let (remoteIP, remotePort) = natRemote tr cfg
      in (CalculateNATDetectionHash spiI spiR (natLocalIP tr cfg) (natLocalPort tr cfg),
          CalculateNATDetectionHash spiI spiR remoteIP remotePort))"

section \<open>Cookies\<close>

definition handleCookie :: "bytes \<Rightarrow> Session \<Rightarrow> Session" where
  "handleCookie cookieData s =
     (let s = s\<lparr>s_cookie := cookieData, sendCookie := True\<rparr>
      in if 1 \<le> cookieRetryCount s then s\<lparr>s_ni := [], DH := None\<rparr> else s)"

section \<open>Redirection\<close>

definition ParseRedirectData :: "bytes \<Rightarrow> string result" where
  "ParseRedirectData data =
     (if length data < 1 then fail ''empty redirect data''
      else let gwType = data ! 0; gwData = drop 1 data
           in if gwType = RedirectGWIPv4 then
                (if length gwData \<noteq> 4 then fail ''invalid IPv4 length'' else Inr (ip_String gwData))
              else if gwType = RedirectGWIPv6 then
                (if length gwData \<noteq> 16 then fail ''invalid IPv6 length'' else Inr (ip_String gwData))
              else if gwType = RedirectGWFQDN then Inr (bytes_str gwData)
              else fail ''unknown gateway identity type'')"

section \<open>The request\<close>

text \<open>
  \<open>ni16\<close> is the random nonce and \<open>rnd\<close> the random exponent, where the session needs new ones. When
  the group is not supported, the assignment leaves a nil pointer.
\<close>

definition prepareDH :: "nat result \<Rightarrow> u16 \<Rightarrow> unit action" where
  "prepareDH rnd dhGroup s =
     (if (case DH s of None \<Rightarrow> True | Some dh \<Rightarrow> Group dh \<noteq> dhGroup) then
        (case NewDiffieHellman dhGroup of
           Inl e \<Rightarrow> (s\<lparr>DH := None\<rparr>, Inl e)
         | Inr dh \<Rightarrow>
             (case GenerateKey rnd dh of
                Inl e \<Rightarrow> (s\<lparr>DH := Some dh\<rparr>, Inl e)
              | Inr dh \<Rightarrow> (s\<lparr>DH := Some dh\<rparr>, Inr ())))
      else (s, Inr ()))"

definition initProposals :: "Config \<Rightarrow> Proposal list" where
  "initProposals cfg = (case ParseIKEProposals (IKEProposals cfg) [] (AutoPRF cfg) of
     Inr ps \<Rightarrow> ps
   | Inl _ \<Rightarrow> (case ParseIKEProposals [] [] True of Inr ps \<Rightarrow> ps | Inl _ \<Rightarrow> []))"

abbreviation notify0 :: "u16 \<Rightarrow> bytes \<Rightarrow> EncryptedPayloadNotify" where
  "notify0 t d \<equiv> \<lparr>ntf_ProtocolID = 0, ntf_SPI = [], NotifyType = t, NotifyData = d, OverrideType = 0\<rparr>"

definition cookieNotify :: "Session \<Rightarrow> Payload list" where
  "cookieNotify s =
     (if sendCookie s \<and> 0 < length (s_cookie s) then
        [PayloadNotify ((notify0 COOKIE (s_cookie s))
           \<lparr>OverrideType := if to_lower (CookiePayloadType (s_cfg s)) = ''sa'' then PT_SA else 0\<rparr>)]
      else [])"

definition initPayloads :: "Transport \<Rightarrow> u16 \<Rightarrow> bytes \<Rightarrow> Session \<Rightarrow> Payload list" where
  "initPayloads tr dhGroup pub s =
     (let (srcHash, dstHash) = natHashes tr (s_cfg s) (s_SPIi s) 0
      in cookieNotify s @
         [PayloadSA \<lparr>Proposals = initProposals (s_cfg s)\<rparr>,
          PayloadKE \<lparr>DHGroup = dhGroup, KEData = pub\<rparr>,
          PayloadNonce \<lparr>NonceData = s_ni s\<rparr>,
          PayloadNotify (CreateNATDetectionNotify NAT_DETECTION_SOURCE_IP srcHash),
          PayloadNotify (CreateNATDetectionNotify NAT_DETECTION_DESTINATION_IP dstHash),
          PayloadNotify (notify0 IKEV2_FRAGMENTATION_SUPPORTED [])])"

definition initHeader :: "Session \<Rightarrow> IKEHeader" where
  "initHeader s = \<lparr>SPIi = s_SPIi s, SPIr = 0, NextPayload = 0, Version = 0x20, ExchangeType = IKE_SA_INIT,
     Flags = FlagInitiator, MessageID = 0, hdr_Length = 0\<rparr>"

definition buildIKESAInitPacket :: "bytes \<Rightarrow> nat result \<Rightarrow> Transport \<Rightarrow> bytes action" where
  "buildIKESAInitPacket ni16 rnd tr =
     sseq (modify (\<lambda>s. if length (s_ni s) = 0 then s\<lparr>s_ni := ni16\<rparr> else s)) (
     sbind (gets (\<lambda>s. Inr (if 0 < keRetryGroup s then keRetryGroup s else 14))) (\<lambda>dhGroup.
     sseq (prepareDH rnd dhGroup) (
     sbind (gets (\<lambda>s. rbind (deref (DH s)) PublicKeyBytes)) (\<lambda>pub.
     sbind (gets (\<lambda>s. Packet_Encode
        \<lparr>Header = initHeader s, Payloads = initPayloads tr dhGroup pub s\<rparr>)) (\<lambda>(_, data).
     sseq (modify (\<lambda>s. s\<lparr>msgBuffer := data\<rparr>)) (ret data))))))"

definition sendIKESAInit :: "bytes \<Rightarrow> nat result \<Rightarrow> Transport \<Rightarrow> unit action" where
  "sendIKESAInit ni16 rnd tr = sbind (buildIKESAInitPacket ni16 rnd tr) SendIKE_out"

section \<open>The response\<close>

text \<open>The last payload of each kind wins.\<close>

record InitAcc =
  acc_sa :: "EncryptedPayloadSA option"
  acc_ke :: "EncryptedPayloadKE option"
  acc_nonce :: "EncryptedPayloadNonce option"
  acc_natSrc :: bytes
  acc_natDst :: bytes

definition emptyInitAcc :: InitAcc where
  "emptyInitAcc = \<lparr>acc_sa = None, acc_ke = None, acc_nonce = None, acc_natSrc = [], acc_natDst = []\<rparr>"

definition initNotify :: "EncryptedPayloadNotify \<Rightarrow> InitAcc \<Rightarrow> InitAcc action" where
  "initNotify v acc =
     (let t = NotifyType v; d = NotifyData v
      in if t = COOKIE then sseq (modify (handleCookie d)) (lift (Inl (Fail ErrCookieRequired)))
         else
           let acc = (if t = NAT_DETECTION_SOURCE_IP then acc\<lparr>acc_natSrc := d\<rparr>
                      else if t = NAT_DETECTION_DESTINATION_IP then acc\<lparr>acc_natDst := d\<rparr> else acc)
           in sseq (if t = IKEV2_FRAGMENTATION_SUPPORTED then modify (\<lambda>s. s\<lparr>fragmentationSupported := True\<rparr>)
                    else ret ())
             (if t = NO_PROPOSAL_CHOSEN then throw ''NO_PROPOSAL_CHOSEN''
              else if t = INVALID_KE_PAYLOAD then
                (if 2 \<le> length d then
                   sseq (modify (\<lambda>s. s\<lparr>keRetryGroup := get16 (take 2 d)\<rparr>)) (
                   sseq (gets (\<lambda>s. deref (DH s))) (lift (Inl (Fail ErrInvalidKEPayload))))
                 else throw ''INVALID_KE_PAYLOAD without group'')
              else if t = REDIRECT then
                (case ParseRedirectData d of Inl _ \<Rightarrow> ret acc | Inr addr \<Rightarrow> lift (Inl (Fail (RedirectError addr))))
              else ret acc))"

fun initRespLoop :: "Payload list \<Rightarrow> InitAcc \<Rightarrow> InitAcc action" where
  "initRespLoop [] acc = ret acc"
| "initRespLoop (PayloadSA v # ps) acc = initRespLoop ps (acc\<lparr>acc_sa := Some v\<rparr>)"
| "initRespLoop (PayloadKE v # ps) acc = initRespLoop ps (acc\<lparr>acc_ke := Some v\<rparr>)"
| "initRespLoop (PayloadNonce v # ps) acc = initRespLoop ps (acc\<lparr>acc_nonce := Some v\<rparr>)"
| "initRespLoop (PayloadNotify v # ps) acc = sbind (initNotify v acc) (initRespLoop ps)"
| "initRespLoop (_ # ps) acc = initRespLoop ps acc"

text \<open>With both hashes in the response, a mismatch of either moves the socket to port 4500.\<close>

definition natCheck :: "Transport \<Rightarrow> InitAcc \<Rightarrow> unit action" where
  "natCheck tr acc = modify (\<lambda>s.
     if 0 < length (acc_natSrc acc) \<and> 0 < length (acc_natDst acc) then
       let (expNatSrc, expNatDst) = natHashes tr (s_cfg s) (s_SPIi s) (s_SPIr s);
           natDetected = (acc_natSrc acc \<noteq> expNatSrc \<or> acc_natDst acc \<noteq> expNatDst)
       in if natDetected \<and> tr_SetRemotePort tr then s\<lparr>natPort := Some 4500\<rparr> else s
     else s)"

text \<open>The algorithms of a proposal: the last transform of each type, and the last key length.\<close>

record Selection =
  sel_encr :: u16
  sel_keyLenBits :: int
  sel_integ :: u16
  sel_prf :: u16
  sel_dh :: u16
  sel_esn :: bool

definition selectTransform :: "Transform \<Rightarrow> Selection \<Rightarrow> Selection" where
  "selectTransform t r =
     (if tr_Type t = TransformTypeEncr then
        r\<lparr>sel_encr := tr_ID t,
          sel_keyLenBits := fold (\<lambda>a k. if ta_Type a = AttributeKeyLength then int (unat (ta_Val a)) else k)
            (tr_Attributes t) (sel_keyLenBits r)\<rparr>
      else if tr_Type t = TransformTypeInteg then r\<lparr>sel_integ := tr_ID t\<rparr>
      else if tr_Type t = TransformTypePRF then r\<lparr>sel_prf := tr_ID t\<rparr>
      else if tr_Type t = TransformTypeDH then r\<lparr>sel_dh := tr_ID t\<rparr>
      else if tr_Type t = TransformTypeESN \<and> tr_ID t = 1 then r\<lparr>sel_esn := True\<rparr>
      else r)"

definition selection :: "Transform list \<Rightarrow> Selection" where
  "selection ts = fold selectTransform ts
     \<lparr>sel_encr = 0, sel_keyLenBits = 0, sel_integ = 0, sel_prf = 0, sel_dh = 0, sel_esn = False\<rparr>"

definition isAEADEncr :: "u16 \<Rightarrow> bool" where
  "isAEADEncr e \<longleftrightarrow> e = ENCR_AES_GCM_16 \<or> e = ENCR_AES_GCM_12 \<or> e = ENCR_AES_GCM_8"

text \<open>An assignment \<^verbatim>\<open>x, err = f()\<close> that fails stores the nil it was given.\<close>

definition assign :: "('a option \<Rightarrow> Session \<Rightarrow> Session) \<Rightarrow> string \<Rightarrow> 'a result \<Rightarrow> unit action" where
  "assign upd msg r = (case r of
     Inl e \<Rightarrow> sseq (modify (upd None)) (lift (relabel msg (Inl e)))
   | Inr x \<Rightarrow> modify (upd (Some x)))"

definition setAlgorithms :: "Selection \<Rightarrow> unit action" where
  "setAlgorithms sel =
     sseq (assign (\<lambda>x s. s\<lparr>PRFAlg := x\<rparr>) ''unsupported PRF'' (GetPRF (sel_prf sel))) (
     sseq (assign (\<lambda>x s. s\<lparr>EncAlg := x\<rparr>) ''unsupported Encr''
             (GetEncrypterWithKeyLen (sel_encr sel) (sel_keyLenBits sel))) (
     sseq (modify (\<lambda>s. s\<lparr>ikeEncrID := sel_encr sel, ikePRFID := sel_prf sel, ikeDHID := sel_dh sel,
             ikeEncrKeyLenBits := sel_keyLenBits sel, ikeIsAEAD := isAEADEncr (sel_encr sel)\<rparr>))
     (if isAEADEncr (sel_encr sel) then
        modify (\<lambda>s. s\<lparr>ikeIntegID := 0,
          IntegAlg := (case GetIntegrityAlgorithm 0 of Inr a \<Rightarrow> Some a | Inl _ \<Rightarrow> None)\<rparr>)
      else sseq (modify (\<lambda>s. s\<lparr>ikeIntegID := sel_integ sel\<rparr>))
             (assign (\<lambda>x s. s\<lparr>IntegAlg := x\<rparr>) ''unsupported Integ'' (GetIntegrityAlgorithm (sel_integ sel))))))"

text \<open>The shared secret is stored in the object behind \<^verbatim>\<open>s.DH\<close>.\<close>

definition sharedSecret :: "bytes \<Rightarrow> unit action" where
  "sharedSecret keData =
     sbind (gets (\<lambda>s. rbind (deref (DH s)) (\<lambda>dh. relabel ''DH failed'' (ComputeSharedSecret dh keData)))) (\<lambda>(dh, _).
       modify (\<lambda>s. s\<lparr>DH := Some dh\<rparr>))"

definition deriveKeys :: "unit action" where
  "deriveKeys = (\<lambda>s. case GenerateIKESAKeys (s_nr s) s of Inl e \<Rightarrow> (s, Inl e) | Inr s' \<Rightarrow> (s', Inr ()))"

definition handleIKESAInitResp :: "Transport \<Rightarrow> bytes \<Rightarrow> unit action" where
  "handleIKESAInitResp tr data =
     sbind (lift (relabel ''decoding SA_INIT failed'' (DecodePacket data))) (\<lambda>packet.
     if ExchangeType (Header packet) \<noteq> IKE_SA_INIT then throw ''unexpected exchange type''
     else
       sseq (modify (\<lambda>s. s\<lparr>s_SPIr := SPIr (Header packet)\<rparr>)) (
       sbind (initRespLoop (Payloads packet) emptyInitAcc) (\<lambda>acc.
       case (acc_sa acc, acc_ke acc, acc_nonce acc) of
         (Some sa, Some ke, Some nonce) \<Rightarrow>
           sseq (modify (\<lambda>s. s\<lparr>s_nr := NonceData nonce\<rparr>)) (
           sseq (natCheck tr acc) (
           if Proposals sa = [] then lift (Inl Panic)
           else
             sseq (setAlgorithms (selection (Transforms (hd (Proposals sa))))) (
             sseq (sharedSecret (KEData ke)) (
             sseq deriveKeys (
             modify (\<lambda>s. s\<lparr>sendCookie := False\<rparr>))))))
       | _ \<Rightarrow> throw ''missing mandatory payload'')))"

end
