(* ===== verification/Swu_Child.thy ===== *)
theory Swu_Child
  imports Swu_Init
begin

text \<open>
  Child associations: the keys cut from \<^verbatim>\<open>prf+(SK_d, Ni | Nr)\<close> and the pair of associations made
  of them, as IKE_AUTH (\<^verbatim>\<open>pkg/swu/state_auth.go\<close>) and rekeying (\<^verbatim>\<open>pkg/swu/state_rekey.go\<close>) share
  them. The pair fits the one that a responder derives.
\<close>

section \<open>Keys\<close>

record ChildKeys =
  outEncKey :: bytes
  outIntegKey :: bytes
  inEncKey :: bytes
  inIntegKey :: bytes

text \<open>The algorithms and the lengths: cipher, integrity, key with salt, integrity key.\<close>

definition childAlgs :: "Selection \<Rightarrow> (Encrypter \<times> IntegrityAlgorithm option \<times> int \<times> int) result" where
  "childAlgs sel =
     rbind (relabel ''unsupported Child SA cipher'' (GetEncrypterWithKeyLen (sel_encr sel) (sel_keyLenBits sel)))
       (\<lambda>childEnc.
        if isAEADEncr (sel_encr sel) then Inr (childEnc, None, Crypto_Cipher.KeySize childEnc + 4, 0)
        else rbind (relabel ''unsupported Child SA integrity'' (GetIntegrityAlgorithm (sel_integ sel))) (\<lambda>integAlg.
          Inr (childEnc, Some integAlg, Crypto_Cipher.KeySize childEnc, int (integ_KeySize integAlg))))"

definition splitChildKeys :: "bytes \<Rightarrow> bool \<Rightarrow> int \<Rightarrow> int \<Rightarrow> ChildKeys result" where
  "splitChildKeys keyMat aead encLen integLen =
     rbind (key_slice keyMat 0 encLen) (\<lambda>oe.
     rbind (if \<not> aead then key_slice keyMat encLen integLen else Inr []) (\<lambda>oi.
       let cursor = (if \<not> aead then encLen + integLen else encLen)
       in rbind (key_slice keyMat cursor encLen) (\<lambda>ie.
          rbind (if \<not> aead then key_slice keyMat (cursor + encLen) integLen else Inr []) (\<lambda>ii.
            Inr \<lparr>outEncKey = oe, outIntegKey = oi, inEncKey = ie, inIntegKey = ii\<rparr>))))"

definition deriveChildKeys ::
    "Selection \<Rightarrow> bytes \<Rightarrow> Session \<Rightarrow> (Encrypter \<times> IntegrityAlgorithm option \<times> ChildKeys) result" where
  "deriveChildKeys sel seed s =
     rbind (childAlgs sel) (\<lambda>(childEnc, integAlg, encLen, integLen).
     rbind (deref (Keys s)) (\<lambda>k.
     rbind (deref (PRFAlg s)) (\<lambda>p.
     rbind (PrfPlus p (SK_d k) seed (2 * (encLen + integLen))) (\<lambda>keyMat.
     rbind (splitChildKeys keyMat (integAlg = None) encLen integLen) (\<lambda>ck.
       Inr (childEnc, integAlg, ck))))))"

section \<open>Associations\<close>

definition childSA :: "u32 \<Rightarrow> u32 \<Rightarrow> Encrypter \<Rightarrow> IntegrityAlgorithm option \<Rightarrow> bytes \<Rightarrow> bytes \<Rightarrow> SecurityAssociation" where
  "childSA spi remote e integ encKey integKey =
     (case integ of
        None \<Rightarrow> (NewSecurityAssociation spi e encKey [])\<lparr>RemoteSPI := remote\<rparr>
      | Some a \<Rightarrow> (NewSecurityAssociationCBC spi e encKey a integKey)\<lparr>RemoteSPI := remote\<rparr>)"

text \<open>Allocation returns the reference of a new object.\<close>

definition allocSA :: "SecurityAssociation \<Rightarrow> sa_ref action" where
  "allocSA sa s = (s\<lparr>sas := sas s @ [sa]\<rparr>, Inr (length (sas s)))"

text \<open>The pair is installed: both pointers, and the inbound one under its SPI.\<close>

definition installChild ::
    "u32 \<Rightarrow> u32 \<Rightarrow> Encrypter \<Rightarrow> IntegrityAlgorithm option \<Rightarrow> ChildKeys \<Rightarrow> unit action" where
  "installChild localSPI remoteSPI e integ ck =
     sbind (allocSA (childSA remoteSPI localSPI e integ (outEncKey ck) (outIntegKey ck))) (\<lambda>saOut.
     sbind (allocSA (childSA localSPI remoteSPI e integ (inEncKey ck) (inIntegKey ck))) (\<lambda>saIn.
       modify (\<lambda>s. s\<lparr>ChildSAOut := Some saOut, ChildSAIn := Some saIn,
         ChildSAsIn := (ChildSAsIn s)(localSPI \<mapsto> saIn)\<rparr>)))"

section \<open>The responder's side\<close>

text \<open>
  RFC 7296, section 2.17: the keys of the initiator-to-responder direction come first. A responder
  with the same key material opens with the first keys what our outgoing association seals.
\<close>

definition child_material :: "prf_alg \<Rightarrow> bytes \<Rightarrow> bytes \<Rightarrow> nat \<Rightarrow> bytes" where
  "child_material p skd seed n = take n (prf_stream p skd seed 254)"

definition responder_in :: "u32 \<Rightarrow> u32 \<Rightarrow> Encrypter \<Rightarrow> IntegrityAlgorithm option \<Rightarrow> nat \<Rightarrow> nat \<Rightarrow> bytes \<Rightarrow> SecurityAssociation" where
  "responder_in localSPI remoteSPI e integ n i m =
     childSA remoteSPI localSPI e integ (take n m) (take i (drop n m))"

definition responder_out :: "u32 \<Rightarrow> u32 \<Rightarrow> Encrypter \<Rightarrow> IntegrityAlgorithm option \<Rightarrow> nat \<Rightarrow> nat \<Rightarrow> bytes \<Rightarrow> SecurityAssociation" where
  "responder_out localSPI remoteSPI e integ n i m =
     childSA localSPI remoteSPI e integ (take n (drop (n + i) m)) (take i (drop (n + i + n) m))"

lemma splitChildKeys_ok:
  assumes "length m = 2 * (n + i)" "aead \<longrightarrow> i = 0"
  shows "splitChildKeys m aead (int n) (int i) = Inr
    \<lparr>outEncKey = take n m, outIntegKey = take i (drop n m), inEncKey = take n (drop (n + i) m),
     inIntegKey = take i (drop (n + i + n) m)\<rparr>"
proof -
  have "key_slice m 0 (int n) = Inr (take n m)"
    using assms by (subst key_slice_at [where a = 0 and b = n]) (auto simp: slice_def)
  moreover have "key_slice m (int n) (int i) = Inr (take i (drop n m))"
    using assms by (subst key_slice_at [where a = n and b = "n + i"]) (auto simp: slice_def)
  moreover have "key_slice m (int n + int i) (int n) = Inr (take n (drop (n + i) m))"
    using assms by (subst key_slice_at [where a = "n + i" and b = "n + i + n"]) (auto simp: slice_def)
  moreover have "key_slice m (int n + int i + int n) (int i) = Inr (take i (drop (n + i + n) m))"
    using assms by (subst key_slice_at [where a = "n + i + n" and b = "n + i + n + i"]) (auto simp: slice_def)
  moreover have "i = 0 \<Longrightarrow> key_slice m (int n) (int n) = Inr (take n (drop n m))"
    using assms by (subst key_slice_at [where a = n and b = "n + n"]) (auto simp: slice_def)
  ultimately show ?thesis using assms(2) by (cases aead) (simp_all add: splitChildKeys_def Let_def)
qed

lemma childAlgs_lens:
  assumes "childAlgs sel = Inr (e, integ, el, il)" "0 \<le> sel_keyLenBits sel"
  obtains n i where "el = int n" "il = int i" "integ = None \<longrightarrow> i = 0"
proof -
  obtain e' where e': "GetEncrypterWithKeyLen (sel_encr sel) (sel_keyLenBits sel) = Inr e'"
    using assms(1) by (auto simp: childAlgs_def rbind_Inr_iff)
  have k: "0 \<le> Crypto_Cipher.KeySize e'" using e' assms(2)
    by (auto simp: GetEncrypterWithKeyLen_def KeySize_def Let_def split: if_splits)
  show thesis
  proof (cases "isAEADEncr (sel_encr sel)")
    case True
    with assms(1) e' k that [of "nat (Crypto_Cipher.KeySize e' + 4)" 0] show thesis
      by (auto simp: childAlgs_def)
  next
    case False
    with assms(1) e' obtain a where "GetIntegrityAlgorithm (sel_integ sel) = Inr a"
      by (auto simp: childAlgs_def rbind_Inr_iff)
    with False assms(1) e' k that [of "nat (Crypto_Cipher.KeySize e')" "integ_KeySize a"] show thesis
      by (auto simp: childAlgs_def)
  qed
qed

text \<open>What a derivation that succeeds returns.\<close>

lemma deriveChildKeys_Inr:
  assumes "deriveChildKeys sel seed s = Inr (e, integ, ck)" "0 \<le> sel_keyLenBits sel"
    and "Keys s = Some k" "PRFAlg s = Some p" "GetPRF j = Inr p"
  obtains n i m where "childAlgs sel = Inr (e, integ, int n, int i)"
    "m = child_material p (SK_d k) seed (2 * (n + i))" "length m = 2 * (n + i)"
    "childSA rem loc e integ (outEncKey ck) (outIntegKey ck) = responder_in loc rem e integ n i m"
    "childSA loc rem e integ (inEncKey ck) (inIntegKey ck) = responder_out loc rem e integ n i m"
proof -
  obtain el il keyMat where a: "childAlgs sel = Inr (e, integ, el, il)"
    and pp: "PrfPlus p (SK_d k) seed (2 * (el + il)) = Inr keyMat"
    and split: "splitChildKeys keyMat (integ = None) el il = Inr ck"
    using assms(1,3,4) by (auto simp: deriveChildKeys_def rbind_Inr_iff)
  obtain n i where ni: "el = int n" "il = int i" "integ = None \<longrightarrow> i = 0"
    using childAlgs_lens [OF a assms(2)] by blast
  have n2: "2 * (el + il) = int (2 * (n + i))" using ni by simp
  have "int (length keyMat) = 2 * (el + il)" by (rule length_PrfPlus [OF assms(5) pp])
  then have len: "length keyMat = 2 * (n + i)" using n2 by linarith
  have m: "keyMat = child_material p (SK_d k) seed (2 * (n + i))"
  proof -
    define N where "N = 2 * (n + i)"
    have "PrfPlus p (SK_d k) seed (int N) = Inr keyMat" using pp unfolding n2 N_def .
    then have "keyMat = take N (prf_stream p (SK_d k) seed 254)"
      using PrfPlus_spec [OF assms(5), of "int N"] by (simp split: if_splits)
    then show ?thesis by (simp only: child_material_def N_def)
  qed
  have ck: "ck = \<lparr>outEncKey = take n keyMat, outIntegKey = take i (drop n keyMat),
      inEncKey = take n (drop (n + i) keyMat), inIntegKey = take i (drop (n + i + n) keyMat)\<rparr>"
    using split splitChildKeys_ok [OF len, of "integ = None"] ni by simp
  from a ni len m show thesis
    by (intro that [of n i keyMat]) (simp_all add: ck responder_in_def responder_out_def)
qed

lemma installChild_state:
  "installChild loc rem e integ ck s = (s', Inr ()) \<Longrightarrow>
     s' = s\<lparr>sas := sas s @ [childSA rem loc e integ (outEncKey ck) (outIntegKey ck),
         childSA loc rem e integ (inEncKey ck) (inIntegKey ck)],
       ChildSAOut := Some (length (sas s)), ChildSAIn := Some (Suc (length (sas s))),
       ChildSAsIn := (ChildSAsIn s)(loc \<mapsto> Suc (length (sas s)))\<rparr>"
  by (auto simp: installChild_def allocSA_def sbind_def)

lemma childSA_simps [simp]:
  "sa_SPI (childSA spi rem e integ ek ik) = spi" "RemoteSPI (childSA spi rem e integ ek ik) = rem"
  "EncryptionAlg (childSA spi rem e integ ek ik) = e" "EncryptionKey (childSA spi rem e integ ek ik) = ek"
  by (auto simp: childSA_def NewSecurityAssociation_def NewSecurityAssociationCBC_def split: option.split)

lemma sa_peer_refl [simp]: "sa_peer a a"
  by (simp add: sa_peer_def)

end
