(* ===== verification/Swu_Auth.thy ===== *)
theory Swu_Auth
  imports Swu_Child
begin

text \<open>
  The IKE_AUTH exchange apart from EAP (\<^verbatim>\<open>pkg/swu/state_auth.go\<close>): the payloads of the first and of
  the final request, the AUTH value, and the final response, which installs the first pair of child
  associations and the configuration.
\<close>

section \<open>The first request\<close>

text \<open>The subscriber identity with its fallback; the two places in the source compute the same.\<close>

definition imsi_or_cfg :: "Config \<Rightarrow> string" where
  "imsi_or_cfg cfg = (let imsi = imsi_of (SIM cfg) in if imsi = [] then cfg_IMSI cfg else imsi)"

definition idiName :: "Config \<Rightarrow> string" where
  "idiName cfg = (if FastReauthID cfg \<noteq> [] then FastReauthID cfg else nai (imsi_or_cfg cfg) cfg)"

text \<open>The configuration request, once for both requests.\<close>

definition cpRequest :: "Config \<Rightarrow> EncryptedPayloadCP" where
  "cpRequest cfg = \<lparr>CFGType = CFG_REQUEST, cp_Attributes =
     map (\<lambda>t. \<lparr>cp_Type = t, cp_Value = []\<rparr>)
       [INTERNAL_IP4_ADDRESS, INTERNAL_IP4_DNS, P_CSCF_IP4_ADDRESS, ASSIGNED_PCSCF_IP4_ADDRESS] @
     (if IPStack cfg = [] \<or> IPStack cfg = ''ipv6'' \<or> IPStack cfg = ''ipv4v6'' then
        [\<lparr>cp_Type = INTERNAL_IP6_ADDRESS, cp_Value = replicate 16 0 @ [64]\<rparr>,
         \<lparr>cp_Type = INTERNAL_IP6_DNS, cp_Value = []\<rparr>, \<lparr>cp_Type = P_CSCF_IP6_ADDRESS, cp_Value = []\<rparr>,
         \<lparr>cp_Type = ASSIGNED_PCSCF_IPV6_ADDRESS, cp_Value = []\<rparr>]
      else [])\<rparr>"

definition sendCP :: "Config \<Rightarrow> bool" where
  "sendCP cfg \<longleftrightarrow> CPInFirstAuth cfg = None \<or> CPInFirstAuth cfg = Some True"

definition espProposals :: "Config \<Rightarrow> bytes \<Rightarrow> Proposal list" where
  "espProposals cfg spiBytes =
     (let ps = (case ParseESPProposals (ESPProposals cfg) spiBytes of
            Inr ps \<Rightarrow> ps
          | Inl _ \<Rightarrow> (case ParseESPProposals [] spiBytes of Inr ps \<Rightarrow> ps | Inl _ \<Rightarrow> []))
      in if EnableESN cfg then map (\<lambda>p. AddTransform p TransformTypeESN 1 0) ps else ps)"

definition fullSelectors :: "TrafficSelector list" where
  "fullSelectors =
     [NewTrafficSelectorIPV4 [0, 0, 0, 0] [255, 255, 255, 255] 0 65535,
      NewTrafficSelectorIPV6 (replicate 16 0) (replicate 16 0xff) 0 65535]"

definition deviceIdentity :: "Config \<Rightarrow> Payload list" where
  "deviceIdentity cfg =
     (if DeviceIdentityEnabled cfg = Some True then
        (case GetIMEI (SIM cfg) of
           Some (Inr imei) \<Rightarrow>
             if imei \<noteq> [] then
               let d = 1 # str_bytes imei;
                   ntf = (\<lambda>t. PayloadNotify \<lparr>ntf_ProtocolID = ProtoIKE, ntf_SPI = [], NotifyType = t,
                     NotifyData = d, OverrideType = 0\<rparr>)
               in [ntf DEVICE_IDENTITY_3GPP, ntf DEVICE_IDENTITY]
             else []
         | _ \<Rightarrow> [])
      else [])"

definition ensureChildSPI :: "bytes result \<Rightarrow> bytes action" where
  "ensureChildSPI rnd s =
     (if childSPI s = 0 then
        (case rnd of Inl e \<Rightarrow> (s, Inl e) | Inr b \<Rightarrow> (s\<lparr>childSPI := get32 b\<rparr>, Inr b))
      else (s, Inr (put32 (childSPI s))))"

definition buildIKEAuthInitPayloads :: "bytes result \<Rightarrow> Payload list action" where
  "buildIKEAuthInitPayloads rnd =
     sbind (gets (\<lambda>s. if FastReauthID (s_cfg s) \<noteq> [] then Inr (FastReauthID (s_cfg s))
                      else buildNAI (imsi_or_cfg (s_cfg s)) (Some (s_cfg s)))) (\<lambda>name.
     sbind (ensureChildSPI rnd) (\<lambda>spiBytes.
     gets (\<lambda>s. let cfg = s_cfg s in Inr (
       [PayloadID \<lparr>IDType = ID_RFC822_ADDR, IDData = str_bytes name, id_IsInitiator = True\<rparr>,
        PayloadID \<lparr>IDType = ID_FQDN, IDData = str_bytes (APN cfg), id_IsInitiator = False\<rparr>] @
       (if sendCP cfg then [PayloadCP (cpRequest cfg)] else []) @
       [PayloadSA \<lparr>Proposals = espProposals cfg spiBytes\<rparr>,
        PayloadTS \<lparr>ts_IsInitiator = True, TrafficSelectors = fullSelectors\<rparr>,
        PayloadTS \<lparr>ts_IsInitiator = False, TrafficSelectors = fullSelectors\<rparr>,
        PayloadNotify (notify0 MOBIKE_SUPPORTED [])] @
       (if TicketRequestEnabled cfg = Some True then [PayloadNotify (notify0 TICKET_REQUEST [])] else []) @
       [PayloadNotify (notify0 INITIAL_CONTACT [])] @ deviceIdentity cfg))))"

section \<open>The AUTH value\<close>

definition keyPad :: bytes where
  "keyPad = str_bytes ''Key Pad for IKEv2''"

definition buildInitiatorAuthPayload :: "bytes \<Rightarrow> Session \<Rightarrow> EncryptedPayloadAuth result" where
  "buildInitiatorAuthPayload key s =
     (if length key = 0 then fail ''AUTH key not available''
      else case PRFAlg s of
        None \<Rightarrow> fail ''PRF not available''
      | Some p \<Rightarrow>
          if length (msgBuffer s) = 0 then fail ''SA_INIT request not stored''
          else if length (s_nr s) = 0 then fail ''NonceR not available''
          else
            let authKey = prf_mac p key keyPad
            in rbind (buildNAI (imsi_or_cfg (s_cfg s)) (Some (s_cfg s))) (\<lambda>name.
                 let idiBody = [ID_RFC822_ADDR, 0, 0, 0] @ str_bytes name
                 in rbind (deref (Keys s)) (\<lambda>k.
                      let idHash = prf_mac p (SK_pi k) idiBody;
                          authData = prf_mac p authKey (msgBuffer s @ s_nr s @ idHash)
                      in Inr \<lparr>AuthMethod = AuthMethodSharedKey, AuthData = authData\<rparr>)))"

definition buildIKEAuthFinalPayloads :: "Session \<Rightarrow> Payload list result" where
  "buildIKEAuthFinalPayloads s =
     (if length (MSK s) = 0 then fail ''MSK not available for AUTH''
      else rbind (buildInitiatorAuthPayload (MSK s) s) (\<lambda>authPayload.
        let cfg = s_cfg s;
            sendFinalCP = (CPInFinalAuth cfg = None \<or> CPInFinalAuth cfg = Some True);
            cpNotInFirst = (CPInFirstAuth cfg = Some False)
        in Inr (if cpNotInFirst \<and> sendFinalCP then [PayloadCP (cpRequest cfg), PayloadAuth authPayload]
                else [PayloadAuth authPayload])))"

definition sendIKEAuthEAP :: "bytes result \<Rightarrow> Payload list \<Rightarrow> unit action" where
  "sendIKEAuthEAP rnd payloads = sbind (encryptAndWrap rnd payloads IKE_AUTH False) SendIKE_out"

definition sendIKEAuthFinal :: "bytes result \<Rightarrow> unit action" where
  "sendIKEAuthFinal rnd =
     sbind (gets buildIKEAuthFinalPayloads) (\<lambda>payloads.
     sbind (encryptAndWrap rnd payloads IKE_AUTH False) SendIKE_out)"

section \<open>The final response\<close>

record FinalAcc =
  fa_sa :: "EncryptedPayloadSA option"
  fa_cp :: "EncryptedPayloadCP option"
  fa_tsi :: "EncryptedPayloadTS option"
  fa_tsr :: "EncryptedPayloadTS option"
  fa_ke :: "EncryptedPayloadKE option"

definition emptyFinalAcc :: FinalAcc where
  "emptyFinalAcc = \<lparr>fa_sa = None, fa_cp = None, fa_tsi = None, fa_tsr = None, fa_ke = None\<rparr>"

definition saveTicket :: "bytes \<Rightarrow> unit action" where
  "saveTicket d =
     sseq (modify (\<lambda>s. s\<lparr>resumeTicket := d\<rparr>)) (\<lambda>s.
       case Keys s of
         Some k \<Rightarrow> if 0 < length (SK_d k)
           then (s\<lparr>resumeOldSKd := SK_d k, events := events s @ [TicketUpdate d (SK_d k)]\<rparr>, Inr ())
           else (s, Inr ())
       | None \<Rightarrow> (s, Inr ()))"

definition finalNotify :: "EncryptedPayloadNotify \<Rightarrow> unit action" where
  "finalNotify p =
     (let t = NotifyType p; d = NotifyData p
      in if t < 16384 then throw ''IKE_AUTH error notification''
         else sseq (if t = AUTH_LIFETIME \<and> 4 \<le> length d
                    then modify (\<lambda>s. s\<lparr>authLifetime := get32 (take 4 d)\<rparr>) else ret ()) (
              sseq (if t = REDIRECT then
                      (case ParseRedirectData d of Inl _ \<Rightarrow> ret () | Inr addr \<Rightarrow> lift (Inl (Fail (RedirectError addr))))
                    else ret ()) (
              sseq (if t = MOBIKE_SUPPORTED then modify (\<lambda>s. s\<lparr>mobikeSupported := True\<rparr>) else ret ()) (
              if t = TICKET_OPAQUE \<and> 0 < length d then saveTicket d else ret ()))))"

fun finalRespLoop :: "Payload list \<Rightarrow> FinalAcc \<Rightarrow> FinalAcc action" where
  "finalRespLoop [] acc = ret acc"
| "finalRespLoop (PayloadSA p # ps) acc = finalRespLoop ps (acc\<lparr>fa_sa := Some p\<rparr>)"
| "finalRespLoop (PayloadKE p # ps) acc = finalRespLoop ps (acc\<lparr>fa_ke := Some p\<rparr>)"
| "finalRespLoop (PayloadCP p # ps) acc = finalRespLoop ps (acc\<lparr>fa_cp := Some p\<rparr>)"
| "finalRespLoop (PayloadTS p # ps) acc =
     finalRespLoop ps (if ts_IsInitiator p then acc\<lparr>fa_tsi := Some p\<rparr> else acc\<lparr>fa_tsr := Some p\<rparr>)"
| "finalRespLoop (PayloadNotify p # ps) acc = sseq (finalNotify p) (finalRespLoop ps acc)"
| "finalRespLoop (_ # ps) acc = finalRespLoop ps acc"

text \<open>The seed \<open>Ni | Nr\<close>, with the shared secret when a group was chosen.\<close>

definition childSeed :: "u16 \<Rightarrow> EncryptedPayloadKE option \<Rightarrow> bytes action" where
  "childSeed dhID ke s =
     (if dhID \<noteq> 0 then
        (case (childDH s, ke) of
           (Some dh, Some k) \<Rightarrow>
             if length (KEData k) = 0 then (s, fail ''Child SA needs PFS but KE is missing'')
             else (case relabel ''Child SA DH failed'' (ComputeSharedSecret dh (KEData k)) of
                     Inl e \<Rightarrow> (s, Inl e)
                   | Inr (dh, g) \<Rightarrow> (s\<lparr>childDH := Some dh\<rparr>, Inr (s_ni s @ s_nr s @ g)))
         | _ \<Rightarrow> (s, fail ''Child SA needs PFS but KE is missing''))
      else (s, Inr (s_ni s @ s_nr s)))"

definition applyConfig :: "FinalAcc \<Rightarrow> Session \<Rightarrow> Session" where
  "applyConfig acc s =
     (let s = (case fa_cp acc of None \<Rightarrow> s | Some cp \<Rightarrow> s\<lparr>cpConfig := Some (ParseCPConfig cp)\<rparr>);
          s = (case fa_tsi acc of None \<Rightarrow> s | Some p \<Rightarrow> s\<lparr>s_tsi := TrafficSelectors p\<rparr>);
          s = (case fa_tsr acc of None \<Rightarrow> s | Some p \<Rightarrow> s\<lparr>s_tsr := TrafficSelectors p\<rparr>)
      in if 0 < length (s_tsr s) \<and> ChildSAOut s \<noteq> None then
           s\<lparr>childOutPolicies := childOutPolicies s @
              [\<lparr>saOut = ChildSAOut s, pol_tsr = map Some (s_tsr s)\<rparr>]\<rparr>
         else s)"

text \<open>Everything after decryption.\<close>

definition handleFinalPayloads :: "Payload list \<Rightarrow> unit action" where
  "handleFinalPayloads payloads =
     sbind (finalRespLoop payloads emptyFinalAcc) (\<lambda>acc.
     case fa_sa acc of
       None \<Rightarrow> throw ''final response lacks Child SA''
     | Some sa \<Rightarrow>
         if length (Proposals sa) = 0 then throw ''final response lacks Child SA''
         else
           let respProp = hd (Proposals sa)
           in if length (prop_SPI respProp) < 4 then throw ''Child SA SPI missing''
              else
                let remoteSPI = get32 (take 4 (prop_SPI respProp)); sel = selection (Transforms respProp)
                in sseq (modify (\<lambda>s. if sel_esn sel then s\<lparr>childESN := True\<rparr> else s)) (
                   if sel_encr sel = 0 then throw ''no cipher selected''
                   else
                     sseq (lift (childAlgs sel)) (
                     sbind (childSeed (sel_dh sel) (fa_ke acc)) (\<lambda>seed.
                     sbind (gets (deriveChildKeys sel seed)) (\<lambda>(childEnc, integAlg, ck).
                     sbind (gets (\<lambda>s. Inr (childSPI s))) (\<lambda>spi.
                     if spi = 0 then throw ''local Child SA SPI not set''
                     else
                       sseq (installChild spi remoteSPI childEnc integAlg ck) (
                       modify (\<lambda>s. applyConfig acc (s\<lparr>childEncrID := sel_encr sel, childIntegID := sel_integ sel,
                         childEncrKeyLenBits := sel_keyLenBits sel\<rparr>)))))))))"

definition handleIKEAuthFinalResp :: "bytes \<Rightarrow> unit action" where
  "handleIKEAuthFinalResp data =
     sbind (\<lambda>s. case decryptAndParse data s of (s', r) \<Rightarrow> (s', relabel ''parsing final IKE_AUTH failed'' r))
       (\<lambda>(_, payloads). handleFinalPayloads payloads)"

end
