(* ===== verification/Swu_Eap.thy ===== *)
theory Swu_Eap
  imports Swu_Auth Crypto_Fips
begin

text \<open>
  EAP inside IKE_AUTH (\<^verbatim>\<open>handleEAP\<close> of \<^verbatim>\<open>pkg/swu/state_auth.go\<close> and \<^verbatim>\<open>pkg/swu/challenge_mode.go\<close>):
  identity, the AKA and AKA' challenges, fast re-authentication and notifications. The SIM is the
  parameter \<open>SIM\<close> of the configuration; the order in which Go ranges over the attribute map is
  the argument \<open>order\<close>. An empty list of payloads is the nil slice: no answer.
\<close>

section \<open>Message authentication\<close>

definition eapAKAAttrTail16 :: "bytes \<Rightarrow> bytes result" where
  "eapAKAAttrTail16 v =
     (if length v < 16 then fail ''AKA attribute too short'' else Inr (drop (length v - 16) v))"

function findAttrLoop :: "bytes \<Rightarrow> byte \<Rightarrow> nat \<Rightarrow> nat option" where
  "findAttrLoop data attrType offset =
     (if offset + 2 \<le> length data then
        let t = data ! offset; l = unat (data ! (offset + 1)) * 4
        in if l = 0 \<or> length data < offset + l then None
           else if t = attrType then Some offset
           else findAttrLoop data attrType (offset + l)
      else None)"
  by pat_completeness auto
termination by (relation "measure (\<lambda>(data, _, offset). length data - offset)") auto

declare findAttrLoop.simps [simp del]

definition findEAPAttrOffset :: "bytes \<Rightarrow> byte \<Rightarrow> nat option" where
  "findEAPAttrOffset data attrType = findAttrLoop data attrType 0"

definition verifyEAPAKAMAC :: "bytes \<Rightarrow> bytes \<Rightarrow> bytes \<Rightarrow> bytes \<Rightarrow> unit result" where
  "verifyEAPAKAMAC eapRaw attrsData kAut recvMac =
     (case findEAPAttrOffset attrsData AT_MAC of
        None \<Rightarrow> fail ''AT_MAC not found''
      | Some macAttrOffset \<Rightarrow>
          let macPos = 8 + macAttrOffset + 4
          in if length eapRaw < macPos + 16 then fail ''AT_MAC out of range''
             else let tmp = copy_at eapRaw macPos (replicate 16 0);
                      fullMac = hmac H_sha1 kAut tmp
                  in if take 16 fullMac = recvMac then Inr () else fail ''EAP-AKA AT_MAC check failed'')"

text \<open>The search of the AKA' variant; it stops where the other one fails.\<close>

function primeMacLoop :: "bytes \<Rightarrow> nat \<Rightarrow> nat option" where
  "primeMacLoop attrData i =
     (if i + 3 < length attrData then
        let attrType = attrData ! i; attrLen = unat (attrData ! (i + 1)) * 4
        in if attrLen < 4 then None
           else if attrType = AT_MAC then Some i
           else primeMacLoop attrData (i + attrLen)
      else None)"
  by pat_completeness auto
termination by (relation "measure (\<lambda>(attrData, i). length attrData - i)") auto

declare primeMacLoop.simps [simp del]

definition verifyEAPAKAPrimeMAC :: "bytes \<Rightarrow> bytes \<Rightarrow> bytes \<Rightarrow> bytes \<Rightarrow> unit result" where
  "verifyEAPAKAPrimeMAC eapRaw attrData kAut recvMac =
     (let eapCopy = (case primeMacLoop attrData 0 of
            None \<Rightarrow> eapRaw
          | Some i \<Rightarrow> let macStart = 8 + i + 4
                      in if macStart + 16 \<le> length eapRaw then copy_at eapRaw macStart (replicate 16 0)
                         else eapRaw);
          calcMac = take 16 (hmac H_sha256 kAut eapCopy)
      in if calcMac = recvMac then Inr () else fail ''AKA-prime MAC mismatch'')"

text \<open>Encode the response, compute its MAC over the zeroed field and write it there.\<close>

definition sealResponse :: "hash_alg \<Rightarrow> bytes \<Rightarrow> nat \<Rightarrow> EAPPacket \<Rightarrow> bytes" where
  "sealResponse H kAut macPos respPkt =
     (let eapBytes = EAPPacket_Encode respPkt; fullMac = hmac H kAut eapBytes
      in copy_at eapBytes macPos (take 16 fullMac))"

section \<open>Keys\<close>

record AkaKeys =
  ak_MK :: bytes
  ak_KEncr :: bytes
  ak_KAut :: bytes
  ak_MSK :: bytes

text \<open>\<^verbatim>\<open>derive\<close> of the AKA challenge: order 0 hashes IK before CK.\<close>

definition akaDerive :: "bytes \<Rightarrow> bytes \<Rightarrow> bytes \<Rightarrow> nat \<Rightarrow> AkaKeys" where
  "akaDerive identity ck ik order =
     (let mk = sha1 (identity @ (if order = 0 then ik @ ck else ck @ ik));
          keyMat = snd (fips_Bytes (NewFIPS1862PRFSHA1 mk) [] 96)
      in \<lparr>ak_MK = mk, ak_KEncr = slice keyMat 0 16, ak_KAut = slice keyMat 16 32, ak_MSK = slice keyMat 32 96\<rparr>)"

text \<open>\<^verbatim>\<open>prf256Plus\<close>; its counter is a byte.\<close>

function prf256Loop :: "bytes \<Rightarrow> nat \<Rightarrow> byte \<Rightarrow> bytes \<Rightarrow> bytes \<Rightarrow> bytes" where
  "prf256Loop key outLen i prev res =
     (if length res < outLen
      then let prev' = hmac H_sha256 key (prev @ [i]) in prf256Loop key outLen (i + 1) prev' (res @ prev')
      else take outLen res)"
  by pat_completeness auto
termination by (relation "measure (\<lambda>(_, outLen, _, _, res). outLen - length res)") auto

declare prf256Loop.simps [simp del]

definition prf256Plus :: "bytes \<Rightarrow> nat \<Rightarrow> bytes" where
  "prf256Plus key outLen = prf256Loop key outLen 1 [] []"

definition akaPrimeDerive :: "bytes \<Rightarrow> bytes \<Rightarrow> bytes \<Rightarrow> string \<Rightarrow> bytes \<Rightarrow> AkaKeys" where
  "akaPrimeDerive identity ck ik networkName autnVal =
     (let sqnXorAk = take 6 autnVal;
          kdfInput = [0x20] @ str_bytes networkName @ put16 (of_nat (length networkName)) @ sqnXorAk @
            put16 (of_nat (length sqnXorAk));
          kdfResult = hmac H_sha256 (ck @ ik) kdfInput;
          ckPrime = slice kdfResult 0 16; ikPrime = slice kdfResult 16 32;
          mk = sha256 (identity @ ikPrime @ ckPrime);
          keyMat = prf256Plus mk 208
      in \<lparr>ak_MK = mk, ak_KEncr = slice keyMat 0 16, ak_KAut = slice keyMat 16 48, ak_MSK = slice keyMat 80 144\<rparr>)"

section \<open>Attributes of the challenge response\<close>

definition encodeAttr :: "byte \<Rightarrow> bytes \<Rightarrow> bytes" where
  "encodeAttr t v = snd (Attribute_Encode \<lparr>at_Type = t, at_Length = 0, at_Value = v\<rparr>)"

definition resAttr :: "bytes \<Rightarrow> bytes" where
  "resAttr res = encodeAttr AT_RES (put16 (of_nat (length res * 8)) @ res)"

definition computeCheckcode :: "Session \<Rightarrow> bytes" where
  "computeCheckcode s =
     (let cfg = s_cfg s;
          imei = cfg_IMEI cfg;
          imei = (if imei = [] then (case GetIMEI (SIM cfg) of Some (Inr v) \<Rightarrow> v | _ \<Rightarrow> []) else imei);
          imei = (if imei = [] then imsi_or_cfg cfg else imei)
      in if imei = [] then [] else sha1 (str_bytes imei))"

definition echoes :: "byte \<Rightarrow> bool" where
  "echoes t \<longleftrightarrow> \<not> (t = AT_RAND \<or> t = AT_AUTN \<or> t = AT_MAC \<or> t = AT_RESULT_IND \<or> t = AT_RES)"

definition buildChallengeResponseAttrs :: "byte list \<Rightarrow> (byte \<rightharpoonup> Attribute) \<Rightarrow> bytes \<Rightarrow> Session \<Rightarrow> bytes" where
  "buildChallengeResponseAttrs order attrs res s =
     (let mode = (if AKAChallengeMode (s_cfg s) = [] then ''standard'' else AKAChallengeMode (s_cfg s));
          epdg = (case attrs 0x86 of
              Some a \<Rightarrow> if 2 \<le> length (at_Value a) then Some (at_Value a) else None | None \<Rightarrow> None)
      in resAttr res @
        (if mode = ''minimal'' then (case epdg of Some v \<Rightarrow> encodeAttr 0x86 v | None \<Rightarrow> [])
         else if mode = ''checkcode'' then
           (case epdg of
              Some v \<Rightarrow> encodeAttr 0x86 v
            | None \<Rightarrow> let checkcode = computeCheckcode s
                      in if 0 < length checkcode then encodeAttr 0x86 ([0, 0] @ checkcode) else [])
         else if mode = ''omit'' then []
         else concat (map (\<lambda>t. case attrs t of Some a \<Rightarrow> encodeAttr t (at_Value a) | None \<Rightarrow> [])
                       (filter echoes order)) @
              (if attrs AT_RESULT_IND \<noteq> None then encodeAttr AT_RESULT_IND [0, 0] else [])))"

section \<open>Small responses\<close>

definition eapResponse :: "byte \<Rightarrow> byte \<Rightarrow> byte \<Rightarrow> bytes \<Rightarrow> EAPPacket" where
  "eapResponse i t sub d = \<lparr>eap_Code = CodeResponse, eap_Identifier = i, eap_Type = t, eap_Subtype = sub, eap_Data = d\<rparr>"

definition eapPayload :: "bytes \<Rightarrow> Payload list" where
  "eapPayload b = [PayloadEAP \<lparr>EAPMessage = b\<rparr>]"

definition buildEAPSyncFailure :: "byte \<Rightarrow> bytes \<Rightarrow> Payload list" where
  "buildEAPSyncFailure i auts =
     eapPayload (EAPPacket_Encode (eapResponse i TypeAKA SubtypeSyncFailure (encodeAttr AT_AUTS auts)))"

definition isAKANotification :: "EAPPacket \<Rightarrow> bool" where
  "isAKANotification pkt \<longleftrightarrow> eap_Type pkt = TypeAKA \<and> eap_Subtype pkt = SubtypeNotificationAlt"

definition buildEAPAKANotificationResponse :: "EAPPacket \<Rightarrow> Session \<Rightarrow> Payload list result" where
  "buildEAPAKANotificationResponse pkt s =
     rbind (ParseAttributes (eap_Data pkt)) (\<lambda>attrs.
       case attrs AT_NOTIFICATION of
         None \<Rightarrow> fail ''EAP-AKA notification lacks AT_NOTIFICATION''
       | Some a \<Rightarrow>
           if length (at_Value a) \<noteq> 2 then fail ''EAP-AKA notification has a wrong length''
           else let notifCode = get16 (at_Value a); macRequired = (notifCode AND 0x4000 = 0)
                in if macRequired \<and> length (eapKAut s) = 0 then fail ''EAP-AKA notification needs K_aut''
                   else let respPkt = eapResponse (eap_Identifier pkt) TypeAKA SubtypeNotificationAlt
                              (if macRequired then encodeAttr AT_MAC (replicate 18 0) else [])
                        in Inr (eapPayload (if macRequired then sealResponse H_sha1 (eapKAut s) 12 respPkt
                                            else EAPPacket_Encode respPkt)))"

definition permanentIdentity :: "Config \<Rightarrow> bytes result" where
  "permanentIdentity cfg = rbind (buildNAI (imsi_or_cfg cfg) (Some cfg)) (\<lambda>n. Inr (str_bytes n))"

definition handleIdentityRequest :: "EAPPacket \<Rightarrow> Session \<Rightarrow> Payload list result" where
  "handleIdentityRequest pkt s =
     rbind (case fastReauthCtx s of
              Some ctx \<Rightarrow> if CanUseReauth ctx then Inr (ReauthID ctx)
                          else buildNAI (imsi_of (SIM (s_cfg s))) (Some (s_cfg s))
            | None \<Rightarrow> buildNAI (imsi_of (SIM (s_cfg s))) (Some (s_cfg s))) (\<lambda>identity.
       Inr (eapPayload (EAPPacket_Encode
         (eapResponse (eap_Identifier pkt) TypeIdentity 0 (str_bytes identity)))))"

text \<open>\<^verbatim>\<open>AT_IDENTITY\<close> with its length in bytes; the word count is cut to 16 and then to 8 bits.\<close>

definition identityAttr :: "bytes \<Rightarrow> bytes result" where
  "identityAttr identityBytes =
     (let actualLen = length identityBytes;
          attrLen = word_of_nat ((4 + actualLen + 3) div 4) :: u16;
          totalBytes = unat attrLen * 4
      in if totalBytes < 4 then Inl Panic
         else Inr (copy_at ([AT_IDENTITY, ucast attrLen, word_of_nat (actualLen div 256), word_of_nat actualLen] @
                     replicate (totalBytes - 4) 0) 4 identityBytes))"

definition handleAKAIdentity :: "EAPPacket \<Rightarrow> Session \<Rightarrow> Payload list result" where
  "handleAKAIdentity pkt s =
     rbind (relabel ''parsing EAP-AKA identity failed'' (ParseAttributes (eap_Data pkt))) (\<lambda>attrs.
     rbind (case fastReauthCtx s of
              Some ctx \<Rightarrow> if attrs AT_ANY_ID_REQ \<noteq> None \<and> CanUseReauth ctx then Inr (str_bytes (ReauthID ctx))
                          else permanentIdentity (s_cfg s)
            | None \<Rightarrow> permanentIdentity (s_cfg s)) (\<lambda>identity.
     rbind (identityAttr identity) (\<lambda>atIdentity.
       Inr (eapPayload (EAPPacket_Encode
         (eapResponse (eap_Identifier pkt) TypeAKA SubtypeIdentity atIdentity))))))"

section \<open>Challenges\<close>

text \<open>\<^verbatim>\<open>AT_NEXT_REAUTH_ID\<close>: two bytes of length, then the pseudonym.\<close>

definition nextReauthID :: "(byte \<rightharpoonup> Attribute) \<Rightarrow> string option" where
  "nextReauthID attrs =
     (case attrs AT_NEXT_REAUTH_ID of
        None \<Rightarrow> None
      | Some a \<Rightarrow>
          let v = at_Value a; actualLen = unat (get16 (take 2 v))
          in if 2 < length v \<and> 0 < actualLen \<and> actualLen + 2 \<le> length v
             then Some (bytes_str (slice v 2 (2 + actualLen))) else None)"

definition saveReauth :: "string \<Rightarrow> bytes \<Rightarrow> bytes \<Rightarrow> bytes \<Rightarrow> unit action" where
  "saveReauth rid mk kEncr kAut =
     sseq (modify (\<lambda>s. s\<lparr>fastReauthCtx := map_option (\<lambda>ctx. SaveReauthData ctx rid mk kEncr kAut) (fastReauthCtx s)\<rparr>))
       (emit (FastReauthUpdate rid mk kAut kEncr))"

definition captureAkaReauth :: "(byte \<rightharpoonup> Attribute) \<Rightarrow> bytes \<Rightarrow> bytes \<Rightarrow> bytes \<Rightarrow> unit action" where
  "captureAkaReauth attrs ck ik kAut =
     (case nextReauthID attrs of
        None \<Rightarrow> ret ()
      | Some rid \<Rightarrow>
          sbind (gets (\<lambda>s. buildNAI (imsi_of (SIM (s_cfg s))) (Some (s_cfg s)))) (\<lambda>nai.
            let k = akaDerive (str_bytes nai) ck ik 0 in saveReauth rid (ak_MK k) (ak_KEncr k) kAut))"

text \<open>The orders are tried until the MAC of the challenge fits; without validation the first is taken.\<close>

definition akaSelect :: "bool \<Rightarrow> bytes \<Rightarrow> bytes \<Rightarrow> bytes \<Rightarrow> (nat \<Rightarrow> AkaKeys) \<Rightarrow> AkaKeys result" where
  "akaSelect validate eapRaw attrsData recvMac derive =
     (if \<not> validate then Inr (derive 0)
      else case verifyEAPAKAMAC eapRaw attrsData (ak_KAut (derive 0)) recvMac of
             Inr _ \<Rightarrow> Inr (derive 0)
           | Inl _ \<Rightarrow> (case verifyEAPAKAMAC eapRaw attrsData (ak_KAut (derive 1)) recvMac of
                         Inr _ \<Rightarrow> Inr (derive 1)
                       | Inl lastMacErr \<Rightarrow> Inl lastMacErr))"

text \<open>What both challenges start with: RAND and AUTN, kept for later use, go to the SIM.\<close>

definition runSIM ::
    "byte \<Rightarrow> Attribute \<Rightarrow> Attribute \<Rightarrow> (bytes \<Rightarrow> bytes \<Rightarrow> bytes \<Rightarrow> bytes \<Rightarrow> Payload list action) \<Rightarrow> Payload list action" where
  "runSIM i atRand atAutn cont =
     sbind (lift (eapAKAAttrTail16 (at_Value atRand))) (\<lambda>randVal.
     sbind (lift (eapAKAAttrTail16 (at_Value atAutn))) (\<lambda>autnVal.
     sseq (modify (\<lambda>s. s\<lparr>eapRand := randVal, eapAutn := autnVal\<rparr>)) (
     sbind (gets (\<lambda>s. Inr (CalculateAKA (SIM (s_cfg s)) randVal autnVal))) (\<lambda>r.
       case r of
         AkaSync auts \<Rightarrow> ret (buildEAPSyncFailure i auts)
       | AkaErr e \<Rightarrow> throw ''SIM AKA failed''
       | AkaOk res ck ik \<Rightarrow>
           sseq (modify (\<lambda>s. s\<lparr>eapRES := res, eapCK := ck, eapIK := ik\<rparr>)) (cont autnVal res ck ik)))))"

definition akaChallengeResponse ::
    "byte list \<Rightarrow> EAPPacket \<Rightarrow> (byte \<rightharpoonup> Attribute) \<Rightarrow> bytes \<Rightarrow> bytes \<Rightarrow> Session \<Rightarrow> bytes" where
  "akaChallengeResponse order pkt attrs res kAut s =
     (let respAttrs = buildChallengeResponseAttrs order attrs res s; macOffset = length respAttrs
      in sealResponse H_sha1 kAut (8 + macOffset + 4)
           (eapResponse (eap_Identifier pkt) TypeAKA SubtypeChallenge
             (respAttrs @ encodeAttr AT_MAC (replicate 18 0))))"

definition handleAKAChallenge :: "byte list \<Rightarrow> EAPPacket \<Rightarrow> bytes \<Rightarrow> Payload list action" where
  "handleAKAChallenge order pkt eapRaw =
     sbind (lift (ParseAttributes (eap_Data pkt))) (\<lambda>attrs.
       case (attrs AT_RAND, attrs AT_AUTN) of
         (Some atRand, Some atAutn) \<Rightarrow>
           (case attrs AT_MAC of
              None \<Rightarrow> throw ''AKA challenge lacks AT_MAC''
            | Some atMac \<Rightarrow>
                runSIM (eap_Identifier pkt) atRand atAutn (\<lambda>_ res ck ik.
                sbind (gets (\<lambda>s. permanentIdentity (s_cfg s))) (\<lambda>identity.
                sbind (lift (eapAKAAttrTail16 (at_Value atMac))) (\<lambda>recvMac.
                sbind (gets (\<lambda>s. akaSelect (EAPMACValidation (s_cfg s)) eapRaw (eap_Data pkt) recvMac
                        (akaDerive identity ck ik))) (\<lambda>k.
                sseq (modify (\<lambda>s. s\<lparr>MSK := ak_MSK k, eapKAut := ak_KAut k\<rparr>)) (
                sbind (gets (\<lambda>s. Inr (akaChallengeResponse order pkt attrs res (ak_KAut k) s))) (\<lambda>eapBytes.
                sseq (captureAkaReauth attrs ck ik (ak_KAut k)) (ret (eapPayload eapBytes)))))))))
       | _ \<Rightarrow> throw ''AKA challenge lacks RAND or AUTN'')"

definition akaNetworkName :: "(byte \<rightharpoonup> Attribute) \<Rightarrow> string" where
  "akaNetworkName attrs =
     (let name = (case attrs AT_KDF_INPUT of
            None \<Rightarrow> []
          | Some a \<Rightarrow>
              let v = at_Value a; nameLen = unat (get16 (take 2 v))
              in if 2 < length v \<and> 0 < nameLen \<and> nameLen + 2 \<le> length v
                 then bytes_str (slice v 2 (2 + nameLen)) else [])
      in if name = [] then ''WLAN'' else name)"

definition akaKdfID :: "(byte \<rightharpoonup> Attribute) \<Rightarrow> u16" where
  "akaKdfID attrs =
     (case attrs AT_KDF of
        Some a \<Rightarrow> if 2 \<le> length (at_Value a) then get16 (take 2 (at_Value a)) else 1
      | None \<Rightarrow> 1)"

definition akaPrimeResponse :: "EAPPacket \<Rightarrow> bytes \<Rightarrow> u16 \<Rightarrow> bytes \<Rightarrow> bytes" where
  "akaPrimeResponse pkt res kdfID kAut =
     (let respAttrs = resAttr res @ encodeAttr AT_ANY_ID_REQ (replicate 2 0); macOffset = length respAttrs
      in sealResponse H_sha256 kAut (8 + macOffset + 4)
           (eapResponse (eap_Identifier pkt) TypeAKAPrime SubtypeChallenge
             (respAttrs @ encodeAttr AT_MAC (replicate 18 0) @ encodeAttr AT_KDF (put16 kdfID))))"

definition handleAKAPrimeChallenge :: "EAPPacket \<Rightarrow> bytes \<Rightarrow> Payload list action" where
  "handleAKAPrimeChallenge pkt eapRaw =
     sbind (lift (ParseAttributes (eap_Data pkt))) (\<lambda>attrs.
       case (attrs AT_RAND, attrs AT_AUTN) of
         (Some atRand, Some atAutn) \<Rightarrow>
           (case attrs AT_MAC of
              None \<Rightarrow> throw ''AKA-prime challenge lacks AT_MAC''
            | Some atMac \<Rightarrow>
                let kdfID = akaKdfID attrs
                in if kdfID \<noteq> 1 then throw ''unsupported AKA-prime KDF''
                   else
                     runSIM (eap_Identifier pkt) atRand atAutn (\<lambda>autnVal res ck ik.
                     sbind (gets (\<lambda>s. permanentIdentity (s_cfg s))) (\<lambda>identity.
                     let k = akaPrimeDerive identity ck ik (akaNetworkName attrs) autnVal
                     in sbind (lift (eapAKAAttrTail16 (at_Value atMac))) (\<lambda>recvMac.
                        sseq (gets (\<lambda>s. if EAPMACValidation (s_cfg s)
                               then relabel ''AKA-prime MAC check failed''
                                 (verifyEAPAKAPrimeMAC eapRaw (eap_Data pkt) (ak_KAut k) recvMac)
                               else Inr ())) (
                        sseq (modify (\<lambda>s. s\<lparr>MSK := ak_MSK k\<rparr>)) (
                        sbind (gets (\<lambda>s. Inr (fastReauthCtx s))) (\<lambda>ctx.
                        sseq (case (nextReauthID attrs, ctx) of
                                (Some rid, Some _) \<Rightarrow> saveReauth rid (ak_MK k) [] (ak_KAut k)
                              | _ \<Rightarrow> ret ()) (
                        ret (eapPayload (akaPrimeResponse pkt res kdfID (ak_KAut k)))))))))))
       | _ \<Rightarrow> throw ''AKA-prime challenge lacks RAND or AUTN'')"

section \<open>Fast re-authentication\<close>

definition counterValue :: "bytes \<Rightarrow> u16" where
  "counterValue v = (if 2 \<le> length v then get16 (take 2 v) else 0)"

text \<open>Both variants; the MAC of the request is required to be there.\<close>

definition handleReauth :: "byte \<Rightarrow> hash_alg \<Rightarrow> (bytes \<Rightarrow> bytes) \<Rightarrow> EAPPacket \<Rightarrow> Payload list action" where
  "handleReauth t H newMSK pkt s =
     (case fastReauthCtx s of
        None \<Rightarrow> (s, fail ''fast reauth context not available'')
      | Some ctx \<Rightarrow>
          if \<not> CanUseReauth ctx then (s, fail ''fast reauth context not available'')
          else case ParseAttributes (eap_Data pkt) of
            Inl e \<Rightarrow> (s, Inl e)
          | Inr attrs \<Rightarrow>
              (case (attrs AT_NONCE_S, attrs AT_MAC, attrs AT_COUNTER) of
                 (Some atNonceS, Some atMAC, Some atCounter) \<Rightarrow>
                   (case BuildReauthResponse ctx (at_Value atNonceS) (counterValue (at_Value atCounter)) of
                      Inl e \<Rightarrow> (s, Inl e)
                    | Inr (ctx, respData) \<Rightarrow>
                        (s\<lparr>fastReauthCtx := Some ctx, MSK := newMSK (ra_MK ctx)\<rparr>,
                         Inr (eapPayload (sealResponse H (ra_KAut ctx) 16
                           (eapResponse (eap_Identifier pkt) t SubtypeReauthentication respData)))))
               | _ \<Rightarrow> (s, fail ''EAP-AKA re-auth lacks an attribute'')))"

definition handleAKAReauth :: "EAPPacket \<Rightarrow> Payload list action" where
  "handleAKAReauth = handleReauth TypeAKA H_sha1
     (\<lambda>mk. slice (snd (fips_Bytes (NewFIPS1862PRFSHA1 mk) [] 96)) 32 96)"

definition handleAKAPrimeReauth :: "EAPPacket \<Rightarrow> Payload list action" where
  "handleAKAPrimeReauth = handleReauth TypeAKAPrime H_sha256 (\<lambda>mk. slice (prf256Plus mk 144) 80 144)"

section \<open>The handler\<close>

definition dispatchEAP :: "byte list \<Rightarrow> bytes \<Rightarrow> EAPPacket \<Rightarrow> Payload list action" where
  "dispatchEAP order eapRaw pkt =
     (if eap_Code pkt = CodeSuccess then ret []
      else if eap_Code pkt = CodeFailure then throw ''EAP failure''
      else if eap_Code pkt \<noteq> CodeRequest then throw ''unexpected EAP code''
      else let t = eap_Type pkt; sub = eap_Subtype pkt
        in if t = TypeIdentity then gets (handleIdentityRequest pkt)
           else if t = TypeAKA \<and> sub = SubtypeChallenge then handleAKAChallenge order pkt eapRaw
           else if t = TypeAKAPrime \<and> sub = SubtypeChallenge then handleAKAPrimeChallenge pkt eapRaw
           else if t = TypeAKA \<and> sub = SubtypeReauthentication then handleAKAReauth pkt
           else if t = TypeAKA \<and> sub = SubtypeIdentity then gets (handleAKAIdentity pkt)
           else if t = TypeAKA \<and> isAKANotification pkt then gets (buildEAPAKANotificationResponse pkt)
           else if t = TypeAKAPrime \<and> sub = SubtypeReauthentication then handleAKAPrimeReauth pkt
           else throw ''unsupported EAP type'')"

definition handleEAP :: "byte list \<Rightarrow> bytes \<Rightarrow> Payload list action" where
  "handleEAP order eapRaw = sbind (lift (EAP_Parse eapRaw)) (dispatchEAP order eapRaw)"

end
