(* ===== verification/Swu_Eap_Correct.thy ===== *)
theory Swu_Eap_Correct
  imports Swu_Eap
begin

text \<open>
  What the EAP handler guarantees: a server that shares the keys accepts the response to its
  challenge; with validation switched on, a challenge whose MAC does not fit changes no key; the
  order in which Go ranges over the map does not matter to the peer. And what it does not: a fast
  re-authentication is accepted whatever its MAC, and yields the old MSK again.
\<close>

section \<open>Streams of attributes\<close>

definition attr_stream :: "Attribute list \<Rightarrow> bytes" where
  "attr_stream as = concat (map (snd \<circ> Attribute_Encode) as)"

lemma attr_stream_simps [simp]:
  "attr_stream [] = []" "attr_stream (a # as) = snd (Attribute_Encode a) @ attr_stream as"
  "attr_stream (as @ bs) = attr_stream as @ attr_stream bs"
  by (simp_all add: attr_stream_def)

text \<open>The attribute that \<open>encodeAttr\<close> writes.\<close>

definition theAttr :: "byte \<Rightarrow> bytes \<Rightarrow> Attribute" where
  "theAttr t v = padded \<lparr>at_Type = t, at_Length = 0, at_Value = v\<rparr>"

lemma theAttr:
  "at_Type (theAttr t v) = t"
  "at_Value (theAttr t v) = v @ replicate (pad_len (2 + length v)) 0"
  "length v \<le> 1018 \<Longrightarrow> attribute_wf (theAttr t v)"
  "length v \<le> 1018 \<Longrightarrow> encodeAttr t v = snd (Attribute_Encode (theAttr t v))"
proof -
  let ?a = "\<lparr>at_Type = t, at_Length = 0, at_Value = v\<rparr>"
  show "at_Type (theAttr t v) = t" "at_Value (theAttr t v) = v @ replicate (pad_len (2 + length v)) 0"
    by (simp_all add: theAttr_def padded_def Attribute_Encode_def Let_def)
  assume "length v \<le> 1018"
  then have l: "length (at_Value ?a) \<le> 1018" by simp
  show "attribute_wf (theAttr t v)" unfolding theAttr_def by (rule padded_wf(1) [OF l])
  show "encodeAttr t v = snd (Attribute_Encode (theAttr t v))"
    unfolding theAttr_def encodeAttr_def by (rule padded_wf(2) [OF l])
qed

lemma findAttrLoop_step:
  assumes "attribute_wf a"
  shows "findAttrLoop (pre @ snd (Attribute_Encode a) @ rest) t (length pre) =
    (if at_Type a = t then Some (length pre)
     else findAttrLoop (pre @ snd (Attribute_Encode a) @ rest) t (length (pre @ snd (Attribute_Encode a))))"
proof -
  let ?d = "pre @ snd (Attribute_Encode a) @ rest"
  have len: "length (snd (Attribute_Encode a)) = 4 * unat (at_Length a)" "0 < unat (at_Length a)"
    using assms by (auto simp: attribute_wf_Encode attribute_wf_def)
  have "?d ! length pre = at_Type a" "?d ! (length pre + 1) = at_Length a"
    using assms by (simp_all add: attribute_wf_Encode nth_append)
  with len show ?thesis by (subst findAttrLoop.simps) (simp add: Let_def mult.commute)
qed

lemma findAttrLoop_stream:
  assumes "\<forall>a\<in>set as. attribute_wf a \<and> at_Type a \<noteq> t" "attribute_wf b" "at_Type b = t"
  shows "findAttrLoop (pre @ attr_stream as @ snd (Attribute_Encode b) @ rest) t (length pre) =
    Some (length (pre @ attr_stream as))"
  using assms(1)
proof (induction as arbitrary: pre)
  case Nil
  then show ?case using findAttrLoop_step [OF assms(2), of pre rest t] assms(3) by simp
next
  case (Cons a as)
  show ?case
    using Cons.prems Cons.IH [of "pre @ snd (Attribute_Encode a)"]
      findAttrLoop_step [of a pre "attr_stream as @ snd (Attribute_Encode b) @ rest" t]
    by simp
qed

lemma ParseAttributes_stream:
  "\<forall>a\<in>set as. attribute_wf a \<Longrightarrow> ParseAttributes (attr_stream as) = Inr (attributeMap as)"
  unfolding attr_stream_def by (rule ParseAttributes_Encode)

lemma attributeMap_distinct:
  "distinct (map at_Type as) \<Longrightarrow> attributeMap as t = Some a \<longleftrightarrow> a \<in> set as \<and> at_Type a = t"
proof (induction as rule: rev_induct)
  case (snoc b as)
  then show ?case by (auto simp: attributeMap_snoc dest: attributeMap_lookup) (metis imageI)+
qed (simp add: attributeMap_def)

section \<open>The response to a challenge\<close>

definition echoedAttrs :: "byte list \<Rightarrow> (byte \<rightharpoonup> Attribute) \<Rightarrow> Attribute list" where
  "echoedAttrs order attrs =
     concat (map (\<lambda>t. case attrs t of Some a \<Rightarrow> [theAttr t (at_Value a)] | None \<Rightarrow> []) (filter echoes order))"

text \<open>The attributes of the response without the MAC.\<close>

definition responseAttrs :: "byte list \<Rightarrow> (byte \<rightharpoonup> Attribute) \<Rightarrow> bytes \<Rightarrow> Session \<Rightarrow> Attribute list" where
  "responseAttrs order attrs res s =
     (let mode = AKAChallengeMode (s_cfg s);
          epdg = (case attrs 0x86 of
              Some a \<Rightarrow> if 2 \<le> length (at_Value a) then Some (at_Value a) else None | None \<Rightarrow> None)
      in theAttr AT_RES (put16 (of_nat (length res * 8)) @ res) #
        (if mode = ''minimal'' then (case epdg of Some v \<Rightarrow> [theAttr 0x86 v] | None \<Rightarrow> [])
         else if mode = ''checkcode'' then
           (case epdg of
              Some v \<Rightarrow> [theAttr 0x86 v]
            | None \<Rightarrow> if computeCheckcode s = [] then [] else [theAttr 0x86 ([0, 0] @ computeCheckcode s)])
         else if mode = ''omit'' then []
         else echoedAttrs order attrs @ (if attrs AT_RESULT_IND \<noteq> None then [theAttr AT_RESULT_IND [0, 0]] else [])))"

definition attrs_ok :: "(byte \<rightharpoonup> Attribute) \<Rightarrow> bool" where
  "attrs_ok attrs \<longleftrightarrow> (\<forall>t a. attrs t = Some a \<longrightarrow> attribute_wf a)"

lemma ParseAttributes_ok: "ParseAttributes d = Inr attrs \<Longrightarrow> attrs_ok attrs"
  by (auto simp: attrs_ok_def dest: ParseAttributes_wf)

lemma attrs_ok_len:
  assumes "attrs_ok attrs" "attrs t = Some a"
  shows "length (at_Value a) \<le> 1018"
proof -
  have "length (at_Value a) + 2 = 4 * unat (at_Length a)"
    using assms by (auto simp: attrs_ok_def attribute_wf_def)
  moreover have "unat (at_Length a) < 2 ^ LENGTH(8)" by (rule unsigned_less)
  then have "unat (at_Length a) \<le> 255" by (subst less_Suc_eq_le [symmetric]) (simp only: len_num1 len_bit0 len_bit1; simp)
  ultimately show ?thesis by linarith
qed

lemma length_computeCheckcode: "length (computeCheckcode s) \<le> 20"
  by (simp add: computeCheckcode_def Let_def)

lemma echoed_stream:
  assumes "attrs_ok attrs"
  shows "concat (map (\<lambda>t. case attrs t of Some a \<Rightarrow> encodeAttr t (at_Value a) | None \<Rightarrow> []) (filter echoes order)) =
    attr_stream (echoedAttrs order attrs)"
  using attrs_ok_len [OF assms]
  by (induction order) (auto simp: echoedAttrs_def theAttr split: option.split)

lemma buildChallengeResponseAttrs_stream:
  assumes "attrs_ok attrs" "length res \<le> 1016"
  shows "buildChallengeResponseAttrs order attrs res s = attr_stream (responseAttrs order attrs res s)"
  using assms attrs_ok_len [OF assms(1), of "0x86"] length_computeCheckcode [of s]
  by (auto simp: buildChallengeResponseAttrs_def responseAttrs_def resAttr_def Let_def theAttr echoed_stream
      split: option.split)

lemma echoedAttrs_set:
  "a \<in> set (echoedAttrs order attrs) \<longleftrightarrow> (\<exists>t b. t \<in> set order \<and> echoes t \<and> attrs t = Some b \<and> a = theAttr t (at_Value b))"
proof (induction order)
  case (Cons u order)
  then show ?case by (cases "attrs u") (auto simp: echoedAttrs_def)
qed (simp add: echoedAttrs_def)

lemma responseAttrs_wf:
  assumes "attrs_ok attrs" "length res \<le> 1016"
  shows "\<forall>a\<in>set (responseAttrs order attrs res s). attribute_wf a \<and> at_Type a \<noteq> AT_MAC"
  using assms attrs_ok_len [OF assms(1)] length_computeCheckcode [of s]
  by (auto simp: responseAttrs_def Let_def theAttr echoedAttrs_set echoes_def split: option.splits if_splits)

text \<open>The sealed packet: header, the attributes, and the MAC over the packet with a zero field.\<close>

lemma sealResponse_bytes:
  assumes "pkt = eapResponse i t sub (pre @ [AT_MAC, 5, 0, 0] @ replicate 16 0 @ post)" "isAKA t"
    and "20 \<le> length (hmac H kAut (EAPPacket_Encode pkt))" "p = 8 + length pre + 4"
  shows "sealResponse H kAut p pkt =
      take 8 (EAPPacket_Encode pkt) @ pre @ [AT_MAC, 5, 0, 0] @ take 16 (hmac H kAut (EAPPacket_Encode pkt)) @ post"
    and "copy_at (sealResponse H kAut p pkt) p (replicate 16 0) = EAPPacket_Encode pkt"
proof -
  let ?b = "EAPPacket_Encode pkt" and ?m = "take 16 (hmac H kAut (EAPPacket_Encode pkt))"
  obtain hd8 where b: "?b = hd8 @ pre @ [AT_MAC, 5, 0, 0] @ replicate 16 0 @ post" "length hd8 = 8"
    using assms(1,2) by (auto simp: eapResponse_def EAPPacket_Encode_def isReqResp_def put16_def Let_def)
  have m: "length ?m = 16" using assms(3) by simp
  have s: "sealResponse H kAut p pkt = hd8 @ pre @ [AT_MAC, 5, 0, 0] @ ?m @ post"
    using assms(4) m unfolding sealResponse_def Let_def b(1) by (simp add: copy_at_fits b(2))
  then show "sealResponse H kAut p pkt = take 8 ?b @ pre @ [AT_MAC, 5, 0, 0] @ ?m @ post"
    using b by simp
  show "copy_at (sealResponse H kAut p pkt) p (replicate 16 0) = ?b"
    unfolding s using assms(4) m b by (simp add: copy_at_fits)
qed

text \<open>The peer's check of a sealed response whose MAC attribute comes after the attributes \<open>as\<close>.\<close>

definition macAttr :: "bytes \<Rightarrow> Attribute" where
  "macAttr tag = \<lparr>at_Type = AT_MAC, at_Length = 5, at_Value = [0, 0] @ tag\<rparr>"

lemma macAttr:
  assumes "length tag = 16"
  shows "attribute_wf (macAttr tag)" "snd (Attribute_Encode (macAttr tag)) = [AT_MAC, 5, 0, 0] @ tag"
proof -
  show wf: "attribute_wf (macAttr tag)" using assms by (simp add: attribute_wf_def macAttr_def)
  show "snd (Attribute_Encode (macAttr tag)) = [AT_MAC, 5, 0, 0] @ tag"
    by (simp add: attribute_wf_Encode [OF wf]) (simp add: macAttr_def)
qed

lemma encodeAttr_MAC: "encodeAttr AT_MAC (replicate 18 0) = [AT_MAC, 5, 0, 0] @ replicate 16 0"
proof -
  have "replicate 18 (0 :: byte) = [0, 0] @ replicate 16 0" by (simp add: numeral_eq_Suc)
  then show ?thesis by (simp add: encodeAttr_def Attribute_Encode_def pad_len_def Let_def)
qed

lemma eapAKAAttrTail16_mac: "length tag = 16 \<Longrightarrow> eapAKAAttrTail16 ([0, 0] @ tag) = Inr tag"
  by (simp add: eapAKAAttrTail16_def)

lemma sealed_accepted:
  assumes "\<forall>a\<in>set as. attribute_wf a \<and> at_Type a \<noteq> AT_MAC" "isAKA t"
    and "resp = sealResponse H_sha1 kAut (8 + length (attr_stream as) + 4)
      (eapResponse i t sub (attr_stream as @ encodeAttr AT_MAC (replicate 18 0)))"
  obtains tag where "length tag = 16" "drop 8 resp = attr_stream (as @ [macAttr tag])"
    "ParseAttributes (drop 8 resp) = Inr (attributeMap (as @ [macAttr tag]))"
    "verifyEAPAKAMAC resp (drop 8 resp) kAut tag = Inr ()"
proof -
  let ?pre = "attr_stream as"
  let ?pkt = "eapResponse i t sub (?pre @ encodeAttr AT_MAC (replicate 18 0))"
  let ?p = "8 + length ?pre + 4"
  define tag where "tag = take 16 (hmac H_sha1 kAut (EAPPacket_Encode ?pkt))"
  have tag: "length tag = 16" by (simp add: tag_def)
  have data: "?pkt = eapResponse i t sub (?pre @ [AT_MAC, 5, 0, 0] @ replicate 16 0 @ [])"
    by (simp add: encodeAttr_MAC)
  have len8: "8 \<le> length (EAPPacket_Encode ?pkt)"
    using assms(2) by (simp add: length_EAPPacket_Encode eapResponse_def isReqResp_def)
  have resp: "resp = take 8 (EAPPacket_Encode ?pkt) @ ?pre @ [AT_MAC, 5, 0, 0] @ tag"
    and zero: "copy_at resp ?p (replicate 16 0) = EAPPacket_Encode ?pkt"
    using sealResponse_bytes [OF data assms(2), of H_sha1 kAut ?p] by (simp_all add: assms(3) tag_def)
  note zero' = zero [simplified add.commute [of "length ?pre"] add.assoc [symmetric], simplified]
  have d8: "drop 8 resp = attr_stream (as @ [macAttr tag])"
    using len8 by (simp add: resp macAttr(2) [OF tag])
  have "findAttrLoop ([] @ attr_stream as @ snd (Attribute_Encode (macAttr tag)) @ []) AT_MAC (length ([] :: bytes))
      = Some (length ([] @ attr_stream as))"
    by (rule findAttrLoop_stream) (use assms(1) macAttr(1) [OF tag] in \<open>auto simp: macAttr_def\<close>)
  then have "findEAPAttrOffset (drop 8 resp) AT_MAC = Some (length ?pre)"
    by (simp add: findEAPAttrOffset_def d8)
  moreover have "length resp = ?p + 16" using len8 tag by (simp add: resp)
  ultimately have "verifyEAPAKAMAC resp (drop 8 resp) kAut tag = Inr ()"
    by (simp add: verifyEAPAKAMAC_def zero') (simp add: tag_def)
  moreover have "ParseAttributes (drop 8 resp) = Inr (attributeMap (as @ [macAttr tag]))"
    unfolding d8 by (rule ParseAttributes_stream) (use assms(1) macAttr(1) [OF tag] in auto)
  ultimately show thesis using that tag d8 by blast
qed

lemma akaChallengeResponse_accepted:
  assumes "attrs_ok attrs" "length res \<le> 1016" "resp = akaChallengeResponse order pkt attrs res kAut s"
  obtains tag where "length tag = 16"
    "ParseAttributes (drop 8 resp) = Inr (attributeMap (responseAttrs order attrs res s @ [macAttr tag]))"
    "verifyEAPAKAMAC resp (drop 8 resp) kAut tag = Inr ()"
  by (rule sealed_accepted [OF responseAttrs_wf [OF assms(1,2), of order s],
        of TypeAKA resp kAut "eap_Identifier pkt" SubtypeChallenge])
    (use assms in \<open>auto simp: akaChallengeResponse_def Let_def isAKA_def
      buildChallengeResponseAttrs_stream [OF assms(1,2)]\<close>)

section \<open>Keys change only under a valid MAC\<close>

lemma runSIM_Inr:
  assumes "runSIM i atRand atAutn cont s = (s', Inr ps)"
  obtains (sync) rnd autn auts where "CalculateAKA (SIM (s_cfg s)) rnd autn = AkaSync auts"
      "s' = s\<lparr>eapRand := rnd, eapAutn := autn\<rparr>" "ps = buildEAPSyncFailure i auts"
    | (ok) rnd autn res ck ik where "CalculateAKA (SIM (s_cfg s)) rnd autn = AkaOk res ck ik"
      "eapAKAAttrTail16 (at_Value atRand) = Inr rnd" "eapAKAAttrTail16 (at_Value atAutn) = Inr autn"
      "cont autn res ck ik (s\<lparr>eapRand := rnd, eapAutn := autn, eapRES := res, eapCK := ck, eapIK := ik\<rparr>) = (s', Inr ps)"
proof -
  obtain rnd autn where r: "eapAKAAttrTail16 (at_Value atRand) = Inr rnd" "eapAKAAttrTail16 (at_Value atAutn) = Inr autn"
    using assms by (auto simp: runSIM_def sbind_Inr_iff)
  show thesis
  proof (cases "CalculateAKA (SIM (s_cfg s)) rnd autn")
    case (AkaOk res ck ik)
    show thesis by (rule ok [OF AkaOk r]) (use assms r AkaOk in \<open>simp add: runSIM_def sbind_gets\<close>)
  next
    case (AkaSync auts)
    show thesis by (rule sync [OF AkaSync]) (use assms r AkaSync in \<open>simp_all add: runSIM_def sbind_gets\<close>)
  next
    case (AkaErr e)
    then show thesis using assms r by (simp add: runSIM_def sbind_gets)
  qed
qed

lemma saveReauth_keeps: "preserves (\<lambda>s. MSK s = m \<and> eapKAut s = k) (saveReauth rid mk ke ka)"
  unfolding saveReauth_def by (auto intro!: keeps preserves_modify simp: emit_def)

lemma captureAkaReauth_keeps: "preserves (\<lambda>s. MSK s = m \<and> eapKAut s = k) (captureAkaReauth attrs ck ik kAut)"
  by (auto simp: captureAkaReauth_def Let_def intro!: keeps saveReauth_keeps split: option.split)

lemma akaSelect_verified:
  "akaSelect True eapRaw d tag derive = Inr k \<Longrightarrow>
     \<exists>n\<le>1. k = derive n \<and> verifyEAPAKAMAC eapRaw d (ak_KAut k) tag = Inr ()"
  by (auto simp: akaSelect_def split: sum.splits)

lemma handleAKAChallenge_cases:
  assumes "handleAKAChallenge order pkt eapRaw s = (s', Inr ps)" "EAPMACValidation (s_cfg s)"
  obtains (sync) "MSK s' = MSK s" "eapKAut s' = eapKAut s"
    | (ok) attrs atMac tag rnd autn res ck ik n k where
      "ParseAttributes (eap_Data pkt) = Inr attrs" "attrs AT_MAC = Some atMac"
      "eapAKAAttrTail16 (at_Value atMac) = Inr tag"
      "CalculateAKA (SIM (s_cfg s)) rnd autn = AkaOk res ck ik" "n \<le> 1"
      "k = akaDerive (str_bytes (nai (imsi_or_cfg (s_cfg s)) (s_cfg s))) ck ik n"
      "verifyEAPAKAMAC eapRaw (eap_Data pkt) (ak_KAut k) tag = Inr ()"
      "MSK s' = ak_MSK k" "eapKAut s' = ak_KAut k"
proof -
  obtain attrs where attrs: "ParseAttributes (eap_Data pkt) = Inr attrs"
    using assms(1) by (auto simp: handleAKAChallenge_def sbind_Inr_iff)
  obtain atRand atAutn atMac where at: "attrs AT_RAND = Some atRand" "attrs AT_AUTN = Some atAutn"
    "attrs AT_MAC = Some atMac"
    using assms(1) attrs by (auto simp: handleAKAChallenge_def sbind_Inr_iff split: option.splits)
  define cont where "cont = (\<lambda>_ :: bytes. \<lambda>res ck ik.
      sbind (gets (\<lambda>s. permanentIdentity (s_cfg s))) (\<lambda>identity.
      sbind (lift (eapAKAAttrTail16 (at_Value atMac))) (\<lambda>recvMac.
      sbind (gets (\<lambda>s. akaSelect (EAPMACValidation (s_cfg s)) eapRaw (eap_Data pkt) recvMac
              (akaDerive identity ck ik))) (\<lambda>k.
      sseq (modify (\<lambda>s. s\<lparr>MSK := ak_MSK k, eapKAut := ak_KAut k\<rparr>)) (
      sbind (gets (\<lambda>s. Inr (akaChallengeResponse order pkt attrs res (ak_KAut k) s))) (\<lambda>eapBytes.
      sseq (captureAkaReauth attrs ck ik (ak_KAut k)) (ret (eapPayload eapBytes))))))))"
  have run: "runSIM (eap_Identifier pkt) atRand atAutn cont s = (s', Inr ps)"
    using assms(1) attrs at by (simp add: handleAKAChallenge_def cont_def)
  show thesis
    using run
  proof (cases rule: runSIM_Inr)
    case (sync rnd autn auts)
    then show thesis by (intro that(1)) simp_all
  next
    case (ok rnd autn res ck ik)
    define id0 where "id0 = str_bytes (nai (imsi_or_cfg (s_cfg s)) (s_cfg s))"
    obtain tag k where tk: "eapAKAAttrTail16 (at_Value atMac) = Inr tag"
      "akaSelect True eapRaw (eap_Data pkt) tag (akaDerive id0 ck ik) = Inr k"
      and cap: "sseq (captureAkaReauth attrs ck ik (ak_KAut k)) (ret ps)
        (s\<lparr>eapRand := rnd, eapAutn := autn, eapRES := res, eapCK := ck, eapIK := ik, MSK := ak_MSK k,
           eapKAut := ak_KAut k\<rparr>) = (s', Inr ps)"
      using ok(4) assms(2) by (auto simp: cont_def permanentIdentity_def buildNAI_Some id0_def sbind_Inr_iff)
    have "MSK s' = ak_MSK k \<and> eapKAut s' = ak_KAut k"
      using preservesD [OF captureAkaReauth_keeps [of "ak_MSK k" "ak_KAut k" attrs ck ik "ak_KAut k"],
          of "s\<lparr>eapRand := rnd, eapAutn := autn, eapRES := res, eapCK := ck, eapIK := ik, MSK := ak_MSK k,
           eapKAut := ak_KAut k\<rparr>"] cap
      by (auto simp: sbind_Inr_iff)
    with that(2) attrs at(3) tk(1) ok(1) akaSelect_verified [OF tk(2)] show thesis
      by (auto simp: id0_def)
  qed
qed

section \<open>Fast re-authentication\<close>

lemma handleReauth_ignores_MAC:
  assumes "ParseAttributes (eap_Data pkt) = Inr m" "m AT_MAC \<noteq> None"
    and "ParseAttributes (eap_Data pkt') = Inr (m(AT_MAC \<mapsto> a))" "eap_Identifier pkt' = eap_Identifier pkt"
  shows "handleReauth t H newMSK pkt' s = handleReauth t H newMSK pkt s"
  unfolding handleReauth_def assms(4) using assms(1-3) by (auto split: option.split)

lemma handleReauth_MSK:
  assumes "handleReauth t H newMSK pkt s = (s', Inr ps)"
  obtains ctx where "fastReauthCtx s = Some ctx" "CanUseReauth ctx" "MSK s' = newMSK (ra_MK ctx)"
  using assms by (auto simp: handleReauth_def BuildReauthResponse_def split: option.splits if_splits sum.splits)

section \<open>The order of the map does not matter\<close>

lemma distinct_echoedAttrs: "distinct order \<Longrightarrow> distinct (map at_Type (echoedAttrs order attrs))"
proof (induction order)
  case (Cons u order)
  have "at_Type a \<in> set order" if "a \<in> set (echoedAttrs order attrs)" for a
    using that by (auto simp: echoedAttrs_set theAttr)
  with Cons show ?case by (cases "attrs u") (auto simp: echoedAttrs_def theAttr)
qed (simp add: echoedAttrs_def)

lemma distinct_responseAttrs: "distinct order \<Longrightarrow> distinct (map at_Type (responseAttrs order attrs res s))"
  using distinct_echoedAttrs [of order attrs]
  by (auto simp: responseAttrs_def Let_def theAttr echoedAttrs_set echoes_def split: option.split)

lemma set_responseAttrs:
  "set order = set order' \<Longrightarrow> set (responseAttrs order attrs res s) = set (responseAttrs order' attrs res s)"
proof -
  assume eq: "set order = set order'"
  have "set (echoedAttrs order attrs) = set (echoedAttrs order' attrs)"
    by (rule set_eqI) (simp only: echoedAttrs_set eq)
  then show ?thesis by (simp add: responseAttrs_def Let_def split: option.split)
qed

lemma responseAttrs_order:
  assumes "distinct order" "distinct order'" "set order = set order'"
  shows "attributeMap (responseAttrs order attrs res s) = attributeMap (responseAttrs order' attrs res s)"
proof
  fix t
  let ?f = "\<lambda>ord. attributeMap (responseAttrs ord attrs res s) t"
  have "?f order = Some a \<longleftrightarrow> ?f order' = Some a" for a
    using attributeMap_distinct [OF distinct_responseAttrs [OF assms(1)], of attrs res s t a]
      attributeMap_distinct [OF distinct_responseAttrs [OF assms(2)], of attrs res s t a]
      set_responseAttrs [OF assms(3), of attrs res s] by simp
  then show "?f order = ?f order'" by (metis not_Some_eq)
qed

lemma responseAttrs_RES:
  assumes "distinct order"
  shows "attributeMap (responseAttrs order attrs res s) AT_RES = Some (theAttr AT_RES (put16 (of_nat (length res * 8)) @ res))"
  using attributeMap_distinct [OF distinct_responseAttrs [OF assms], of attrs res s AT_RES]
  by (simp add: responseAttrs_def theAttr Let_def)

section \<open>Answers\<close>

text \<open>An answer is one EAP response with the identifier of the request.\<close>

definition answers :: "byte \<Rightarrow> Payload list \<Rightarrow> bool" where
  "answers i ps \<longleftrightarrow> ps = [] \<or> (\<exists>b. ps = eapPayload b \<and> take 2 b = [CodeResponse, i])"

lemma take2_Encode: "take 2 (EAPPacket_Encode (eapResponse i t sub d)) = [CodeResponse, i]"
  by (simp add: EAPPacket_Encode_def eapResponse_def Let_def)

lemma answers_Encode [intro]: "answers i (eapPayload (EAPPacket_Encode (eapResponse i t sub d)))"
  by (auto simp: answers_def take2_Encode)

lemma answers_seal [intro]:
  assumes "2 \<le> p"
  shows "answers i (eapPayload (sealResponse H k p (eapResponse i t sub d)))"
proof -
  let ?b = "EAPPacket_Encode (eapResponse i t sub d)"
  have "2 \<le> length ?b" by (simp add: length_EAPPacket_Encode)
  with assms have "take 2 (copy_at ?b p m) = take 2 ?b" for m by (simp add: copy_at_def min_def)
  then show ?thesis by (auto simp: answers_def sealResponse_def Let_def take2_Encode)
qed

text \<open>A property of every value that a method returns.\<close>

definition yields :: "('a \<Rightarrow> bool) \<Rightarrow> 'a action \<Rightarrow> bool" where
  "yields Q m \<longleftrightarrow> (\<forall>s s' x. m s = (s', Inr x) \<longrightarrow> Q x)"

lemma yields_bind: "(\<And>s s' x. m s = (s', Inr x) \<Longrightarrow> yields Q (f x)) \<Longrightarrow> yields Q (sbind m f)"
  by (auto simp: yields_def sbind_Inr_iff)

lemma yields_simple: "Q x \<Longrightarrow> yields Q (ret x)" "yields Q (throw e)"
  "(\<And>s x. g s = Inr x \<Longrightarrow> Q x) \<Longrightarrow> yields Q (gets g)"
  by (auto simp: yields_def)

lemma yields_if: "(c \<Longrightarrow> yields Q m) \<Longrightarrow> (\<not> c \<Longrightarrow> yields Q n) \<Longrightarrow> yields Q (if c then m else n)"
  by simp

lemma answers_identity:
  "handleIdentityRequest pkt s = Inr ps \<Longrightarrow> answers (eap_Identifier pkt) ps"
  "handleAKAIdentity pkt s = Inr ps \<Longrightarrow> answers (eap_Identifier pkt) ps"
  by (auto simp: handleIdentityRequest_def handleAKAIdentity_def rbind_Inr_iff)

lemma answers_notification:
  assumes "buildEAPAKANotificationResponse pkt s = Inr ps"
  shows "answers (eap_Identifier pkt) ps"
proof -
  obtain c d p where "ps = eapPayload (if c then sealResponse H_sha1 (eapKAut s) p
      (eapResponse (eap_Identifier pkt) TypeAKA SubtypeNotificationAlt d)
      else EAPPacket_Encode (eapResponse (eap_Identifier pkt) TypeAKA SubtypeNotificationAlt d))" "p = 12"
    using assms by (fastforce simp: buildEAPAKANotificationResponse_def Let_def rbind_Inr_iff
        split: option.splits if_splits)
  then show ?thesis by auto
qed

lemmas answers_simple = answers_identity answers_notification

lemma answers_runSIM:
  assumes "\<And>autn res ck ik. yields (answers i) (cont autn res ck ik)"
  shows "yields (answers i) (runSIM i r a cont)"
proof -
  have "yields (answers i) (case x of AkaSync auts \<Rightarrow> ret (buildEAPSyncFailure i auts)
       | AkaErr e \<Rightarrow> throw ''SIM AKA failed''
       | AkaOk res ck ik \<Rightarrow> sseq (modify (\<lambda>s. s\<lparr>eapRES := res, eapCK := ck, eapIK := ik\<rparr>)) (cont autn res ck ik))"
    for x autn
    by (cases x) (simp_all add: yields_simple buildEAPSyncFailure_def answers_Encode yields_bind assms)
  then show ?thesis unfolding runSIM_def by (intro yields_bind)
qed

lemma answers_challenge: "yields (answers (eap_Identifier pkt)) (handleAKAChallenge order pkt raw)"
  unfolding handleAKAChallenge_def
  by (rule yields_bind)
    (auto intro!: yields_simple answers_runSIM yields_bind answers_seal simp: akaChallengeResponse_def Let_def
      split: option.split)

lemma answers_prime: "yields (answers (eap_Identifier pkt)) (handleAKAPrimeChallenge pkt raw)"
  unfolding handleAKAPrimeChallenge_def Let_def akaPrimeResponse_def
  by (rule yields_bind)
    (simp split: option.split, intro conjI allI impI yields_simple yields_if answers_runSIM yields_bind answers_seal,
     simp_all)

lemma answers_reauth: "yields (answers (eap_Identifier pkt)) (handleReauth t H msk pkt)"
  by (auto simp: yields_def handleReauth_def BuildReauthResponse_def split: option.splits if_splits sum.splits)

lemma handleEAP_answers:
  assumes "handleEAP order raw s = (s', Inr ps)" "EAP_Parse raw = Inr pkt"
  shows "answers (eap_Identifier pkt) ps" "ps \<noteq> [] \<Longrightarrow> eap_Code pkt = CodeRequest"
proof -
  have h: "dispatchEAP order raw pkt s = (s', Inr ps)"
    using assms by (simp add: handleEAP_def)
  have "yields (answers (eap_Identifier pkt)) (dispatchEAP order raw pkt)"
    unfolding dispatchEAP_def Let_def handleAKAReauth_def handleAKAPrimeReauth_def
    by (intro yields_if yields_simple answers_challenge answers_prime answers_reauth)
      (auto simp: answers_def [of _ "[]"] intro: answers_simple)
  then show "answers (eap_Identifier pkt) ps" using h unfolding yields_def by blast
  show "ps \<noteq> [] \<Longrightarrow> eap_Code pkt = CodeRequest"
    using h by (auto simp: dispatchEAP_def split: if_splits)
qed

end
