(* ===== verification/Swu_Init_Correct.thy ===== *)
theory Swu_Init_Correct
  imports Swu_Init
begin

text \<open>
  What the IKE_SA_INIT exchange achieves: after a response that is accepted, the session holds the
  keys that a responder with the same exchange computes; a first cookie leaves nonce and key
  exchange untouched; and exactly one kind of decodable response makes the handler panic.
\<close>

section \<open>Keys from a successful derivation\<close>

definition ike_material :: "prf_alg \<Rightarrow> bytes \<Rightarrow> bytes \<Rightarrow> bytes \<Rightarrow> u64 \<Rightarrow> u64 \<Rightarrow> nat \<Rightarrow> bytes" where
  "ike_material p g ni nr spii spir n =
     take n (prf_stream p (prf_mac p (ni @ nr) g) (ni @ nr @ put64 spii @ put64 spir) 254)"

text \<open>A cipher that negotiation can set: its key length is a number of bytes.\<close>

definition session_algs :: "Session \<Rightarrow> bool" where
  "session_algs s \<longleftrightarrow> (\<exists>j p. GetPRF j = Inr p \<and> PRFAlg s = Some p) \<and>
     (\<exists>e. EncAlg s = Some e \<and> 0 \<le> Crypto_Cipher.KeySize e) \<and> IntegAlg s \<noteq> None"

lemma session_algs_lens:
  assumes "session_algs s"
  obtains j p pl il el where "GetPRF j = Inr p" "PRFAlg s = Some p" "algs_ok s pl il el"
proof -
  obtain j p e a where *: "GetPRF j = Inr p" "PRFAlg s = Some p" "EncAlg s = Some e" "0 \<le> Crypto_Cipher.KeySize e"
      "IntegAlg s = Some a"
    using assms by (auto simp: session_algs_def)
  have "keyLens s = Inr (int (KeyLen p), int (if ikeIsAEAD s then 0 else integ_KeySize a),
      int (nat (if ikeIsAEAD s then Crypto_Cipher.KeySize e + 4 else Crypto_Cipher.KeySize e)))"
    using * by (simp add: keyLens_def Let_def)
  with * that show thesis unfolding algs_ok_def by blast
qed

lemma GenerateIKESAKeys_cases:
  assumes "session_algs s" "DH s = Some dh" "SharedKey dh = Some g" "PRFAlg s = Some p"
  shows "(\<exists>k n. GenerateIKESAKeys nr s = Inr (s\<lparr>Keys := Some k\<rparr>) \<and>
      concat_keys k = ike_material p g (s_ni s) nr (s_SPIi s) (s_SPIr s) n \<and> length (concat_keys k) = n) \<or>
    GenerateIKESAKeys nr s = fail ''PRF+ overflow: too many blocks''"
proof -
  obtain j pl il el where *: "GetPRF j = Inr p" "algs_ok s pl il el"
    using session_algs_lens [OF assms(1)] assms(4) by (metis option.inject)
  show ?thesis
  proof (cases "pl * 3 + il * 2 + el * 2 \<le> 254 * KeyLen p")
    case True
    obtain k where k: "GenerateIKESAKeys nr s = Inr (s\<lparr>Keys := Some k\<rparr>)" "key_lengths k pl il el"
        "concat_keys k = ike_material p g (s_ni s) nr (s_SPIi s) (s_SPIr s) (pl * 3 + il * 2 + el * 2)"
      using GenerateIKESAKeys_spec [OF assms(2-4) * True] unfolding ike_material_def by blast
    moreover have "length (concat_keys k) = pl * 3 + il * 2 + el * 2"
      using k(2) by (simp add: key_lengths_def concat_keys_def)
    ultimately show ?thesis by blast
  next
    case False
    have n: "int pl * 3 + int il * 2 + int el * 2 = int (pl * 3 + il * 2 + el * 2)" by simp
    have "GenerateIKESAKeys nr s = fail ''PRF+ overflow: too many blocks''"
      using assms(2-4) * False PrfPlus_spec [OF *(1), of "int (pl * 3 + il * 2 + el * 2)"]
      by (simp only: GenerateIKESAKeys_def algs_ok_def deref_simps rbind_simps option.case Let_def prod.case n
          nat_int if_False)
    then show ?thesis ..
  qed
qed

section \<open>What the steps change\<close>

lemma initNotify_state:
  "initNotify v acc s = (s', Inr acc') \<Longrightarrow>
     (s' = s \<or> s' = s\<lparr>fragmentationSupported := True\<rparr>) \<and>
     acc_sa acc' = acc_sa acc \<and> acc_ke acc' = acc_ke acc \<and> acc_nonce acc' = acc_nonce acc"
  by (auto simp: initNotify_def Let_def sbind_gets split: if_splits sum.splits)

lemma initRespLoop_state:
  "initRespLoop ps acc s = (s', Inr acc') \<Longrightarrow>
     (s' = s \<or> s' = s\<lparr>fragmentationSupported := True\<rparr>) \<and>
     (\<forall>x. acc_ke acc' = Some x \<longrightarrow> acc_ke acc = Some x \<or> PayloadKE x \<in> set ps) \<and>
     (\<forall>x. acc_sa acc' = Some x \<longrightarrow> acc_sa acc = Some x \<or> PayloadSA x \<in> set ps) \<and>
     (\<forall>x. acc_nonce acc' = Some x \<longrightarrow> acc_nonce acc = Some x \<or> PayloadNonce x \<in> set ps)"
proof (induction ps acc arbitrary: s rule: initRespLoop.induct)
  case (5 v ps acc)
  then obtain s1 acc1 where 1: "initNotify v acc s = (s1, Inr acc1)" "initRespLoop ps acc1 s1 = (s', Inr acc')"
    by (auto simp: sbind_Inr_iff)
  from initNotify_state [OF 1(1)] "5.IH" [OF 1(2)] show ?case by auto
qed (auto split: if_splits)

lemma assign_Inr:
  "assign upd msg r s = (s', Inr ()) \<longleftrightarrow> (\<exists>x. r = Inr x \<and> s' = upd (Some x) s)"
  by (cases r) (auto simp: assign_def relabel_def split: fault.splits)

lemma GetEncrypter_KeySize:
  "GetEncrypterWithKeyLen i k = Inr e \<Longrightarrow> 0 \<le> k \<Longrightarrow> 0 \<le> Crypto_Cipher.KeySize e"
  by (auto simp: GetEncrypterWithKeyLen_def KeySize_def Let_def split: if_splits)

lemma selection_keyLen: "0 \<le> sel_keyLenBits (selection ts)"
proof -
  have attr: "0 \<le> k \<Longrightarrow> 0 \<le> fold (\<lambda>a. If (ta_Type a = AttributeKeyLength) (uint (ta_Val a))) as k"
    for as k by (induction as arbitrary: k) auto
  have "0 \<le> sel_keyLenBits r \<Longrightarrow> 0 \<le> sel_keyLenBits (fold selectTransform ts r)" for r
    by (induction ts arbitrary: r) (auto simp: selectTransform_def attr)
  then show ?thesis by (simp add: selection_def)
qed

lemma setAlgorithms_Inr:
  assumes "setAlgorithms sel s = (s', Inr ())" "0 \<le> sel_keyLenBits sel"
  shows "session_algs s' \<and> DH s' = DH s \<and> s_ni s' = s_ni s \<and> s_nr s' = s_nr s \<and> s_SPIi s' = s_SPIi s \<and>
    s_SPIr s' = s_SPIr s"
proof -
  obtain p e where p: "GetPRF (sel_prf sel) = Inr p" and e: "GetEncrypterWithKeyLen (sel_encr sel) (sel_keyLenBits sel) = Inr e"
    using assms(1) by (auto simp: setAlgorithms_def sbind_Inr_iff assign_Inr)
  have k: "0 \<le> Crypto_Cipher.KeySize e" using GetEncrypter_KeySize [OF e assms(2)] .
  show ?thesis
  proof (cases "isAEADEncr (sel_encr sel)")
    case True
    with assms(1) p e k show ?thesis
      by (auto simp: setAlgorithms_def sbind_Inr_iff assign_Inr session_algs_def GetIntegrityAlgorithm_def)
  next
    case False
    with assms(1) obtain a where "GetIntegrityAlgorithm (sel_integ sel) = Inr a"
      by (auto simp: setAlgorithms_def sbind_Inr_iff assign_Inr)
    with False assms(1) p e k show ?thesis
      by (auto simp: setAlgorithms_def sbind_Inr_iff assign_Inr session_algs_def)
  qed
qed

section \<open>Agreement\<close>

lemma handleIKESAInitResp_keys:
  assumes kp: "dh_keypair grp x dh" and dh: "DH s = Some dh"
    and ok: "handleIKESAInitResp tr data s = (s', Inr ())"
  obtains packet ke nonce p dh' g k n where
    "DecodePacket data = Inr packet" "PayloadKE ke \<in> set (Payloads packet)"
    "PayloadNonce nonce \<in> set (Payloads packet)" "ComputeSharedSecret dh (KEData ke) = Inr (dh', g)"
    "PRFAlg s' = Some p" "Keys s' = Some k" "s_nr s' = NonceData nonce" "s_SPIr s' = SPIr (Header packet)"
    "concat_keys k = ike_material p g (s_ni s) (NonceData nonce) (s_SPIi s) (SPIr (Header packet)) n"
    "length (concat_keys k) = n"
proof -
  obtain packet where packet: "DecodePacket data = Inr packet"
    using ok by (cases "DecodePacket data") (auto simp: handleIKESAInitResp_def relabel_def split: fault.splits)
  have x: "ExchangeType (Header packet) = IKE_SA_INIT"
    using ok packet by (auto simp: handleIKESAInitResp_def split: if_splits)
  define s0 where "s0 = s\<lparr>s_SPIr := SPIr (Header packet)\<rparr>"
  obtain s1 acc where loop: "initRespLoop (Payloads packet) emptyInitAcc s0 = (s1, Inr acc)"
    using ok packet x by (auto simp: handleIKESAInitResp_def s0_def sbind_Inr_iff)
  obtain sa ke nonce where acc: "acc_sa acc = Some sa" "acc_ke acc = Some ke" "acc_nonce acc = Some nonce"
    using ok packet x loop
    by (auto simp: handleIKESAInitResp_def s0_def [symmetric] sbind_eqI split: option.splits)
  define s2 where "s2 = fst (natCheck tr acc (s1\<lparr>s_nr := NonceData nonce\<rparr>))"
  have s2: "natCheck tr acc (s1\<lparr>s_nr := NonceData nonce\<rparr>) = (s2, Inr ())"
    by (simp add: s2_def natCheck_def)
  have props: "Proposals sa \<noteq> []"
    and run: "sseq (setAlgorithms (selection (Transforms (hd (Proposals sa))))) (
      sseq (sharedSecret (KEData ke)) (sseq deriveKeys (modify (\<lambda>s. s\<lparr>sendCookie := False\<rparr>)))) s2 = (s', Inr ())"
    using ok packet x loop acc s2
    by (auto simp: handleIKESAInitResp_def s0_def [symmetric] sbind_eqI split: if_splits)
  obtain s3 s4 s5 where s3: "setAlgorithms (selection (Transforms (hd (Proposals sa)))) s2 = (s3, Inr ())"
    and s4: "sharedSecret (KEData ke) s3 = (s4, Inr ())" and s5: "deriveKeys s4 = (s5, Inr ())"
    and s': "s' = s5\<lparr>sendCookie := False\<rparr>"
    using run by (auto simp: sbind_Inr_iff)
  have "DH s2 = Some dh" "s_ni s2 = s_ni s" "s_nr s2 = NonceData nonce" "s_SPIi s2 = s_SPIi s"
      "s_SPIr s2 = SPIr (Header packet)"
    using initRespLoop_state [OF loop] dh by (auto simp: s2_def natCheck_def s0_def Let_def split: prod.splits)
  with setAlgorithms_Inr [OF s3 selection_keyLen]
  have f3: "session_algs s3" "DH s3 = Some dh" "s_ni s3 = s_ni s" "s_nr s3 = NonceData nonce"
      "s_SPIi s3 = s_SPIi s" "s_SPIr s3 = SPIr (Header packet)" by auto
  obtain dh' g where g: "ComputeSharedSecret dh (KEData ke) = Inr (dh', g)" and s4': "s4 = s3\<lparr>DH := Some dh'\<rparr>"
    using s4 f3(2) by (auto simp: sharedSecret_def sbind_Inr_iff rbind_Inr_iff)
  have sk: "SharedKey dh' = Some g" using ComputeSharedSecret_length [OF kp g] by simp
  obtain p where p: "PRFAlg s4 = Some p" using f3(1) s4' by (auto simp: session_algs_def)
  have a4: "session_algs s4" using f3(1) s4' by (simp add: session_algs_def)
  have der: "GenerateIKESAKeys (s_nr s4) s4 = Inr s5"
    using s5 by (simp add: deriveKeys_def split: sum.splits)
  have "DH s4 = Some dh'" using s4' by simp
  from GenerateIKESAKeys_cases [OF a4 this sk p, of "s_nr s4"] der
  obtain k n where kn: "Inr s5 = (Inr (s4\<lparr>Keys := Some k\<rparr>) :: Session result)" "length (concat_keys k) = n"
    "concat_keys k = ike_material p g (s_ni s4) (s_nr s4) (s_SPIi s4) (s_SPIr s4) n"
    by (metis sum.distinct(2))
  have "s5 = s4\<lparr>Keys := Some k\<rparr>" using kn(1) by (rule Inr_inject)
  moreover have "concat_keys k = ike_material p g (s_ni s) (NonceData nonce) (s_SPIi s) (SPIr (Header packet)) n"
    using kn(3) f3 s4' by simp
  moreover note kn(2)
  moreover have "PayloadKE ke \<in> set (Payloads packet)" "PayloadNonce nonce \<in> set (Payloads packet)"
    using initRespLoop_state [OF loop] acc by (auto simp: emptyInitAcc_def)
  moreover have "s_nr s' = NonceData nonce" "s_SPIr s' = SPIr (Header packet)" "PRFAlg s' = Some p" "Keys s' = Some k"
    using calculation(1) s' s4' f3 p by auto
  ultimately show thesis using that packet g by blast
qed

text \<open>A responder with the same values has the same key material.\<close>

lemma init_keys_agree:
  assumes a: "dh_keypair grp x dh" "DH s = Some dh" "PublicKeyBytes dh = Inr pa"
    and b: "dh_keypair grp y dhb" "PublicKeyBytes dhb = Inr pb" "ComputeSharedSecret dhb pa = Inr (dhb', gb)"
    and resp: "DecodePacket data = Inr packet"
      "\<forall>ke. PayloadKE ke \<in> set (Payloads packet) \<longrightarrow> KEData ke = pb"
      "\<forall>n. PayloadNonce n \<in> set (Payloads packet) \<longrightarrow> NonceData n = nr"
    and ok: "handleIKESAInitResp tr data s = (s', Inr ())"
  shows "\<exists>p k. PRFAlg s' = Some p \<and> Keys s' = Some k \<and> concat_keys k =
    ike_material p gb (s_ni s) nr (s_SPIi s) (SPIr (Header packet)) (length (concat_keys k))"
proof -
  obtain packet' ke nonce p dh' g k n where *: "DecodePacket data = Inr packet'"
    "PayloadKE ke \<in> set (Payloads packet')" "PayloadNonce nonce \<in> set (Payloads packet')"
    "ComputeSharedSecret dh (KEData ke) = Inr (dh', g)" "PRFAlg s' = Some p" "Keys s' = Some k"
    "concat_keys k = ike_material p g (s_ni s) (NonceData nonce) (s_SPIi s) (SPIr (Header packet')) n"
    "length (concat_keys k) = n"
    using handleIKESAInitResp_keys [OF a(1,2) ok] by metis
  have "packet' = packet" using *(1) resp(1) by simp
  with * resp have "ComputeSharedSecret dh pb = Inr (dh', g)" "NonceData nonce = nr" by auto
  moreover from this(1) have "g = gb"
    using dh_agree [OF a(1) b(1) a(3) b(2) _ b(3)] by blast
  ultimately show ?thesis using * \<open>packet' = packet\<close> by blast
qed

section \<open>A first cookie\<close>

text \<open>
  The request that answers a first cookie is the old one with the cookie in front: no randomness is
  used again, so a cookie that the responder computed from nonce and key exchange stays valid.
\<close>

lemma buildIKESAInitPacket_unfold:
  "buildIKESAInitPacket ni16 rnd tr s =
     (let sa = (if s_ni s = [] then s\<lparr>s_ni := ni16\<rparr> else s);
          grp = (if 0 < keRetryGroup s then keRetryGroup s else 14)
      in sseq (prepareDH rnd grp) (
         sbind (gets (\<lambda>s. rbind (deref (DH s)) PublicKeyBytes)) (\<lambda>pub.
         sbind (gets (\<lambda>s. Packet_Encode \<lparr>Header = initHeader s, Payloads = initPayloads tr grp pub s\<rparr>)) (\<lambda>(_, data).
         sseq (modify (\<lambda>s. s\<lparr>msgBuffer := data\<rparr>)) (ret data)))) sa)"
  by (simp add: buildIKESAInitPacket_def sbind_gets Let_def)

lemma buildIKESAInitPacket_Inr:
  assumes "buildIKESAInitPacket ni16 rnd tr s = (s1, Inr d)" "ni16 \<noteq> []"
  obtains dh pub p grp where "DH s1 = Some dh" "Group dh = grp" "PublicKeyBytes dh = Inr pub"
    "grp = (if 0 < keRetryGroup s then keRetryGroup s else 14)" "s_ni s1 \<noteq> []"
    "keRetryGroup s1 = keRetryGroup s" "sendCookie s1 = sendCookie s" "cookieRetryCount s1 = cookieRetryCount s"
    "s_cookie s1 = s_cookie s"
    "s1 = s\<lparr>s_ni := s_ni s1, DH := DH s1, msgBuffer := d\<rparr>"
    "Packet_Encode \<lparr>Header = initHeader s1, Payloads = initPayloads tr grp pub s1\<rparr> = Inr (p, d)"
proof -
  define grp where "grp = (if 0 < keRetryGroup s then keRetryGroup s else 14)"
  define sa where "sa = (if s_ni s = [] then s\<lparr>s_ni := ni16\<rparr> else s)"
  obtain sb pub p where sb: "prepareDH rnd grp sa = (sb, Inr ())"
    and pub: "rbind (deref (DH sb)) PublicKeyBytes = Inr pub"
    and enc: "Packet_Encode \<lparr>Header = initHeader sb, Payloads = initPayloads tr grp pub sb\<rparr> = Inr (p, d)"
    and s1: "s1 = sb\<lparr>msgBuffer := d\<rparr>"
    using assms(1) unfolding buildIKESAInitPacket_unfold Let_def sa_def [symmetric] grp_def [symmetric]
    by (auto simp: sbind_Inr_iff)
  obtain dh where dh: "DH sb = Some dh" "PublicKeyBytes dh = Inr pub"
    using pub by (auto simp: rbind_Inr_iff)
  have g: "Group dh = grp"
    using sb dh(1)
    by (auto simp: prepareDH_def NewDiffieHellman_def GenerateKey_def rbind_Inr_iff Let_def
        split: option.splits sum.splits if_splits)
  have st: "sb = sa\<lparr>DH := DH sb\<rparr>"
    using sb by (auto simp: prepareDH_def split: option.splits sum.splits if_splits)
  have eq: "initPayloads tr grp pub s1 = initPayloads tr grp pub sb" "initHeader s1 = initHeader sb"
    by (simp_all add: s1 initPayloads_def cookieNotify_def initHeader_def)
  show thesis
  proof (rule that)
    show "DH s1 = Some dh" "Group dh = grp" "PublicKeyBytes dh = Inr pub"
      "grp = (if 0 < keRetryGroup s then keRetryGroup s else 14)"
      using dh g by (auto simp: s1 grp_def)
    show "Packet_Encode \<lparr>Header = initHeader s1, Payloads = initPayloads tr grp pub s1\<rparr> = Inr (p, d)"
      unfolding eq by (rule enc)
    show "s_ni s1 \<noteq> []" using assms(2) by (subst s1, subst st) (simp add: sa_def)
    show "s1 = s\<lparr>s_ni := s_ni s1, DH := DH s1, msgBuffer := d\<rparr>"
      by (subst (1 2) s1, subst (1 2) st) (simp add: sa_def s1)
    show "keRetryGroup s1 = keRetryGroup s" "sendCookie s1 = sendCookie s" "s_cookie s1 = s_cookie s"
      "cookieRetryCount s1 = cookieRetryCount s"
      by (subst s1, subst st, simp add: sa_def)+
  qed
qed

lemma cookie_request:
  assumes built: "buildIKESAInitPacket ni16 rnd tr s = (s1, Inr d1)" "ni16 \<noteq> []"
    and s: "\<not> sendCookie s" "cookieRetryCount s = 0" and c: "c \<noteq> []" "to_lower (CookiePayloadType (s_cfg s)) \<noteq> ''sa''"
  shows "\<exists>ps p1. Packet_Encode \<lparr>Header = initHeader s, Payloads = ps\<rparr> = Inr (p1, d1) \<and>
    (\<forall>ni' rnd'. snd (buildIKESAInitPacket ni' rnd' tr (handleCookie c s1)) =
      rmap snd (Packet_Encode \<lparr>Header = initHeader s, Payloads = PayloadNotify (notify0 COOKIE c) # ps\<rparr>))"
proof -
  obtain dh pub p grp where b: "DH s1 = Some dh" "Group dh = grp" "PublicKeyBytes dh = Inr pub"
    "grp = (if 0 < keRetryGroup s then keRetryGroup s else 14)" "s_ni s1 \<noteq> []"
    "keRetryGroup s1 = keRetryGroup s" "sendCookie s1 = sendCookie s" "cookieRetryCount s1 = cookieRetryCount s"
    "s1 = s\<lparr>s_ni := s_ni s1, DH := DH s1, msgBuffer := d1\<rparr>"
    "Packet_Encode \<lparr>Header = initHeader s1, Payloads = initPayloads tr grp pub s1\<rparr> = Inr (p, d1)"
    using buildIKESAInitPacket_Inr [OF built] by metis
  define s2 where "s2 = handleCookie c s1"
  have cfg: "s_cfg s1 = s_cfg s" "s_SPIi s1 = s_SPIi s" by (subst b(9), simp)+
  have s2: "s2 = s1\<lparr>s_cookie := c, sendCookie := True\<rparr>"
    using s(2) b(8) by (simp add: s2_def handleCookie_def)
  have pay: "initPayloads tr grp pub s2 = PayloadNotify (notify0 COOKIE c) # initPayloads tr grp pub s1"
    using c s(1) b(7) cfg(1) by (simp add: s2 initPayloads_def cookieNotify_def Let_def split: prod.split)
  have hdr: "initHeader s1 = initHeader s" "initHeader s2 = initHeader s"
    using cfg(2) by (simp_all add: initHeader_def s2)
  have prep: "prepareDH rnd' grp s2 = (s2, Inr ())" for rnd'
    using b(1,2) by (simp add: prepareDH_def s2)
  have "snd (buildIKESAInitPacket ni' rnd' tr s2) =
      rmap snd (Packet_Encode \<lparr>Header = initHeader s, Payloads = initPayloads tr grp pub s2\<rparr>)" for ni' rnd'
  proof -
    have g: "(if 0 < keRetryGroup s2 then keRetryGroup s2 else 14) = grp" using b(4,6) by (simp add: s2)
    have n: "(if s_ni s2 = [] then s2\<lparr>s_ni := ni'\<rparr> else s2) = s2" using b(5) by (simp add: s2)
    have pub: "rbind (deref (DH s2)) PublicKeyBytes = Inr pub" using b(1,3) by (simp add: s2)
    show ?thesis
      unfolding buildIKESAInitPacket_unfold Let_def g n sbind_eqI [of "prepareDH rnd' grp" s2 s2 "()", OF prep]
      by (simp add: sbind_gets pub hdr rmap_def split: sum.split prod.split)
  qed
  then have "\<forall>ni' rnd'. snd (buildIKESAInitPacket ni' rnd' tr (handleCookie c s1)) =
      rmap snd (Packet_Encode \<lparr>Header = initHeader s, Payloads = PayloadNotify (notify0 COOKIE c) # initPayloads tr grp pub s1\<rparr>)"
    unfolding s2_def [symmetric] pay [symmetric] by blast
  moreover have "Packet_Encode \<lparr>Header = initHeader s, Payloads = initPayloads tr grp pub s1\<rparr> = Inr (p, d1)"
    using b(10) unfolding hdr .
  ultimately show ?thesis by blast
qed

section \<open>The response that panics\<close>

lemma initNotify_safe: "DH s \<noteq> None \<Longrightarrow> snd (initNotify v acc s) \<noteq> Inl Panic"
proof -
  assume "DH s \<noteq> None"
  then obtain dh where dh: "DH s = Some dh" by blast
  show ?thesis
  proof (cases "ParseRedirectData (NotifyData v)")
    case (Inl a)
    with dh show ?thesis by (simp add: initNotify_def Let_def sbind_gets)
  next
    case (Inr b)
    with dh show ?thesis by (simp add: initNotify_def Let_def sbind_gets)
  qed
qed

lemma initRespLoop_safe: "DH s \<noteq> None \<Longrightarrow> snd (initRespLoop ps acc s) \<noteq> Inl Panic"
proof (induction ps acc arbitrary: s rule: initRespLoop.induct)
  case (5 v ps acc)
  show ?case unfolding initRespLoop.simps
  proof (rule sbind_no_panic)
    show "snd (initNotify v acc s) \<noteq> Inl Panic" by (rule initNotify_safe [OF "5.prems"])
    fix acc1 s1 assume 1: "initNotify v acc s = (s1, Inr acc1)"
    have "DH s1 \<noteq> None" using initNotify_state [OF 1] "5.prems" by auto
    then show "snd (initRespLoop ps acc1 s1) \<noteq> Inl Panic" by (rule "5.IH")
  qed
qed auto

lemma assign_safe: "r \<noteq> Inl Panic \<Longrightarrow> snd (assign upd msg r s) \<noteq> Inl Panic"
  by (cases r) (auto simp: assign_def)

lemma setAlgorithms_safe: "snd (setAlgorithms sel s) \<noteq> Inl Panic"
proof -
  have "GetPRF i \<noteq> Inl Panic" for i by (simp add: GetPRF_def)
  moreover have "GetEncrypterWithKeyLen i k \<noteq> Inl Panic" for i k
    by (simp add: GetEncrypterWithKeyLen_def Let_def)
  moreover have "GetIntegrityAlgorithm i \<noteq> Inl Panic" for i by (simp add: GetIntegrityAlgorithm_def)
  ultimately show ?thesis
    unfolding setAlgorithms_def
    by (cases "isAEADEncr (sel_encr sel)")
      (simp_all only: if_True if_False, (intro sbind_no_panic assign_safe; simp)+)
qed

definition empty_sa :: "IKEPacket \<Rightarrow> Session \<Rightarrow> bool" where
  "empty_sa packet s \<longleftrightarrow> ExchangeType (Header packet) = IKE_SA_INIT \<and>
     (\<exists>s1 acc sa. initRespLoop (Payloads packet) emptyInitAcc (s\<lparr>s_SPIr := SPIr (Header packet)\<rparr>) = (s1, Inr acc) \<and>
        acc_sa acc = Some sa \<and> acc_ke acc \<noteq> None \<and> acc_nonce acc \<noteq> None \<and> Proposals sa = [])"

lemma finish_safe:
  assumes dh: "DH s = Some dh" "PrivateKey dh = Some x" and sel: "0 \<le> sel_keyLenBits sel"
  shows "snd (sseq (setAlgorithms sel) (sseq (sharedSecret d) (sseq deriveKeys (modify u))) s) \<noteq> Inl Panic"
proof (cases "setAlgorithms sel s")
  case (Pair s1 r)
  show ?thesis
  proof (cases r)
    case (Inl f)
    with Pair setAlgorithms_safe [of sel s] show ?thesis by (simp add: sbind_def)
  next
    case (Inr u)
    then have P: "setAlgorithms sel s = (s1, Inr ())" using Pair by simp
    have s1: "session_algs s1" "DH s1 = Some dh" using setAlgorithms_Inr [OF P sel] dh by auto
    show ?thesis
    proof (cases "ComputeSharedSecret dh d")
      case (Inl f)
      then have "f \<noteq> Panic" using dh(2) by (auto simp: ComputeSharedSecret_def Let_def split: if_splits)
      with Inl s1 have "snd (sseq (sharedSecret d) (sseq deriveKeys (modify u')) s1) \<noteq> Inl Panic" for u'
        by (cases f) (auto simp: sharedSecret_def sbind_gets sbind_def)
      then show ?thesis unfolding sbind_eqI [of "setAlgorithms sel" s s1 "()", OF P] .
    next
      case (Inr r2)
      then obtain dh' g where g: "ComputeSharedSecret dh d = Inr (dh', g)" by (cases r2) auto
      then have sk: "SharedKey dh' = Some g" using dh(2) by (auto simp: ComputeSharedSecret_def Let_def split: if_splits)
      define s2 where "s2 = s1\<lparr>DH := Some dh'\<rparr>"
      have s2: "session_algs s2" "DH s2 = Some dh'" using s1 by (simp_all add: s2_def session_algs_def)
      then obtain p where p: "PRFAlg s2 = Some p" by (auto simp: session_algs_def)
      have "sharedSecret d s1 = (s2, Inr ())" using g s1 by (simp add: sharedSecret_def sbind_gets s2_def)
      moreover have "snd (sseq deriveKeys (modify u') s2) \<noteq> Inl Panic" for u'
        using GenerateIKESAKeys_cases [OF s2 sk p, of "s_nr s2"]
        by (auto simp: deriveKeys_def sbind_def split: sum.splits)
      ultimately show ?thesis unfolding sbind_eqI [of "setAlgorithms sel" s s1 "()", OF P] by (simp add: sbind_eqI)
    qed
  qed
qed

lemma handleIKESAInitResp_panic_iff:
  assumes dh: "DH s = Some dh" "PrivateKey dh = Some x"
  shows "snd (handleIKESAInitResp tr data s) = Inl Panic \<longleftrightarrow>
    DecodePacket data = Inl Panic \<or> (\<exists>packet. DecodePacket data = Inr packet \<and> empty_sa packet s)"
proof (cases "DecodePacket data")
  case (Inl f)
  then show ?thesis by (cases f) (auto simp: handleIKESAInitResp_def)
next
  case (Inr packet)
  show ?thesis
  proof (cases "ExchangeType (Header packet) = IKE_SA_INIT")
    case False
    with Inr show ?thesis by (simp add: handleIKESAInitResp_def empty_sa_def)
  next
    case True
    define s0 where "s0 = s\<lparr>s_SPIr := SPIr (Header packet)\<rparr>"
    obtain s1 r where loop: "initRespLoop (Payloads packet) emptyInitAcc s0 = (s1, r)" by fastforce
    show ?thesis
    proof (cases r)
      case (Inl f)
      have "f \<noteq> Panic" using initRespLoop_safe [of s0 "Payloads packet" emptyInitAcc] loop Inl dh by (simp add: s0_def)
      with Inl \<open>DecodePacket data = Inr packet\<close> True loop show ?thesis
        by (simp add: handleIKESAInitResp_def empty_sa_def s0_def [symmetric] sbind_def)
    next
      case (Inr acc)
      note run = \<open>DecodePacket data = Inr packet\<close> True loop Inr
      show ?thesis
      proof (cases "acc_sa acc = None \<or> acc_ke acc = None \<or> acc_nonce acc = None")
        case True
        with run show ?thesis
          by (auto simp: handleIKESAInitResp_def empty_sa_def s0_def [symmetric] sbind_eqI split: option.splits)
      next
        case False
        then obtain sa ke nonce where acc: "acc_sa acc = Some sa" "acc_ke acc = Some ke" "acc_nonce acc = Some nonce"
          by auto
        define s2 where "s2 = fst (natCheck tr acc (s1\<lparr>s_nr := NonceData nonce\<rparr>))"
        have s2: "natCheck tr acc (s1\<lparr>s_nr := NonceData nonce\<rparr>) = (s2, Inr ())"
          by (simp add: s2_def natCheck_def)
        have "DH s2 = Some dh"
          using initRespLoop_state [OF loop [unfolded Inr]] dh
          by (auto simp: s2_def natCheck_def s0_def Let_def split: prod.splits)
        from finish_safe [OF this dh(2) selection_keyLen]
        have "snd (sseq (setAlgorithms (selection (Transforms (hd (Proposals sa))))) (sseq (sharedSecret (KEData ke))
            (sseq deriveKeys (modify (\<lambda>s. s\<lparr>sendCookie := False\<rparr>)))) s2) \<noteq> Inl Panic" .
        with run acc s2 show ?thesis
          by (simp add: handleIKESAInitResp_def empty_sa_def s0_def [symmetric] sbind_eqI)
      qed
    qed
  qed
qed

end
