(* ===== verification/Swu_Auth_Correct.thy ===== *)
theory Swu_Auth_Correct
  imports Swu_Auth Swu_Init_Correct
begin

text \<open>
  What the IKE_AUTH methods guarantee: the AUTH value is the one of RFC 7296 over the identity that
  the SIM gives; an exchange that succeeds leaves a pair of child associations that a responder
  with the same keys can use; and no payload of type AUTH of the response is looked at.
\<close>

section \<open>The AUTH value\<close>

text \<open>RFC 7296, section 2.15, for the initiator: the octets of the ID payload's body are given.\<close>

definition auth_value :: "prf_alg \<Rightarrow> bytes \<Rightarrow> bytes \<Rightarrow> bytes \<Rightarrow> bytes \<Rightarrow> bytes \<Rightarrow> bytes" where
  "auth_value p key skpi msg1 nonceR idBody =
     prf_mac p (prf_mac p key keyPad) (msg1 @ nonceR @ prf_mac p skpi idBody)"

lemma buildInitiatorAuthPayload_Inr:
  "buildInitiatorAuthPayload key s = Inr a \<longleftrightarrow>
     (\<exists>p k. key \<noteq> [] \<and> PRFAlg s = Some p \<and> Keys s = Some k \<and> msgBuffer s \<noteq> [] \<and> s_nr s \<noteq> [] \<and>
        a = \<lparr>AuthMethod = AuthMethodSharedKey, AuthData = auth_value p key (SK_pi k) (msgBuffer s) (s_nr s)
          (ID_Encode \<lparr>IDType = ID_RFC822_ADDR, IDData = str_bytes (nai (imsi_or_cfg (s_cfg s)) (s_cfg s)),
             id_IsInitiator = True\<rparr>)\<rparr>)"
  by (cases "Keys s") (auto simp: buildInitiatorAuthPayload_def buildNAI_Some auth_value_def ID_Encode_def
      Let_def deref_def split: option.split if_splits)

lemma buildIKEAuthFinalPayloads_Inr:
  assumes "buildIKEAuthFinalPayloads s = Inr ps"
  obtains a where "buildInitiatorAuthPayload (MSK s) s = Inr a" "last ps = PayloadAuth a"
  using assms by (auto simp: buildIKEAuthFinalPayloads_def Let_def rbind_Inr_iff split: if_splits)

lemma buildIKEAuthInitPayloads_id:
  assumes "buildIKEAuthInitPayloads rnd s = (s', Inr ps)"
  shows "hd ps = PayloadID \<lparr>IDType = ID_RFC822_ADDR, IDData = str_bytes (idiName (s_cfg s)), id_IsInitiator = True\<rparr>"
    and "s_cfg s' = s_cfg s"
  using assms
  by (auto simp: buildIKEAuthInitPayloads_def sbind_Inr_iff ensureChildSPI_def idiName_def buildNAI_Some Let_def
      split: if_splits sum.splits)

section \<open>The final response\<close>

abbreviation (input) is_auth :: "Payload \<Rightarrow> bool" where
  "is_auth p \<equiv> (case p of PayloadAuth _ \<Rightarrow> True | _ \<Rightarrow> False)"

lemma finalRespLoop_filter: "finalRespLoop (filter (\<lambda>p. \<not> is_auth p) ps) acc = finalRespLoop ps acc"
  by (induction ps acc rule: finalRespLoop.induct) simp_all

lemma handleFinalPayloads_filter:
  "handleFinalPayloads (filter (\<lambda>p. \<not> is_auth p) ps) = handleFinalPayloads ps"
  by (simp only: handleFinalPayloads_def finalRespLoop_filter)

lemma preserves_triv [keeps]: "preserves P (\<lambda>s. (s, r))"
  by (simp add: preserves_def)

text \<open>Reading the payloads leaves what the keys are derived from.\<close>

definition same_base :: "Session \<Rightarrow> Session \<Rightarrow> bool" where
  "same_base s0 s \<longleftrightarrow> Keys s = Keys s0 \<and> PRFAlg s = PRFAlg s0 \<and> childSPI s = childSPI s0 \<and>
     s_ni s = s_ni s0 \<and> s_nr s = s_nr s0 \<and> sas s = sas s0 \<and> childDH s = childDH s0"

lemma saveTicket_keeps [keeps]: "preserves (same_base s0) (saveTicket d)"
  by (rule preservesI) (auto simp: saveTicket_def same_base_def split: option.split)

lemma finalNotify_keeps [keeps]: "preserves (same_base s0) (finalNotify p)"
  unfolding finalNotify_def Let_def
  by (intro keeps preserves_modify) (auto simp: same_base_def intro!: keeps split: sum.split)

lemma finalRespLoop_keeps [keeps]: "preserves (same_base s0) (finalRespLoop ps acc)"
  by (induction ps acc rule: finalRespLoop.induct) (auto intro!: keeps)

lemma same_base_refl [simp]: "same_base s s"
  by (simp add: same_base_def)

lemma childSeed_Inr:
  assumes "childSeed dh ke s = (s', Inr seed)"
  obtains g d' where "s' = s \<or> s' = s\<lparr>childDH := Some d'\<rparr>" "seed = s_ni s @ s_nr s @ g"
    "dh = 0 \<longrightarrow> g = []"
  using assms by (auto simp: childSeed_def split: if_splits option.splits sum.splits)

lemma applyConfig_same:
  "sas (applyConfig acc s) = sas s" "ChildSAOut (applyConfig acc s) = ChildSAOut s"
  "ChildSAIn (applyConfig acc s) = ChildSAIn s" "ChildSAsIn (applyConfig acc s) = ChildSAsIn s"
  "Keys (applyConfig acc s) = Keys s" "childSPI (applyConfig acc s) = childSPI s"
  by (auto simp: applyConfig_def Let_def split: option.split)

text \<open>The two associations that a success leaves, with the responder's two.\<close>

lemma handleFinalPayloads_pair:
  assumes "handleFinalPayloads ps s = (s', Inr ())" "Keys s = Some k" "PRFAlg s = Some p" "GetPRF j = Inr p"
  obtains ao ai g e integ n i rem m where
    "ChildSAOut s' = Some ao" "ChildSAIn s' = Some ai" "ChildSAsIn s' (childSPI s) = Some ai"
    "ao < length (sas s')" "ai < length (sas s')"
    "m = child_material p (SK_d k) (s_ni s @ s_nr s @ g) (2 * (n + i))" "length m = 2 * (n + i)"
    "sas s' ! ao = responder_in (childSPI s) rem e integ n i m"
    "sas s' ! ai = responder_out (childSPI s) rem e integ n i m"
proof -
  obtain s1 acc where loop: "finalRespLoop ps emptyFinalAcc s = (s1, Inr acc)"
    using assms(1) by (auto simp: handleFinalPayloads_def sbind_Inr_iff)
  note hd_step = sbind_eqI [of "finalRespLoop ps emptyFinalAcc" s s1 acc, OF loop]
  have base: "same_base s s1"
    using preservesD [OF finalRespLoop_keeps same_base_refl, of s ps emptyFinalAcc] loop by simp
  obtain sa where sa: "fa_sa acc = Some sa" "Proposals sa \<noteq> []"
    using assms(1) loop by (auto simp: handleFinalPayloads_def hd_step split: option.splits if_splits)
  define sel where "sel = selection (Transforms (hd (Proposals sa)))"
  define rem where "rem = get32 (take 4 (prop_SPI (hd (Proposals sa))))"
  define s2 where "s2 = (if sel_esn sel then s1\<lparr>childESN := True\<rparr> else s1)"
  have base2: "same_base s s2" using base by (simp add: s2_def same_base_def)
  obtain s3 seed e integ ck s4 where
    seed: "childSeed (sel_dh sel) (fa_ke acc) s2 = (s3, Inr seed)"
    and der: "deriveChildKeys sel seed s3 = Inr (e, integ, ck)"
    and ins: "installChild (childSPI s3) rem e integ ck s3 = (s4, Inr ())"
    and fin: "s' = applyConfig acc (s4\<lparr>childEncrID := sel_encr sel, childIntegID := sel_integ sel,
        childEncrKeyLenBits := sel_keyLenBits sel\<rparr>)"
    using assms(1) sa
    by (auto simp: handleFinalPayloads_def hd_step Let_def sel_def [symmetric] rem_def [symmetric]
        s2_def [symmetric] sbind_Inr_iff split: if_splits)
  obtain d' g where s3: "s3 = s2 \<or> s3 = s2\<lparr>childDH := Some d'\<rparr>" and g: "seed = s_ni s2 @ s_nr s2 @ g"
    using childSeed_Inr [OF seed] by metis
  have k3: "Keys s3 = Some k" "PRFAlg s3 = Some p" "childSPI s3 = childSPI s" "sas s3 = sas s"
    and seed': "seed = s_ni s @ s_nr s @ g"
    using s3 g base2 assms(2,3) by (auto simp: same_base_def)
  obtain n i m where m: "m = child_material p (SK_d k) seed (2 * (n + i))" "length m = 2 * (n + i)"
    "childSA rem (childSPI s) e integ (outEncKey ck) (outIntegKey ck) = responder_in (childSPI s) rem e integ n i m"
    "childSA (childSPI s) rem e integ (inEncKey ck) (inIntegKey ck) = responder_out (childSPI s) rem e integ n i m"
    by (rule deriveChildKeys_Inr [OF der _ k3(1,2) assms(4)]) (auto simp: sel_def selection_keyLen)
  note inst = installChild_state [OF ins]
  show thesis
    by (rule that [of "length (sas s)" "Suc (length (sas s))" m g n i rem e integ])
      (use m k3 seed' in \<open>simp_all add: fin inst applyConfig_same nth_append\<close>)
qed

text \<open>
  A session that holds the initiator's half of a pair of associations whose keys come from
  \<open>prf+(skd, seed)\<close>: the responder's half is the same two associations, with the directions exchanged.
\<close>

definition child_pair :: "prf_alg \<Rightarrow> bytes \<Rightarrow> bytes \<Rightarrow> u32 \<Rightarrow> Session \<Rightarrow> bool" where
  "child_pair p skd seed spi s \<longleftrightarrow> (\<exists>ao ai rem e integ n i m. ChildSAOut s = Some ao \<and> ChildSAIn s = Some ai \<and>
     ChildSAsIn s spi = Some ai \<and> ao < length (sas s) \<and> ai < length (sas s) \<and>
     m = child_material p skd seed (2 * (n + i)) \<and> length m = 2 * (n + i) \<and>
     sas s ! ao = responder_in spi rem e integ n i m \<and> sas s ! ai = responder_out spi rem e integ n i m)"

lemma handleFinalPayloads_child_pair:
  assumes "handleFinalPayloads ps s = (s', Inr ())" "Keys s = Some k" "PRFAlg s = Some p" "GetPRF j = Inr p"
  shows "\<exists>g. child_pair p (SK_d k) (s_ni s @ s_nr s @ g) (childSPI s) s'"
  by (rule handleFinalPayloads_pair [OF assms]) (unfold child_pair_def, blast)

text \<open>Traffic flows in both directions: each side opens what the other seals.\<close>

lemma child_pair_traffic:
  assumes "child_pair p skd seed spi s"
  obtains rem e integ n i m ao ai where "ChildSAOut s = Some ao" "ChildSAIn s = Some ai"
    "m = child_material p skd seed (2 * (n + i))"
    "\<And>iv d pkt. length iv = IVSize e \<Longrightarrow> snd (Encapsulate (Inr iv) d (sas s ! ao)) = Inr pkt \<Longrightarrow>
       Decapsulate pkt (responder_in spi rem e integ n i m) = Inr d"
    "\<And>iv d pkt. length iv = IVSize e \<Longrightarrow> snd (Encapsulate (Inr iv) d (responder_out spi rem e integ n i m)) = Inr pkt \<Longrightarrow>
       Decapsulate pkt (sas s ! ai) = Inr d"
proof -
  obtain ao ai rem e integ n i m where *: "ChildSAOut s = Some ao" "ChildSAIn s = Some ai"
    "m = child_material p skd seed (2 * (n + i))"
    "sas s ! ao = responder_in spi rem e integ n i m" "sas s ! ai = responder_out spi rem e integ n i m"
    using assms by (auto simp: child_pair_def)
  have e: "EncryptionAlg (responder_in spi rem e integ n i m) = e" "EncryptionAlg (responder_out spi rem e integ n i m) = e"
    by (simp_all add: responder_in_def responder_out_def)
  show thesis
  proof (rule that [OF *(1-3)])
    fix iv d pkt assume "length iv = IVSize e" "snd (Encapsulate (Inr iv) d (sas s ! ao)) = Inr pkt"
    then show "Decapsulate pkt (responder_in spi rem e integ n i m) = Inr d"
      using Decapsulate_Encapsulate [OF sa_peer_refl, of iv "responder_in spi rem e integ n i m" d pkt] * e by simp
  next
    fix iv d pkt assume "length iv = IVSize e" "snd (Encapsulate (Inr iv) d (responder_out spi rem e integ n i m)) = Inr pkt"
    then show "Decapsulate pkt (sas s ! ai) = Inr d"
      using Decapsulate_Encapsulate [OF sa_peer_refl, of iv "responder_out spi rem e integ n i m" d pkt] * e by simp
  qed
qed

section \<open>A derivation that succeeds\<close>

lemma deriveChildKeys_total:
  assumes "Keys s = Some k" "PRFAlg s = Some p" "GetPRF j = Inr p" "childAlgs sel = Inr (e, integ, int n, int i)"
    and "integ = None \<Longrightarrow> i = 0" "2 * (n + i) \<le> 254 * KeyLen p"
  shows "\<exists>ck. deriveChildKeys sel seed s = Inr (e, integ, ck)"
proof -
  define N where "N = 2 * (n + i)"
  have r: "PrfPlus p (SK_d k) seed (int N) = Inr (take N (prf_stream p (SK_d k) seed 254))"
    using PrfPlus_spec [OF assms(3), of "int N"] assms(6) [folded N_def] by simp
  have "length (take N (prf_stream p (SK_d k) seed 254)) = 2 * (n + i)"
    using length_PrfPlus [OF assms(3) r] by (simp only: of_nat_eq_iff N_def)
  then show ?thesis
    using splitChildKeys_ok [of "take N (prf_stream p (SK_d k) seed 254)" n i "integ = None"] assms(1,2,4,5) r
    by (simp add: deriveChildKeys_def N_def)
qed

end
