(* ===== verification/Swu_Rekey.thy ===== *)
theory Swu_Rekey
  imports Swu_Auth_Correct
begin

text \<open>
  Rekeying: CREATE_CHILD_SA for a child association (\<^verbatim>\<open>pkg/swu/state_rekey.go\<close>) and for the IKE
  association itself (\<^verbatim>\<open>pkg/swu/state_rekey_ike.go\<close>), as initiator and as responder, and the
  Delete messages of \<^verbatim>\<open>pkg/swu/informational.go\<close>. A request that waits for its response takes the
  response as an argument: \<open>ex_reply\<close> is what \<^verbatim>\<open>sendEncryptedWithRetry\<close> received, or its error.
  The methods run one at a time; a mutex that is held when they lock it stays held.
\<close>

section \<open>Requests that wait for a response\<close>

record Exchange =
  ex_iv :: "bytes result"
  ex_ivs :: "nat \<Rightarrow> bytes result"
  ex_spare :: bytes
  ex_reply :: "bytes result"

definition sendEncryptedWithRetry :: "Exchange \<Rightarrow> Payload list \<Rightarrow> byte \<Rightarrow> bytes action" where
  "sendEncryptedWithRetry x payloads exchangeType =
     sbind (sendEncrypted (ex_iv x) (ex_ivs x) (ex_spare x) payloads exchangeType) (\<lambda>(_, packets).
     sseq (modify (\<lambda>s. s\<lparr>outbox := outbox s @ packets\<rparr>)) (lift (ex_reply x)))"

section \<open>The mutex\<close>

definition lockRekey :: "unit action" where
  "lockRekey s = (if rekeyMu s then (s, Inl Hang) else (s\<lparr>rekeyMu := True\<rparr>, Inr ()))"

text \<open>A deferred unlock runs after a return, an error and a panic.\<close>

definition deferUnlock :: "'a action \<Rightarrow> 'a action" where
  "deferUnlock m s = (case m s of
     (s', Inl Hang) \<Rightarrow> (s', Inl Hang)
   | (s', r) \<Rightarrow> (s'\<lparr>rekeyMu := False\<rparr>, r))"

definition withRekeyMu :: "'a action \<Rightarrow> 'a action" where
  "withRekeyMu m = sseq lockRekey (deferUnlock m)"

text \<open>The cool-down of 30 seconds after the last rekeying.\<close>

definition coolingDown :: "int \<Rightarrow> Session \<Rightarrow> bool" where
  "coolingDown now s \<longleftrightarrow> (case lastRekeyTime s of None \<Rightarrow> False | Some t \<Rightarrow> now - t < 30 * 1000000000)"

section \<open>Delete messages\<close>

definition deleteSPIs :: "u32 list \<Rightarrow> EncryptedPayloadDelete" where
  "deleteSPIs spis = \<lparr>del_ProtocolID = ProtoESP, SPISize = 4, NumSPIs = of_nat (length spis),
     SPIs = concat (map put32 spis)\<rparr>"

definition deleteIKE :: EncryptedPayloadDelete where
  "deleteIKE = \<lparr>del_ProtocolID = ProtoIKE, SPISize = 0, NumSPIs = 0, SPIs = []\<rparr>"

definition sendDeleteIKE :: "bytes result \<Rightarrow> unit action" where
  "sendDeleteIKE rnd = sbind (encryptAndWrap rnd [PayloadDelete deleteIKE] INFORMATIONAL False) SendIKE_out"

definition sendDeleteChildSA :: "bytes result \<Rightarrow> u32 list \<Rightarrow> unit action" where
  "sendDeleteChildSA rnd spis =
     (if length spis = 0 then ret ()
      else sbind (encryptAndWrap rnd [PayloadDelete (deleteSPIs spis)] INFORMATIONAL False) SendIKE_out)"

text \<open>An error that is only logged; a panic is not.\<close>

definition logged :: "'a action \<Rightarrow> unit action" where
  "logged m s = (case m s of (s', Inl (Fail _)) \<Rightarrow> (s', Inr ()) | (s', Inl e) \<Rightarrow> (s', Inl e) | (s', Inr _) \<Rightarrow> (s', Inr ()))"

section \<open>Rekeying a child association\<close>

definition rekeyProposals :: "Config \<Rightarrow> bytes \<Rightarrow> Proposal list" where
  "rekeyProposals cfg newSPI =
     (let esn = (\<lambda>p. AddTransform (if EnableESN cfg then AddTransform p TransformTypeESN 1 0 else p)
            TransformTypeESN 0 0)
      in [esn (AddTransform (AddTransformWithKeyLen (NewProposal 1 ProtoESP newSPI) TransformTypeEncr ENCR_AES_CBC 128)
                 TransformTypeInteg AUTH_HMAC_SHA2_256_128 0),
          esn (AddTransformWithKeyLen (NewProposal 2 ProtoESP newSPI) TransformTypeEncr ENCR_AES_GCM_16 128)])"

definition rekeyPayloads :: "bytes \<Rightarrow> bytes \<Rightarrow> u32 \<Rightarrow> Session \<Rightarrow> Payload list" where
  "rekeyPayloads newNonce newSPI oldSPI s =
     (let ts = [NewTrafficSelectorIPV4 [0, 0, 0, 0] [255, 255, 255, 255] 0 65535];
          full = (length (s_tsi s) = 0 \<or> length (s_tsr s) = 0);
          tsi = (if full then ts else s_tsi s); tsr = (if full then ts else s_tsr s)
      in [PayloadSA \<lparr>Proposals = rekeyProposals (s_cfg s) newSPI\<rparr>, PayloadNonce \<lparr>NonceData = newNonce\<rparr>,
          PayloadNotify \<lparr>ntf_ProtocolID = ProtoESP, ntf_SPI = put32 oldSPI, NotifyType = REKEY_SA,
            NotifyData = [], OverrideType = 0\<rparr>,
          PayloadTS \<lparr>ts_IsInitiator = True, TrafficSelectors = tsi\<rparr>,
          PayloadTS \<lparr>ts_IsInitiator = False, TrafficSelectors = tsr\<rparr>])"

text \<open>What the loops over the payloads of a CREATE_CHILD_SA message collect.\<close>

record CreateAcc =
  ca_sa :: "EncryptedPayloadSA option"
  ca_nonce :: "bytes option"
  ca_spi :: u32
  ca_sel :: Selection

definition emptyCreateAcc :: CreateAcc where
  "emptyCreateAcc = \<lparr>ca_sa = None, ca_nonce = None, ca_spi = 0, ca_sel = selection []\<rparr>"

definition createTransform :: "Transform \<Rightarrow> Selection \<Rightarrow> Selection" where
  "createTransform t r =
     (if tr_Type t = TransformTypeEncr \<or> tr_Type t = TransformTypeInteg then selectTransform t r else r)"

definition createSA :: "EncryptedPayloadSA \<Rightarrow> CreateAcc \<Rightarrow> CreateAcc" where
  "createSA p acc =
     (case Proposals p of
        [] \<Rightarrow> acc\<lparr>ca_sa := Some p\<rparr>
      | prop # _ \<Rightarrow> acc\<lparr>ca_sa := Some p,
          ca_spi := (if 4 \<le> length (prop_SPI prop) then get32 (take 4 (prop_SPI prop)) else ca_spi acc),
          ca_sel := fold createTransform (Transforms prop) (ca_sel acc)\<rparr>)"

fun createRespLoop :: "Payload list \<Rightarrow> CreateAcc \<Rightarrow> CreateAcc result" where
  "createRespLoop [] acc = Inr acc"
| "createRespLoop (PayloadSA p # ps) acc = createRespLoop ps (createSA p acc)"
| "createRespLoop (PayloadNonce p # ps) acc = createRespLoop ps (acc\<lparr>ca_nonce := Some (NonceData p)\<rparr>)"
| "createRespLoop (PayloadNotify p # ps) acc =
     (if NotifyType p < 16384 then fail ''CREATE_CHILD_SA rejected'' else createRespLoop ps acc)"
| "createRespLoop (_ # ps) acc = createRespLoop ps acc"

definition setFirstPolicy :: "sa_ref option \<Rightarrow> Session \<Rightarrow> Session" where
  "setFirstPolicy r s = s\<lparr>childOutPolicies := (case childOutPolicies s of [] \<Rightarrow> [] | p # ps \<Rightarrow> p\<lparr>saOut := r\<rparr> # ps)\<rparr>"

definition rekeyPolicies :: "TrafficSelector list \<Rightarrow> Session \<Rightarrow> Session" where
  "rekeyPolicies tsr s =
     (if 0 < length (childOutPolicies s) then setFirstPolicy (ChildSAOut s) s
      else if 0 < length tsr then
        s\<lparr>childOutPolicies := childOutPolicies s @ [\<lparr>saOut = ChildSAOut s, pol_tsr = map Some tsr\<rparr>]\<rparr>
      else s)"

text \<open>A field of an association behind a pointer.\<close>

definition saField :: "(SecurityAssociation \<Rightarrow> 'a) \<Rightarrow> sa_ref option \<Rightarrow> Session \<Rightarrow> 'a result" where
  "saField f r s = rbind (deref r) (\<lambda>i. Inr (f (sas s ! i)))"

definition handleCreateChildPayloads ::
    "int \<Rightarrow> bytes result \<Rightarrow> Payload list \<Rightarrow> bytes \<Rightarrow> u32 \<Rightarrow> unit action" where
  "handleCreateChildPayloads now rnd payloads niNonce newSPI =
     sbind (lift (createRespLoop payloads emptyCreateAcc)) (\<lambda>acc.
     case (ca_sa acc, ca_nonce acc) of
       (Some _, Some respNonce) \<Rightarrow>
         if sel_encr (ca_sel acc) = 0 then throw ''no cipher selected''
         else
           sbind (gets (deriveChildKeys (ca_sel acc) (niNonce @ respNonce))) (\<lambda>(childEnc, integAlg, ck).
           sbind (gets (\<lambda>s. saField sa_SPI (ChildSAOut s) s)) (\<lambda>oldOutSPI.
           sbind (gets (\<lambda>s. saField sa_SPI (ChildSAIn s) s)) (\<lambda>oldInSPI.
           sseq (installChild newSPI (ca_spi acc) childEnc integAlg ck) (
           sseq (modify (\<lambda>s. rekeyPolicies (s_tsr s) s)) (
           sseq (modify (\<lambda>s. s\<lparr>lastRekeyTime := Some now\<rparr>)) (
           logged (sendDeleteChildSA rnd [oldOutSPI])))))))
     | _ \<Rightarrow> throw ''CREATE_CHILD_SA response lacks a payload'')"

definition handleCreateChildSAResp :: "int \<Rightarrow> bytes result \<Rightarrow> bytes \<Rightarrow> bytes \<Rightarrow> u32 \<Rightarrow> unit action" where
  "handleCreateChildSAResp now rnd data niNonce newSPI =
     sbind (decryptAndParse data) (\<lambda>(_, payloads). handleCreateChildPayloads now rnd payloads niNonce newSPI)"

text \<open>Times: at the start, and when the response is handled.\<close>

definition RekeyChildSA ::
    "int \<Rightarrow> int \<Rightarrow> bytes result \<Rightarrow> bytes result \<Rightarrow> Exchange \<Rightarrow> bytes result \<Rightarrow> unit action" where
  "RekeyChildSA now later nonce spi x rnd =
     withRekeyMu (
       sbind (gets Inr) (\<lambda>s.
       if ChildSAOut s = None then throw ''no active CHILD_SA''
       else if coolingDown now s then ret ()
       else
         sbind (lift nonce) (\<lambda>newNonce.
         sbind (lift spi) (\<lambda>newSPI.
         sbind (gets (\<lambda>s. saField sa_SPI (ChildSAOut s) s)) (\<lambda>oldSPI.
         sbind (\<lambda>s'. case sendEncryptedWithRetry x (rekeyPayloads newNonce newSPI oldSPI s) CREATE_CHILD_SA s' of
                  (s', r) \<Rightarrow> (s', relabel ''CREATE_CHILD_SA failed'' r)) (\<lambda>respData.
           handleCreateChildSAResp later rnd respData newNonce (get32 newSPI)))))))"

section \<open>Rekeying the IKE association\<close>

definition newKeyPair :: "nat result \<Rightarrow> u16 \<Rightarrow> DiffieHellman result" where
  "newKeyPair rnd grp =
     rbind (relabel ''creating DH failed'' (NewDiffieHellman grp)) (\<lambda>dh.
       relabel ''generating DH key failed'' (GenerateKey rnd dh))"

definition rekeyIKEProposal :: "bytes \<Rightarrow> Session \<Rightarrow> Proposal" where
  "rekeyIKEProposal newSPIi s =
     (let encrKeyLen = (if ikeEncrKeyLenBits s = 0 then 128 else ikeEncrKeyLenBits s);
          prfAlg = (if ikePRFID s = 0 then PRF_HMAC_SHA2_256 else ikePRFID s);
          dhAlg = (if ikeDHID s = 0 then MODP_2048_bit else ikeDHID s);
          prop = AddTransformWithKeyLen (NewProposal 1 ProtoIKE newSPIi) TransformTypeEncr (ikeEncrID s) encrKeyLen;
          prop = (if ikeIsAEAD s then prop else AddTransform prop TransformTypeInteg (ikeIntegID s) 0)
      in AddTransform (AddTransform prop TransformTypePRF prfAlg 0) TransformTypeDH dhAlg 0)"

record RekeyAcc =
  rk_spi :: u64
  rk_nonce :: bytes
  rk_ke :: bytes

fun rekeyIKELoop :: "Payload list \<Rightarrow> RekeyAcc \<Rightarrow> RekeyAcc result" where
  "rekeyIKELoop [] acc = Inr acc"
| "rekeyIKELoop (PayloadSA p # ps) acc =
     rekeyIKELoop ps (case Proposals p of
         prop # _ \<Rightarrow> if 8 \<le> length (prop_SPI prop) then acc\<lparr>rk_spi := get64 (take 8 (prop_SPI prop))\<rparr> else acc
       | [] \<Rightarrow> acc)"
| "rekeyIKELoop (PayloadNonce p # ps) acc = rekeyIKELoop ps (acc\<lparr>rk_nonce := NonceData p\<rparr>)"
| "rekeyIKELoop (PayloadKE p # ps) acc = rekeyIKELoop ps (acc\<lparr>rk_ke := KEData p\<rparr>)"
| "rekeyIKELoop (PayloadNotify p # ps) acc =
     (if NotifyType p < 16384 then fail ''IKE SA rekey rejected'' else rekeyIKELoop ps acc)"
| "rekeyIKELoop (_ # ps) acc = rekeyIKELoop ps acc"

text \<open>The switch to the new association; the message identifiers start again at 0.\<close>

definition switchIKE :: "int \<Rightarrow> u64 \<Rightarrow> u64 \<Rightarrow> IKESAKeys \<Rightarrow> DiffieHellman \<Rightarrow> Session \<Rightarrow> Session" where
  "switchIKE now newSPIi newSPIr newKeys newDH s =
     s\<lparr>s_SPIi := newSPIi, s_SPIr := newSPIr, Keys := Some newKeys, s_SequenceNumber := 0,
       DH := Some newDH, lastRekeyTime := Some now\<rparr>"

definition handleRekeyIKEPayloads ::
    "int \<Rightarrow> Exchange \<Rightarrow> Payload list \<Rightarrow> bytes \<Rightarrow> DiffieHellman \<Rightarrow> u64 \<Rightarrow> bytes \<Rightarrow> unit action" where
  "handleRekeyIKEPayloads now x payloads niNonce newDH newSPIi oldSKd =
     sbind (lift (rekeyIKELoop payloads \<lparr>rk_spi = 0, rk_nonce = [], rk_ke = []\<rparr>)) (\<lambda>acc.
     if rk_spi acc = 0 then throw ''no new SPIr''
     else if length (rk_nonce acc) = 0 then throw ''no Nonce''
     else if length (rk_ke acc) = 0 then throw ''no KE''
     else
       sbind (lift (relabel ''new DH failed'' (ComputeSharedSecret newDH (rk_ke acc)))) (\<lambda>(newDH, g).
       sbind (gets (\<lambda>s. relabel ''IKE SA rekey key derivation failed''
               (GenerateIKESARekeyKeys oldSKd g niNonce (rk_nonce acc) newSPIi (rk_spi acc) s))) (\<lambda>newKeys.
       sseq (logged (sendEncryptedWithRetry x [PayloadDelete deleteIKE] INFORMATIONAL)) (
       modify (switchIKE now newSPIi (rk_spi acc) newKeys newDH)))))"

definition handleRekeyIKESAResp ::
    "int \<Rightarrow> Exchange \<Rightarrow> bytes \<Rightarrow> bytes \<Rightarrow> DiffieHellman \<Rightarrow> u64 \<Rightarrow> bytes \<Rightarrow> unit action" where
  "handleRekeyIKESAResp now x data niNonce newDH newSPIi oldSKd =
     sbind (\<lambda>s. case decryptAndParse data s of (s', r) \<Rightarrow> (s', relabel ''IKE SA rekey response failed'' r))
       (\<lambda>(_, payloads). handleRekeyIKEPayloads now x payloads niNonce newDH newSPIi oldSKd)"

definition RekeyIKESA ::
    "int \<Rightarrow> int \<Rightarrow> bytes result \<Rightarrow> nat result \<Rightarrow> bytes result \<Rightarrow> Exchange \<Rightarrow> Exchange \<Rightarrow> unit action" where
  "RekeyIKESA now later nonce dhRnd spi x xDelete =
     withRekeyMu (
       sbind (gets Inr) (\<lambda>s.
       case Keys s of
         None \<Rightarrow> throw ''IKE SA not established''
       | Some k \<Rightarrow>
           if length (SK_d k) = 0 then throw ''IKE SA not established''
           else if coolingDown now s then ret ()
           else
             let dhGroup = (if ikeDHID s = 0 then MODP_2048_bit else ikeDHID s)
             in sbind (lift (relabel ''generating Nonce failed'' nonce)) (\<lambda>newNonce.
                sbind (lift (newKeyPair dhRnd dhGroup)) (\<lambda>newDH.
                sbind (lift (relabel ''generating SPIi failed'' spi)) (\<lambda>newSPIiBytes.
                sbind (lift (PublicKeyBytes newDH)) (\<lambda>pub.
                sbind (\<lambda>s'. case sendEncryptedWithRetry x
                          [PayloadSA \<lparr>Proposals = [rekeyIKEProposal newSPIiBytes s]\<rparr>,
                           PayloadNonce \<lparr>NonceData = newNonce\<rparr>,
                           PayloadKE \<lparr>DHGroup = dhGroup, KEData = pub\<rparr>] CREATE_CHILD_SA s' of
                        (s', r) \<Rightarrow> (s', relabel ''IKE SA rekey request failed'' r)) (\<lambda>respData.
                  handleRekeyIKESAResp later xDelete respData newNonce newDH (get64 newSPIiBytes) (SK_d k))))))))"

section \<open>Rekeying of the IKE association by the peer\<close>

record RekeyReq =
  rq_sa :: "EncryptedPayloadSA option"
  rq_spi :: u64
  rq_nonce :: bytes
  rq_ke :: bytes

fun rekeyReqLoop :: "Payload list \<Rightarrow> RekeyReq \<Rightarrow> RekeyReq" where
  "rekeyReqLoop [] acc = acc"
| "rekeyReqLoop (PayloadSA p # ps) acc =
     rekeyReqLoop ps (case Proposals p of
         prop # _ \<Rightarrow> if 8 \<le> length (prop_SPI prop)
             then acc\<lparr>rq_sa := Some p, rq_spi := get64 (take 8 (prop_SPI prop))\<rparr> else acc\<lparr>rq_sa := Some p\<rparr>
       | [] \<Rightarrow> acc\<lparr>rq_sa := Some p\<rparr>)"
| "rekeyReqLoop (PayloadNonce p # ps) acc = rekeyReqLoop ps (acc\<lparr>rq_nonce := NonceData p\<rparr>)"
| "rekeyReqLoop (PayloadKE p # ps) acc = rekeyReqLoop ps (acc\<lparr>rq_ke := KEData p\<rparr>)"
| "rekeyReqLoop (_ # ps) acc = rekeyReqLoop ps acc"

definition acceptProposal :: "Proposal \<Rightarrow> bytes \<Rightarrow> Proposal" where
  "acceptProposal proposal spi =
     fold (\<lambda>t p. AddTransform p (tr_Type t) (tr_ID t) 0) (Transforms proposal)
       (NewProposal (ProposalNum proposal) ProtoIKE spi)"

definition HandleRekeyIKESARequest ::
    "int \<Rightarrow> bytes result \<Rightarrow> nat result \<Rightarrow> bytes result \<Rightarrow> bytes result \<Rightarrow> u32 \<Rightarrow> Payload list \<Rightarrow> unit action" where
  "HandleRekeyIKESARequest now nonce dhRnd spi rnd msgID payloads =
     (let rq = rekeyReqLoop payloads \<lparr>rq_sa = None, rq_spi = 0, rq_nonce = [], rq_ke = []\<rparr>
      in case rq_sa rq of
           None \<Rightarrow> throw ''IKE SA rekey request lacks a payload''
         | Some reqSA \<Rightarrow>
             if length (rq_nonce rq) = 0 \<or> length (rq_ke rq) = 0 \<or> rq_spi rq = 0
             then throw ''IKE SA rekey request lacks a payload''
             else
               sbind (lift (relabel ''generating Nonce failed'' nonce)) (\<lambda>myNonce.
               sbind (lift (newKeyPair dhRnd 14)) (\<lambda>newDH.
               sbind (lift (relabel ''DH failed'' (ComputeSharedSecret newDH (rq_ke rq)))) (\<lambda>(newDH, g).
               sbind (lift (relabel ''generating SPIr failed'' spi)) (\<lambda>newSPIrBytes.
               sbind (lift (case Proposals reqSA of [] \<Rightarrow> Inl Panic | p # _ \<Rightarrow> Inr p)) (\<lambda>proposal.
               sbind (lift (PublicKeyBytes newDH)) (\<lambda>pub.
               sseq (\<lambda>s. case sendEncryptedResponseWithMsgID rnd
                        [PayloadSA \<lparr>Proposals = [acceptProposal proposal newSPIrBytes]\<rparr>,
                         PayloadNonce \<lparr>NonceData = myNonce\<rparr>,
                         PayloadKE \<lparr>DHGroup = MODP_2048_bit, KEData = pub\<rparr>] CREATE_CHILD_SA msgID s of
                       (s', r) \<Rightarrow> (s', relabel ''sending the rekey response failed'' r)) (
               sbind (gets (\<lambda>s. rbind (deref (Keys s)) (\<lambda>k. relabel ''new key derivation failed''
                       (GenerateIKESARekeyKeys (SK_d k) g (rq_nonce rq) myNonce (rq_spi rq) (get64 newSPIrBytes) s)))) (\<lambda>newKeys.
               sseq lockRekey (
               sseq (modify (switchIKE now (rq_spi rq) (get64 newSPIrBytes) newKeys newDH)) (
               modify (\<lambda>s. s\<lparr>rekeyMu := False\<rparr>))))))))))))"

end
