(* ===== verification/Swu_Control.thy ===== *)
theory Swu_Control
  imports Swu_Rekey Swu_Window
begin

text \<open>
  What the peer initiates (\<^verbatim>\<open>pkg/swu/ike_control.go\<close>): INFORMATIONAL requests, CREATE_CHILD_SA
  requests, and the dispatcher that takes every packet from the socket and hands responses to the
  window, to a waiting exchange, or to the pending map. Packets are taken one at a time; the
  goroutine of the fast path runs at once. Updates of the kernel's XFRM state are not modelled.
\<close>

section \<open>INFORMATIONAL\<close>

definition respond :: "bytes result \<Rightarrow> Payload list \<Rightarrow> u32 \<Rightarrow> unit action" where
  "respond rnd payloads msgID = sendEncryptedResponseWithMsgID rnd payloads INFORMATIONAL msgID"

text \<open>RFC 6311: the expected number only moves ours forward.\<close>

definition midSync :: "bytes result \<Rightarrow> u32 \<Rightarrow> bytes \<Rightarrow> unit action" where
  "midSync rnd msgID d =
     sseq (modify (\<lambda>s. if s_SequenceNumber s < get32 (slice d 8 12)
             then s\<lparr>s_SequenceNumber := get32 (slice d 8 12)\<rparr> else s)) (
     sbind (gets (\<lambda>s. Inr (put32 (s_SequenceNumber s) @ put32 (msgID + 1)))) (\<lambda>respData.
       respond rnd [PayloadNotify (notify0 IKEV2_MESSAGE_ID_SYNC respData)] msgID))"

definition cookie2s :: "Payload list \<Rightarrow> Payload list" where
  "cookie2s payloads = concat (map (\<lambda>p. case p of
      PayloadNotify n \<Rightarrow> if NotifyType n = COOKIE2 \<and> 0 < length (NotifyData n)
        then [PayloadNotify (notify0 COOKIE2 (NotifyData n))] else []
    | _ \<Rightarrow> []) payloads)"

fun spi_list :: "bytes \<Rightarrow> u32 list" where
  "spi_list (a # b # c # d # r) = get32 [a, b, c, d] # spi_list r"
| "spi_list _ = []"

definition childDelete :: "u32 \<Rightarrow> Session \<times> u32 list \<Rightarrow> Session \<times> u32 list" where
  "childDelete spi = (\<lambda>(s, deleted).
     let spiOf = (\<lambda>r. case r of None \<Rightarrow> None | Some i \<Rightarrow> Some (sa_SPI (sas s ! i)));
         deleted = (case (spiOf (ChildSAOut s), spiOf (ChildSAIn s)) of
             (Some out, Some inn) \<Rightarrow> if inn = spi then deleted @ [out] else deleted
           | _ \<Rightarrow> deleted);
         s = s\<lparr>ChildSAsIn := (ChildSAsIn s)(spi := None)\<rparr>
     in (if spiOf (ChildSAOut s) = Some spi then setFirstPolicy None (s\<lparr>ChildSAOut := None\<rparr>) else s, deleted))"

fun infoLoop :: "bytes result \<Rightarrow> u32 \<Rightarrow> Payload list \<Rightarrow> Payload list \<Rightarrow> unit action" where
  "infoLoop rnd msgID all [] = respond rnd [] msgID"
| "infoLoop rnd msgID all (PayloadNotify n # ps) =
     (let t = NotifyType n; d = NotifyData n; next = infoLoop rnd msgID all ps
      in if t = IKEV2_MESSAGE_ID_SYNC then (if length d < 12 then next else midSync rnd msgID d)
         else if t = UPDATE_SA_ADDRESSES then
           sbind (gets (\<lambda>s. Inr (mobikeSupported s))) (\<lambda>ok.
             if ok then respond rnd (cookie2s all) msgID else next)
         else if t = REDIRECT then
           (case ParseRedirectData d of
              Inl _ \<Rightarrow> next
            | Inr addr \<Rightarrow> sseq (emit (RedirectTo addr)) (sseq (emit SessionDown) next))
         else next)"
| "infoLoop rnd msgID all (PayloadDelete p # ps) =
     (if del_ProtocolID p = ProtoIKE then sseq (emit SessionDown) (infoLoop rnd msgID all ps)
      else if del_ProtocolID p \<noteq> ProtoESP \<or> SPISize p \<noteq> 4 then infoLoop rnd msgID all ps
      else sbind (\<lambda>s. let (s', deleted) = fold childDelete (spi_list (SPIs p)) (s, []) in (s', Inr deleted)) (\<lambda>deleted.
             if 0 < length deleted then respond rnd [PayloadDelete (deleteSPIs deleted)] msgID
             else infoLoop rnd msgID all ps))"
| "infoLoop rnd msgID all (_ # ps) = infoLoop rnd msgID all ps"

definition handleInformational :: "bytes result \<Rightarrow> u32 \<Rightarrow> Payload list \<Rightarrow> unit action" where
  "handleInformational rnd msgID payloads =
     (if length payloads = 0 then respond rnd [] msgID else infoLoop rnd msgID payloads payloads)"

definition handleIncomingInformational :: "bytes result \<Rightarrow> bytes \<Rightarrow> unit action" where
  "handleIncomingInformational rnd data =
     sbind (decryptAndParse data) (\<lambda>(msgID, payloads). handleInformational rnd msgID payloads)"

section \<open>CREATE_CHILD_SA\<close>

record PeerAcc =
  pa_sa :: "EncryptedPayloadSA option"
  pa_nonce :: bytes
  pa_spi :: u32
  pa_encr :: u16
  pa_proto :: byte
  pa_tsi :: "TrafficSelector list"
  pa_tsr :: "TrafficSelector list"

definition emptyPeerAcc :: PeerAcc where
  "emptyPeerAcc = \<lparr>pa_sa = None, pa_nonce = [], pa_spi = 0, pa_encr = 0, pa_proto = 0, pa_tsi = [], pa_tsr = []\<rparr>"

definition peerSA :: "EncryptedPayloadSA \<Rightarrow> PeerAcc \<Rightarrow> PeerAcc" where
  "peerSA p acc =
     (case Proposals p of
        [] \<Rightarrow> acc\<lparr>pa_sa := Some p\<rparr>
      | prop # _ \<Rightarrow> acc\<lparr>pa_sa := Some p, pa_proto := prop_ProtocolID prop,
          pa_spi := (if 4 \<le> length (prop_SPI prop) then get32 (take 4 (prop_SPI prop)) else pa_spi acc),
          pa_encr := fold (\<lambda>t e. if tr_Type t = TransformTypeEncr then tr_ID t else e) (Transforms prop) (pa_encr acc)\<rparr>)"

fun peerLoop :: "Payload list \<Rightarrow> PeerAcc \<Rightarrow> PeerAcc result" where
  "peerLoop [] acc = Inr acc"
| "peerLoop (PayloadSA p # ps) acc = peerLoop ps (peerSA p acc)"
| "peerLoop (PayloadNonce p # ps) acc = peerLoop ps (acc\<lparr>pa_nonce := NonceData p\<rparr>)"
| "peerLoop (PayloadTS p # ps) acc =
     peerLoop ps (if ts_IsInitiator p then acc\<lparr>pa_tsi := TrafficSelectors p\<rparr> else acc\<lparr>pa_tsr := TrafficSelectors p\<rparr>)"
| "peerLoop (PayloadNotify p # ps) acc =
     (if NotifyType p < 16384 then fail ''CREATE_CHILD_SA error notification'' else peerLoop ps acc)"
| "peerLoop (_ # ps) acc = peerLoop ps acc"

definition peerResponse :: "PeerAcc \<Rightarrow> bytes \<Rightarrow> bytes \<Rightarrow> Payload list" where
  "peerResponse acc nr spiBytes =
     [PayloadSA \<lparr>Proposals = [AddTransform (AddTransform (NewProposal 1 ProtoESP spiBytes)
        TransformTypeEncr (pa_encr acc) 128) TransformTypeESN 0 0]\<rparr>, PayloadNonce \<lparr>NonceData = nr\<rparr>] @
     (if 0 < length (pa_tsi acc) then [PayloadTS \<lparr>ts_IsInitiator = True, TrafficSelectors = pa_tsi acc\<rparr>] else []) @
     (if 0 < length (pa_tsr acc) then [PayloadTS \<lparr>ts_IsInitiator = False, TrafficSelectors = pa_tsr acc\<rparr>] else [])"

text \<open>Random inputs of a CREATE_CHILD_SA handler.\<close>

record Rands =
  rn_nonce :: "bytes result"
  rn_spi :: "bytes result"
  rn_dh :: "nat result"
  rn_iv :: "bytes result"

definition peerChildKeys :: "PeerAcc \<Rightarrow> bytes \<Rightarrow> Session \<Rightarrow> (Encrypter \<times> bytes \<times> bytes) result" where
  "peerChildKeys acc nr s =
     rbind (case pa_sa acc of None \<Rightarrow> Inl Panic | Some sa \<Rightarrow>
              (case Proposals sa of [] \<Rightarrow> Inl Panic | p # _ \<Rightarrow> Inr p)) (\<lambda>prop.
     rbind (relabel ''unsupported Child SA cipher''
        (GetEncrypterWithKeyLen (pa_encr acc) (sel_keyLenBits (selection (Transforms prop))))) (\<lambda>childEnc.
     let n = Crypto_Cipher.KeySize childEnc + 4
     in rbind (deref (Keys s)) (\<lambda>k.
        rbind (deref (PRFAlg s)) (\<lambda>p.
        rbind (PrfPlus p (SK_d k) (pa_nonce acc @ nr) (2 * n)) (\<lambda>keyMat.
        rbind (key_slice keyMat 0 n) (\<lambda>outKey.
        rbind (key_slice keyMat n n) (\<lambda>inKey.
          Inr (childEnc, outKey, inKey))))))))"

definition peerInstall :: "PeerAcc \<Rightarrow> u32 \<Rightarrow> Encrypter \<Rightarrow> bytes \<Rightarrow> bytes \<Rightarrow> unit action" where
  "peerInstall acc ourSPI childEnc outKey inKey =
     sbind (allocSA (childSA ourSPI (pa_spi acc) childEnc None outKey [])) (\<lambda>outSA.
     sbind (allocSA (childSA (pa_spi acc) ourSPI childEnc None inKey [])) (\<lambda>inSA.
       modify (\<lambda>s. let s = s\<lparr>ChildSAOut := Some outSA, ChildSAIn := Some inSA,
           ChildSAsIn := (ChildSAsIn s)(pa_spi acc \<mapsto> inSA)\<rparr>
         in if 0 < length (pa_tsr acc) then rekeyPolicies (pa_tsr acc) s else s)))"

definition handlePeerCreateChild :: "int \<Rightarrow> Rands \<Rightarrow> u32 \<Rightarrow> Payload list \<Rightarrow> unit action" where
  "handlePeerCreateChild now rn msgID payloads =
     sbind (lift (peerLoop payloads emptyPeerAcc)) (\<lambda>acc.
       if pa_proto acc = ProtoIKE then
         HandleRekeyIKESARequest now (rn_nonce rn) (rn_dh rn) (rn_spi rn) (rn_iv rn) msgID payloads
       else if pa_sa acc = None \<or> length (pa_nonce acc) = 0 \<or> pa_spi acc = 0 \<or> pa_encr acc = 0
       then throw ''CREATE_CHILD_SA request lacks a payload''
       else
         sbind (lift (rn_nonce rn)) (\<lambda>nr.
         sbind (lift (rn_spi rn)) (\<lambda>spiBytes.
         sbind (gets (peerChildKeys acc nr)) (\<lambda>(childEnc, outKey, inKey).
         sseq (peerInstall acc (get32 spiBytes) childEnc outKey inKey) (
         sseq (modify (\<lambda>s. s\<lparr>lastRekeyTime := Some now\<rparr>)) (
         sendEncryptedResponseWithMsgID (rn_iv rn) (peerResponse acc nr spiBytes) CREATE_CHILD_SA msgID))))))"

text \<open>\<^verbatim>\<open>TryLock\<close>: a collision with our own rekeying is answered, not waited for.\<close>

definition handleIncomingCreateChildSAParsed :: "int \<Rightarrow> Rands \<Rightarrow> u32 \<Rightarrow> Payload list \<Rightarrow> unit action" where
  "handleIncomingCreateChildSAParsed now rn msgID payloads s =
     (if rekeyMu s then
        sendEncryptedResponseWithMsgID (rn_iv rn) [PayloadNotify (notify0 TEMPORARY_FAILURE [])] CREATE_CHILD_SA msgID s
      else deferUnlock (handlePeerCreateChild now rn msgID payloads) (s\<lparr>rekeyMu := True\<rparr>))"

definition dispatchCreateChildSA :: "int \<Rightarrow> Rands \<Rightarrow> bytes \<Rightarrow> unit action" where
  "dispatchCreateChildSA now rn data =
     logged (sbind (decryptAndParse data) (\<lambda>(msgID, payloads). handleIncomingCreateChildSAParsed now rn msgID payloads))"

section \<open>The dispatcher\<close>

type_synonym ikeWaitKey = "byte \<times> u32"

text \<open>
  A waiter is a channel with room for one packet. The fields of the session that only the
  dispatcher and the waiting exchanges use are kept beside it.
\<close>

record Dispatcher =
  d_session :: Session
  taskMgr :: TaskManager
  ikeWaiters :: "ikeWaitKey \<rightharpoonup> bytes option"
  ikePending :: "ikeWaitKey \<rightharpoonup> bytes"
  ikeControlAlive :: bool
  lastInboundTime :: int

definition onSession :: "unit action \<Rightarrow> Dispatcher \<Rightarrow> Dispatcher result" where
  "onSession m d = (case logged m (d_session d) of
     (s, Inr _) \<Rightarrow> Inr (d\<lparr>d_session := s\<rparr>) | (s, Inl e) \<Rightarrow> Inl e)"

definition deliver :: "ikeWaitKey \<Rightarrow> bytes \<Rightarrow> Dispatcher \<Rightarrow> Dispatcher" where
  "deliver key data d =
     (case ikeWaiters d key of
        None \<Rightarrow> d\<lparr>ikePending := (ikePending d)(key \<mapsto> data)\<rparr>
      | Some None \<Rightarrow> d\<lparr>ikeWaiters := (ikeWaiters d)(key \<mapsto> Some data)\<rparr>
      | Some (Some _) \<Rightarrow> d)"

text \<open>The probe that the fast path answers without queueing.\<close>

definition fastProbe :: "IKEHeader \<Rightarrow> bool" where
  "fastProbe hdr \<longleftrightarrow> ExchangeType hdr = INFORMATIONAL \<and> NextPayload hdr = PT_SK \<and>
     Flags hdr AND FlagInitiator \<noteq> 0 \<and> hdr_Length hdr = 76"

definition answerProbe :: "bytes result \<Rightarrow> u32 \<Rightarrow> bytes \<Rightarrow> unit action" where
  "answerProbe rnd msgID raw =
     sbind (decryptAndParse raw) (\<lambda>(_, payloads).
       if length payloads = 0 then respond rnd [] msgID else handleIncomingInformational rnd raw)"

definition dispatchPacket :: "int \<Rightarrow> Rands \<Rightarrow> bytes \<Rightarrow> Dispatcher \<Rightarrow> Dispatcher result" where
  "dispatchPacket now rn data d =
     (let d = d\<lparr>lastInboundTime := now\<rparr>
      in case DecodeHeader data of
           Inl Panic \<Rightarrow> Inl Panic
         | Inl _ \<Rightarrow> Inr d
         | Inr hdr \<Rightarrow>
             if Flags hdr AND FlagResponse \<noteq> 0 then
               rbind (HandleResponse now (MessageID hdr) data (taskMgr d)) (\<lambda>(tm, handled).
                 let d = d\<lparr>taskMgr := tm\<rparr>
                 in Inr (if handled then d else deliver (ExchangeType hdr, MessageID hdr) data d))
             else if fastProbe hdr then onSession (answerProbe (rn_iv rn) (MessageID hdr) data) d
             else if \<not> ikeControlAlive d then Inr d
             else if ExchangeType hdr = INFORMATIONAL then onSession (handleIncomingInformational (rn_iv rn) data) d
             else if ExchangeType hdr = CREATE_CHILD_SA then onSession (dispatchCreateChildSA now rn data) d
             else Inr d)"

text \<open>An exchange that starts to wait takes a packet that came early, or leaves its channel.\<close>

definition startWaiting :: "ikeWaitKey \<Rightarrow> Dispatcher \<Rightarrow> Dispatcher \<times> bytes option" where
  "startWaiting key d =
     (case ikePending d key of
        Some early \<Rightarrow> (d\<lparr>ikePending := (ikePending d)(key := None)\<rparr>, Some early)
      | None \<Rightarrow> (d\<lparr>ikeWaiters := (ikeWaiters d)(key \<mapsto> None)\<rparr>, None))"

definition stopWaiting :: "ikeWaitKey \<Rightarrow> Dispatcher \<Rightarrow> Dispatcher \<times> bytes result" where
  "stopWaiting key d =
     (case ikeWaiters d key of
        Some (Some data) \<Rightarrow> (d\<lparr>ikeWaiters := (ikeWaiters d)(key := None)\<rparr>, Inr data)
      | _ \<Rightarrow> (d\<lparr>ikeWaiters := (ikeWaiters d)(key := None)\<rparr>, fail ''deadline exceeded''))"

end
