(* ===== verification/Swu_Control_Correct.thy ===== *)
theory Swu_Control_Correct
  imports Swu_Control
begin

text \<open>
  What rekeying and the handlers of the peer's requests guarantee, and where they do not do what
  the protocol asks for.
\<close>

section \<open>Rekeying as initiator\<close>

lemma fold_pres: "(\<And>a k. P k \<Longrightarrow> P (f a k)) \<Longrightarrow> P k \<Longrightarrow> P (fold f as k)"
  by (induction as arbitrary: k) auto

lemma createTransform_keyLen: "0 \<le> sel_keyLenBits r \<Longrightarrow> 0 \<le> sel_keyLenBits (fold createTransform ts r)"
  by (rule fold_pres [where P = "\<lambda>r. 0 \<le> sel_keyLenBits r"])
    (auto simp: createTransform_def selectTransform_def intro!: fold_pres [where P = "\<lambda>k. 0 \<le> k"])

lemma createRespLoop_keyLen:
  "createRespLoop ps acc = Inr acc' \<Longrightarrow> 0 \<le> sel_keyLenBits (ca_sel acc) \<Longrightarrow> 0 \<le> sel_keyLenBits (ca_sel acc')"
  by (induction ps acc rule: createRespLoop.induct)
    (auto simp: createSA_def createTransform_keyLen split: list.splits if_splits)

lemma createRespLoop_nonce:
  "createRespLoop ps acc = Inr acc' \<Longrightarrow>
     ca_nonce acc' = ca_nonce acc \<or> (\<exists>n. PayloadNonce n \<in> set ps \<and> ca_nonce acc' = Some (NonceData n))"
  by (induction ps acc rule: createRespLoop.induct) (auto simp: createSA_def split: list.splits if_splits)

text \<open>Sending changes the message identifier and the outbox only.\<close>

definition send_stable :: "(Session \<Rightarrow> bool) \<Rightarrow> bool" where
  "send_stable P \<longleftrightarrow> (\<forall>s n ob. P s \<longrightarrow> P (s\<lparr>s_SequenceNumber := n\<rparr>) \<and> P (s\<lparr>outbox := ob\<rparr>))"

lemma send_keeps:
  assumes "send_stable P"
  shows "preserves P (encryptAndWrap rnd ps t r)" "preserves P (SendIKE_out d)"
    "preserves P (sendEncryptedResponseWithMsgID rnd ps t m)" "preserves P (sendDeleteChildSA rnd spis)"
proof -
  show e: "preserves P (encryptAndWrap rnd ps t r)" for ps t r
    using assms by (auto simp: preserves_def encryptAndWrap_def send_stable_def)
  show o: "preserves P (SendIKE_out d)" for d
    using assms by (auto simp: preserves_def SendIKE_out_def send_stable_def)
  show "preserves P (sendEncryptedResponseWithMsgID rnd ps t m)"
    unfolding sendEncryptedResponseWithMsgID_def by (intro keeps o)
  show "preserves P (sendDeleteChildSA rnd spis)"
    unfolding sendDeleteChildSA_def by (intro keeps e o)
qed

lemma logged_keeps [keeps]: "preserves P m \<Longrightarrow> preserves P (logged m)"
  by (auto simp: preserves_def logged_def split: prod.split sum.split fault.split)

definition same_child :: "Session \<Rightarrow> Session \<Rightarrow> bool" where
  "same_child s0 s \<longleftrightarrow> sas s = sas s0 \<and> ChildSAOut s = ChildSAOut s0 \<and> ChildSAIn s = ChildSAIn s0 \<and>
     ChildSAsIn s = ChildSAsIn s0"

lemma same_child_send: "send_stable (same_child s0)"
  by (simp add: send_stable_def same_child_def)

lemma rekeyPolicies_same:
  "sas (rekeyPolicies tsr s) = sas s" "ChildSAOut (rekeyPolicies tsr s) = ChildSAOut s"
  "ChildSAIn (rekeyPolicies tsr s) = ChildSAIn s" "ChildSAsIn (rekeyPolicies tsr s) = ChildSAsIn s"
  by (simp_all add: rekeyPolicies_def setFirstPolicy_def)

lemma handleCreateChildPayloads_pair:
  assumes "handleCreateChildPayloads now rnd ps ni newSPI s = (s', Inr ())" "Keys s = Some k" "PRFAlg s = Some p"
    and "GetPRF j = Inr p"
  obtains ao ai nonce e integ n i rem m where "PayloadNonce nonce \<in> set ps"
    "ChildSAOut s' = Some ao" "ChildSAIn s' = Some ai" "ChildSAsIn s' newSPI = Some ai"
    "ao < length (sas s')" "ai < length (sas s')"
    "m = child_material p (SK_d k) (ni @ NonceData nonce) (2 * (n + i))" "length m = 2 * (n + i)"
    "sas s' ! ao = responder_in newSPI rem e integ n i m"
    "sas s' ! ai = responder_out newSPI rem e integ n i m"
proof -
  obtain acc respNonce where acc: "createRespLoop ps emptyCreateAcc = Inr acc" "ca_nonce acc = Some respNonce"
    using assms(1) by (auto simp: handleCreateChildPayloads_def sbind_Inr_iff split: option.splits)
  obtain nonce where nonce: "PayloadNonce nonce \<in> set ps" "respNonce = NonceData nonce"
    using createRespLoop_nonce [OF acc(1)] acc(2) by (auto simp: emptyCreateAcc_def)
  obtain e integ ck s4 oldSPI where
    der: "deriveChildKeys (ca_sel acc) (ni @ respNonce) s = Inr (e, integ, ck)"
    and ins: "installChild newSPI (ca_spi acc) e integ ck s = (s4, Inr ())"
    and fin: "s' = fst (logged (sendDeleteChildSA rnd [oldSPI])
        ((rekeyPolicies (s_tsr s4) s4)\<lparr>lastRekeyTime := Some now\<rparr>))"
    using assms(1) acc
    by (auto simp: handleCreateChildPayloads_def sbind_Inr_iff split: option.splits if_splits)
      (metis fst_conv)
  have "0 \<le> sel_keyLenBits (ca_sel acc)"
    using createRespLoop_keyLen [OF acc(1)] selection_keyLen by (simp add: emptyCreateAcc_def)
  then obtain n i m where m: "m = child_material p (SK_d k) (ni @ respNonce) (2 * (n + i))" "length m = 2 * (n + i)"
    "childSA (ca_spi acc) newSPI e integ (outEncKey ck) (outIntegKey ck) = responder_in newSPI (ca_spi acc) e integ n i m"
    "childSA newSPI (ca_spi acc) e integ (inEncKey ck) (inIntegKey ck) = responder_out newSPI (ca_spi acc) e integ n i m"
    by (rule deriveChildKeys_Inr [OF der _ assms(2-4)])
  note inst = installChild_state [OF ins]
  have "same_child (rekeyPolicies (s_tsr s4) s4) s'"
    unfolding fin by (rule preservesD [OF logged_keeps [OF send_keeps(4) [OF same_child_send]]])
      (simp add: same_child_def)
  then have s': "sas s' = sas s4" "ChildSAOut s' = ChildSAOut s4" "ChildSAIn s' = ChildSAIn s4"
    "ChildSAsIn s' = ChildSAsIn s4"
    by (simp_all add: same_child_def rekeyPolicies_same)
  show thesis
    by (rule that [OF nonce(1), of "length (sas s)" "Suc (length (sas s))" m n i "ca_spi acc" e integ])
      (use m nonce(2) in \<open>simp_all add: s' inst nth_append\<close>)
qed

lemma handleCreateChildPayloads_child_pair:
  assumes "handleCreateChildPayloads now rnd ps ni newSPI s = (s', Inr ())" "Keys s = Some k" "PRFAlg s = Some p"
    and "GetPRF j = Inr p"
  shows "\<exists>nonce. PayloadNonce nonce \<in> set ps \<and> child_pair p (SK_d k) (ni @ NonceData nonce) newSPI s'"
  by (rule handleCreateChildPayloads_pair [OF assms]) (unfold child_pair_def, blast)

text \<open>The keys of the new IKE association.\<close>

definition rekey_material :: "prf_alg \<Rightarrow> bytes \<Rightarrow> bytes \<Rightarrow> bytes \<Rightarrow> bytes \<Rightarrow> u64 \<Rightarrow> u64 \<Rightarrow> nat \<Rightarrow> bytes" where
  "rekey_material p skd g ni nr spii spir n =
     take n (prf_stream p (prf_mac p skd (g @ ni @ nr)) (ni @ nr @ put64 spii @ put64 spir) 254)"

lemma GenerateIKESARekeyKeys_Inr:
  assumes "session_algs s" "PRFAlg s = Some p" "GenerateIKESARekeyKeys skd g ni nr i r s = Inr k"
  shows "concat_keys k = rekey_material p skd g ni nr i r (length (concat_keys k))"
proof -
  obtain j pl il el where *: "GetPRF j = Inr p" "algs_ok s pl il el"
    using session_algs_lens [OF assms(1)] assms(2) by (metis option.inject)
  have ne: "skd \<noteq> []" "g \<noteq> []" using assms(3) by (auto simp: GenerateIKESARekeyKeys_def split: if_splits)
  have le: "pl * 3 + il * 2 + el * 2 \<le> 254 * KeyLen p"
  proof (rule ccontr)
    assume "\<not> ?thesis"
    moreover have n: "int pl * 3 + int il * 2 + int el * 2 = int (pl * 3 + il * 2 + el * 2)" by simp
    ultimately have "GenerateIKESARekeyKeys skd g ni nr i r s = fail ''PRF+ overflow: too many blocks''"
      using ne assms(2) * PrfPlus_spec [OF *(1), of "int (pl * 3 + il * 2 + el * 2)"]
      by (simp only: GenerateIKESARekeyKeys_def algs_ok_def deref_simps rbind_simps option.case Let_def prod.case n
          nat_int if_False length_0_conv)
    with assms(3) show False by simp
  qed
  obtain k' where k': "GenerateIKESARekeyKeys skd g ni nr i r s = Inr k'" "key_lengths k' pl il el"
    "concat_keys k' = take (pl * 3 + il * 2 + el * 2)
      (prf_stream p (prf_mac p skd (g @ ni @ nr)) (ni @ nr @ put64 i @ put64 r) 254)"
    using GenerateIKESARekeyKeys_spec [OF ne assms(2) * le] by blast
  moreover have "length (concat_keys k') = pl * 3 + il * 2 + el * 2"
    using k'(2) by (simp add: key_lengths_def concat_keys_def)
  ultimately show ?thesis using assms(3) unfolding rekey_material_def by (metis sum.inject(2))
qed

lemma rekeyIKELoop_origin:
  "rekeyIKELoop ps acc = Inr acc' \<Longrightarrow>
     (rk_ke acc' = rk_ke acc \<or> (\<exists>ke. PayloadKE ke \<in> set ps \<and> rk_ke acc' = KEData ke)) \<and>
     (rk_nonce acc' = rk_nonce acc \<or> (\<exists>n. PayloadNonce n \<in> set ps \<and> rk_nonce acc' = NonceData n))"
  by (induction ps acc rule: rekeyIKELoop.induct) (auto split: list.splits if_splits)

lemma handleRekeyIKEPayloads_keys:
  assumes ok: "handleRekeyIKEPayloads now x ps ni dh spi skd s = (s', Inr ())"
    and alg: "session_algs s" "PRFAlg s = Some p"
    and a: "dh_keypair grp xa dh" "PublicKeyBytes dh = Inr pa"
    and b: "dh_keypair grp y dhb" "PublicKeyBytes dhb = Inr pb" "ComputeSharedSecret dhb pa = Inr (dhb', gb)"
    and ke: "\<forall>ke. PayloadKE ke \<in> set ps \<longrightarrow> KEData ke = pb"
  obtains k nonce where "PayloadNonce nonce \<in> set ps" "Keys s' = Some k"
    "concat_keys k = rekey_material p skd gb ni (NonceData nonce) spi (s_SPIr s') (length (concat_keys k))"
    "s_SPIi s' = spi" "s_SequenceNumber s' = 0" "s_SPIr s' \<noteq> 0"
proof -
  obtain acc where acc: "rekeyIKELoop ps \<lparr>rk_spi = 0, rk_nonce = [], rk_ke = []\<rparr> = Inr acc"
    using ok by (auto simp: handleRekeyIKEPayloads_def sbind_Inr_iff)
  obtain dh' g k s2 where ne: "rk_spi acc \<noteq> 0" "rk_nonce acc \<noteq> []" "rk_ke acc \<noteq> []"
    and g: "ComputeSharedSecret dh (rk_ke acc) = Inr (dh', g)"
    and k: "GenerateIKESARekeyKeys skd g ni (rk_nonce acc) spi (rk_spi acc) s = Inr k"
    and s': "s' = switchIKE now spi (rk_spi acc) k dh' s2"
    using ok acc by (auto simp: handleRekeyIKEPayloads_def sbind_Inr_iff split: if_splits)
  have "rk_ke acc = pb" using rekeyIKELoop_origin [OF acc] ne(3) ke by auto
  then have "g = gb" using dh_agree [OF a(1) b(1) a(2) b(2)] g b(3) by simp
  moreover obtain nonce where "PayloadNonce nonce \<in> set ps" "rk_nonce acc = NonceData nonce"
    using rekeyIKELoop_origin [OF acc] ne(2) by auto
  ultimately show thesis
    using GenerateIKESARekeyKeys_Inr [OF alg k] ne(1) by (intro that) (simp_all add: s' switchIKE_def)
qed

section \<open>Rekeying of the IKE association by the peer\<close>

lemma stuck_lock: "(\<And>s. P s \<Longrightarrow> rekeyMu s) \<Longrightarrow> stuck P (sseq lockRekey m)"
  by (simp add: stuck_def sbind_def lockRekey_def)

lemma HandleRekeyIKESARequest_stuck:
  assumes "send_stable P" "\<And>s. P s \<Longrightarrow> rekeyMu s"
  shows "stuck P (HandleRekeyIKESARequest now nonce dhRnd spi rnd msgID ps)"
proof -
  have send: "preserves P (\<lambda>s. case sendEncryptedResponseWithMsgID rnd qs t m s of (s', r) \<Rightarrow> (s', relabel l r))"
    for qs t m l
    by (rule preservesI) (simp add: case_prod_unfold preservesD [OF send_keeps(3) [OF assms(1)]])
  show ?thesis
    unfolding HandleRekeyIKESARequest_def Let_def
    by (auto intro!: stuck_throw stuck_bind stuck_lock stuck_if keeps send assms(2) split: option.split)
qed

lemma handlePeer_IKE_stuck:
  assumes "peerLoop ps emptyPeerAcc = Inr acc" "pa_proto acc = ProtoIKE"
    and "send_stable P" "\<And>s. P s \<Longrightarrow> rekeyMu s"
  shows "stuck P (handlePeerCreateChild now rn msgID ps)"
proof -
  have "handlePeerCreateChild now rn msgID ps =
      HandleRekeyIKESARequest now (rn_nonce rn) (rn_dh rn) (rn_spi rn) (rn_iv rn) msgID ps"
    by (rule ext) (simp add: handlePeerCreateChild_def assms(1,2))
  then show ?thesis using HandleRekeyIKESARequest_stuck [OF assms(3,4)] by simp
qed

lemma peer_IKE_rekey_fails:
  assumes "peerLoop ps emptyPeerAcc = Inr acc" "pa_proto acc = ProtoIKE" "\<not> rekeyMu s"
    and run: "handleIncomingCreateChildSAParsed now rn msgID ps s = (s', r)"
  shows "r \<noteq> Inr ()" "Keys s' = Keys s" "s_SPIi s' = s_SPIi s" "s_SPIr s' = s_SPIr s"
    "r = Inl Hang \<Longrightarrow> rekeyMu s'"
proof -
  let ?P = "\<lambda>t. rekeyMu t \<and> Keys t = Keys s \<and> s_SPIi t = s_SPIi s \<and> s_SPIr t = s_SPIr s"
  have st: "stuck ?P (handlePeerCreateChild now rn msgID ps)"
    by (rule handlePeer_IKE_stuck [OF assms(1,2)]) (simp_all add: send_stable_def)
  obtain s1 r1 where h: "handlePeerCreateChild now rn msgID ps (s\<lparr>rekeyMu := True\<rparr>) = (s1, r1)"
    by (cases "handlePeerCreateChild now rn msgID ps (s\<lparr>rekeyMu := True\<rparr>)")
  have "?P s1 \<and> r1 \<noteq> Inr ()"
    using st [unfolded stuck_def, rule_format, of "s\<lparr>rekeyMu := True\<rparr>"] h by simp
  note h = h this
  from h show "r \<noteq> Inr ()" "Keys s' = Keys s" "s_SPIi s' = s_SPIi s" "s_SPIr s' = s_SPIr s"
    "r = Inl Hang \<Longrightarrow> rekeyMu s'"
    using run assms(3)
    by (auto simp: handleIncomingCreateChildSAParsed_def deferUnlock_def split: sum.splits fault.splits)
qed

section \<open>Rekeying of a child association by the peer\<close>

lemma handlePeerCreateChild_pair:
  assumes run: "handlePeerCreateChild now rn msgID ps s = (s', Inr ())"
    and acc: "peerLoop ps emptyPeerAcc = Inr acc" "pa_proto acc \<noteq> ProtoIKE"
    and alg: "Keys s = Some k" "PRFAlg s = Some p" "GetPRF j = Inr p"
  obtains nr spi e n m ao ai where "rn_nonce rn = Inr nr" "rn_spi rn = Inr spi"
    "ChildSAOut s' = Some ao" "ChildSAIn s' = Some ai" "ao < length (sas s')" "ai < length (sas s')"
    "m = child_material p (SK_d k) (pa_nonce acc @ nr) (2 * n)" "length m = 2 * n"
    "sas s' ! ao = responder_in (pa_spi acc) (get32 spi) e None n 0 m"
    "sas s' ! ai = responder_out (pa_spi acc) (get32 spi) e None n 0 m"
proof -
  obtain nr spi e outKey inKey s2 where r: "rn_nonce rn = Inr nr" "rn_spi rn = Inr spi"
    and keys: "peerChildKeys acc nr s = Inr (e, outKey, inKey)"
    and ins: "peerInstall acc (get32 spi) e outKey inKey s = (s2, Inr ())"
    and fin: "s' = fst (sendEncryptedResponseWithMsgID (rn_iv rn) (peerResponse acc nr spi) CREATE_CHILD_SA msgID
        (s2\<lparr>lastRekeyTime := Some now\<rparr>))"
    using run acc by (auto simp: handlePeerCreateChild_def sbind_Inr_iff split: if_splits)
  obtain pr :: Proposal and keyMat where kl: "GetEncrypterWithKeyLen (pa_encr acc) (sel_keyLenBits (selection (Transforms pr))) = Inr e"
    and pp: "PrfPlus p (SK_d k) (pa_nonce acc @ nr) (2 * (Crypto_Cipher.KeySize e + 4)) = Inr keyMat"
    and sl: "key_slice keyMat 0 (Crypto_Cipher.KeySize e + 4) = Inr outKey"
      "key_slice keyMat (Crypto_Cipher.KeySize e + 4) (Crypto_Cipher.KeySize e + 4) = Inr inKey"
    using keys alg(1,2) by (auto simp: peerChildKeys_def rbind_Inr_iff Let_def split: option.splits list.splits)
  have "0 \<le> Crypto_Cipher.KeySize e" using kl selection_keyLen [of "Transforms pr"]
    by (auto simp: GetEncrypterWithKeyLen_def KeySize_def Let_def split: if_splits)
  then obtain n where n: "Crypto_Cipher.KeySize e + 4 = int n" by (metis add_nonneg_nonneg nonneg_int_cases zero_le_numeral)
  have n2: "2 * (Crypto_Cipher.KeySize e + 4) = int (2 * n)" using n by simp
  have "int (length keyMat) = 2 * (Crypto_Cipher.KeySize e + 4)" by (rule length_PrfPlus [OF alg(3) pp])
  then have len: "length keyMat = 2 * n" using n2 by linarith
  have m: "keyMat = child_material p (SK_d k) (pa_nonce acc @ nr) (2 * n)"
  proof -
    define N where "N = 2 * n"
    have "PrfPlus p (SK_d k) (pa_nonce acc @ nr) (int N) = Inr keyMat" using pp unfolding n2 N_def .
    then have "keyMat = take N (prf_stream p (SK_d k) (pa_nonce acc @ nr) 254)"
      using PrfPlus_spec [OF alg(3), of "int N"] by (simp split: if_splits)
    then show ?thesis by (simp only: child_material_def N_def)
  qed
  have "outKey = take n keyMat \<and> inKey = take n (drop n keyMat)"
    using sl key_slice_at [of 0 0 "int n" n keyMat] key_slice_at [of "int n" n "int n" "n + n" keyMat] len
    by (auto simp: n slice_def)
  moreover have "same_child (s2\<lparr>lastRekeyTime := Some now\<rparr>) s'"
    unfolding fin by (rule preservesD [OF send_keeps(3) [OF same_child_send]]) (simp add: same_child_def)
  then have "sas s' = sas s2" "ChildSAOut s' = ChildSAOut s2" "ChildSAIn s' = ChildSAIn s2"
    by (simp_all add: same_child_def)
  moreover have "sas s2 = sas s @ [childSA (get32 spi) (pa_spi acc) e None outKey [],
      childSA (pa_spi acc) (get32 spi) e None inKey []]"
    "ChildSAOut s2 = Some (length (sas s))" "ChildSAIn s2 = Some (Suc (length (sas s)))"
    using ins by (auto simp: peerInstall_def allocSA_def sbind_def Let_def rekeyPolicies_same)
  ultimately show thesis
    by (intro that [OF r, of "length (sas s)" "Suc (length (sas s))" keyMat n e])
      (use len m in \<open>simp_all add: nth_append responder_in_def responder_out_def\<close>)
qed

section \<open>INFORMATIONAL requests\<close>

text \<open>One packet, the wrapped answer to the request, goes out.\<close>

definition answered :: "u32 \<Rightarrow> byte \<Rightarrow> Session \<Rightarrow> Session \<Rightarrow> bool" where
  "answered msgID t s s' \<longleftrightarrow> (\<exists>pkt rnd ps s1. outbox s' = outbox s @ [pkt] \<and>
     encryptAndWrapWithMsgID rnd ps t msgID True s1 = Inr pkt)"

lemma sendEncryptedResponse_answers:
  "sendEncryptedResponseWithMsgID rnd ps t msgID s = (s', Inr ()) \<Longrightarrow> answered msgID t s s'"
  by (auto simp: sendEncryptedResponseWithMsgID_def sbind_Inr_iff SendIKE_out_def answered_def) blast

lemma answered_outbox: "answered m t s1 s' \<Longrightarrow> outbox s1 = outbox s \<Longrightarrow> answered m t s s'"
  by (simp add: answered_def)

lemma outbox_childDelete: "outbox (fst (fold childDelete spis (s, ds))) = outbox s"
proof (induction spis arbitrary: s ds)
  case (Cons spi spis)
  have "outbox (fst (childDelete spi (s, ds))) = outbox s"
    by (simp add: childDelete_def Let_def setFirstPolicy_def)
  then show ?case using Cons [of "fst (childDelete spi (s, ds))" "snd (childDelete spi (s, ds))"] by simp
qed simp

lemma midSync_answers: "midSync rnd msgID d s = (s', Inr ()) \<Longrightarrow> answered msgID INFORMATIONAL s s'"
  unfolding midSync_def respond_def
  by (auto simp: sbind_Inr_iff dest!: sendEncryptedResponse_answers elim: answered_outbox)

lemma infoLoop_answers:
  "infoLoop rnd msgID all ps s = (s', Inr ()) \<Longrightarrow> answered msgID INFORMATIONAL s s'"
proof (induction rnd msgID all ps arbitrary: s rule: infoLoop.induct)
  case (1 rnd msgID all)
  then show ?case by (simp add: respond_def sendEncryptedResponse_answers)
next
  case (2 rnd msgID all n ps)
  have IH: "answered msgID INFORMATIONAL s s'"
    if "infoLoop rnd msgID all ps s1 = (s', Inr ())" "outbox s1 = outbox s" for s1
    using 2(1) that answered_outbox by blast
  have sent: "answered msgID INFORMATIONAL s s'" if "respond rnd qs msgID s = (s', Inr ())" for qs
    using that by (simp add: respond_def sendEncryptedResponse_answers)
  show ?case
    using 2(2) by (auto simp: Let_def sbind_gets emit_def midSync_answers split: if_splits sum.splits
        intro: IH sent)
next
  case (3 rnd msgID all p ps)
  let ?f = "fold childDelete (spi_list (SPIs p)) (s, [])"
  have f: "outbox (fst ?f) = outbox s" by (rule outbox_childDelete)
  show ?case
  proof (cases "del_ProtocolID p = ProtoIKE \<or> del_ProtocolID p \<noteq> ProtoESP \<or> SPISize p \<noteq> 4")
    case True
    have "answered msgID INFORMATIONAL (s\<lparr>events := events s @ [SessionDown]\<rparr>) s' \<Longrightarrow>
        answered msgID INFORMATIONAL s s'"
      by (simp add: answered_def)
    then show ?thesis using True 3(1,2,4) by (auto simp: emit_def split: if_splits)
  next
    case False
    then have "(if 0 < length (snd ?f) then respond rnd [PayloadDelete (deleteSPIs (snd ?f))] msgID
         else infoLoop rnd msgID all ps) (fst ?f) = (s', Inr ())"
      using 3(4) by (simp add: sbind_def case_prod_unfold Let_def)
    then have "answered msgID INFORMATIONAL (fst ?f) s'"
      using 3(3) False by (auto simp: respond_def sendEncryptedResponse_answers split: if_splits)
    then show ?thesis using answered_outbox f by blast
  qed
qed simp_all

lemma handleInformational_answers:
  "handleInformational rnd msgID ps s = (s', Inr ()) \<Longrightarrow> answered msgID INFORMATIONAL s s'"
  by (auto simp: handleInformational_def respond_def sendEncryptedResponse_answers infoLoop_answers split: if_splits)

text \<open>The message identifier only moves forward.\<close>

definition seq_from :: "u32 \<Rightarrow> Session \<Rightarrow> bool" where
  "seq_from n s \<longleftrightarrow> n \<le> s_SequenceNumber s"

lemma respond_seq: "preserves (seq_from n) (sendEncryptedResponseWithMsgID rnd ps t m)"
  unfolding sendEncryptedResponseWithMsgID_def SendIKE_out_def
  by (intro keeps preserves_modify) (simp add: seq_from_def)

lemma midSync_seq: "preserves (seq_from n) (midSync rnd msgID d)"
  unfolding midSync_def respond_def
  by (intro keeps preserves_modify respond_seq) (auto simp: seq_from_def)

lemma childDelete_seq: "s_SequenceNumber (fst (fold childDelete spis (s, ds))) = s_SequenceNumber s"
proof (induction spis arbitrary: s ds)
  case (Cons spi spis)
  have "s_SequenceNumber (fst (childDelete spi (s, ds))) = s_SequenceNumber s"
    by (simp add: childDelete_def Let_def setFirstPolicy_def)
  then show ?case using Cons [of "fst (childDelete spi (s, ds))" "snd (childDelete spi (s, ds))"] by simp
qed simp

lemma emit_seq: "preserves (seq_from n) (emit e)"
  unfolding emit_def by (rule preserves_modify) (simp add: seq_from_def)

lemma infoLoop_seq: "preserves (seq_from n) (infoLoop rnd msgID all ps)"
proof (induction rnd msgID all ps rule: infoLoop.induct)
  case (2 rnd msgID all nt ps)
  then show ?case
    by (auto simp: Let_def respond_def intro!: keeps respond_seq midSync_seq emit_seq split: sum.split)
next
  case (3 rnd msgID all p ps)
  have "preserves (seq_from n) (\<lambda>s. let (s', deleted) = fold childDelete (spi_list (SPIs p)) (s, []) in (s', Inr deleted))"
    by (rule preservesI) (simp add: case_prod_unfold childDelete_seq seq_from_def Let_def)
  with 3 show ?case by (auto simp: respond_def intro!: keeps respond_seq emit_seq)
qed (simp_all add: respond_def respond_seq)

lemma handleInformational_seq: "preserves (seq_from n) (handleInformational rnd msgID ps)"
  unfolding handleInformational_def respond_def by (intro keeps respond_seq infoLoop_seq)

text \<open>A Delete that names the peer's own, our outgoing, association.\<close>

lemma delete_outgoing:
  assumes "ChildSAOut s = Some o1" "ChildSAIn s = Some i1" "sa_SPI (sas s ! o1) = spi" "sa_SPI (sas s ! i1) \<noteq> spi"
    and run: "handleInformational rnd msgID [PayloadDelete (deleteSPIs [spi])] s = (s', Inr ())"
  shows "ChildSAOut s' = None" "ChildSAIn s' = Some i1" "ChildSAsIn s' = (ChildSAsIn s)(spi := None)"
    and "\<exists>s1. encryptAndWrapWithMsgID rnd [] INFORMATIONAL msgID True s1 = Inr (last (outbox s'))"
proof -
  have spis: "spi_list (put32 spi) = [spi]"
    using get32_put32(2) [of spi] by (simp add: put32_def)
  define s1 where "s1 = setFirstPolicy None (s\<lparr>ChildSAsIn := (ChildSAsIn s)(spi := None), ChildSAOut := None\<rparr>)"
  have cd: "childDelete spi (s, []) = (s1, [])"
    using assms(1-4) by (simp add: childDelete_def s1_def setFirstPolicy_def)
  have r: "respond rnd [] msgID s1 = (s', Inr ())"
    using run by (simp add: handleInformational_def deleteSPIs_def spis cd sbind_def)
  have "same_child s1 s'"
    using preservesD [OF send_keeps(3) [OF same_child_send, of s1 rnd "[]" INFORMATIONAL msgID], of s1] r
    by (simp add: respond_def same_child_def)
  then show "ChildSAOut s' = None" "ChildSAIn s' = Some i1" "ChildSAsIn s' = (ChildSAsIn s)(spi := None)"
    using assms(2) by (simp_all add: same_child_def s1_def setFirstPolicy_def)
  show "\<exists>s1. encryptAndWrapWithMsgID rnd [] INFORMATIONAL msgID True s1 = Inr (last (outbox s'))"
    using r by (auto simp: respond_def sendEncryptedResponseWithMsgID_def sbind_Inr_iff SendIKE_out_def)
qed

end
