(* ===== verification/Swu_Resume.thy ===== *)
theory Swu_Resume
  imports Swu_Rekey
begin

text \<open>
  Session resumption with a ticket (\<^verbatim>\<open>pkg/swu/state_resume.go\<close>, RFC 5723): the IKE_SESSION_RESUME
  exchange, the keys derived from the old \<open>SK_d\<close>, and the IKE_AUTH exchange without EAP.
\<close>

section \<open>The request\<close>

definition resumeHeader :: "Session \<Rightarrow> IKEHeader" where
  "resumeHeader s = \<lparr>SPIi = s_SPIi s, SPIr = 0, NextPayload = 0, Version = 0x20, ExchangeType = IKE_SESSION_RESUME,
     Flags = FlagInitiator, MessageID = 0, hdr_Length = 0\<rparr>"

definition resumePayloads :: "Session \<Rightarrow> Payload list" where
  "resumePayloads s =
     [PayloadNonce \<lparr>NonceData = s_ni s\<rparr>, PayloadNotify (notify0 TICKET_OPAQUE (resumeTicket s))]"

section \<open>The response\<close>

fun resumeRespLoop :: "Payload list \<Rightarrow> bytes option \<Rightarrow> bytes option result" where
  "resumeRespLoop [] nonce = Inr nonce"
| "resumeRespLoop (PayloadNonce v # ps) nonce = resumeRespLoop ps (Some (NonceData v))"
| "resumeRespLoop (PayloadNotify v # ps) nonce =
     (if NotifyType v = 14 then fail ''resumption refused: NO_PROPOSAL_CHOSEN''
      else if NotifyType v = TICKET_NACK then fail ''resumption refused: TICKET_NACK''
      else resumeRespLoop ps nonce)"
| "resumeRespLoop (_ # ps) nonce = resumeRespLoop ps nonce"

text \<open>
  The key derivation: the nonces stand in the order \<open>Nr | Ni\<close> in the input of \<open>prf+\<close>, and the
  label "Resumption" of RFC 5723 is missing from the seed. The lengths come from the algorithms of
  the session; the slices are those of \<^verbatim>\<open>GenerateIKESAKeys\<close>.
\<close>

definition resumeKeys :: "Session \<Rightarrow> IKESAKeys result" where
  "resumeKeys s =
     (case PRFAlg s of
        None \<Rightarrow> fail ''old PRF or SK_d missing''
      | Some p \<Rightarrow>
          if length (resumeOldSKd s) = 0 then fail ''old PRF or SK_d missing''
          else
            let skeyseed = prf_mac p (resumeOldSKd s) (s_ni s @ s_nr s)
            in rbind (deref (EncAlg s)) (\<lambda>e.
               rbind (deref (IntegAlg s)) (\<lambda>a.
                 let encKeyLen = Crypto_Cipher.KeySize e; prfKeyLen = int (KeyLen p);
                     integKeyLen = (if ikeIsAEAD s then 0 else int (integ_KeySize a));
                     saltLen = (if ikeIsAEAD s then 4 else 0);
                     keyMatLen = 3 * prfKeyLen + 2 * encKeyLen + 2 * integKeyLen + 2 * saltLen;
                     keySeed = s_nr s @ s_ni s @ put64 (s_SPIi s) @ put64 (s_SPIr s)
                 in rbind (relabel ''resumption key derivation failed'' (PrfPlus p skeyseed keySeed keyMatLen)) (\<lambda>keyMat.
                      splitKeys keyMat prfKeyLen integKeyLen (encKeyLen + saltLen)))))"

definition handleIkeSessionResumeResp :: "bytes \<Rightarrow> unit action" where
  "handleIkeSessionResumeResp data =
     sbind (lift (relabel ''decoding SESSION_RESUME failed'' (DecodePacket data))) (\<lambda>packet.
     if ExchangeType (Header packet) \<noteq> IKE_SESSION_RESUME then throw ''unexpected exchange type''
     else
       sseq (modify (\<lambda>s. s\<lparr>s_SPIr := SPIr (Header packet)\<rparr>)) (
       sbind (lift (resumeRespLoop (Payloads packet) None)) (\<lambda>nonce.
       case nonce of
         None \<Rightarrow> throw ''SESSION_RESUME response lacks a Nonce''
       | Some nr \<Rightarrow>
           sseq (modify (\<lambda>s. s\<lparr>s_nr := nr\<rparr>)) (
           sbind (gets resumeKeys) (\<lambda>k. modify (\<lambda>s. s\<lparr>Keys := Some k\<rparr>))))))"

section \<open>IKE_AUTH without EAP\<close>

definition has_EAP :: "Payload list \<Rightarrow> bool" where
  "has_EAP ps \<longleftrightarrow> (\<exists>p\<in>set ps. case p of PayloadEAP _ \<Rightarrow> True | _ \<Rightarrow> False)"

definition sendIkeAuthChildless :: "bytes result \<Rightarrow> Exchange \<Rightarrow> unit action" where
  "sendIkeAuthChildless spi x =
     sbind (buildIKEAuthInitPayloads spi) (\<lambda>payloads.
     sbind (sendEncryptedWithRetry x payloads IKE_AUTH) (\<lambda>respData.
     sbind (\<lambda>s. case decryptAndParse respData s of (s', r) \<Rightarrow> (s', relabel ''parsing resumed AUTH failed'' r))
       (\<lambda>(_, parsed).
         if has_EAP parsed then throw ''unexpected EAP payload in resumed auth''
         else handleIKEAuthFinalResp respData)))"

text \<open>\<open>ni32\<close> are 32 random bytes, \<open>reply\<close> the response or the window's time-out.\<close>

definition performSessionResumption ::
    "bytes \<Rightarrow> bytes result \<Rightarrow> bytes result \<Rightarrow> Exchange \<Rightarrow> unit action" where
  "performSessionResumption ni32 reply spi x =
     sseq (modify (\<lambda>s. if length (s_ni s) = 0 then s\<lparr>s_ni := ni32\<rparr> else s)) (
     sbind (gets (\<lambda>s. Packet_Encode \<lparr>Header = resumeHeader s, Payloads = resumePayloads s\<rparr>)) (\<lambda>(_, reqData).
     sseq (modify (\<lambda>s. s\<lparr>msgBuffer := reqData\<rparr>)) (
     sseq (SendIKE_out reqData) (
     sbind (lift reply) (\<lambda>respData.
     sseq (handleIkeSessionResumeResp respData) (
     sseq (modify (\<lambda>s. s\<lparr>s_SequenceNumber := 1\<rparr>)) (
     sendIkeAuthChildless spi x)))))))"

section \<open>What resumption derives and when it works\<close>

definition resume_material :: "prf_alg \<Rightarrow> bytes \<Rightarrow> bytes \<Rightarrow> bytes \<Rightarrow> u64 \<Rightarrow> u64 \<Rightarrow> nat \<Rightarrow> bytes" where
  "resume_material p skd ni nr spii spir n =
     take n (prf_stream p (prf_mac p skd (ni @ nr)) (nr @ ni @ put64 spii @ put64 spir) 254)"

lemma resumeKeys_Inr:
  assumes "resumeKeys s = Inr k" "PRFAlg s = Some p" "GetPRF j = Inr p" "EncAlg s = Some e"
    and "0 \<le> Crypto_Cipher.KeySize e"
  shows "concat_keys k =
    resume_material p (resumeOldSKd s) (s_ni s) (s_nr s) (s_SPIi s) (s_SPIr s) (length (concat_keys k))"
proof -
  obtain a keyMat where a: "IntegAlg s = Some a" and ne: "resumeOldSKd s \<noteq> []"
    using assms by (auto simp: resumeKeys_def rbind_Inr_iff Let_def deref_def split: option.splits if_splits)
  define i where "i = (if ikeIsAEAD s then 0 else integ_KeySize a)"
  define c where "c = nat (Crypto_Cipher.KeySize e + (if ikeIsAEAD s then 4 else 0))"
  define n where "n = KeyLen p * 3 + i * 2 + c * 2"
  have c: "int c = Crypto_Cipher.KeySize e + (if ikeIsAEAD s then 4 else 0)" using assms(5) by (simp add: c_def)
  have len: "3 * int (KeyLen p) + 2 * Crypto_Cipher.KeySize e + 2 * int i + 2 * (if ikeIsAEAD s then 4 else 0) = int n"
    unfolding n_def using c by simp
  obtain keyMat where m: "PrfPlus p (prf_mac p (resumeOldSKd s) (s_ni s @ s_nr s))
      (s_nr s @ s_ni s @ put64 (s_SPIi s) @ put64 (s_SPIr s)) (int n) = Inr keyMat"
    and k: "splitKeys keyMat (int (KeyLen p)) (int i) (int c) = Inr k"
    using assms(1,2,4) a ne len c by (auto simp: resumeKeys_def rbind_Inr_iff Let_def i_def split: if_splits)
  have l: "length keyMat = n" using length_PrfPlus [OF assms(3) m] by simp
  obtain k' where "splitKeys keyMat (int (KeyLen p)) (int i) (int c) = Inr k'" "concat_keys k' = keyMat"
    using splitKeys_ok [of keyMat "KeyLen p" i c] l by (auto simp: n_def)
  with k have "concat_keys k = keyMat" by simp
  moreover have "keyMat = take n (prf_stream p (prf_mac p (resumeOldSKd s) (s_ni s @ s_nr s))
      (s_nr s @ s_ni s @ put64 (s_SPIi s) @ put64 (s_SPIr s)) 254)"
    using m PrfPlus_spec [OF assms(3), of "int n"] by (simp split: if_splits)
  ultimately show ?thesis using l by (simp add: resume_material_def)
qed

text \<open>Without a PRF, which a new session does not have, the exchange cannot succeed.\<close>

lemma handleIkeSessionResumeResp_stuck: "stuck (\<lambda>s. PRFAlg s = None) (handleIkeSessionResumeResp data)"
  unfolding handleIkeSessionResumeResp_def
  by (auto intro!: stuck_bind keeps stuck_if stuck_throw stuck_bind_left [of _ "gets _"] stuck_gets preserves_modify
      simp: resumeKeys_def split: option.split)

lemma performSessionResumption_stuck:
  "stuck (\<lambda>s. PRFAlg s = None) (performSessionResumption ni32 reply spi x)"
  unfolding performSessionResumption_def SendIKE_out_def
  by (auto intro!: stuck_bind keeps preserves_modify stuck_bind_left [of _ "handleIkeSessionResumeResp _"]
      handleIkeSessionResumeResp_stuck)

end
