(* ===== verification/Swu_Connect.thy ===== *)
theory Swu_Connect
  imports Swu_Resume Swu_Eap Swu_Window
begin

text \<open>
  A connection (\<^verbatim>\<open>Connect\<close> and \<^verbatim>\<open>connectOnce\<close> of \<^verbatim>\<open>pkg/swu/session.go\<close>): the socket, the optional
  resumption, the loops over IKE_SA_INIT and over the EAP messages, the final AUTH, the end of the
  connection, and the outer loop that follows redirections and reauthenticates. What comes from
  outside (random numbers, responses or the window's time-outs) is an argument of each round. The
  loops may run as long as the gateway likes; they take fuel and without it the value is \<open>Hang\<close>.
\<close>

section \<open>IKE_SA_INIT\<close>

record InitTry =
  it_ni :: bytes
  it_dh :: "nat result"
  it_reply :: "bytes result"

definition maxCookieRetries :: nat where
  "maxCookieRetries = 5"

fun initLoop :: "nat \<Rightarrow> Transport \<Rightarrow> (nat \<Rightarrow> InitTry) \<Rightarrow> nat \<Rightarrow> nat \<Rightarrow> unit action" where
  "initLoop 0 tr env i cookieRetries = lift (Inl Hang)"
| "initLoop (Suc n) tr env i cookieRetries =
     sbind (buildIKESAInitPacket (it_ni (env i)) (it_dh (env i)) tr) (\<lambda>reqData.
     sseq (SendIKE_out reqData) (
     sbind (lift (it_reply (env i))) (\<lambda>respData s.
       case handleIKESAInitResp tr respData s of
         (s, Inr ()) \<Rightarrow> (s, Inr ())
       | (s, Inl (Fail ErrCookieRequired)) \<Rightarrow>
           let s = s\<lparr>cookieRetryCount := int (cookieRetries + 1)\<rparr>
           in if maxCookieRetries < cookieRetries + 1 then (s, fail ''IKE_SA_INIT: too many cookies'')
              else initLoop n tr env (i + 1) (cookieRetries + 1) s
       | (s, Inl (Fail ErrInvalidKEPayload)) \<Rightarrow> initLoop n tr env (i + 1) cookieRetries s
       | (s, Inl e) \<Rightarrow> (s, Inl e))))"

section \<open>IKE_AUTH\<close>

definition lastEAP :: "Payload list \<Rightarrow> EncryptedPayloadEAP option" where
  "lastEAP payloads = fold (\<lambda>p e. case p of PayloadEAP v \<Rightarrow> Some v | _ \<Rightarrow> e) payloads None"

record EapTry =
  et_order :: "byte list"
  et_x :: Exchange

fun eapLoop :: "nat \<Rightarrow> (nat \<Rightarrow> EapTry) \<Rightarrow> nat \<Rightarrow> bytes \<Rightarrow> bytes action" where
  "eapLoop 0 env i respData = lift (Inl Hang)"
| "eapLoop (Suc n) env i respData =
     sbind (decryptAndParse respData) (\<lambda>(msgID, payloads).
     case lastEAP payloads of
       Some e \<Rightarrow>
         sbind (handleEAP (et_order (env i)) (EAPMessage e)) (\<lambda>respEAP.
           if respEAP = [] then ret respData
           else sbind (sendEncryptedWithRetry (et_x (env i)) respEAP IKE_AUTH) (eapLoop n env (i + 1)))
     | None \<Rightarrow>
         sbind (gets (\<lambda>s. Inr (length (MSK s)))) (\<lambda>l.
           if l = 0 then throw ''no EAP payload in the response'' else ret respData))"

text \<open>An error of the first attempt, whatever it is, leads to the final AUTH.\<close>

definition finishAuth :: "Exchange \<Rightarrow> bytes \<Rightarrow> unit action" where
  "finishAuth x respData s =
     (case handleIKEAuthFinalResp respData s of
        (s, Inl (Fail _)) \<Rightarrow>
          sbind (gets (\<lambda>s. relabel ''failed to build final AUTH'' (buildIKEAuthFinalPayloads s))) (\<lambda>payloads.
          sbind (\<lambda>s. case sendEncryptedWithRetry x payloads IKE_AUTH s of
                   (s', r) \<Rightarrow> (s', relabel ''failed to send final AUTH'' r)) (\<lambda>respData.
            handleIKEAuthFinalResp respData)) s
      | r \<Rightarrow> r)"

record Handshake =
  hs_fuel :: nat
  hs_transport :: Transport
  hs_resume_ni :: bytes
  hs_resume_reply :: "bytes result"
  hs_resume_x :: Exchange
  hs_init :: "nat \<Rightarrow> InitTry"
  hs_keylog :: "unit result"
  hs_spi :: "bytes result"
  hs_auth :: Exchange
  hs_eap :: "nat \<Rightarrow> EapTry"
  hs_final :: Exchange

definition fullHandshake :: "Handshake \<Rightarrow> unit action" where
  "fullHandshake h =
     sseq (initLoop (hs_fuel h) (hs_transport h) (hs_init h) 0 0) (
     sseq (modify (\<lambda>s. s\<lparr>s_SequenceNumber := 1\<rparr>)) (
     sseq (lift (hs_keylog h)) (
     sbind (buildIKEAuthInitPayloads (hs_spi h)) (\<lambda>payloads.
     sbind (sendEncryptedWithRetry (hs_auth h) payloads IKE_AUTH) (\<lambda>respData.
     sbind (eapLoop (hs_fuel h) (hs_eap h) 0 respData) (\<lambda>respData.
       finishAuth (hs_final h) respData))))))"

text \<open>A failed resumption throws the ticket away and goes on with the full handshake.\<close>

definition handshake :: "Handshake \<Rightarrow> unit action" where
  "handshake h s =
     (if 0 < length (resumeTicket s) \<and> 0 < length (resumeOldSKd s) then
        (case performSessionResumption (hs_resume_ni h) (hs_resume_reply h) (hs_spi h) (hs_resume_x h) s of
           (s, Inl (Fail _)) \<Rightarrow>
             fullHandshake h (s\<lparr>resumeTicket := [], resumeOldSKd := [], events := events s @ [TicketUpdate [] []],
               s_SequenceNumber := 0\<rparr>)
         | r \<Rightarrow> r)
      else fullHandshake h s)"

section \<open>A connection\<close>

text \<open>
  \<open>rd_bind\<close> stands for the transport factory, if the user gave one, or for \<^verbatim>\<open>NewSocketManager\<close>;
  \<open>rd_dataplane\<close> for the set-up of the TUN or XFRM device. \<open>rd_reauth\<close> says what ended the
  connection: the signal to reauthenticate, or the end of the context.
\<close>

record Round =
  rd_factory :: bool
  rd_bind :: "string \<Rightarrow> string \<Rightarrow> unit result"
  rd_handshake :: Handshake
  rd_dataplane :: "unit result"
  rd_reauth :: bool
  rd_deleteIV :: "bytes result"

record Conn =
  cn_session :: Session
  cn_windows :: "TaskManager list"
  cn_ready :: nat
  cn_control :: bool
  cn_intervals :: "int \<times> int"
  cn_done :: bool

text \<open>The window of a connection.\<close>

definition connectWindow :: "Config \<Rightarrow> TaskManager" where
  "connectWindow cfg =
     NewTaskManager (Some (if 0 < IKERetryCount cfg then DefaultRetryConfig\<lparr>MaxRetries := IKERetryCount cfg\<rparr>
       else DefaultRetryConfig)) 5"

definition hostPort :: "string \<Rightarrow> u16 \<Rightarrow> string" where
  "hostPort h p = h @ '':'' @ itoa (unat p)"

definition openSocket :: "Round \<Rightarrow> Config \<Rightarrow> unit result" where
  "openSocket r cfg =
     (let remoteAddr = hostPort (EpDGAddr cfg) (if EpDGPort cfg = 0 then 500 else EpDGPort cfg);
          first = rd_bind r (hostPort (LocalAddr cfg) (cfg_LocalPort cfg)) remoteAddr
      in relabel ''failed to bind socket''
           (if rd_factory r then first
            else case first of
                   Inl (Fail _) \<Rightarrow> if cfg_LocalPort cfg \<noteq> 0 then rd_bind r (hostPort (LocalAddr cfg) 0) remoteAddr else first
                 | _ \<Rightarrow> first))"

definition setupPlane :: "Round \<Rightarrow> Config \<Rightarrow> unit result" where
  "setupPlane r cfg =
     (if \<not> EnableDriver cfg \<or> DataplaneMode cfg = ''netstack'' then Inr () else rd_dataplane r)"

text \<open>
  The intervals of the two rekeying timers in seconds; the product with the constant 0.8 or 0.875
  in floating point, truncated, is the quotient.
\<close>

definition rekeyIntervals :: "u32 \<Rightarrow> int \<times> int" where
  "rekeyIntervals lifetime =
     (if 0 < lifetime then (uint lifetime * 4 div 5, uint lifetime * 7 div 8) else (1500, 1800))"

text \<open>Closing the channel \<^verbatim>\<open>done\<close> a second time panics.\<close>

definition endConnection :: "Round \<Rightarrow> Conn \<Rightarrow> Conn \<times> unit result" where
  "endConnection r c =
     (case logged (sendDeleteIKE (rd_deleteIV r)) (cn_session c) of
        (s, Inl e) \<Rightarrow> (c\<lparr>cn_session := s\<rparr>, Inl e)
      | (s, Inr _) \<Rightarrow>
          let c = c\<lparr>cn_session := s\<rparr>
          in if cn_done c then (c, Inl Panic)
             else (c\<lparr>cn_done := True\<rparr>, Inl (Fail (if rd_reauth r then ErrReauth else ErrCanceled))))"

definition connectOnce :: "Round \<Rightarrow> Conn \<Rightarrow> Conn \<times> unit result" where
  "connectOnce r c =
     (let c = c\<lparr>cn_windows := cn_windows c @ [connectWindow (s_cfg (cn_session c))]\<rparr>
      in case openSocket r (s_cfg (cn_session c)) of
           Inl e \<Rightarrow> (c, Inl e)
         | Inr _ \<Rightarrow>
             (case handshake (rd_handshake r) (cn_session c) of
                (s, Inl e) \<Rightarrow> (c\<lparr>cn_session := s\<rparr>, Inl e)
              | (s, Inr _) \<Rightarrow>
                  let c = c\<lparr>cn_session := s\<rparr>
                  in case setupPlane r (s_cfg s) of
                       Inl e \<Rightarrow> (c, Inl e)
                     | Inr _ \<Rightarrow>
                         endConnection r (c\<lparr>cn_ready := (if EnableDriver (s_cfg s) then cn_ready c + 1 else cn_ready c),
                           cn_control := True, cn_intervals := rekeyIntervals (authLifetime s)\<rparr>)))"

definition maxRedirects :: nat where
  "maxRedirects = 3"

definition redirectTo :: "string \<Rightarrow> Conn \<Rightarrow> Conn" where
  "redirectTo addr c = c\<lparr>cn_session := (cn_session c)\<lparr>s_cfg := (s_cfg (cn_session c))\<lparr>EpDGAddr := addr\<rparr>\<rparr>\<rparr>"

fun Connect :: "nat \<Rightarrow> (nat \<Rightarrow> Round) \<Rightarrow> nat \<Rightarrow> nat \<Rightarrow> Conn \<Rightarrow> Conn \<times> unit result" where
  "Connect 0 env i redirectCount c = (c, Inl Hang)"
| "Connect (Suc n) env i redirectCount c =
     (case connectOnce (env i) c of
        (c, Inl (Fail ErrReauth)) \<Rightarrow> Connect n env (i + 1) 0 c
      | (c, Inl (Fail (RedirectError addr))) \<Rightarrow>
          if maxRedirects \<le> redirectCount then (c, fail ''exceeded max redirects'')
          else Connect n env (i + 1) (redirectCount + 1) (redirectTo addr c)
      | r \<Rightarrow> r)"

end
