(* ===== verification/Swu_Connect_Correct.thy ===== *)
theory Swu_Connect_Correct
  imports Swu_Connect Swu_Init_Correct
begin

text \<open>
  What a connection promises and what it does not: resumption of a new session cannot succeed, the
  cookies of IKE_SA_INIT are bounded and its key exchange retries are not, and a connection that is
  ended a second time panics.
\<close>

section \<open>Building the request again\<close>

definition dh_ready :: "Session \<Rightarrow> bool" where
  "dh_ready s \<longleftrightarrow> (\<forall>dh. DH s = Some dh \<longrightarrow> (\<exists>pb. PublicKeyBytes dh = Inr pb))"

lemma encode_init_total:
  "\<exists>b. encode_payloads (initPayloads tr g pub s) = Inr b"
  by (auto simp: initPayloads_def cookieNotify_def Let_def split: prod.split)

lemma prepareDH_ready:
  assumes "dh_ready s" "g = 2 \<or> g = 14"
  shows "\<exists>dh pb. prepareDH (Inr x) g s = (s\<lparr>DH := Some dh\<rparr>, Inr ()) \<and> PublicKeyBytes dh = Inr pb"
proof (cases "case DH s of None \<Rightarrow> True | Some dh \<Rightarrow> Group dh \<noteq> g")
  case True
  obtain dh0 where dh0: "NewDiffieHellman g = Inr dh0" using assms(2) by (auto simp: NewDiffieHellman_def Let_def)
  obtain dh where dh: "GenerateKey (Inr x) dh0 = Inr dh" by (simp add: GenerateKey_def)
  then have "dh_keypair g x dh" using dh0 by (auto simp: dh_keypair_def)
  then obtain pb where "PublicKeyBytes dh = Inr pb" by (rule PublicKeyBytes_ok)
  with True dh0 dh show ?thesis by (auto simp: prepareDH_def)
next
  case False
  then obtain dh where "DH s = Some dh" "Group dh = g" by (auto split: option.splits)
  moreover from this assms(1) obtain pb where "PublicKeyBytes dh = Inr pb" by (auto simp: dh_ready_def)
  moreover have "s = s\<lparr>DH := Some dh\<rparr>" using calculation(1) by simp
  moreover have "prepareDH (Inr x) g s = (s, Inr ())" using False by (simp add: prepareDH_def)
  ultimately show ?thesis by metis
qed

lemma buildIKESAInitPacket_again:
  assumes "dh_ready s" "keRetryGroup s \<in> {0, 2, 14}"
  obtains d s1 where "buildIKESAInitPacket ni (Inr x) tr s = (s1, Inr d)" "outbox s1 = outbox s" "DH s1 \<noteq> None"
    "dh_ready s1"
proof -
  define sa where "sa = (if s_ni s = [] then s\<lparr>s_ni := ni\<rparr> else s)"
  define grp where "grp = (if 0 < keRetryGroup s then keRetryGroup s else 14)"
  have "dh_ready sa" using assms(1) by (simp add: sa_def dh_ready_def)
  moreover have "grp = 2 \<or> grp = 14" using assms(2) by (auto simp: grp_def)
  ultimately obtain dh pb where dh: "prepareDH (Inr x) grp sa = (sa\<lparr>DH := Some dh\<rparr>, Inr ())" "PublicKeyBytes dh = Inr pb"
    using prepareDH_ready by blast
  obtain b where b: "encode_payloads (initPayloads tr grp pb (sa\<lparr>DH := Some dh\<rparr>)) = Inr b" using encode_init_total by blast
  define s1 d where "s1 = fst (buildIKESAInitPacket ni (Inr x) tr s)" and "d = snd (buildIKESAInitPacket ni (Inr x) tr s)"
  have run: "\<exists>d. buildIKESAInitPacket ni (Inr x) tr s = (sa\<lparr>DH := Some dh, msgBuffer := d\<rparr>, Inr d)"
    unfolding buildIKESAInitPacket_unfold Let_def sa_def [symmetric] grp_def [symmetric]
    using dh b by (simp add: sbind_def Packet_Encode_def Let_def)
  then obtain d where d: "buildIKESAInitPacket ni (Inr x) tr s = (sa\<lparr>DH := Some dh, msgBuffer := d\<rparr>, Inr d)" ..
  show thesis by (rule that [OF d]) (use dh in \<open>auto simp: sa_def dh_ready_def\<close>)
qed

section \<open>A gateway that always asks for another group\<close>

definition invalid_ke :: "bytes \<Rightarrow> bool" where
  "invalid_ke d \<longleftrightarrow> (\<exists>packet v. DecodePacket d = Inr packet \<and> ExchangeType (Header packet) = IKE_SA_INIT \<and>
     Payloads packet = [PayloadNotify v] \<and> NotifyType v = INVALID_KE_PAYLOAD \<and> NotifyData v \<in> {[0, 2], [0, 14]})"

lemma handle_invalid_ke:
  assumes "invalid_ke d" "DH s \<noteq> None"
  obtains s' where "handleIKESAInitResp tr d s = (s', Inl (Fail ErrInvalidKEPayload))" "outbox s' = outbox s"
    "DH s' = DH s" "keRetryGroup s' \<in> {2, 14}"
proof -
  obtain packet v where v: "DecodePacket d = Inr packet" "ExchangeType (Header packet) = IKE_SA_INIT"
    "Payloads packet = [PayloadNotify v]" "NotifyType v = INVALID_KE_PAYLOAD" "NotifyData v \<in> {[0, 2], [0, 14]}"
    using assms(1) by (auto simp: invalid_ke_def)
  obtain dh where "DH s = Some dh" using assms(2) by blast
  with v have "handleIKESAInitResp tr d s = (s\<lparr>s_SPIr := SPIr (Header packet), keRetryGroup := get16 (take 2 (NotifyData v))\<rparr>,
      Inl (Fail ErrInvalidKEPayload))"
    by (auto simp: handleIKESAInitResp_def initNotify_def Let_def sbind_gets sbind_def)
  then show thesis by (rule that) (use v(5) in \<open>auto simp: get16_def be_step_def\<close>)
qed

lemma initLoop_invalid_ke:
  assumes env: "\<And>j. \<exists>x d. it_dh (env j) = Inr x \<and> it_reply (env j) = Inr d \<and> invalid_ke d"
  shows "dh_ready s \<Longrightarrow> keRetryGroup s \<in> {0, 2, 14} \<Longrightarrow>
    snd (initLoop n tr env i c s) = Inl Hang \<and> length (outbox (fst (initLoop n tr env i c s))) = length (outbox s) + n"
proof (induction n arbitrary: i s)
  case (Suc n)
  obtain x d where e: "it_dh (env i) = Inr x" "it_reply (env i) = Inr d" "invalid_ke d" using env by blast
  obtain r s1 where b: "buildIKESAInitPacket (it_ni (env i)) (Inr x) tr s = (s1, Inr r)" "outbox s1 = outbox s"
    "DH s1 \<noteq> None" "dh_ready s1"
    using buildIKESAInitPacket_again [OF Suc.prems] by metis
  define s2 where "s2 = s1\<lparr>outbox := outbox s1 @ [r]\<rparr>"
  have s2: "DH s2 = DH s1" "outbox s2 = outbox s @ [r]" using b(2) by (simp_all add: s2_def)
  obtain s3 where h: "handleIKESAInitResp tr d s2 = (s3, Inl (Fail ErrInvalidKEPayload))" "outbox s3 = outbox s2"
    "DH s3 = DH s2" "keRetryGroup s3 \<in> {2, 14}"
    using handle_invalid_ke [OF e(3), of s2 tr] b(3) s2(1) by auto
  have "initLoop (Suc n) tr env i c s = initLoop n tr env (i + 1) c s3"
    using h(1) by (simp add: e sbind_eqI [of "buildIKESAInitPacket (it_ni (env i)) (Inr x) tr" s s1 r, OF b(1)] SendIKE_out_def s2_def [symmetric])
  moreover have "dh_ready s3" using b(4) h(3) s2(1) by (simp add: dh_ready_def)
  ultimately show ?case using Suc.IH [of s3 "i + 1"] h(2,4) s2(2) by auto
qed simp

section \<open>A gateway that asks for cookies\<close>

definition never :: "fault \<Rightarrow> 'a action \<Rightarrow> bool" where
  "never e m \<longleftrightarrow> (\<forall>s. snd (m s) \<noteq> Inl e)"

lemma neverD: "never e m \<Longrightarrow> m s \<noteq> (s', Inl e)"
  unfolding never_def by (metis snd_conv)

lemma never_bind: "never e m \<Longrightarrow> (\<And>x. never e (f x)) \<Longrightarrow> never e (sbind m f)"
  unfolding never_def sbind_def by (auto split: prod.split sum.split) (metis snd_conv)

lemma never_intros:
  "never e (ret x)" "never e (modify u)" "r \<noteq> Inl e \<Longrightarrow> never e (lift r)" "(\<And>s. g s \<noteq> Inl e) \<Longrightarrow> never e (gets g)"
  "(b \<Longrightarrow> never e m) \<Longrightarrow> (\<not> b \<Longrightarrow> never e n) \<Longrightarrow> never e (if b then m else n)"
  by (auto simp: never_def)

lemma relabel_never: "relabel msg r \<noteq> Inl (Fail ErrInvalidKEPayload)"
  by (auto simp: relabel_def split: sum.split fault.split)

lemma never_assign: "never (Fail ErrInvalidKEPayload) (assign upd msg r)"
  by (cases r) (auto simp: never_def assign_def relabel_never)

lemma keys_errors: "GenerateIKESAKeys nr s \<noteq> Inl (Fail ErrInvalidKEPayload)"
proof -
  have k: "key_slice m c n \<noteq> Inl (Fail e)" for m c n e by (simp add: key_slice_def)
  have p: "PrfPlus_loop p key seed n acc prev b \<noteq> Inl (Fail ErrInvalidKEPayload)" for p key seed n acc prev b
    by (induction p key seed n acc prev b rule: PrfPlus_loop.induct) (subst PrfPlus_loop.simps, simp add: Let_def)
  show ?thesis
    by (auto simp: GenerateIKESAKeys_def rbind_Inl_iff keyLens_def Let_def PrfPlus_def p splitKeys_def k deref_def
        split: option.splits if_splits)
qed

definition asks_group :: "bytes \<Rightarrow> bool" where
  "asks_group d \<longleftrightarrow> (\<exists>packet v. DecodePacket d = Inr packet \<and> PayloadNotify v \<in> set (Payloads packet) \<and>
     NotifyType v = INVALID_KE_PAYLOAD)"

lemma initRespLoop_never:
  "(\<And>v. PayloadNotify v \<in> set ps \<Longrightarrow> NotifyType v \<noteq> INVALID_KE_PAYLOAD) \<Longrightarrow>
     never (Fail ErrInvalidKEPayload) (initRespLoop ps acc)"
proof (induction ps acc rule: initRespLoop.induct)
  case (5 v ps acc)
  have "never (Fail ErrInvalidKEPayload) (initNotify v acc')" for acc'
    using "5.prems" [of v]
    by (auto simp: initNotify_def Let_def intro!: never_intros never_bind split: sum.split)
  then show ?case unfolding initRespLoop.simps using "5.IH" "5.prems" by (intro never_bind) auto
qed (auto intro: never_intros)

lemma handleIKESAInitResp_never:
  assumes "\<not> asks_group d"
  shows "never (Fail ErrInvalidKEPayload) (handleIKESAInitResp tr d)"
proof (cases "DecodePacket d")
  case (Inr packet)
  with assms have loop: "never (Fail ErrInvalidKEPayload) (initRespLoop (Payloads packet) acc)" for acc
    by (intro initRespLoop_never) (auto simp: asks_group_def)
  have alg: "never (Fail ErrInvalidKEPayload) (setAlgorithms sel)" for sel
    unfolding setAlgorithms_def by (intro never_bind never_intros never_assign)
  have sh: "never (Fail ErrInvalidKEPayload) (sharedSecret k)" for k
    unfolding sharedSecret_def
    by (auto intro!: never_bind never_intros simp: rbind_Inl_iff relabel_never deref_def split: option.splits)
  have der: "never (Fail ErrInvalidKEPayload) deriveKeys"
    using keys_errors by (auto simp: never_def deriveKeys_def split: sum.split)
  have step: "sbind (lift (relabel m (DecodePacket d))) f = f packet" for m and f :: "IKEPacket \<Rightarrow> unit action"
    by (rule ext) (simp add: Inr)
  show ?thesis
    unfolding handleIKESAInitResp_def natCheck_def step
    by (auto intro!: never_bind never_intros loop alg sh der split: option.split)
qed (auto simp: handleIKESAInitResp_def never_def sbind_def lift_def relabel_never split: sum.split)

lemma same_outbox [keeps]:
  "preserves (\<lambda>s. outbox s = q) (buildIKESAInitPacket ni rnd tr)"
  "preserves (\<lambda>s. outbox s = q) (handleIKESAInitResp tr d)"
proof -
  have dh: "preserves (\<lambda>s. outbox s = q) (prepareDH rnd g)" for g
    by (rule preservesI) (auto simp: prepareDH_def split: option.split sum.split)
  show "preserves (\<lambda>s. outbox s = q) (buildIKESAInitPacket ni rnd tr)"
    unfolding buildIKESAInitPacket_def by (auto intro!: keeps dh preserves_modify split: prod.split)
  have notify: "preserves (\<lambda>s. outbox s = q) (initNotify v acc)" for v acc
    by (auto simp: initNotify_def Let_def handleCookie_def intro!: keeps preserves_modify split: sum.split)
  have loop: "preserves (\<lambda>s. outbox s = q) (initRespLoop ps acc)" for ps acc
    by (induction ps acc rule: initRespLoop.induct) (auto intro!: keeps notify)
  have assign: "(\<And>x s. outbox (upd x s) = outbox s) \<Longrightarrow> preserves (\<lambda>s. outbox s = q) (assign upd msg r)" for upd msg and r :: "'b result"
    by (auto simp: assign_def intro!: keeps preserves_modify split: sum.split)
  have alg: "preserves (\<lambda>s. outbox s = q) (setAlgorithms sel)" for sel
    by (auto simp: setAlgorithms_def intro!: keeps preserves_modify assign)
  have sh: "preserves (\<lambda>s. outbox s = q) (sharedSecret k)" for k
    by (auto simp: sharedSecret_def intro!: keeps preserves_modify split: prod.split)
  have der: "preserves (\<lambda>s. outbox s = q) deriveKeys"
    by (rule preservesI) (auto simp: deriveKeys_def GenerateIKESAKeys_def rbind_Inr_iff split: sum.split option.splits)
  show "preserves (\<lambda>s. outbox s = q) (handleIKESAInitResp tr d)"
    unfolding handleIKESAInitResp_def natCheck_def
    by (auto intro!: keeps preserves_modify loop alg sh der simp: Let_def split: option.split prod.split)
qed

lemma initLoop_cookies:
  assumes env: "\<And>j d. it_reply (env j) = Inr d \<Longrightarrow> \<not> asks_group d"
  shows "c \<le> maxCookieRetries \<Longrightarrow>
    length (outbox (fst (initLoop n tr env i c s))) \<le> length (outbox s) + (maxCookieRetries + 1 - c)"
proof (induction n arbitrary: i c s)
  case (Suc n)
  obtain s1 r where b: "buildIKESAInitPacket (it_ni (env i)) (it_dh (env i)) tr s = (s1, r)" by fastforce
  have o1: "outbox s1 = outbox s" using preservesD [OF same_outbox(1), of s "outbox s"] b by (metis fst_conv)
  show ?case
  proof (cases "\<exists>q d. r = Inr q \<and> it_reply (env i) = Inr d")
    case False
    then show ?thesis using b o1 Suc.prems
      by (cases r; cases "it_reply (env i)") (simp_all add: sbind_def SendIKE_out_def)
  next
    case True
    then obtain q d where q: "r = Inr q" "it_reply (env i) = Inr d" by blast
    define s2 where "s2 = s1\<lparr>outbox := outbox s1 @ [q]\<rparr>"
    obtain s3 v where h: "handleIKESAInitResp tr d s2 = (s3, v)" by fastforce
    have o3: "length (outbox s3) = Suc (length (outbox s))"
      using preservesD [OF same_outbox(2), of s2 "outbox s2" tr d] h o1 by (simp add: s2_def)
    have ne: "v \<noteq> Inl (Fail ErrInvalidKEPayload)"
      using neverD [OF handleIKESAInitResp_never [OF env [OF q(2)]]] h by metis
    have run: "initLoop (Suc n) tr env i c s =
        (case (s3, v) of (s, Inr ()) \<Rightarrow> (s, Inr ())
         | (s, Inl (Fail ErrCookieRequired)) \<Rightarrow>
             let s = s\<lparr>cookieRetryCount := int (c + 1)\<rparr>
             in if maxCookieRetries < c + 1 then (s, fail ''IKE_SA_INIT: too many cookies'')
                else initLoop n tr env (i + 1) (c + 1) s
         | (s, Inl (Fail ErrInvalidKEPayload)) \<Rightarrow> initLoop n tr env (i + 1) c s
         | (s, Inl e) \<Rightarrow> (s, Inl e))"
      using q h b by (simp add: sbind_def SendIKE_out_def s2_def)
    show ?thesis
    proof (cases "v = Inl (Fail ErrCookieRequired) \<and> c + 1 \<le> maxCookieRetries")
      case True
      then show ?thesis unfolding run
        using Suc.IH [of "c + 1" "i + 1" "s3\<lparr>cookieRetryCount := int (c + 1)\<rparr>"] o3 by simp linarith
    next
      case False
      then have "length (outbox (fst (initLoop (Suc n) tr env i c s))) = length (outbox s3)"
        unfolding run using ne by (auto split: sum.split fault.split err.split unit.split)
      then show ?thesis using o3 Suc.prems by simp
    qed
  qed
qed simp

section \<open>Fuel\<close>

text \<open>
  A result that is not \<open>Hang\<close> does not depend on the fuel: with more rounds allowed it is the same, so
  that each handshake that ends has one result.
\<close>

lemma sbind_mono:
  assumes "snd (sbind m f s) \<noteq> Inl Hang"
    and "\<And>x t. m s = (t, Inr x) \<Longrightarrow> snd (f x t) \<noteq> Inl Hang \<Longrightarrow> g x t = f x t"
  shows "sbind m g s = sbind m f s"
  using assms by (auto simp: sbind_def split: prod.splits sum.splits)

lemma initLoop_fuel:
  "snd (initLoop n tr env i c s) \<noteq> Inl Hang \<Longrightarrow> initLoop (n + k) tr env i c s = initLoop n tr env i c s"
proof (induction n arbitrary: i c s)
  case (Suc n)
  show ?case
    unfolding add_Suc initLoop.simps
    by (rule sbind_mono [OF Suc.prems [unfolded initLoop.simps]], erule sbind_mono, erule sbind_mono)
      (auto simp: Suc.IH Let_def split: prod.splits sum.splits fault.splits err.splits if_splits)
qed simp

lemma eapLoop_fuel:
  "snd (eapLoop n env i d s) \<noteq> Inl Hang \<Longrightarrow> eapLoop (n + k) env i d s = eapLoop n env i d s"
proof (induction n arbitrary: i d s)
  case (Suc n)
  show ?case
    unfolding add_Suc eapLoop.simps
  proof (rule sbind_mono [OF Suc.prems [unfolded eapLoop.simps]], clarsimp split: prod.splits option.splits)
    fix t e
    assume "snd (sbind (handleEAP (et_order (env i)) (EAPMessage e)) (\<lambda>respEAP.
        if respEAP = [] then ret d
        else sbind (sendEncryptedWithRetry (et_x (env i)) respEAP IKE_AUTH) (eapLoop n env (i + 1))) t) \<noteq> Inl Hang"
    then show "sbind (handleEAP (et_order (env i)) (EAPMessage e)) (\<lambda>respEAP.
        if respEAP = [] then ret d
        else sbind (sendEncryptedWithRetry (et_x (env i)) respEAP IKE_AUTH) (eapLoop (n + k) env (i + 1))) t =
      sbind (handleEAP (et_order (env i)) (EAPMessage e)) (\<lambda>respEAP.
        if respEAP = [] then ret d
        else sbind (sendEncryptedWithRetry (et_x (env i)) respEAP IKE_AUTH) (eapLoop n env (i + 1))) t"
      by (rule sbind_mono) (auto intro!: sbind_mono Suc.IH split: if_splits)
  qed
qed simp

section \<open>Resumption and the end\<close>

lemma resumption_new_session:
  "snd (performSessionResumption ni32 reply spi x (NewSession cfg b)) \<noteq> Inr ()"
  using performSessionResumption_stuck [of ni32 reply spi x] by (simp add: stuck_def NewSession_def)

lemma logged_errors: "logged m s = (s', Inl e) \<Longrightarrow> e \<noteq> Fail f"
  unfolding logged_def by (cases "m s"; cases "snd (m s)") (auto split: fault.splits)

text \<open>The two ways an end goes.\<close>

lemma endConnection_cases:
  obtains (broken) s f where "endConnection r c = (c\<lparr>cn_session := s\<rparr>, Inl f)" "\<And>e. f \<noteq> Fail e"
    | (ended) s where "endConnection r c = (if cn_done c then (c\<lparr>cn_session := s\<rparr>, Inl Panic)
        else (c\<lparr>cn_session := s, cn_done := True\<rparr>, Inl (Fail (if rd_reauth r then ErrReauth else ErrCanceled))))"
proof (cases "logged (sendDeleteIKE (rd_deleteIV r)) (cn_session c)")
  case (Pair s v)
  show thesis
  proof (cases v)
    case (Inl f)
    with Pair have "endConnection r c = (c\<lparr>cn_session := s\<rparr>, Inl f)" by (simp add: endConnection_def)
    then show thesis by (rule broken) (use Pair Inl logged_errors in blast)
  next
    case (Inr u)
    with Pair show thesis by (intro ended [of s]) (simp add: endConnection_def Let_def)
  qed
qed

lemma endConnection_closes: "endConnection r c = (c', Inl (Fail e)) \<Longrightarrow> cn_done c'"
  by (rule endConnection_cases [of r c]) (auto split: if_splits)

lemma endConnection_twice: "cn_done c \<Longrightarrow> snd (endConnection r c) \<noteq> Inl (Fail e)"
  by (rule endConnection_cases [of r c]) auto

end
