(* ===== verification/Swu_Listen.thy ===== *)
theory Swu_Listen
  imports Swu_Connect
begin

text \<open>
  The goroutine that takes packets from the socket (\<^verbatim>\<open>ensureIKEDispatcher\<close> and \<^verbatim>\<open>ikeDispatchLoop\<close> of
  \<^verbatim>\<open>pkg/swu/ike_control.go\<close>) beside the code that replaces the session's socket: \<^verbatim>\<open>connectOnce\<close> stops
  the old one when it returns and opens another on the next round, \<^verbatim>\<open>UpdateAddresses\<close> opens one and
  stops the old one. A step of any of them is a step of the relation, in any order.
\<close>

section \<open>State\<close>

text \<open>
  Sockets are numbered in the order they are opened; \<open>current\<close> is the one that \<^verbatim>\<open>s.socket\<close> points to. The
  loop evaluates \<^verbatim>\<open>s.socket.IKEPackets()\<close> when it enters the \<^verbatim>\<open>select\<close> and then waits on that channel.
\<close>

datatype loop_state = NotStarted | AtTop | WaitingOn nat | Returned

record Listener =
  socks :: nat
  current :: nat
  stopped :: "nat set"
  chan :: "nat \<Rightarrow> bytes list"
  ikeStarted :: bool
  loop :: loop_state
  taken :: "bytes list"

definition noListener :: Listener where
  "noListener = \<lparr>socks = 0, current = 0, stopped = {}, chan = (\<lambda>_. []), ikeStarted = False, loop = NotStarted, taken = []\<rparr>"

section \<open>Operations\<close>

definition newSocket :: "Listener \<Rightarrow> Listener" where
  "newSocket l = l\<lparr>current := socks l, socks := socks l + 1\<rparr>"

definition stopSocket :: "nat \<Rightarrow> Listener \<Rightarrow> Listener" where
  "stopSocket k l = l\<lparr>stopped := insert k (stopped l)\<rparr>"

definition ensureIKEDispatcher :: "Listener \<Rightarrow> Listener" where
  "ensureIKEDispatcher l = (if ikeStarted l then l else l\<lparr>ikeStarted := True, loop := AtTop\<rparr>)"

text \<open>
  One round of the loop: the \<^verbatim>\<open>select\<close>, and the packet or the closed channel it yields; \<open>None\<close> while
  there is nothing to receive. What a packet does is \<^verbatim>\<open>dispatchPacket\<close>.
\<close>

definition loopRound :: "Listener \<Rightarrow> Listener option" where
  "loopRound l =
     (case loop l of
        AtTop \<Rightarrow> Some (l\<lparr>loop := WaitingOn (current l)\<rparr>)
      | WaitingOn k \<Rightarrow>
          (case chan l k of
             d # ds \<Rightarrow> Some (l\<lparr>chan := (chan l)(k := ds), loop := AtTop, taken := taken l @ [d]\<rparr>)
           | [] \<Rightarrow> if k \<in> stopped l then Some (l\<lparr>loop := Returned\<rparr>) else None)
      | _ \<Rightarrow> None)"

inductive listen_step :: "Listener \<Rightarrow> Listener \<Rightarrow> bool" where
  open_socket: "listen_step l (newSocket l)"
| stop_socket: "k < socks l \<Longrightarrow> listen_step l (stopSocket k l)"
| arrive: "k < socks l \<Longrightarrow> k \<notin> stopped l \<Longrightarrow> listen_step l (l\<lparr>chan := (chan l)(k := chan l k @ [d])\<rparr>)"
| ensure: "listen_step l (ensureIKEDispatcher l)"
| round: "loopRound l = Some l' \<Longrightarrow> listen_step l l'"
| cancelled: "loop l \<noteq> NotStarted \<Longrightarrow> listen_step l (l\<lparr>loop := Returned\<rparr>)"

inductive_cases listen_stepE: "listen_step l l'"

text \<open>A new connection of the same session, after a redirection or a reauthentication.\<close>

definition reconnect :: "Listener \<Rightarrow> Listener" where
  "reconnect l = ensureIKEDispatcher (newSocket (stopSocket (current l) l))"

text \<open>A change of address: the new socket is in place when the old one is stopped.\<close>

definition switchSocket :: "Listener \<Rightarrow> Listener" where
  "switchSocket l = stopSocket (current l) (newSocket l)"

section \<open>The loop ends with its socket\<close>

lemmas step_then = converse_rtranclp_into_rtranclp [of listen_step]
lemmas last_step = r_into_rtranclp [of listen_step]

text \<open>The loop has ended, or waits on a channel that is closed and empty.\<close>

definition deaf :: "Listener \<Rightarrow> bool" where
  "deaf l \<longleftrightarrow> ikeStarted l \<and> (loop l = Returned \<or> (\<exists>k. loop l = WaitingOn k \<and> k \<in> stopped l \<and> chan l k = []))"

lemma deaf_step:
  assumes "listen_step l l'" "deaf l"
  shows "deaf l' \<and> taken l' = taken l"
  using assms
  by (cases rule: listen_stepE)
    (auto simp: deaf_def newSocket_def stopSocket_def ensureIKEDispatcher_def loopRound_def split: if_splits)

interpretation deafness: frozen_system listen_step deaf taken
  by unfold_locales (simp_all add: deaf_step)

lemma deaf_forever: "listen_step\<^sup>*\<^sup>* l l' \<Longrightarrow> deaf l \<Longrightarrow> deaf l' \<and> taken l' = taken l"
  using deafness.steps_inv deafness.steps_obs by blast

text \<open>A loop that waits for a packet of the current socket, with none there.\<close>

definition idle :: "Listener \<Rightarrow> bool" where
  "idle l \<longleftrightarrow> ikeStarted l \<and> loop l = WaitingOn (current l) \<and> chan l (current l) = [] \<and> current l < socks l"

lemma reconnect_deaf:
  assumes "idle l"
  shows "deaf (reconnect l)" "deaf (switchSocket l)" "taken (reconnect l) = taken l" "taken (switchSocket l) = taken l"
  using assms
  by (auto simp: idle_def deaf_def reconnect_def switchSocket_def newSocket_def stopSocket_def ensureIKEDispatcher_def)

text \<open>Both are sequences of steps, and while the socket stays a packet is taken.\<close>

lemma reconnect_steps:
  assumes "current l < socks l"
  shows "listen_step\<^sup>*\<^sup>* l (reconnect l)" "listen_step\<^sup>*\<^sup>* l (switchSocket l)"
proof -
  show "listen_step\<^sup>*\<^sup>* l (reconnect l)"
    unfolding reconnect_def by (rule step_then [OF stop_socket [OF assms] step_then [OF open_socket last_step [OF ensure]]])
  have 1: "listen_step (newSocket l) (stopSocket (current l) (newSocket l))"
    by (rule stop_socket) (use assms in \<open>simp add: newSocket_def\<close>)
  show "listen_step\<^sup>*\<^sup>* l (switchSocket l)"
    unfolding switchSocket_def by (rule step_then [OF open_socket last_step [OF 1]])
qed

lemma heard:
  assumes "idle l" "current l \<notin> stopped l"
  shows "\<exists>l'. listen_step\<^sup>*\<^sup>* l l' \<and> taken l' = taken l @ [d] \<and> idle l'"
proof -
  let ?k = "current l"
  define l1 where "l1 = l\<lparr>chan := (chan l)(?k := [d])\<rparr>"
  define l2 where "l2 = l1\<lparr>chan := (chan l1)(?k := []), loop := AtTop, taken := taken l @ [d]\<rparr>"
  define l3 where "l3 = l2\<lparr>loop := WaitingOn ?k\<rparr>"
  have 1: "listen_step l l1"
    using arrive [of ?k l d] assms by (simp add: l1_def idle_def)
  have 2: "listen_step l1 l2"
    by (rule round) (use assms(1) in \<open>simp add: loopRound_def l2_def l1_def idle_def\<close>)
  have 3: "listen_step l2 l3"
    by (rule round) (simp add: loopRound_def l3_def l2_def l1_def)
  have "listen_step\<^sup>*\<^sup>* l l3" by (rule step_then [OF 1 step_then [OF 2 last_step [OF 3]]])
  moreover have "taken l3 = taken l @ [d]" "idle l3"
    using assms(1) by (simp_all add: l3_def l2_def l1_def idle_def)
  ultimately show ?thesis by blast
qed

text \<open>The first connection of a session comes to wait.\<close>

definition firstConnection :: Listener where
  "firstConnection = (newSocket noListener)\<lparr>ikeStarted := True, loop := WaitingOn 0\<rparr>"

lemma firstConnection_idle:
  "listen_step\<^sup>*\<^sup>* noListener firstConnection" "idle firstConnection" "current firstConnection \<notin> stopped firstConnection"
proof -
  let ?a = "newSocket noListener" let ?b = "ensureIKEDispatcher ?a"
  have 1: "listen_step ?b firstConnection"
    by (rule round) (simp add: loopRound_def ensureIKEDispatcher_def newSocket_def noListener_def firstConnection_def)
  show "listen_step\<^sup>*\<^sup>* noListener firstConnection"
    by (rule step_then [OF open_socket step_then [OF ensure last_step [OF 1]]])
  show "idle firstConnection" "current firstConnection \<notin> stopped firstConnection"
    by (simp_all add: firstConnection_def idle_def newSocket_def noListener_def)
qed

end
