(* ===== verification/Sim_Soft.thy ===== *)
theory Sim_Soft
  imports Crypto_Milenage Swu_Config
begin

text \<open>
  The software SIM (\<^verbatim>\<open>pkg/sim/softsim.go\<close>): a Milenage key and the sequence number it expects.
  The property: a challenge that was accepted is never accepted again, whatever comes between.
\<close>

record SoftSIM =
  ss_IMSI :: string
  ss_milenage :: Milenage
  ss_SQN :: u64

text \<open>The three values, or the token beside the error of a number that is too low.\<close>

datatype sim_out = SimOk bytes bytes bytes | SimSync bytes err

definition NewSoftSIM :: "string \<Rightarrow> bytes \<Rightarrow> bytes \<Rightarrow> bool \<Rightarrow> SoftSIM result" where
  "NewSoftSIM imsi k op useOPc =
     rbind (NewMilenage k op useOPc) (\<lambda>m. Inr \<lparr>ss_IMSI = imsi, ss_milenage = m, ss_SQN = 0\<rparr>)"

definition soft_GetIMSI :: "SoftSIM \<Rightarrow> string result" where
  "soft_GetIMSI s = Inr (ss_IMSI s)"

definition SetSQN :: "u64 \<Rightarrow> SoftSIM \<Rightarrow> SoftSIM" where
  "SetSQN sqn s = s\<lparr>ss_SQN := sqn\<rparr>"

definition soft_CalculateAKA :: "SoftSIM \<Rightarrow> bytes \<Rightarrow> bytes \<Rightarrow> SoftSIM \<times> sim_out result" where
  "soft_CalculateAKA s rand autn =
     (case VerifyAUTN (ss_milenage s) rand autn (ss_SQN s) of
        Inl e \<Rightarrow> (s, Inl e)
      | Inr (AutnSync auts e) \<Rightarrow> (s, Inr (SimSync auts e))
      | Inr (AutnOk res ck ik) \<Rightarrow>
          (case F2F5 (ss_milenage s) rand of
             Inl e \<Rightarrow> (s, Inl e)
           | Inr (_, ak) \<Rightarrow>
               (s\<lparr>ss_SQN := decodeSQN (xor_bytes (slice autn 0 6) ak) + 1\<rparr>, Inr (SimOk res ck ik))))"

text \<open>What the session sees of it: the error of a token is not \<^verbatim>\<open>sim.ErrSyncFailure\<close>.\<close>

definition aka_of :: "sim_out result \<Rightarrow> aka_result result" where
  "aka_of r = (case r of
     Inr (SimOk res ck ik) \<Rightarrow> Inr (AkaOk res ck ik)
   | Inr (SimSync auts ErrSyncFailure) \<Rightarrow> Inr (AkaSync auts)
   | Inr (SimSync _ e) \<Rightarrow> Inr (AkaErr e)
   | Inl (Fail e) \<Rightarrow> Inr (AkaErr e)
   | Inl e \<Rightarrow> Inl e)"

section \<open>Sequence numbers\<close>

lemma take_bit_ucast_byte: "8 \<le> n \<Longrightarrow> take_bit n (ucast (b :: byte) :: u64) = ucast b"
  by (simp flip: unsigned_take_bit_eq add: take_bit_word_eq_self)

lemma decodeSQN_48: "take_bit 48 (decodeSQN d) = decodeSQN d"
  by (simp add: decodeSQN_def take_bit_or take_bit_push_bit take_bit_ucast_byte)

lemma decodeSQN_bound: "unat (decodeSQN d) < 2 ^ 48"
proof -
  have "unat (take_bit 48 (decodeSQN d)) = take_bit 48 (unat (decodeSQN d))" by (simp add: unsigned_take_bit_eq)
  then show ?thesis by (metis decodeSQN_48 take_bit_nat_less_exp)
qed

lemma decodeSQN_less_Suc: "decodeSQN d < decodeSQN d + 1"
proof -
  have "unat (decodeSQN d + 1) = unat (decodeSQN d) + 1"
    using decodeSQN_bound [of d] by (simp add: unat_word_ariths)
  then show ?thesis by (simp add: word_less_nat_alt)
qed

text \<open>The number a token carries for the SIM's key.\<close>

definition tokenSQN :: "Milenage \<Rightarrow> bytes \<Rightarrow> bytes \<Rightarrow> u64" where
  "tokenSQN m rand autn =
     decodeSQN (xor_bytes (slice autn 0 6) (case F2F5 m rand of Inr (_, ak) \<Rightarrow> ak | Inl _ \<Rightarrow> []))"

lemma soft_accepts:
  assumes "soft_CalculateAKA s rand autn = (s', Inr (SimOk res ck ik))"
  shows "ss_SQN s \<le> tokenSQN (ss_milenage s) rand autn"
    "s' = s\<lparr>ss_SQN := tokenSQN (ss_milenage s) rand autn + 1\<rparr>"
  using assms
  by (auto simp: soft_CalculateAKA_def VerifyAUTN_def tokenSQN_def rbind_Inr_iff Let_def
      split: sum.splits autn_result.splits if_splits prod.splits)

lemma soft_refuses:
  assumes "\<And>res ck ik. r \<noteq> Inr (SimOk res ck ik)" "soft_CalculateAKA s rand autn = (s', r)"
  shows "s' = s"
  using assms by (auto simp: soft_CalculateAKA_def split: sum.splits autn_result.splits)

lemma soft_keeps:
  "ss_milenage (fst (soft_CalculateAKA s rand autn)) = ss_milenage s"
  "ss_SQN s \<le> ss_SQN (fst (soft_CalculateAKA s rand autn))"
proof -
  obtain s' r where r: "soft_CalculateAKA s rand autn = (s', r)" by fastforce
  have "ss_milenage s' = ss_milenage s \<and> ss_SQN s \<le> ss_SQN s'"
  proof (cases "\<exists>res ck ik. r = Inr (SimOk res ck ik)")
    case True
    then obtain res ck ik where "r = Inr (SimOk res ck ik)" by blast
    with r soft_accepts [of s rand autn s'] decodeSQN_less_Suc show ?thesis
      by (auto simp: tokenSQN_def intro: order_trans less_imp_le)
  next
    case False
    with r soft_refuses [of r s rand autn s'] show ?thesis by auto
  qed
  with r show "ss_milenage (fst (soft_CalculateAKA s rand autn)) = ss_milenage s"
    "ss_SQN s \<le> ss_SQN (fst (soft_CalculateAKA s rand autn))" by simp_all
qed

text \<open>A history of challenges.\<close>

definition challenges :: "(bytes \<times> bytes) list \<Rightarrow> SoftSIM \<Rightarrow> SoftSIM" where
  "challenges cs s = fold (\<lambda>(rand, autn) s. fst (soft_CalculateAKA s rand autn)) cs s"

lemma challenges_keep: "ss_milenage (challenges cs s) = ss_milenage s \<and> ss_SQN s \<le> ss_SQN (challenges cs s)"
proof (induction cs arbitrary: s)
  case (Cons c cs)
  obtain rand autn where c: "c = (rand, autn)" by fastforce
  show ?case
    using Cons [of "fst (soft_CalculateAKA s rand autn)"] soft_keeps [of s rand autn]
    by (auto simp: challenges_def c intro: order_trans)
qed (simp add: challenges_def)

lemma soft_no_replay:
  assumes "soft_CalculateAKA s rand autn = (s', Inr (SimOk res ck ik))"
  shows "snd (soft_CalculateAKA (challenges cs s') rand autn) \<noteq> Inr (SimOk res' ck' ik')"
proof
  let ?t = "tokenSQN (ss_milenage s) rand autn"
  assume "snd (soft_CalculateAKA (challenges cs s') rand autn) = Inr (SimOk res' ck' ik')"
  then have "ss_SQN (challenges cs s') \<le> tokenSQN (ss_milenage (challenges cs s')) rand autn"
    using soft_accepts(1) [of "challenges cs s'" rand autn] by (metis prod.collapse)
  moreover have "ss_milenage s' = ss_milenage s" "ss_SQN s' = ?t + 1" using soft_accepts(2) [OF assms] by simp_all
  moreover have "?t < ?t + 1" unfolding tokenSQN_def by (rule decodeSQN_less_Suc)
  ultimately show False using challenges_keep [of cs s'] by auto
qed

text \<open>A refusal for the number never reaches the session as a request to resynchronise.\<close>

lemma soft_never_resyncs: "aka_of (snd (soft_CalculateAKA s rand autn)) \<noteq> Inr (AkaSync auts)"
  by (auto simp: aka_of_def soft_CalculateAKA_def VerifyAUTN_def rbind_Inr_iff rbind_Inl_iff Let_def
      split: sum.splits autn_result.splits if_splits prod.splits sim_out.splits err.splits fault.splits)

end
