(* ===== verification/Sim_Direct.thy ===== *)
theory Sim_Direct
  imports Swu_Config
begin

text \<open>
  The SIM behind a modem (\<^verbatim>\<open>pkg/sim/direct.go\<close>): AT commands and the answers to them, the text of a
  \<^verbatim>\<open>+CSIM\<close> answer, and the parsers of the card's data. The serial line is a parameter: for the
  commands sent so far it gives the lines that the scanner reads, each with the time-out's verdict
  after it, and the error the scanner ends with.
\<close>

section \<open>Text\<close>

text \<open>\<^verbatim>\<open>strings.Index\<close> and \<^verbatim>\<open>strings.Contains\<close>.\<close>

fun str_index :: "string \<Rightarrow> string \<Rightarrow> nat option" where
  "str_index s p =
     (if has_prefix s p then Some 0 else case s of [] \<Rightarrow> None | _ # t \<Rightarrow> map_option Suc (str_index t p))"

declare str_index.simps [simp del]

definition str_contains :: "string \<Rightarrow> string \<Rightarrow> bool" where
  "str_contains s p \<longleftrightarrow> str_index s p \<noteq> None"

text \<open>\<^verbatim>\<open>%02X\<close> of a number, \<^verbatim>\<open>%X\<close> of a byte slice, and \<^verbatim>\<open>hex.DecodeString\<close>.\<close>

definition upper_hex :: "nat \<Rightarrow> char" where
  "upper_hex n = char_of (if n < 10 then 48 + n else 55 + n)"

fun upper_hex_String :: "nat \<Rightarrow> string" where
  "upper_hex_String n = (if n < 16 then [upper_hex n] else upper_hex_String (n div 16) @ [upper_hex (n mod 16)])"

declare upper_hex_String.simps [simp del]

definition hex02 :: "nat \<Rightarrow> string" where
  "hex02 n = (let h = upper_hex_String n in if length h < 2 then CHR ''0'' # h else h)"

definition hexX :: "bytes \<Rightarrow> string" where
  "hexX bs = concat (map (\<lambda>b. hex02 (unat b)) bs)"

fun hex_decode :: "string \<Rightarrow> bytes result" where
  "hex_decode [] = Inr []"
| "hex_decode [c] = (case hex_value c of None \<Rightarrow> fail ''invalid byte'' | Some _ \<Rightarrow> fail ''odd length hex string'')"
| "hex_decode (c # d # cs) =
     (case (hex_value c, hex_value d) of
        (Some a, Some b) \<Rightarrow> rbind (hex_decode cs) (\<lambda>bs. Inr (of_nat (16 * a + b) # bs))
      | _ \<Rightarrow> fail ''invalid byte'')"

definition isDigits :: "string \<Rightarrow> bool" where
  "isDigits s \<longleftrightarrow> list_all is_digit s"

section \<open>The modem\<close>

record Answer =
  an_write :: "err option"
  an_lines :: "(string \<times> bool) list"
  an_err :: "err option"

type_synonym Modem = "string list \<Rightarrow> Answer"

text \<open>The loop over the scanner: the text so far, and how it ends.\<close>

fun scanLoop :: "(string \<times> bool) list \<Rightarrow> err option \<Rightarrow> string \<Rightarrow> string result" where
  "scanLoop [] e response = (case e of Some e \<Rightarrow> Inl (Fail e) | None \<Rightarrow> fail ''AT command timeout'')"
| "scanLoop ((text, late) # ls) e response =
     (let line = trim_space text
      in if line = [] then scanLoop ls e response
         else
           let response = response @ line @ [CHR 0x0A]
           in if line = ''OK'' then Inr response
              else if str_contains line ''ERROR'' then fail (''AT command error: '' @ line)
              else if late then (case e of Some e \<Rightarrow> Inl (Fail e) | None \<Rightarrow> fail ''AT command timeout'')
              else scanLoop ls e response)"

text \<open>A command: the history grows, and the answer follows from it.\<close>

definition sendATCommand :: "Modem \<Rightarrow> string \<Rightarrow> string list \<Rightarrow> string list \<times> string result" where
  "sendATCommand m cmd sent =
     (let sent = sent @ [cmd @ [CHR 0x0D, CHR 0x0A]]
      in (sent, case an_write (m sent) of
                  Some e \<Rightarrow> Inl (Fail e)
                | None \<Rightarrow> scanLoop (an_lines (m sent)) (an_err (m sent)) []))"

definition findDigits :: "nat \<Rightarrow> (string \<Rightarrow> string) \<Rightarrow> string \<Rightarrow> string option" where
  "findDigits n f resp =
     find (\<lambda>line. 14 \<le> length line \<and> length line \<le> n \<and> isDigits line) (map f (split_on (CHR 0x0A) resp))"

definition direct_GetIMSI :: "Modem \<Rightarrow> string list \<Rightarrow> string list \<times> string result" where
  "direct_GetIMSI m sent =
     (case sendATCommand m ''AT+CIMI'' sent of
        (sent, Inl e) \<Rightarrow> (sent, Inl e)
      | (sent, Inr resp) \<Rightarrow> (sent, case findDigits 16 (\<lambda>l. l) resp of
            Some line \<Rightarrow> Inr line | None \<Rightarrow> fail ''IMSI not found in response''))"

definition direct_GetIMEI :: "Modem \<Rightarrow> string list \<Rightarrow> string list \<times> string result" where
  "direct_GetIMEI m sent =
     (case (case sendATCommand m ''AT+CGSN'' sent of
              (sent, Inl _) \<Rightarrow> sendATCommand m ''AT+GSN'' sent
            | r \<Rightarrow> r) of
        (sent, Inl e) \<Rightarrow> (sent, Inl e)
      | (sent, Inr resp) \<Rightarrow> (sent, case findDigits 17 trim_space resp of
            Some line \<Rightarrow> Inr line | None \<Rightarrow> fail ''IMEI not found in response''))"

section \<open>Parsers\<close>

definition parseCSIMResponse :: "string \<Rightarrow> bytes result" where
  "parseCSIMResponse resp =
     (case str_index resp ''+CSIM:'' of
        None \<Rightarrow> fail ''Not a CSIM response''
      | Some start \<Rightarrow>
          (case str_index (drop start resp) [CHR 0x22] of
             None \<Rightarrow> fail ''Parse error quote''
           | Some q \<Rightarrow>
               let q1 = q + start
               in case str_index (drop (q1 + 1) resp) [CHR 0x22] of
                    None \<Rightarrow> fail ''Parse error quote 2''
                  | Some q \<Rightarrow> let q2 = q + q1 + 1 in hex_decode (slice resp (q1 + 1) q2)))"

definition parseTLVData :: "bytes \<Rightarrow> bytes result" where
  "parseTLVData body =
     (if length body < 2 then fail ''body too short''
      else let l = unat (body ! 1)
           in if length body < 2 + l then fail ''body length mismatch'' else Inr (slice body 2 (2 + l)))"

text \<open>The answer to AUTHENTICATE in a 3G context; \<open>None\<close> stands for \<^verbatim>\<open>ok == false\<close>.\<close>

definition parseUSIMAuthDB :: "bytes \<Rightarrow> (bytes \<times> bytes \<times> bytes) option" where
  "parseUSIMAuthDB body =
     (if length body < 2 \<or> body ! 0 \<noteq> 0xDB then None
      else
        let resLen = unat (body ! 1)
        in if resLen \<le> 0 \<or> length body < 2 + resLen then None
           else
             let res = slice body 2 (2 + resLen); pos = 2 + resLen; remain = length body - pos
             in if remain = 32 then Some (res, slice body pos (pos + 16), slice body (pos + 16) (pos + 32))
                else if remain < 2 then None
                else
                  let ckLen = unat (body ! pos); pos = pos + 1
                  in if ckLen \<le> 0 \<or> length body < pos + ckLen + 1 then None
                     else
                       let ck = slice body pos (pos + ckLen); pos = pos + ckLen;
                           ikLen = unat (body ! pos); pos = pos + 1
                       in if ikLen \<le> 0 \<or> length body < pos + ikLen then None
                          else Some (res, ck, slice body pos (pos + ikLen)))"

definition parseTagBody :: "bytes \<Rightarrow> bytes result" where
  "parseTagBody data =
     (if length data < 2 then fail ''tag data too short''
      else
        let lb = data ! 1
        in if lb \<le> 0x7f then
             (let l = unat lb in if length data < 2 + l then fail ''tag length out of range'' else Inr (slice data 2 (2 + l)))
           else if lb = 0x81 then
             (if length data < 3 then fail ''tag length too short''
              else let l = unat (data ! 2)
                   in if length data < 3 + l then fail ''tag length out of range'' else Inr (slice data 3 (3 + l)))
           else if lb = 0x82 then
             (if length data < 4 then fail ''tag length too short''
              else let l = unat (data ! 2) * 256 + unat (data ! 3)
                   in if length data < 4 + l then fail ''tag length out of range'' else Inr (slice data 4 (4 + l)))
           else fail ''unsupported tag length encoding'')"

definition parseBERLength :: "bytes \<Rightarrow> (nat \<times> nat) option" where
  "parseBERLength data =
     (if length data < 1 then None
      else
        let b = data ! 0
        in if b \<le> 0x7f then Some (unat b, 1)
           else if b = 0x81 then (if length data < 2 then None else Some (unat (data ! 1), 2))
           else if b = 0x82 then
             (if length data < 3 then None else Some (unat (data ! 1) * 256 + unat (data ! 2), 3))
           else None)"

definition unwrapConstructedTLV :: "bytes \<Rightarrow> bytes option" where
  "unwrapConstructedTLV data =
     (if length data < 2 then None
      else if data ! 0 AND 0x20 = 0 then None
      else case parseBERLength (drop 1 data) of
             None \<Rightarrow> None
           | Some (l, lLen) \<Rightarrow>
               let start = 1 + lLen in if length data < start + l then None else Some (slice data start (start + l)))"

section \<open>The trailing parser\<close>

text \<open>Up to four constructed tags are unwrapped.\<close>

fun unwrapLoop :: "nat \<Rightarrow> bytes \<Rightarrow> bytes" where
  "unwrapLoop 0 dataBody = dataBody"
| "unwrapLoop (Suc n) dataBody =
     (case unwrapConstructedTLV dataBody of None \<Rightarrow> dataBody | Some inner \<Rightarrow> unwrapLoop n inner)"

record Triple =
  tp_res :: bytes
  tp_ck :: bytes
  tp_ik :: bytes

definition setTriple :: "byte \<Rightarrow> bytes \<Rightarrow> Triple \<Rightarrow> Triple" where
  "setTriple tag val t =
     (if tag = 0x80 then t\<lparr>tp_res := val\<rparr> else if tag = 0x81 then t\<lparr>tp_ck := val\<rparr>
      else if tag = 0x82 then t\<lparr>tp_ik := val\<rparr> else t)"

fun tlvLoop :: "bytes \<Rightarrow> Triple \<Rightarrow> Triple" where
  "tlvLoop (tag # len # rest) t =
     (if length rest < unat len then t
      else tlvLoop (drop (unat len) rest) (setTriple tag (take (unat len) rest) t))"
| "tlvLoop _ t = t"

definition lvField :: "bytes \<Rightarrow> nat \<Rightarrow> string \<Rightarrow> string \<Rightarrow> (bytes \<times> nat) result" where
  "lvField d off missing invalid =
     (if length d \<le> off then fail missing
      else let l = unat (d ! off); off = off + 1
           in if length d < off + l then fail invalid else Inr (slice d off (off + l), off + l))"

definition lvTriple :: "bytes \<Rightarrow> (bytes \<times> bytes \<times> bytes) result" where
  "lvTriple d =
     rbind (lvField d 0 ''Empty data'' ''Invalid RES length'') (\<lambda>(res, off).
     rbind (lvField d off ''Missing CK length'' ''Invalid CK length'') (\<lambda>(ck, off).
     rbind (lvField d off ''Missing IK length'' ''Invalid IK length'') (\<lambda>(ik, _). Inr (res, ck, ik))))"

definition trailingParser :: "bytes \<Rightarrow> (bytes \<times> bytes \<times> bytes) result" where
  "trailingParser dataNoSW =
     rbind (if 2 \<le> length dataNoSW \<and> dataNoSW ! 1 \<le> 0x20 \<and> 2 + unat (dataNoSW ! 1) < length dataNoSW
            then Inr (drop 1 dataNoSW) else parseTagBody dataNoSW) (\<lambda>dataBody.
       let dataBody = unwrapLoop 4 dataBody;
           t = tlvLoop dataBody \<lparr>tp_res = [], tp_ck = [], tp_ik = []\<rparr>
       in if 0 < length (tp_res t) \<and> 0 < length (tp_ck t) \<and> 0 < length (tp_ik t)
          then Inr (tp_res t, tp_ck t, tp_ik t)
          else lvTriple dataBody)"

section \<open>AKA\<close>

text \<open>What the caller gets of the five results: the triple, a token beside \<^verbatim>\<open>ErrSyncFailure\<close>, an error.\<close>

definition aka_triple :: "(bytes \<times> bytes \<times> bytes) result \<Rightarrow> aka_result result" where
  "aka_triple r = (case r of Inr (res, ck, ik) \<Rightarrow> Inr (AkaOk res ck ik)
     | Inl (Fail e) \<Rightarrow> Inr (AkaErr e) | Inl e \<Rightarrow> Inl e)"

abbreviation (input) aka_err :: "string \<Rightarrow> aka_result result" where
  "aka_err m \<equiv> Inr (AkaErr (Msg m))"

text \<open>A response with status 9000, its status word included.\<close>

definition parseAuthResponse :: "bytes \<Rightarrow> aka_result result" where
  "parseAuthResponse csimData =
     (let body = take (length csimData - 2) csimData; tag = csimData ! 0
      in if 4 \<le> length csimData \<and> tag = 0xDB then
           (case parseUSIMAuthDB body of
              Some (res, ck, ik) \<Rightarrow> Inr (AkaOk res ck ik)
            | None \<Rightarrow>
                (case parseTLVData body of
                   Inl (Fail e) \<Rightarrow> Inr (AkaErr e)
                 | Inl e \<Rightarrow> Inl e
                 | Inr data \<Rightarrow>
                     (case parseUSIMAuthDB (0xDB # data) of
                        Some (res, ck, ik) \<Rightarrow> Inr (AkaOk res ck ik)
                      | None \<Rightarrow> aka_err ''AKA success response unparsable'')))
         else if 4 \<le> length csimData \<and> tag = 0xDC then
           (case parseTLVData body of
              Inl (Fail e) \<Rightarrow> Inr (AkaErr e)
            | Inl e \<Rightarrow> Inl e
            | Inr data \<Rightarrow> Inr (AkaSync data))
         else if 4 \<le> length csimData \<and> tag = 0xDD then aka_err ''AKA MAC check failed''
         else if tag \<noteq> 0xDB then
           (if tag = 0xDC then
              (case parseTagBody body of
                 Inr b \<Rightarrow> if 14 \<le> length b then Inr (AkaSync (take 14 b)) else Inr (AkaSync [])
               | Inl (Fail _) \<Rightarrow> Inr (AkaSync [])
               | Inl e \<Rightarrow> Inl e)
            else aka_err ''Unknown CSIM Tag'')
         else aka_triple (trailingParser body))"

definition csimCommand :: "string \<Rightarrow> string" where
  "csimCommand apdu = ''AT+CSIM='' @ itoa (length apdu) @ [CHR 0x2C, CHR 0x22] @ apdu @ [CHR 0x22]"

text \<open>An APDU to the card: the data of its answer, at least the status word long.\<close>

definition csim :: "Modem \<Rightarrow> string \<Rightarrow> string \<Rightarrow> string list \<Rightarrow> string list \<times> bytes result" where
  "csim m apdu short sent =
     (case sendATCommand m (csimCommand apdu) sent of
        (sent, Inl e) \<Rightarrow> (sent, Inl e)
      | (sent, Inr resp) \<Rightarrow> (sent, rbind (parseCSIMResponse resp) (\<lambda>d.
            if length d < 2 then fail short else Inr d)))"

definition authAPDU :: "bytes \<Rightarrow> bytes \<Rightarrow> string" where
  "authAPDU rand autn =
     (let payload = ''10'' @ hexX rand @ ''10'' @ hexX autn
      in ''008800'' @ ''81'' @ hex02 (length payload div 2) @ payload)"

definition statusWord :: "bytes \<Rightarrow> byte \<times> byte" where
  "statusWord d = (d ! (length d - 2), d ! (length d - 1))"

definition direct_CalculateAKA :: "Modem \<Rightarrow> bytes \<Rightarrow> bytes \<Rightarrow> string list \<Rightarrow> string list \<times> aka_result result" where
  "direct_CalculateAKA m rand autn sent =
     (let (sent, r) = csim m (authAPDU rand autn) ''CSIM response too short'' sent;
          (sent, r) = (case r of
             Inl e \<Rightarrow> (sent, Inl e)
           | Inr d \<Rightarrow> if fst (statusWord d) = 0x61
               then csim m (''00C00000'' @ hex02 (unat (snd (statusWord d)))) ''Get Response too short'' sent
               else (sent, Inr d))
      in (sent, case r of
           Inl (Fail e) \<Rightarrow> Inr (AkaErr e)
         | Inl e \<Rightarrow> Inl e
         | Inr d \<Rightarrow> if statusWord d \<noteq> (0x90, 0x00) then aka_err ''CSIM SW Error'' else parseAuthResponse d))"

section \<open>Texts read back\<close>

lemma hex_value_upper: "n < 16 \<Longrightarrow> hex_value (upper_hex n) = Some n"
  by (auto simp: hex_value_def upper_hex_def Let_def)

lemma div16: "n < 256 \<Longrightarrow> n div 16 < (16 :: nat)"
  by (simp add: less_mult_imp_div_less)

lemma hex02_byte: "n < 256 \<Longrightarrow> hex02 n = [upper_hex (n div 16), upper_hex (n mod 16)]"
proof -
  have z: "CHR ''0'' = upper_hex 0" by code_simp
  show ?thesis if "n < 256"
    unfolding hex02_def z using that
    by (cases "n < 16") (simp_all add: Let_def div16 upper_hex_String.simps [of n] upper_hex_String.simps [of "n div 16"])
qed

lemma hex_decode_hexX [simp]: "hex_decode (hexX bs) = Inr bs"
proof (induction bs)
  case (Cons b bs)
  define x y where "x = unat b div 16" and "y = unat b mod 16"
  have xy: "x < 16" "y < 16" "16 * x + y = unat b"
    using div16 [OF unat_byte_less [of b]] unfolding x_def y_def by simp_all
  have "hex02 (unat b) = [upper_hex x, upper_hex y]" unfolding x_def y_def by (rule hex02_byte) simp
  with Cons xy show ?case by (simp add: hexX_def hex_value_upper)
qed (simp add: hexX_def)

lemma hexX_chars:
  assumes "c \<in> set (hexX bs)"
  shows "\<exists>n<16. c = upper_hex n"
proof -
  from assms have "\<exists>b :: byte. c \<in> set (hex02 (unat b))" by (auto simp: hexX_def)
  then obtain b :: byte where b: "c \<in> set (hex02 (unat b))" ..
  have "c = upper_hex (unat b div 16) \<or> c = upper_hex (unat b mod 16)" "unat b div 16 < 16"
    using b div16 [OF unat_byte_less [of b]] by (auto simp: hex02_byte)
  then show ?thesis by (metis mod_less_divisor zero_less_numeral)
qed

lemma not_hex:
  assumes "n < 16"
  shows "upper_hex n \<noteq> CHR 0x22 \<and> upper_hex n \<noteq> CHR ''R'' \<and> \<not> is_space (upper_hex n)"
proof -
  have "list_all (\<lambda>n. upper_hex n \<noteq> CHR 0x22 \<and> upper_hex n \<noteq> CHR ''R'' \<and> \<not> is_space (upper_hex n)) [0..<16]"
    by code_simp
  then have "\<forall>n\<in>{0..<16}. upper_hex n \<noteq> CHR 0x22 \<and> upper_hex n \<noteq> CHR ''R'' \<and> \<not> is_space (upper_hex n)"
    by (simp only: list_all_iff set_upt)
  then show ?thesis by (rule bspec) (use assms in simp)
qed

lemma hexX_safe: "CHR 0x22 \<notin> set (hexX bs)" "CHR ''R'' \<notin> set (hexX bs)"
  using hexX_chars not_hex by metis+

text \<open>Searching for a text.\<close>

lemma str_index_here: "has_prefix s p \<Longrightarrow> str_index s p = Some 0"
  by (simp add: str_index.simps)

lemma str_index_skip:
  "(\<And>i. i < length pre \<Longrightarrow> \<not> has_prefix (drop i (pre @ s)) p) \<Longrightarrow> has_prefix s p \<Longrightarrow>
    str_index (pre @ s) p = Some (length pre)"
proof (induction pre)
  case (Cons c pre)
  have "\<not> has_prefix (drop i (pre @ s)) p" if "i < length pre" for i
    using Cons.prems(1) [of "Suc i"] that by simp
  with Cons have "str_index (pre @ s) p = Some (length pre)" by blast
  moreover have "\<not> has_prefix ((c # pre) @ s) p" using Cons.prems(1) [of 0] by simp
  ultimately show ?case by (subst str_index.simps) simp
qed (simp add: str_index_here)

lemma str_index_char: "c \<notin> set pre \<Longrightarrow> str_index (pre @ c # s) [c] = Some (length pre)"
  by (rule str_index_skip) (auto simp: has_prefix_def nth_append take_Suc_conv_app_nth Cons_nth_drop_Suc [symmetric]
      dest: nth_mem)

lemma str_index_None: "c \<in> set p \<Longrightarrow> c \<notin> set s \<Longrightarrow> str_index s p = None"
proof (induction s)
  case (Cons x s)
  have "\<not> has_prefix (x # s) p" using Cons.prems set_take_subset [of "length p" "x # s"] by (auto simp: has_prefix_def)
  with Cons show ?case by (subst str_index.simps) simp
qed (auto simp: str_index.simps has_prefix_def)

lemma no_ERROR: "CHR ''R'' \<notin> set s \<Longrightarrow> \<not> str_contains s ''ERROR''"
  by (simp add: str_contains_def str_index_None [of "CHR ''R''"])

lemma find_CSIM:
  assumes "CHR '':'' \<notin> set pre"
  shows "str_index (pre @ ''+CSIM:'' @ s) ''+CSIM:'' = Some (length pre)"
proof (rule str_index_skip)
  fix i assume i: "i < length pre"
  define X where "X = pre @ ''+CSIM:'' @ s"
  have "drop i X ! 5 = X ! (i + 5)" by (rule nth_drop) (use i in \<open>simp add: X_def\<close>)
  then have "take 6 (drop i X) ! 5 = X ! (i + 5)" by simp
  moreover have "X ! (i + 5) \<noteq> CHR '':''"
  proof (cases "i + 5 < length pre")
    case True
    with assms show ?thesis unfolding X_def by (auto simp: nth_append dest: nth_mem)
  next
    case False
    then have "i + 5 - length pre \<in> {0, 1, 2, 3, 4}" using i by auto
    with False show ?thesis unfolding X_def by (auto simp: nth_append)
  qed
  moreover have "''+CSIM:'' ! 5 = CHR '':''" by simp
  ultimately have "take 6 (drop i X) \<noteq> ''+CSIM:''" by metis
  moreover have "length ''+CSIM:'' = 6" by simp
  ultimately show "\<not> has_prefix (drop i (pre @ ''+CSIM:'' @ s)) ''+CSIM:''"
    unfolding has_prefix_def X_def [symmetric] by metis
qed (simp add: has_prefix_def)

section \<open>Answers of the card\<close>

text \<open>A \<^verbatim>\<open>+CSIM\<close> line, after an echo of the command, gives the bytes it spells.\<close>

definition csimLine :: "bytes \<Rightarrow> string" where
  "csimLine d = ''+CSIM: '' @ itoa (2 * length d) @ [CHR 0x2C, CHR 0x22] @ hexX d @ [CHR 0x22]"

lemma itoa_chars: "c \<in> set (itoa n) \<Longrightarrow> is_digit c"
proof (induction n rule: itoa.induct)
  case (1 n)
  have "is_digit (char_of (48 + m))" if "m < 10" for m :: nat
    using that by (auto simp: is_digit_def)
  with 1 show ?case by (subst (asm) itoa.simps) (auto split: if_splits)
qed

lemma parse_csimLine:
  assumes "CHR '':'' \<notin> set pre"
  shows "parseCSIMResponse (pre @ csimLine d @ post) = Inr d"
proof -
  define n h where "n = itoa (2 * length d)" and "h = hexX d"
  have q: "CHR 0x22 \<notin> set ('' '' @ n @ [CHR 0x2C])"
    using itoa_chars [of "CHR 0x22"] by (auto simp: n_def is_digit_def)
  define a where "a = ''+CSIM:'' @ '' '' @ n @ [CHR 0x2C]"
  have all: "pre @ csimLine d @ post = pre @ a @ CHR 0x22 # h @ CHR 0x22 # post"
    by (simp add: csimLine_def a_def n_def h_def)
  have 1: "str_index (pre @ a @ CHR 0x22 # h @ CHR 0x22 # post) ''+CSIM:'' = Some (length pre)"
    using find_CSIM [OF assms] unfolding a_def by simp
  have 2: "str_index (a @ CHR 0x22 # h @ CHR 0x22 # post) [CHR 0x22] = Some (length a)"
    by (rule str_index_char) (use q in \<open>simp add: a_def\<close>)
  have 3: "str_index (h @ CHR 0x22 # post) [CHR 0x22] = Some (length h)"
    by (rule str_index_char) (simp add: h_def hexX_safe)
  show ?thesis unfolding all
    by (simp add: parseCSIMResponse_def 1 2 3 Let_def slice_def) (simp add: h_def)
qed

text \<open>Status 9000, the triple as tag, lengths and values, and anything behind it.\<close>

lemma parse_DB:
  assumes "length res < 256" "res \<noteq> []" "length ck = 16" "length ik = 16"
  shows "parseUSIMAuthDB (0xDB # of_nat (length res) # res @ 16 # ck @ 16 # ik @ kc) = Some (res, ck, ik)"
proof -
  define b :: bytes and L where "b = 0xDB # of_nat (length res) # res @ 16 # ck @ 16 # ik @ kc" and "L = length res"
  have head: "b ! 0 = 0xDB" "unat (b ! 1) = L" "length b = 36 + L + length kc"
    using assms by (simp_all add: b_def L_def)
  have b: "b = [0xDB, of_nat L] @ res @ [16] @ ck @ [16] @ ik @ kc" by (simp add: b_def L_def)
  have sl: "slice (a @ x @ c) i j = x" if "i = length a" "j = i + length x" for a x c :: bytes and i j
    using that by (simp add: slice_def)
  have "slice b (2 + L + 1 + 16 + 1) (2 + L + 1 + 16 + 1 + 16) = ik"
    using assms(3,4) sl [of _ "[0xDB, of_nat L] @ res @ [16] @ ck @ [16]" _ ik kc] by (simp add: b L_def)
  then have parts: "slice b (2 + L + 1 + 16 + 1) (2 + L + 1 + 16 + 1 + 16) = ik"
    "slice b 2 (2 + L) = res" "b ! (2 + L) = 16" "slice b (2 + L + 1) (2 + L + 1 + 16) = ck"
    "b ! (2 + L + 1 + 16) = 16"
    using assms(3,4) by (simp_all add: b slice_def L_def nth_append)
  have "0 < L" "(16 :: byte) \<noteq> 0" "unat (16 :: byte) = 16" using assms(2) by (simp_all add: L_def)
  then have "parseUSIMAuthDB b = Some (res, ck, ik)"
    by (simp only: parseUSIMAuthDB_def Let_def head parts) simp
  then show ?thesis by (simp add: b_def)
qed

text \<open>What a modem says that passes on the card's answer.\<close>

definition cardAnswer :: "bytes \<Rightarrow> Answer" where
  "cardAnswer d = \<lparr>an_write = None, an_lines = [([], False), (csimLine d, False), ([], False), (''OK'', False)],
     an_err = None\<rparr>"

lemma trim_space_id: "s \<noteq> [] \<Longrightarrow> \<not> is_space (hd s) \<Longrightarrow> \<not> is_space (last s) \<Longrightarrow> trim_space s = s"
proof -
  assume h: "s \<noteq> []" "\<not> is_space (hd s)" "\<not> is_space (last s)"
  have d: "xs \<noteq> [] \<Longrightarrow> \<not> P (hd xs) \<Longrightarrow> dropWhile P xs = xs" for P and xs :: string by (cases xs) auto
  show ?thesis using h d [of s is_space] d [of "rev s" is_space] by (simp add: trim_space_def hd_rev)
qed

lemma csimLine_trim: "trim_space (csimLine d) = csimLine d"
  by (rule trim_space_id) (auto simp: csimLine_def is_space_def)

lemma csimLine_no_error: "\<not> str_contains (csimLine d) ''ERROR''"
  using itoa_chars [of "CHR ''R''"] hexX_safe
  by (intro no_ERROR) (auto simp: csimLine_def is_digit_def)

lemma csimLine_not: "csimLine d \<noteq> []" "csimLine d \<noteq> ''OK''"
  by (simp_all add: csimLine_def)

lemma cardAnswer_scanned:
  "scanLoop (an_lines (cardAnswer d)) e [] = Inr (csimLine d @ [CHR 0x0A] @ ''OK'' @ [CHR 0x0A])"
proof -
  have "trim_space [] = []" "trim_space ''OK'' = ''OK''" by (simp_all add: trim_space_def is_space_def)
  then show ?thesis
    by (simp add: cardAnswer_def csimLine_trim csimLine_no_error csimLine_not Let_def)
qed

lemma csim_answered:
  assumes "m (sent @ [csimCommand apdu @ [CHR 0x0D, CHR 0x0A]]) = cardAnswer d" "2 \<le> length d"
  shows "csim m apdu short sent = (sent @ [csimCommand apdu @ [CHR 0x0D, CHR 0x0A]], Inr d)"
proof -
  have "parseCSIMResponse (csimLine d @ [CHR 0x0A] @ ''OK'' @ [CHR 0x0A]) = Inr d"
    using parse_csimLine [of "[]" d] by simp
  moreover have "an_write (cardAnswer d) = None" by (simp add: cardAnswer_def)
  ultimately show ?thesis
    using assms by (simp add: csim_def sendATCommand_def Let_def cardAnswer_scanned)
qed

definition usimResponse :: "bytes \<Rightarrow> bytes \<Rightarrow> bytes \<Rightarrow> bytes \<Rightarrow> bytes" where
  "usimResponse res ck ik kc = 0xDB # of_nat (length res) # res @ 16 # ck @ 16 # ik @ kc"

lemma parseAuthResponse_DB:
  assumes "length res < 256" "res \<noteq> []" "length ck = 16" "length ik = 16"
  shows "parseAuthResponse (usimResponse res ck ik kc @ [0x90, 0]) = Inr (AkaOk res ck ik)"
proof -
  have "usimResponse res ck ik kc ! 0 = 0xDB" "4 \<le> length (usimResponse res ck ik kc)"
    using assms by (simp_all add: usimResponse_def)
  moreover from this have "(usimResponse res ck ik kc @ [0x90, 0]) ! 0 = 0xDB" by (simp add: usimResponse_def)
  ultimately show ?thesis
    using parse_DB [OF assms, of kc] by (simp add: parseAuthResponse_def Let_def usimResponse_def [symmetric])
qed

text \<open>The whole exchange with a card that announces its answer and is asked for it.\<close>

definition atLine :: "string \<Rightarrow> string" where
  "atLine apdu = csimCommand apdu @ [CHR 0x0D, CHR 0x0A]"

lemma direct_AKA_card:
  assumes "m [atLine (authAPDU rand autn)] = cardAnswer [0x61, n]"
    and "m [atLine (authAPDU rand autn), atLine (''00C00000'' @ hex02 (unat n))] =
      cardAnswer (usimResponse res ck ik kc @ [0x90, 0])"
    and "length res < 256" "res \<noteq> []" "length ck = 16" "length ik = 16"
  shows "direct_CalculateAKA m rand autn [] =
    ([atLine (authAPDU rand autn), atLine (''00C00000'' @ hex02 (unat n))], Inr (AkaOk res ck ik))"
proof -
  let ?d = "usimResponse res ck ik kc @ [0x90, 0]"
  have 1: "csim m (authAPDU rand autn) ''CSIM response too short'' [] = ([atLine (authAPDU rand autn)], Inr [0x61, n])"
    using csim_answered [of m "[]" "authAPDU rand autn" "[0x61, n]"] assms(1) by (simp add: atLine_def)
  have 2: "csim m (''00C00000'' @ hex02 (unat n)) ''Get Response too short'' [atLine (authAPDU rand autn)] =
      ([atLine (authAPDU rand autn), atLine (''00C00000'' @ hex02 (unat n))], Inr ?d)"
    using csim_answered [of m "[atLine (authAPDU rand autn)]" "''00C00000'' @ hex02 (unat n)" ?d] assms(2)
    by (simp add: atLine_def)
  have "statusWord [0x61, n] = (0x61, n)" "statusWord ?d = (0x90, 0)"
    by (simp_all add: statusWord_def nth_append)
  then show ?thesis
    using parseAuthResponse_DB [OF assms(3-6), of kc]
    by (simp only: direct_CalculateAKA_def Let_def 1 2 prod.case sum.case fst_conv snd_conv if_True refl) simp
qed

text \<open>
  The parser of constructed tags and of lengths and values at the end is never reached with data: a
  response of four bytes or more returns before, and of a shorter one no body is left.
\<close>

lemma trailing_dead:
  assumes "2 \<le> length d" "\<not> 4 \<le> length d"
  shows "trailingParser (take (length d - 2) d) = fail ''tag data too short''"
proof -
  have "trailingParser b = fail ''tag data too short''" if "length b < 2" for b
    using that by (simp add: trailingParser_def parseTagBody_def)
  with assms show ?thesis by simp
qed

definition authReference :: "bytes \<Rightarrow> aka_result result" where
  "authReference d =
     (let body = take (length d - 2) d; tag = d ! 0
      in if length d < 4 then
           (if tag = 0xDB then aka_err ''tag data too short''
            else if tag = 0xDC then Inr (AkaSync []) else aka_err ''Unknown CSIM Tag'')
         else if tag = 0xDB then
           (case parseUSIMAuthDB body of
              Some (res, ck, ik) \<Rightarrow> Inr (AkaOk res ck ik)
            | None \<Rightarrow>
                if length body < 2 + unat (body ! 1) then aka_err ''body length mismatch''
                else case parseUSIMAuthDB (0xDB # slice body 2 (2 + unat (body ! 1))) of
                       Some (res, ck, ik) \<Rightarrow> Inr (AkaOk res ck ik)
                     | None \<Rightarrow> aka_err ''AKA success response unparsable'')
         else if tag = 0xDC then
           (if length body < 2 + unat (body ! 1) then aka_err ''body length mismatch''
            else Inr (AkaSync (slice body 2 (2 + unat (body ! 1)))))
         else if tag = 0xDD then aka_err ''AKA MAC check failed''
         else aka_err ''Unknown CSIM Tag'')"

lemma parseAuthResponse_reference:
  assumes "2 \<le> length d"
  shows "parseAuthResponse d = authReference d"
proof (cases "4 \<le> length d")
  case True
  then show ?thesis
    by (auto simp: parseAuthResponse_def authReference_def parseTLVData_def Let_def split: option.split)
next
  case False
  then show ?thesis using assms trailing_dead [OF assms]
    by (simp add: parseAuthResponse_def authReference_def aka_triple_def parseTagBody_def Let_def)
qed

end
