(* ===== verification/Ipsec_Dataplane.thy ===== *)
theory Ipsec_Dataplane
  imports Ipsec_Esp
begin

text \<open>
  The stand-alone data plane (\<^verbatim>\<open>pkg/ipsec/dataplane.go\<close>) and what \<^verbatim>\<open>pkg/ipsec/esp_socket.go\<close> does with
  the bytes of a datagram. The devices are parameters: a round of a loop takes what the read or the
  receive returned and what the write or the send returned. \<open>dp_net\<close> and \<open>dp_tun\<close> hold what was
  written. The counters have 64 bits.
\<close>

section \<open>ESP datagrams\<close>

definition GetSPI :: "bytes \<Rightarrow> u32 result" where
  "GetSPI espPacket = (if length espPacket < 4 then fail ''ESP packet too short'' else Inr (get32 (slice espPacket 0 4)))"

definition GetSequenceNumber :: "bytes \<Rightarrow> u32 result" where
  "GetSequenceNumber espPacket =
     (if length espPacket < 8 then fail ''ESP packet too short'' else Inr (get32 (slice espPacket 4 8)))"

text \<open>\<^verbatim>\<open>Receive\<close> of the raw socket and of the UDP socket, from what the system call read.\<close>

definition ESPSocket_Receive :: "bytes result \<Rightarrow> bytes result" where
  "ESPSocket_Receive r = rbind r (\<lambda>d. if length d < 8 then fail ''ESP packet too short'' else Inr d)"

definition ESPSocketUDP_Receive :: "bytes result \<Rightarrow> bytes result" where
  "ESPSocketUDP_Receive r = rbind r (\<lambda>d. if d = [0xff] then fail ''NAT-keepalive'' else Inr d)"

section \<open>State\<close>

record DataPlaneStats =
  PacketsSent :: u64
  PacketsReceived :: u64
  BytesSent :: u64
  BytesReceived :: u64
  EncryptErrors :: u64
  DecryptErrors :: u64

record DataPlane =
  inboundSA :: "SecurityAssociation option"
  outboundSA :: "SecurityAssociation option"
  dp_stats :: DataPlaneStats
  dp_net :: "bytes list"
  dp_tun :: "bytes list"

definition NewDataPlane :: DataPlane where
  "NewDataPlane = \<lparr>inboundSA = None, outboundSA = None, dp_stats = \<lparr>PacketsSent = 0, PacketsReceived = 0,
     BytesSent = 0, BytesReceived = 0, EncryptErrors = 0, DecryptErrors = 0\<rparr>, dp_net = [], dp_tun = []\<rparr>"

definition SetSecurityAssociations ::
    "SecurityAssociation option \<Rightarrow> SecurityAssociation option \<Rightarrow> DataPlane \<Rightarrow> DataPlane" where
  "SetSecurityAssociations inbound outbound dp = dp\<lparr>inboundSA := inbound, outboundSA := outbound\<rparr>"

section \<open>The loops\<close>

text \<open>A round: what was read, the random bytes of the packet, and whether the other side took it.\<close>

definition encryptRound :: "bytes result \<Rightarrow> bytes result \<Rightarrow> unit result \<Rightarrow> DataPlane \<Rightarrow> DataPlane \<times> unit result" where
  "encryptRound input rnd taken dp =
     (case (input, outboundSA dp) of
        (Inr packet, Some sa) \<Rightarrow>
          (case Encapsulate rnd packet sa of
             (sa, Inl (Fail _)) \<Rightarrow> (dp\<lparr>outboundSA := Some sa,
               dp_stats := (dp_stats dp)\<lparr>EncryptErrors := EncryptErrors (dp_stats dp) + 1\<rparr>\<rparr>, Inr ())
           | (sa, Inl e) \<Rightarrow> (dp\<lparr>outboundSA := Some sa\<rparr>, Inl e)
           | (sa, Inr espPacket) \<Rightarrow>
               let dp = dp\<lparr>outboundSA := Some sa\<rparr>
               in (case taken of
                     Inl _ \<Rightarrow> dp
                   | Inr _ \<Rightarrow> dp\<lparr>dp_net := dp_net dp @ [espPacket],
                       dp_stats := (dp_stats dp)\<lparr>PacketsSent := PacketsSent (dp_stats dp) + 1,
                         BytesSent := BytesSent (dp_stats dp) + of_nat (length espPacket)\<rparr>\<rparr>, Inr ()))
      | _ \<Rightarrow> (dp, Inr ()))"

definition decryptRound :: "bytes result \<Rightarrow> unit result \<Rightarrow> DataPlane \<Rightarrow> DataPlane \<times> unit result" where
  "decryptRound input taken dp =
     (case (ESPSocket_Receive input, inboundSA dp) of
        (Inr espPacket, Some sa) \<Rightarrow>
          (case Decapsulate espPacket sa of
             Inl (Fail _) \<Rightarrow> (dp\<lparr>dp_stats := (dp_stats dp)\<lparr>DecryptErrors := DecryptErrors (dp_stats dp) + 1\<rparr>\<rparr>, Inr ())
           | Inl e \<Rightarrow> (dp, Inl e)
           | Inr plaintext \<Rightarrow>
               (case taken of
                  Inl _ \<Rightarrow> dp
                | Inr _ \<Rightarrow> dp\<lparr>dp_tun := dp_tun dp @ [plaintext],
                    dp_stats := (dp_stats dp)\<lparr>PacketsReceived := PacketsReceived (dp_stats dp) + 1,
                      BytesReceived := BytesReceived (dp_stats dp) + of_nat (length plaintext)\<rparr>\<rparr>, Inr ()))
      | _ \<Rightarrow> (dp, Inr ()))"

datatype dp_round = Encrypt_round "bytes result" "bytes result" "unit result" | Decrypt_round "bytes result" "unit result"

fun dpRound :: "dp_round \<Rightarrow> DataPlane \<Rightarrow> DataPlane \<times> unit result" where
  "dpRound (Encrypt_round input rnd taken) dp = encryptRound input rnd taken dp"
| "dpRound (Decrypt_round input taken) dp = decryptRound input taken dp"

section \<open>Accounting\<close>

text \<open>The counters say what went through, modulo their 64 bits.\<close>

definition dp_counted :: "DataPlane \<Rightarrow> bool" where
  "dp_counted dp \<longleftrightarrow>
     PacketsSent (dp_stats dp) = of_nat (length (dp_net dp)) \<and>
     BytesSent (dp_stats dp) = of_nat (sum_list (map length (dp_net dp))) \<and>
     PacketsReceived (dp_stats dp) = of_nat (length (dp_tun dp)) \<and>
     BytesReceived (dp_stats dp) = of_nat (sum_list (map length (dp_tun dp)))"

lemma encryptRound_counted: "dp_counted dp \<Longrightarrow> dp_counted (fst (encryptRound input rnd taken dp))"
  by (auto simp: dp_counted_def encryptRound_def Let_def split: sum.split option.split fault.split prod.split)

lemma decryptRound_counted: "dp_counted dp \<Longrightarrow> dp_counted (fst (decryptRound input taken dp))"
  by (auto simp: dp_counted_def decryptRound_def split: sum.split option.split fault.split)

lemma dpRounds_counted: "dp_counted dp \<Longrightarrow> dp_counted (fold (\<lambda>r dp. fst (dpRound r dp)) rs dp)"
proof (induction rs arbitrary: dp)
  case (Cons r rs)
  have "dp_counted (fst (dpRound r dp))"
    by (cases r) (use Cons.prems encryptRound_counted decryptRound_counted in auto)
  then show ?case by (simp add: Cons.IH)
qed simp

lemma NewDataPlane_counted: "dp_counted NewDataPlane"
  by (simp add: dp_counted_def NewDataPlane_def)

text \<open>Two data planes with the two ends of one association pass a packet on.\<close>

lemma Encapsulate_header:
  assumes "snd (Encapsulate (Inr iv) p sa) = Inr pkt"
  shows "GetSPI pkt = Inr (sa_SPI sa)" "GetSequenceNumber pkt = Inr (ucast (SequenceNumber sa + 1))" "8 \<le> length pkt"
proof -
  obtain e where e: "pkt = put32 (sa_SPI sa) @ put32 (ucast (SequenceNumber sa + 1)) @ e"
    using Encapsulate_packet [OF assms] by (auto simp: esp_packet_def Let_def split: option.splits)
  show "GetSPI pkt = Inr (sa_SPI sa)" "GetSequenceNumber pkt = Inr (ucast (SequenceNumber sa + 1))" "8 \<le> length pkt"
    by (simp_all add: e GetSPI_def GetSequenceNumber_def slice_def)
qed

lemma dataplane_passes:
  assumes "outboundSA a = Some sa" "inboundSA b = Some sb" "sa_peer sa sb"
    and "length iv = IVSize (EncryptionAlg sa)"
    and "encryptRound (Inr p) (Inr iv) (Inr ()) a = (a', Inr ())" "dp_net a' = dp_net a @ [pkt]"
  shows "dp_tun (fst (decryptRound (Inr pkt) (Inr ()) b)) = dp_tun b @ [p]"
proof -
  obtain sa' r where r: "Encapsulate (Inr iv) p sa = (sa', r)" by fastforce
  with assms(1,5,6) have "r = Inr pkt"
    by (auto simp: encryptRound_def Let_def split: sum.splits fault.splits)
  with r have e: "snd (Encapsulate (Inr iv) p sa) = Inr pkt" by simp
  then show ?thesis using Encapsulate_header(3) [OF e] Decapsulate_Encapsulate [OF assms(3,4) e] assms(2) by (simp add: decryptRound_def ESPSocket_Receive_def)
qed

end
