(* ===== verification/Swu_Dataplane.thy ===== *)
theory Swu_Dataplane
  imports Swu_Policy Ipsec_Dataplane "HOL-Library.Sublist"
begin

text \<open>
  The session's own data planes: the two loops between the TUN device and the socket
  (\<^verbatim>\<open>startDataPlaneLoop\<close> of \<^verbatim>\<open>pkg/swu/session.go\<close>) and the one whose inner side is a pair of queues
  (\<^verbatim>\<open>pkg/swu/dataplane_netstack.go\<close>). The goroutines of the latter, the application and the end of
  the connection are a step relation; a \<^verbatim>\<open>select\<close> with several ready cases may take any of them.
\<close>

section \<open>A packet\<close>

text \<open>Outgoing: the association, whose counter moves on, and the packet for the socket, if any.\<close>

definition sealOutgoing :: "bytes result \<Rightarrow> bytes \<Rightarrow> Session \<Rightarrow> Session \<times> bytes option result" where
  "sealOutgoing rnd packet s =
     (case selectOutgoingSA packet s of
        None \<Rightarrow> (s, Inr None)
      | Some i \<Rightarrow>
          (case Encapsulate rnd packet (sas s ! i) of
             (sa, r) \<Rightarrow> (s\<lparr>sas := (sas s)[i := sa]\<rparr>, case r of
                 Inr espPacket \<Rightarrow> Inr (Some espPacket)
               | Inl (Fail _) \<Rightarrow> Inr None
               | Inl e \<Rightarrow> Inl e)))"

text \<open>Incoming: the association that the SPI finds, or the session's only one.\<close>

definition incomingSA :: "bytes \<Rightarrow> Session \<Rightarrow> sa_ref option" where
  "incomingSA espData s =
     (if 4 \<le> length espData then
        (case ChildSAsIn s (get32 (slice espData 0 4)) of Some i \<Rightarrow> Some i | None \<Rightarrow> ChildSAIn s)
      else ChildSAIn s)"

definition openIncoming :: "bytes \<Rightarrow> Session \<Rightarrow> bytes option result" where
  "openIncoming espData s =
     (case incomingSA espData s of
        None \<Rightarrow> Inr None
      | Some i \<Rightarrow>
          (case Decapsulate espData (sas s ! i) of
             Inr packet \<Rightarrow> Inr (Some packet)
           | Inl (Fail _) \<Rightarrow> Inr None
           | Inl e \<Rightarrow> Inl e))"

text \<open>
  The rounds of the two loops on the TUN device: what the socket was given, what the device was
  given; a packet that the other side does not take is lost.
\<close>

definition tunRound :: "bytes result \<Rightarrow> unit result \<Rightarrow> bytes \<Rightarrow> Session \<times> bytes list \<Rightarrow> (Session \<times> bytes list) result" where
  "tunRound rnd taken packet = (\<lambda>(s, out).
     (case sealOutgoing rnd packet s of
        (s, Inl e) \<Rightarrow> Inl e
      | (s, Inr None) \<Rightarrow> Inr (s, out)
      | (s, Inr (Some p)) \<Rightarrow> Inr (s, case taken of Inr _ \<Rightarrow> out @ [p] | Inl _ \<Rightarrow> out)))"

definition espRound :: "unit result \<Rightarrow> bytes \<Rightarrow> Session \<times> bytes list \<Rightarrow> (Session \<times> bytes list) result" where
  "espRound taken espData = (\<lambda>(s, tun).
     rbind (openIncoming espData s) (\<lambda>r. Inr (s, case (r, taken) of (Some p, Inr _) \<Rightarrow> tun @ [p] | _ \<Rightarrow> tun)))"

section \<open>The queues\<close>

definition netstackInnerQueueDepth :: nat where
  "netstackInnerQueueDepth = 256"

datatype in_loop = InIdle | InHolding bytes | InReturned | InPanicked

text \<open>
  \<open>opened\<close> holds what the inbound goroutine has decapsulated, \<open>given\<close> what the application has
  received, \<open>sentESP\<close> what the socket was given. \<open>ns_crashed\<close> is a panic of the goroutine that closes.
\<close>

record Netstack =
  ns_session :: Session
  innerUp :: bool
  innerTx :: "bytes list"
  innerRx :: "bytes list"
  rxClosed :: bool
  innerClosed :: bool
  ctxDone :: bool
  out_returned :: bool
  in_loop :: in_loop
  opened :: "bytes list"
  given :: "bytes list"
  sentESP :: "bytes list"
  ns_crashed :: bool

definition newNetstack :: "Session \<Rightarrow> Netstack" where
  "newNetstack s = \<lparr>ns_session = s, innerUp = False, innerTx = [], innerRx = [], rxClosed = False,
     innerClosed = False, ctxDone = False, out_returned = True, in_loop = InReturned, opened = [], given = [],
     sentESP = [], ns_crashed = False\<rparr>"

text \<open>Set-up returns at once when the queues exist; closed ones stay closed.\<close>

definition initNetstackDataplane :: "Netstack \<Rightarrow> Netstack" where
  "initNetstackDataplane n =
     (if innerUp n then n
      else n\<lparr>innerUp := True, innerTx := [], innerRx := [], rxClosed := False, innerClosed := False\<rparr>)"

definition startNetstackDataPlaneLoop :: "Netstack \<Rightarrow> Netstack" where
  "startNetstackDataPlaneLoop n = n\<lparr>out_returned := False, in_loop := InIdle\<rparr>"

definition closeNetstackDataplane :: "Netstack \<Rightarrow> Netstack" where
  "closeNetstackDataplane n =
     (if \<not> innerUp n then n
      else if rxClosed n then n\<lparr>innerClosed := True, ns_crashed := True\<rparr>
      else n\<lparr>innerClosed := True, rxClosed := True\<rparr>)"

datatype send_result = Sent | NotUp | Cancelled | Closed | Blocked

text \<open>\<^verbatim>\<open>SendInnerPacket\<close>: the results its \<^verbatim>\<open>select\<close> may give, with the state after each.\<close>

definition SendInnerPacket :: "bytes \<Rightarrow> Netstack \<Rightarrow> (send_result \<times> Netstack) list" where
  "SendInnerPacket packet n =
     (if length packet = 0 then [(Sent, n)]
      else if \<not> innerUp n then [(NotUp, n)]
      else
        let ready = (if ctxDone n then [(Cancelled, n)] else []) @ (if innerClosed n then [(Closed, n)] else []) @
              (if length (innerTx n) < netstackInnerQueueDepth then [(Sent, n\<lparr>innerTx := innerTx n @ [packet]\<rparr>)] else [])
        in if ready = [] then [(Blocked, n)] else ready)"

text \<open>The application's receive: a packet, the end of a closed and empty queue, or nothing yet.\<close>

definition InnerPackets :: "Netstack \<Rightarrow> (bytes option \<times> Netstack) option" where
  "InnerPackets n =
     (if \<not> innerUp n then Some (None, n)
      else case innerRx n of
             p # ps \<Rightarrow> Some (Some p, n\<lparr>innerRx := ps, given := given n @ [p]\<rparr>)
           | [] \<Rightarrow> if rxClosed n then Some (None, n) else None)"

text \<open>The outbound goroutine takes a packet.\<close>

definition outTake :: "bytes result \<Rightarrow> unit result \<Rightarrow> Netstack \<Rightarrow> Netstack option" where
  "outTake rnd taken n =
     (case innerTx n of
        [] \<Rightarrow> None
      | p # ps \<Rightarrow>
          (case tunRound rnd taken p (ns_session n, sentESP n) of
             Inl _ \<Rightarrow> Some (n\<lparr>ns_crashed := True\<rparr>)
           | Inr (s, out) \<Rightarrow> Some (n\<lparr>innerTx := ps, ns_session := s, sentESP := out\<rparr>)))"

text \<open>The inbound goroutine takes a datagram; it looks for the end before it does so.\<close>

definition inTake :: "bytes \<Rightarrow> Netstack \<Rightarrow> Netstack" where
  "inTake espData n =
     (if ctxDone n \<or> innerClosed n then n\<lparr>in_loop := InReturned\<rparr>
      else case openIncoming espData (ns_session n) of
             Inl _ \<Rightarrow> n\<lparr>ns_crashed := True\<rparr>
           | Inr None \<Rightarrow> n
           | Inr (Some p) \<Rightarrow> n\<lparr>in_loop := InHolding p, opened := opened n @ [p]\<rparr>)"

text \<open>
  The second \<^verbatim>\<open>select\<close>: the end, the queue if it has room, a panic if it is closed, and nothing of
  these ready, the packet is dropped.
\<close>

definition inPut :: "bytes \<Rightarrow> Netstack \<Rightarrow> Netstack list" where
  "inPut p n =
     (let stops = (if ctxDone n \<or> innerClosed n then [n\<lparr>in_loop := InReturned\<rparr>] else []);
          puts = (if rxClosed n then [n\<lparr>in_loop := InPanicked\<rparr>]
                  else if length (innerRx n) < netstackInnerQueueDepth
                  then [n\<lparr>in_loop := InIdle, innerRx := innerRx n @ [p]\<rparr>] else [])
      in if stops @ puts = [] then [n\<lparr>in_loop := InIdle\<rparr>] else stops @ puts)"

inductive netstack_step :: "Netstack \<Rightarrow> Netstack \<Rightarrow> bool" where
  up: "in_loop n = InReturned \<Longrightarrow> out_returned n \<Longrightarrow> netstack_step n (startNetstackDataPlaneLoop (initNetstackDataplane n))"
| send: "(r, n') \<in> set (SendInnerPacket p n) \<Longrightarrow> netstack_step n n'"
| receive: "InnerPackets n = Some (r, n') \<Longrightarrow> netstack_step n n'"
| out_take: "innerUp n \<Longrightarrow> \<not> out_returned n \<Longrightarrow> outTake rnd taken n = Some n' \<Longrightarrow> netstack_step n n'"
| out_stop: "ctxDone n \<or> innerClosed n \<Longrightarrow> netstack_step n (n\<lparr>out_returned := True\<rparr>)"
| in_take: "innerUp n \<Longrightarrow> in_loop n = InIdle \<Longrightarrow> netstack_step n (inTake d n)"
| in_end: "in_loop n = InIdle \<Longrightarrow> netstack_step n (n\<lparr>in_loop := InReturned\<rparr>)"
| in_put: "in_loop n = InHolding p \<Longrightarrow> n' \<in> set (inPut p n) \<Longrightarrow> netstack_step n n'"
| cancel: "netstack_step n (n\<lparr>ctxDone := True\<rparr>)"
| clean_up: "netstack_step n (closeNetstackDataplane n)"

inductive_cases netstack_stepE: "netstack_step n n'"

section \<open>Order and bounds\<close>

definition held :: "in_loop \<Rightarrow> bytes list" where
  "held l = (case l of InHolding p \<Rightarrow> [p] | _ \<Rightarrow> [])"

lemma held_simps [simp]: "held InIdle = []" "held InReturned = []" "held InPanicked = []" "held (InHolding p) = [p]"
  by (simp_all add: held_def)

definition netstack_inv :: "Netstack \<Rightarrow> bool" where
  "netstack_inv n \<longleftrightarrow>
     length (innerTx n) \<le> netstackInnerQueueDepth \<and> length (innerRx n) \<le> netstackInnerQueueDepth \<and>
     subseq (given n @ innerRx n @ held (in_loop n)) (opened n) \<and> (in_loop n = InPanicked \<longrightarrow> rxClosed n) \<and>
     (rxClosed n \<longrightarrow> innerClosed n)"

lemma subseq_drop_last: "subseq (xs @ ys @ [p]) zs \<Longrightarrow> subseq (xs @ ys) zs"
  by (rule subseq_order.order_trans [OF prefix_imp_subseq]) (auto simp: prefix_def)

lemma netstack_inv_step:
  assumes "netstack_step n n'" "netstack_inv n"
  shows "netstack_inv n'"
  using assms(1)
proof (cases rule: netstack_step.cases)
  case up
  then show ?thesis using assms(2) subseq_order.order_trans [of "given n" "given n @ innerRx n" "opened n"]
    by (auto simp: netstack_inv_def startNetstackDataPlaneLoop_def initNetstackDataplane_def list_emb_prefix)
next
  case (send r p)
  then show ?thesis using assms(2)
    by (auto simp: SendInnerPacket_def netstack_inv_def Let_def split: if_splits)
next
  case (receive r)
  then show ?thesis using assms(2)
    by (auto simp: InnerPackets_def netstack_inv_def split: if_splits list.splits)
next
  case (out_take rnd taken)
  then show ?thesis using assms(2)
    by (auto simp: outTake_def netstack_inv_def split: list.splits sum.splits)
next
  case out_stop
  then show ?thesis using assms(2) by (simp add: netstack_inv_def)
next
  case (in_take d)
  then show ?thesis using assms(2)
    by (auto simp: inTake_def netstack_inv_def simp flip: append_assoc split: sum.splits option.splits)
next
  case in_end
  then show ?thesis using assms(2) by (simp add: netstack_inv_def)
next
  case (in_put p)
  then show ?thesis using assms(2) subseq_drop_last [of "given n" "innerRx n" p "opened n"]
    by (auto simp: inPut_def netstack_inv_def Let_def split: if_splits)
next
  case cancel
  then show ?thesis using assms(2) by (simp add: netstack_inv_def)
next
  case clean_up
  then show ?thesis using assms(2) by (simp add: closeNetstackDataplane_def netstack_inv_def)
qed

interpretation netstack: step_system netstack_step netstack_inv
  by unfold_locales (rule netstack_inv_step)

lemma netstack_reachable_inv: "netstack_step\<^sup>*\<^sup>* (newNetstack s) n \<Longrightarrow> netstack_inv n"
  by (erule netstack.steps_inv) (simp add: netstack_inv_def newNetstack_def)

section \<open>The end of a connection\<close>

text \<open>
  Closing the queue under the goroutine that is about to write into it makes its \<^verbatim>\<open>select\<close> choose
  between returning and a panic.
\<close>

lemmas netstack_then = converse_rtranclp_into_rtranclp [of netstack_step]

lemma netstack_close_race:
  assumes "openIncoming d s = Inr (Some p)"
  shows "\<exists>n. netstack_step\<^sup>*\<^sup>* (newNetstack s) n \<and> in_loop n = InPanicked"
proof -
  let ?a = "startNetstackDataPlaneLoop (initNetstackDataplane (newNetstack s))"
  let ?b = "inTake d ?a" let ?c = "closeNetstackDataplane ?b"
  note d = startNetstackDataPlaneLoop_def initNetstackDataplane_def newNetstack_def inTake_def closeNetstackDataplane_def
  have 1: "netstack_step (newNetstack s) ?a" by (rule up) (simp_all add: newNetstack_def)
  have 2: "netstack_step ?a ?b" by (rule in_take) (simp_all add: d)
  have 3: "netstack_step ?b ?c" by (rule clean_up)
  have 4: "netstack_step ?c (?c\<lparr>in_loop := InPanicked\<rparr>)"
    by (rule in_put [of _ p]) (use assms in \<open>simp_all add: d inPut_def\<close>)
  show ?thesis using netstack_then [OF 1 netstack_then [OF 2 netstack_then [OF 3 r_into_rtranclp [of netstack_step, OF 4]]]]
    by (intro exI [of _ "?c\<lparr>in_loop := InPanicked\<rparr>"]) simp
qed

text \<open>The clean-up of a second connection closes the closed queue.\<close>

lemma netstack_second_cleanup:
  assumes "innerUp n"
  shows "ns_crashed (closeNetstackDataplane (initNetstackDataplane (closeNetstackDataplane n)))"
  using assms by (auto simp: closeNetstackDataplane_def initNetstackDataplane_def)

text \<open>Queues that were closed stay so, and nothing is decapsulated any more.\<close>

definition netstack_over :: "Netstack \<Rightarrow> bool" where
  "netstack_over n \<longleftrightarrow> innerUp n \<and> innerClosed n"

lemma netstack_over_step:
  assumes "netstack_step n n'" "netstack_over n"
  shows "netstack_over n' \<and> opened n' = opened n"
  using assms
  by (cases rule: netstack_stepE)
    (auto simp: netstack_over_def startNetstackDataPlaneLoop_def initNetstackDataplane_def SendInnerPacket_def
      InnerPackets_def outTake_def inTake_def inPut_def closeNetstackDataplane_def Let_def
      split: if_splits list.splits sum.splits)

interpretation netstack_end: frozen_system netstack_step netstack_over opened
  by unfold_locales (simp_all add: netstack_over_step)

lemma netstack_over_forever:
  "netstack_step\<^sup>*\<^sup>* n n' \<Longrightarrow> netstack_over n \<Longrightarrow> netstack_over n' \<and> opened n' = opened n"
  using netstack_end.steps_inv netstack_end.steps_obs by blast

end
