(* ===== verification/Driver_Net.thy ===== *)
theory Driver_Net
  imports Swu_Config
begin

text \<open>
  The kernel as the program sees it, and the network tools over it
  (\<^verbatim>\<open>pkg/driver/nettools.go\<close>, \<^verbatim>\<open>pkg/driver/transaction.go\<close>). The netlink library and the kernel behind
  it are a parameter: a function that gives the reply to a request, knowing all requests before it and
  their replies. Every operation extends that history; an undo function of the code is a value of \<open>Undo\<close>.
\<close>

section \<open>Requests and replies\<close>

datatype errno = ESRCH | EEXIST | Errno string

record Link =
  lk_Name :: string
  lk_Index :: int

record IPNet =
  net_IP :: bytes
  net_Mask :: bytes

record NlAddr =
  na_Text :: string
  na_Flags :: int

record Rule =
  rl_Src :: "IPNet option"
  rl_IifName :: string
  rl_Table :: int
  rl_Family :: int

record Route =
  rt_Dst :: "IPNet option"
  rt_Gw :: bytes
  rt_LinkIndex :: int
  rt_Table :: int

datatype Proto = XFRM_PROTO_ESP
datatype Mode = XFRM_MODE_TUNNEL
datatype EncapType = XFRM_ENCAP_NONE | XFRM_ENCAP_ESPINUDP
datatype Dir = XFRM_DIR_IN | XFRM_DIR_OUT | XFRM_DIR_FWD
datatype SADir = XFRM_SA_DIR_NONE | XFRM_SA_DIR_IN | XFRM_SA_DIR_OUT

record XfrmStateAlgo =
  alg_Name :: string
  alg_Key :: bytes
  alg_TruncateLen :: int
  alg_ICVLen :: int

record XfrmStateEncap =
  enc_Type :: EncapType
  enc_SrcPort :: int
  enc_DstPort :: int

record XfrmState =
  xs_Src :: bytes
  xs_Dst :: bytes
  xs_Proto :: Proto
  xs_Mode :: "Mode option"
  xs_Spi :: int
  xs_ReplayWindow :: int
  xs_Ifid :: int
  xs_ESN :: bool
  xs_SADir :: SADir
  xs_TimeSoft :: u64
  xs_TimeHard :: u64
  xs_Aead :: "XfrmStateAlgo option"
  xs_Crypt :: "XfrmStateAlgo option"
  xs_Auth :: "XfrmStateAlgo option"
  xs_Encap :: "XfrmStateEncap option"
  xs_UseTime :: u64

record XfrmPolicyTmpl =
  tm_Src :: bytes
  tm_Dst :: bytes
  tm_Proto :: Proto
  tm_Mode :: Mode
  tm_Spi :: int

record XfrmPolicy =
  xp_Src :: IPNet
  xp_Dst :: IPNet
  xp_Dir :: Dir
  xp_Ifid :: int
  xp_Tmpls :: "XfrmPolicyTmpl list"

datatype Req =
    LinkByName string
  | LinkAddXfrmi string u32 int
  | LinkDel Link
  | LinkSetUp Link
  | LinkSetDown Link
  | LinkSetMTU Link int
  | ParseAddr string
  | AddrAdd Link NlAddr
  | AddrDel Link NlAddr
  | RouteAdd Route
  | RouteDel Route
  | RouteList int Route
  | RuleAdd Rule
  | RuleDel Rule
  | RuleList int
  | WriteFile string string
  | XfrmStateAdd XfrmState
  | XfrmStateUpdate XfrmState
  | XfrmStateDel XfrmState
  | XfrmStateGet XfrmState
  | XfrmStateList
  | XfrmStateFlush
  | XfrmPolicyUpdate XfrmPolicy
  | XfrmPolicyDel XfrmPolicy
  | XfrmPolicyFlush

datatype Reply =
    Done
  | Error errno
  | GotLink Link
  | GotAddr NlAddr
  | GotRoutes "Route list"
  | GotRules "Rule list"
  | GotStates "XfrmState list"

type_synonym Kernel = "(Req \<times> Reply) list \<Rightarrow> Req \<Rightarrow> Reply"

section \<open>Operations on the host\<close>

record XFRMSPConfig =
  sp_Src :: IPNet
  sp_Dst :: IPNet
  sp_Dir :: Dir
  sp_TmplSrc :: bytes
  sp_TmplDst :: bytes
  sp_TmplProto :: Proto
  sp_TmplMode :: Mode
  sp_TmplSPI :: int
  sp_Ifid :: int

datatype Undo =
    UndoLink string
  | UndoLinkDown string
  | UndoAddr string string
  | UndoRoute string string string
  | UndoRules int string
  | UndoSA u32 bytes bytes Proto
  | UndoSP XFRMSPConfig

text \<open>What the session keeps of its kernel state; an empty address is nil.\<close>

record XfrmPlane =
  xfrmMgr :: bool
  xfrmLocalIP :: bytes
  xfrmRemoteIP :: bytes
  xfrmLocalPort :: int
  xfrmRemotePort :: int
  xfrmIfID :: int
  xfrmPolicies :: "XFRMSPConfig list"

text \<open>The history, the undo functions that the XFRM manager, a transaction and the session hold, and the above.\<close>

record Host =
  calls :: "(Req \<times> Reply) list"
  xfrm_undos :: "Undo list"
  tx_undos :: "Undo list"
  netUndos :: "Undo list"
  plane :: XfrmPlane

type_synonym 'a sys = "Host \<Rightarrow> Host \<times> 'a result"

definition hret :: "'a \<Rightarrow> 'a sys" where
  "hret x h = (h, Inr x)"

definition hlift :: "'a result \<Rightarrow> 'a sys" where
  "hlift r h = (h, r)"

definition hbind :: "'a sys \<Rightarrow> ('a \<Rightarrow> 'b sys) \<Rightarrow> 'b sys" where
  "hbind m f h = (case m h of (h', Inl e) \<Rightarrow> (h', Inl e) | (h', Inr x) \<Rightarrow> f x h')"

abbreviation hseq :: "'a sys \<Rightarrow> 'b sys \<Rightarrow> 'b sys" where
  "hseq m n \<equiv> hbind m (\<lambda>_. n)"

definition hmodify :: "(Host \<Rightarrow> Host) \<Rightarrow> unit sys" where
  "hmodify f h = (f h, Inr ())"

text \<open>\<^verbatim>\<open>_ = f()\<close>, and an error that only writes a line to the log.\<close>

definition ignored :: "'a sys \<Rightarrow> unit sys" where
  "ignored m h = (case m h of (h', Inl Panic) \<Rightarrow> (h', Inl Panic) | (h', _) \<Rightarrow> (h', Inr ()))"

fun hmap :: "('a \<Rightarrow> unit sys) \<Rightarrow> 'a list \<Rightarrow> unit sys" where
  "hmap f [] = hret ()"
| "hmap f (x # xs) = hseq (f x) (hmap f xs)"

definition call :: "Kernel \<Rightarrow> Req \<Rightarrow> Reply sys" where
  "call k r h = (let a = k (calls h) r in (h\<lparr>calls := calls h @ [(r, a)]\<rparr>, Inr a))"

text \<open>A call whose only result is an error.\<close>

definition callErr :: "Kernel \<Rightarrow> Req \<Rightarrow> errno option sys" where
  "callErr k r = hbind (call k r) (\<lambda>a. hret (case a of Error e \<Rightarrow> Some e | _ \<Rightarrow> None))"

definition wrapErr :: "string \<Rightarrow> errno option \<Rightarrow> unit sys" where
  "wrapErr op e = hlift (case e of None \<Rightarrow> Inr () | Some _ \<Rightarrow> fail op)"

definition callOp :: "string \<Rightarrow> Kernel \<Rightarrow> Req \<Rightarrow> unit sys" where
  "callOp op k r = hbind (callErr k r) (wrapErr op)"

definition getLink :: "Kernel \<Rightarrow> string \<Rightarrow> Link sys" where
  "getLink k iface = hbind (call k (LinkByName iface)) (\<lambda>a.
     hlift (case a of GotLink l \<Rightarrow> Inr l | _ \<Rightarrow> fail ''no such interface''))"

definition SetLinkUp :: "Kernel \<Rightarrow> string \<Rightarrow> unit sys" where
  "SetLinkUp k iface = hbind (getLink k iface) (\<lambda>l. callOp ''link set up'' k (LinkSetUp l))"

definition SetLinkDown :: "Kernel \<Rightarrow> string \<Rightarrow> unit sys" where
  "SetLinkDown k iface = hbind (getLink k iface) (\<lambda>l. callOp ''link set down'' k (LinkSetDown l))"

definition DeleteLink :: "Kernel \<Rightarrow> string \<Rightarrow> unit sys" where
  "DeleteLink k iface = hbind (getLink k iface) (\<lambda>l. callOp ''link del'' k (LinkDel l))"

text \<open>A TUN device, from what the library's \<^verbatim>\<open>water.New\<close> gives; a device of that name goes first.\<close>

definition NewTUNDevice :: "Kernel \<Rightarrow> string \<Rightarrow> string result \<Rightarrow> string sys" where
  "NewTUNDevice k name dev =
     hseq (if name = [] then hret () else ignored (DeleteLink k name))
       (hlift (relabel ''creating the TUN device failed'' dev))"

definition SetMTU :: "Kernel \<Rightarrow> string \<Rightarrow> int \<Rightarrow> unit sys" where
  "SetMTU k iface mtu = hbind (getLink k iface) (\<lambda>l. callOp ''link set mtu'' k (LinkSetMTU l mtu))"

definition parseAddr :: "Kernel \<Rightarrow> string \<Rightarrow> NlAddr sys" where
  "parseAddr k cidr = hbind (call k (ParseAddr cidr)) (\<lambda>a.
     hlift (case a of GotAddr x \<Rightarrow> Inr x | _ \<Rightarrow> fail ''parsing the address failed''))"

definition AddAddress :: "Kernel \<Rightarrow> string \<Rightarrow> string \<Rightarrow> unit sys" where
  "AddAddress k iface cidr =
     hbind (getLink k iface) (\<lambda>l. hbind (parseAddr k cidr) (\<lambda>a. callOp ''addr add'' k (AddrAdd l a)))"

definition DelAddress :: "Kernel \<Rightarrow> string \<Rightarrow> string \<Rightarrow> unit sys" where
  "DelAddress k iface cidr =
     hbind (getLink k iface) (\<lambda>l. hbind (parseAddr k cidr) (\<lambda>a. callOp ''addr del'' k (AddrDel l a)))"

text \<open>Five attempts; \<^verbatim>\<open>IFA_F_NODAD\<close> is the bit 2 of the flags.\<close>

fun addAttempts :: "Kernel \<Rightarrow> nat \<Rightarrow> Link \<Rightarrow> NlAddr \<Rightarrow> unit sys" where
  "addAttempts k 0 l a = hlift (fail ''addr add -6'')"
| "addAttempts k (Suc n) l a =
     hbind (callErr k (AddrAdd l a)) (\<lambda>e. if e = None then hret () else addAttempts k n l a)"

definition AddAddress6 :: "Kernel \<Rightarrow> string \<Rightarrow> string \<Rightarrow> unit sys" where
  "AddAddress6 k iface cidr =
     hbind (getLink k iface) (\<lambda>l. hbind (parseAddr k cidr) (\<lambda>a.
       addAttempts k 5 l (a\<lparr>na_Flags := or (na_Flags a) 2\<rparr>)))"

section \<open>Addresses in texts\<close>

text \<open>\<^verbatim>\<open>net.ParseIP\<close> and \<^verbatim>\<open>net.ParseCIDR\<close>: dotted decimal, or hexadecimal groups with one gap.\<close>

definition group16 :: "string \<Rightarrow> bytes option" where
  "group16 s =
     (if s = [] \<or> 4 < length s \<or> \<not> list_all (\<lambda>c. hex_value c \<noteq> None) s then None
      else Some (put16 (of_nat (foldl (\<lambda>n c. 16 * n + the (hex_value c)) 0 s))))"

text \<open>Groups between colons; a dotted address may stand for the last two.\<close>

fun groups :: "bool \<Rightarrow> string list \<Rightarrow> bytes option" where
  "groups dotted [] = Some []"
| "groups dotted [s] = (if dotted \<and> ParseIP4 s \<noteq> [] then Some (ParseIP4 s) else group16 s)"
| "groups dotted (s # t # ss) =
     (case (group16 s, groups dotted (t # ss)) of (Some a, Some b) \<Rightarrow> Some (a @ b) | _ \<Rightarrow> None)"

definition groupsOf :: "bool \<Rightarrow> string \<Rightarrow> bytes option" where
  "groupsOf dotted s = (if s = [] then Some [] else groups dotted (split_on CHR '':'' s))"

fun cutGap :: "string \<Rightarrow> (string \<times> string) option" where
  "cutGap (c # d # s) =
     (if c = CHR '':'' \<and> d = CHR '':'' then Some ([], s)
      else map_option (\<lambda>(a, b). (c # a, b)) (cutGap (d # s)))"
| "cutGap _ = None"

definition ParseIP6 :: "string \<Rightarrow> bytes" where
  "ParseIP6 s =
     (case cutGap s of
        None \<Rightarrow> (case groupsOf True s of Some b \<Rightarrow> if length b = 16 then b else [] | None \<Rightarrow> [])
      | Some (l, r) \<Rightarrow>
          (case (groupsOf False l, groupsOf True r) of
             (Some a, Some b) \<Rightarrow> if length a + length b \<le> 14 then a @ replicate (16 - length a - length b) 0 @ b else []
           | _ \<Rightarrow> []))"

definition ParseIP :: "string \<Rightarrow> bytes" where
  "ParseIP s = (if ParseIP4 s \<noteq> [] then replicate 10 0 @ [0xff, 0xff] @ ParseIP4 s else ParseIP6 s)"

text \<open>\<^verbatim>\<open>net.CIDRMask\<close> and \<^verbatim>\<open>IP.Mask\<close>.\<close>

definition CIDRMask :: "nat \<Rightarrow> nat \<Rightarrow> bytes" where
  "CIDRMask ones bits =
     map (\<lambda>i. if 8 * i + 8 \<le> ones then 0xff else if ones \<le> 8 * i then 0 else of_nat (256 - 2 ^ (8 - (ones - 8 * i))))
       [0..<bits div 8]"

definition maskIP :: "bytes \<Rightarrow> bytes \<Rightarrow> bytes" where
  "maskIP ip m =
     (let ip = (if length m = 4 \<and> length ip = 16 \<and> take 12 ip = replicate 10 0 @ [0xff, 0xff] then drop 12 ip else ip)
      in map2 and ip m)"

definition prefix_len :: "string \<Rightarrow> nat option" where
  "prefix_len s = (if s \<noteq> [] \<and> list_all is_digit s then Some (dec_value s) else None)"

text \<open>The address is only used by its network.\<close>

definition ParseCIDR :: "string \<Rightarrow> IPNet result" where
  "ParseCIDR s =
     (let addr = takeWhile (\<lambda>c. c \<noteq> CHR ''/'') s; m = drop (length addr + 1) s;
          bits = (if ParseIP4 addr \<noteq> [] then 32 else 128)
      in if addr = s \<or> ParseIP addr = [] then fail ''invalid CIDR address''
         else case prefix_len m of
                None \<Rightarrow> fail ''invalid CIDR address''
              | Some n \<Rightarrow> if bits < n then fail ''invalid CIDR address''
                  else Inr \<lparr>net_IP = maskIP (ParseIP addr) (CIDRMask n bits), net_Mask = CIDRMask n bits\<rparr>)"

section \<open>Routes\<close>

definition isRouteExists :: "errno option \<Rightarrow> bool" where
  "isRouteExists e \<longleftrightarrow> e = Some EEXIST"

definition isRouteNotFound :: "errno option \<Rightarrow> bool" where
  "isRouteNotFound e \<longleftrightarrow> e = Some ESRCH"

definition emptyRoute :: Route where
  "emptyRoute = \<lparr>rt_Dst = None, rt_Gw = [], rt_LinkIndex = 0, rt_Table = 0\<rparr>"

definition routeDst :: "string \<Rightarrow> Route \<Rightarrow> Route sys" where
  "routeDst cidr r =
     hbind (hlift (relabel ''parsing the destination failed'' (ParseCIDR cidr))) (\<lambda>dst. hret (r\<lparr>rt_Dst := Some dst\<rparr>))"

definition routeDev :: "Kernel \<Rightarrow> string \<Rightarrow> Route \<Rightarrow> Route sys" where
  "routeDev k iface r =
     (if iface = [] then hret r
      else hbind (getLink k iface) (\<lambda>l. hret (r\<lparr>rt_LinkIndex := lk_Index l\<rparr>)))"

text \<open>An error that \<open>quiet\<close> holds of is none.\<close>

definition callQuiet :: "string \<Rightarrow> (errno option \<Rightarrow> bool) \<Rightarrow> Kernel \<Rightarrow> Req \<Rightarrow> unit sys" where
  "callQuiet op quiet k r = hbind (callErr k r) (\<lambda>e. if quiet e then hret () else wrapErr op e)"

definition AddRoute :: "Kernel \<Rightarrow> string \<Rightarrow> string \<Rightarrow> string \<Rightarrow> unit sys" where
  "AddRoute k cidr gw iface =
     hbind (routeDst cidr emptyRoute) (\<lambda>r.
     hbind (hlift (if gw = [] then Inr r
                   else if ParseIP gw = [] then fail ''invalid gateway'' else Inr (r\<lparr>rt_Gw := ParseIP gw\<rparr>))) (\<lambda>r.
     hbind (routeDev k iface r) (\<lambda>r. callQuiet ''route add'' isRouteExists k (RouteAdd r))))"

definition DelRoute :: "Kernel \<Rightarrow> string \<Rightarrow> string \<Rightarrow> string \<Rightarrow> unit sys" where
  "DelRoute k cidr gw iface =
     hbind (routeDst cidr emptyRoute) (\<lambda>r.
     hbind (routeDev k iface (if gw = [] then r else r\<lparr>rt_Gw := ParseIP gw\<rparr>)) (\<lambda>r.
       callQuiet ''route del'' isRouteNotFound k (RouteDel r)))"

definition AddRouteTable :: "Kernel \<Rightarrow> string \<Rightarrow> string \<Rightarrow> int \<Rightarrow> unit sys" where
  "AddRouteTable k cidr iface table =
     hbind (routeDst cidr (emptyRoute\<lparr>rt_Table := table\<rparr>)) (\<lambda>r.
     hbind (routeDev k iface r) (\<lambda>r. callQuiet ''route add table'' isRouteExists k (RouteAdd r)))"

definition DelRouteTable :: "Kernel \<Rightarrow> string \<Rightarrow> string \<Rightarrow> int \<Rightarrow> unit sys" where
  "DelRouteTable k cidr iface table =
     hbind (routeDst cidr (emptyRoute\<lparr>rt_Table := table\<rparr>)) (\<lambda>r.
     hbind (routeDev k iface r) (\<lambda>r. callQuiet ''route del table'' isRouteNotFound k (RouteDel r)))"

section \<open>Rules\<close>

text \<open>\<^verbatim>\<open>netlink.NewRule\<close> with the fields the code sets; the families are those of the system.\<close>

definition newRule :: Rule where
  "newRule = \<lparr>rl_Src = None, rl_IifName = [], rl_Table = 0, rl_Family = 0\<rparr>"

abbreviation (input) FAMILY_V4 :: int where "FAMILY_V4 \<equiv> 2"
abbreviation (input) FAMILY_V6 :: int where "FAMILY_V6 \<equiv> 10"

text \<open>The rules of a family that satisfy a predicate are deleted, errors aside.\<close>

definition deleteRules :: "Kernel \<Rightarrow> int \<Rightarrow> (Rule \<Rightarrow> bool) \<Rightarrow> unit sys" where
  "deleteRules k family p =
     hbind (call k (RuleList family)) (\<lambda>a.
       case a of GotRules rs \<Rightarrow> hmap (\<lambda>r. ignored (call k (RuleDel r))) (filter p rs) | _ \<Rightarrow> hret ())"

text \<open>Two networks with the same text: short addresses and masks count as their long forms do.\<close>

definition net_key :: "IPNet \<Rightarrow> bytes \<times> bytes" where
  "net_key n =
     (let ip = (if To4 (net_IP n) \<noteq> [] then To4 (net_IP n) else net_IP n)
      in (ip, if length ip = 4 \<and> length (net_Mask n) = 16 then drop 12 (net_Mask n) else net_Mask n))"

definition AddRule :: "Kernel \<Rightarrow> string \<Rightarrow> int \<Rightarrow> unit sys" where
  "AddRule k srcCIDR table =
     hbind (hlift (relabel ''parsing the source failed'' (ParseCIDR srcCIDR))) (\<lambda>src.
       let family = (if To4 (net_IP src) = [] then FAMILY_V6 else FAMILY_V4);
           rule = newRule\<lparr>rl_Src := Some src, rl_Table := table, rl_Family := family\<rparr>
       in hseq (deleteRules k family (\<lambda>r. case rl_Src r of None \<Rightarrow> False | Some n \<Rightarrow> net_key n = net_key src))
            (callQuiet ''rule add'' isRouteExists k (RuleAdd rule)))"

definition DelRule :: "Kernel \<Rightarrow> string \<Rightarrow> int \<Rightarrow> unit sys" where
  "DelRule k srcCIDR table =
     hbind (hlift (relabel ''parsing the source failed'' (ParseCIDR srcCIDR))) (\<lambda>src.
       callQuiet ''rule del'' isRouteNotFound k (RuleDel (newRule\<lparr>rl_Src := Some src, rl_Table := table\<rparr>)))"

definition inputRule :: "Kernel \<Rightarrow> string \<Rightarrow> int \<Rightarrow> int \<Rightarrow> unit sys" where
  "inputRule k iface table family =
     hseq (deleteRules k family (\<lambda>r. rl_IifName r = iface))
       (callQuiet ''rule add'' isRouteExists k
         (RuleAdd (newRule\<lparr>rl_IifName := iface, rl_Table := table, rl_Family := family\<rparr>)))"

definition AddInputRule :: "Kernel \<Rightarrow> string \<Rightarrow> int \<Rightarrow> unit sys" where
  "AddInputRule k iface table = hseq (inputRule k iface table FAMILY_V4) (inputRule k iface table FAMILY_V6)"

definition DelInputRule :: "Kernel \<Rightarrow> string \<Rightarrow> int \<Rightarrow> unit sys" where
  "DelInputRule k iface table =
     callQuiet ''rule del'' isRouteNotFound k (RuleDel (newRule\<lparr>rl_IifName := iface, rl_Table := table\<rparr>))"

definition FlushRules :: "Kernel \<Rightarrow> int \<Rightarrow> string \<Rightarrow> unit sys" where
  "FlushRules k table iface =
     hmap (\<lambda>family. deleteRules k family (\<lambda>r. rl_Table r = table \<or> rl_IifName r = iface)) [FAMILY_V4, FAMILY_V6]"

text \<open>
  Routes of the main table (254) to the same destinations over another interface. A text that is no
  CIDR may be an address.
\<close>

definition trim_suffix :: "string \<Rightarrow> string \<Rightarrow> string" where
  "trim_suffix s p = (if has_prefix (rev s) (rev p) then take (length s - length p) s else s)"

definition conflictDst :: "string \<Rightarrow> IPNet option" where
  "conflictDst cidr =
     (case ParseCIDR cidr of
        Inr dst \<Rightarrow> Some dst
      | Inl _ \<Rightarrow>
          let ip = ParseIP (trim_suffix (trim_suffix cidr ''/128'') ''/32'')
          in if ip = [] then None
             else if To4 ip \<noteq> [] then Some \<lparr>net_IP = ip, net_Mask = CIDRMask 32 32\<rparr>
             else Some \<lparr>net_IP = ip, net_Mask = CIDRMask 128 128\<rparr>)"

definition cleanConflict :: "Kernel \<Rightarrow> int \<Rightarrow> int \<Rightarrow> string \<Rightarrow> unit sys" where
  "cleanConflict k keepIdx family cidr =
     (if cidr = ''::/0'' \<or> cidr = ''0.0.0.0/0'' then hret ()
      else case conflictDst cidr of
             None \<Rightarrow> hret ()
           | Some dst \<Rightarrow>
               hbind (call k (RouteList family (emptyRoute\<lparr>rt_Dst := Some dst, rt_Table := 254\<rparr>))) (\<lambda>a.
                 case a of
                   GotRoutes rs \<Rightarrow> hmap (\<lambda>r. ignored (call k (RouteDel r))) (filter (\<lambda>r. rt_LinkIndex r \<noteq> keepIdx) rs)
                 | _ \<Rightarrow> hret ()))"

definition CleanConflictRoutes :: "Kernel \<Rightarrow> string list \<Rightarrow> string \<Rightarrow> int \<Rightarrow> unit sys" where
  "CleanConflictRoutes k cidrs keepIface family =
     hbind (call k (LinkByName keepIface)) (\<lambda>a.
       hmap (cleanConflict k (case a of GotLink l \<Rightarrow> lk_Index l | _ \<Rightarrow> 0) family) cidrs)"

text \<open>Dots of the key become slashes, those of an interface's name too.\<close>

definition sysctlPath :: "string \<Rightarrow> string" where
  "sysctlPath key = ''/proc/sys/'' @ map (\<lambda>c. if c = CHR ''.'' then CHR ''/'' else c) key"

definition SetSysctl :: "Kernel \<Rightarrow> string \<Rightarrow> string \<Rightarrow> unit sys" where
  "SetSysctl k key v = callOp ''sysctl'' k (WriteFile (sysctlPath key) v)"

section \<open>Transactions\<close>

definition tx_undo :: "Undo \<Rightarrow> unit sys" where
  "tx_undo u = hmodify (\<lambda>h. h\<lparr>tx_undos := tx_undos h @ [u]\<rparr>)"

definition Commit :: "unit sys" where
  "Commit = hmodify (\<lambda>h. h\<lparr>tx_undos := []\<rparr>)"

definition tx_SetLinkUp :: "Kernel \<Rightarrow> string \<Rightarrow> unit sys" where
  "tx_SetLinkUp k iface = hseq (SetLinkUp k iface) (tx_undo (UndoLinkDown iface))"

definition tx_SetMTU :: "Kernel \<Rightarrow> string \<Rightarrow> int \<Rightarrow> unit sys" where
  "tx_SetMTU k iface mtu = SetMTU k iface mtu"

definition tx_AddAddress :: "Kernel \<Rightarrow> string \<Rightarrow> string \<Rightarrow> unit sys" where
  "tx_AddAddress k iface cidr = hseq (AddAddress k iface cidr) (tx_undo (UndoAddr iface cidr))"

definition tx_AddRoute :: "Kernel \<Rightarrow> string \<Rightarrow> string \<Rightarrow> string \<Rightarrow> unit sys" where
  "tx_AddRoute k cidr gw iface = hseq (AddRoute k cidr gw iface) (tx_undo (UndoRoute cidr gw iface))"

definition tx_AddAddress6 :: "Kernel \<Rightarrow> string \<Rightarrow> string \<Rightarrow> unit sys" where
  "tx_AddAddress6 k iface cidr = hseq (AddAddress6 k iface cidr) (tx_undo (UndoAddr iface cidr))"

definition tx_AddRoute6 :: "Kernel \<Rightarrow> string \<Rightarrow> string \<Rightarrow> string \<Rightarrow> unit sys" where
  "tx_AddRoute6 k cidr gw iface = hseq (AddRoute k cidr gw iface) (tx_undo (UndoRoute cidr gw iface))"

end
