(* ===== verification/Driver_Xfrm.thy ===== *)
theory Driver_Xfrm
  imports Driver_Net Ipsec_Socket
begin

text \<open>
  The kernel's IPsec state (\<^verbatim>\<open>pkg/driver/xfrm.go\<close>) and the names of algorithms
  (\<^verbatim>\<open>pkg/driver/xfrm_algo.go\<close>): associations, policies, the interface, and their removal.
\<close>

section \<open>Algorithms\<close>

record XFRMCryptAlgo =
  crypt_Name :: string
  crypt_KeyBits :: int

record XFRMAuthAlgo =
  auth_Name :: string
  auth_KeyBits :: int
  auth_TruncateBits :: int

record XFRMAeadAlgo =
  aead_Name :: string
  aead_KeyBits :: int
  aead_ICVBits :: int

definition defaultKeyLen :: "int \<Rightarrow> int" where
  "defaultKeyLen n = (if n = 0 then 128 else n)"

definition IKEv2AlgToXFRMCrypt :: "u16 \<Rightarrow> int \<Rightarrow> XFRMCryptAlgo result" where
  "IKEv2AlgToXFRMCrypt ikeAlgID keyLenBits =
     (let keyLenBits = defaultKeyLen keyLenBits
      in if ikeAlgID = 12 then Inr \<lparr>crypt_Name = ''cbc(aes)'', crypt_KeyBits = keyLenBits\<rparr>
         else if ikeAlgID = 13 then Inr \<lparr>crypt_Name = ''rfc3686(ctr(aes))'', crypt_KeyBits = keyLenBits\<rparr>
         else fail ''unsupported XFRM cipher'')"

definition IKEv2AlgToXFRMAuth :: "u16 \<Rightarrow> XFRMAuthAlgo result" where
  "IKEv2AlgToXFRMAuth ikeAlgID =
     (if ikeAlgID = 1 then Inr \<lparr>auth_Name = ''hmac(md5)'', auth_KeyBits = 128, auth_TruncateBits = 96\<rparr>
      else if ikeAlgID = 2 then Inr \<lparr>auth_Name = ''hmac(sha1)'', auth_KeyBits = 160, auth_TruncateBits = 96\<rparr>
      else if ikeAlgID = 12 then Inr \<lparr>auth_Name = ''hmac(sha256)'', auth_KeyBits = 256, auth_TruncateBits = 128\<rparr>
      else if ikeAlgID = 13 then Inr \<lparr>auth_Name = ''hmac(sha384)'', auth_KeyBits = 384, auth_TruncateBits = 192\<rparr>
      else if ikeAlgID = 14 then Inr \<lparr>auth_Name = ''hmac(sha512)'', auth_KeyBits = 512, auth_TruncateBits = 256\<rparr>
      else fail ''unsupported XFRM integrity algorithm'')"

definition IKEv2AlgToXFRMAead :: "u16 \<Rightarrow> int \<Rightarrow> XFRMAeadAlgo result" where
  "IKEv2AlgToXFRMAead ikeAlgID keyLenBits =
     (let keyLenBits = defaultKeyLen keyLenBits;
          gcm = (\<lambda>icv. \<lparr>aead_Name = ''rfc4106(gcm(aes))'', aead_KeyBits = keyLenBits + 32, aead_ICVBits = icv\<rparr>);
          ccm = (\<lambda>icv. \<lparr>aead_Name = ''rfc4309(ccm(aes))'', aead_KeyBits = keyLenBits + 24, aead_ICVBits = icv\<rparr>)
      in if ikeAlgID = 18 then Inr (gcm 64) else if ikeAlgID = 19 then Inr (gcm 96)
         else if ikeAlgID = 20 then Inr (gcm 128) else if ikeAlgID = 14 then Inr (ccm 64)
         else if ikeAlgID = 15 then Inr (ccm 96) else if ikeAlgID = 16 then Inr (ccm 128)
         else fail ''unsupported XFRM AEAD algorithm'')"

definition IsAEADAlgorithm :: "u16 \<Rightarrow> bool" where
  "IsAEADAlgorithm ikeAlgID \<longleftrightarrow> ikeAlgID \<in> {14, 15, 16, 18, 19, 20}"

text \<open>The two tables agree with the predicate.\<close>

lemma aead_table: "IsAEADAlgorithm a \<longleftrightarrow> (\<exists>x. IKEv2AlgToXFRMAead a n = Inr x)"
  by (auto simp: IsAEADAlgorithm_def IKEv2AlgToXFRMAead_def Let_def)

lemma crypt_table: "IKEv2AlgToXFRMCrypt a n = Inr x \<Longrightarrow> \<not> IsAEADAlgorithm a"
  by (auto simp: IsAEADAlgorithm_def IKEv2AlgToXFRMCrypt_def Let_def split: if_splits)

section \<open>Associations\<close>

record XFRMSAConfig =
  cf_Src :: bytes
  cf_Dst :: bytes
  cf_SPI :: u32
  cf_Proto :: Proto
  cf_IsAEAD :: bool
  cf_AeadAlgoName :: string
  cf_AeadKey :: bytes
  cf_AeadICVLen :: int
  cf_CryptAlgoName :: string
  cf_CryptKey :: bytes
  cf_AuthAlgoName :: string
  cf_AuthKey :: bytes
  cf_AuthTruncLen :: int
  cf_EncapType :: EncapType
  cf_EncapSrcPort :: int
  cf_EncapDstPort :: int
  cf_Ifid :: int
  cf_Mode :: Mode
  cf_TimeLimitSoft :: u64
  cf_TimeLimitHard :: u64
  cf_ReplayWindow :: int
  cf_SADir :: SADir
  cf_ESN :: bool

definition encapOf :: "XFRMSAConfig \<Rightarrow> XfrmStateEncap option" where
  "encapOf c = (if cf_EncapType c = XFRM_ENCAP_NONE then None
     else Some \<lparr>enc_Type = cf_EncapType c, enc_SrcPort = cf_EncapSrcPort c, enc_DstPort = cf_EncapDstPort c\<rparr>)"

definition aeadOf :: "XFRMSAConfig \<Rightarrow> XfrmStateAlgo option" where
  "aeadOf c = Some \<lparr>alg_Name = cf_AeadAlgoName c, alg_Key = cf_AeadKey c, alg_TruncateLen = 0, alg_ICVLen = cf_AeadICVLen c\<rparr>"

text \<open>The state that \<^verbatim>\<open>AddSA\<close> installs.\<close>

definition addState :: "XFRMSAConfig \<Rightarrow> XfrmState" where
  "addState c =
     \<lparr>xs_Src = cf_Src c, xs_Dst = cf_Dst c, xs_Proto = cf_Proto c, xs_Mode = Some (cf_Mode c),
      xs_Spi = uint (cf_SPI c), xs_ReplayWindow = (if cf_ReplayWindow c \<le> 0 then 32 else cf_ReplayWindow c),
      xs_Ifid = cf_Ifid c, xs_ESN = cf_ESN c, xs_SADir = cf_SADir c, xs_TimeSoft = cf_TimeLimitSoft c,
      xs_TimeHard = cf_TimeLimitHard c,
      xs_Aead = (if cf_IsAEAD c then aeadOf c else None),
      xs_Crypt = (if \<not> cf_IsAEAD c \<and> cf_CryptAlgoName c \<noteq> [] then
         Some \<lparr>alg_Name = cf_CryptAlgoName c, alg_Key = cf_CryptKey c, alg_TruncateLen = 0, alg_ICVLen = 0\<rparr> else None),
      xs_Auth = (if \<not> cf_IsAEAD c \<and> cf_AuthAlgoName c \<noteq> [] then
         Some \<lparr>alg_Name = cf_AuthAlgoName c, alg_Key = cf_AuthKey c, alg_TruncateLen = cf_AuthTruncLen c, alg_ICVLen = 0\<rparr>
         else None),
      xs_Encap = encapOf c, xs_UseTime = 0\<rparr>"

text \<open>The state that an update builds.\<close>

definition buildXfrmState :: "XFRMSAConfig \<Rightarrow> XfrmState" where
  "buildXfrmState c =
     \<lparr>xs_Src = cf_Src c, xs_Dst = cf_Dst c, xs_Proto = cf_Proto c, xs_Mode = Some (cf_Mode c),
      xs_Spi = uint (cf_SPI c), xs_ReplayWindow = (if 0 < cf_ReplayWindow c then cf_ReplayWindow c else 128),
      xs_Ifid = cf_Ifid c, xs_ESN = cf_ESN c, xs_SADir = cf_SADir c, xs_TimeSoft = cf_TimeLimitSoft c,
      xs_TimeHard = cf_TimeLimitHard c,
      xs_Aead = (if cf_IsAEAD c then aeadOf c else None),
      xs_Crypt = (if cf_IsAEAD c then None else
         Some \<lparr>alg_Name = cf_CryptAlgoName c, alg_Key = cf_CryptKey c, alg_TruncateLen = 0, alg_ICVLen = 0\<rparr>),
      xs_Auth = (if cf_IsAEAD c then None else
         Some \<lparr>alg_Name = cf_AuthAlgoName c, alg_Key = cf_AuthKey c, alg_TruncateLen = 0, alg_ICVLen = 0\<rparr>),
      xs_Encap = encapOf c, xs_UseTime = 0\<rparr>"

definition xfrm_undo :: "Undo \<Rightarrow> unit sys" where
  "xfrm_undo u = hmodify (\<lambda>h. h\<lparr>xfrm_undos := xfrm_undos h @ [u]\<rparr>)"

definition AddSA :: "Kernel \<Rightarrow> XFRMSAConfig \<Rightarrow> unit sys" where
  "AddSA k c =
     hseq (callOp ''adding XFRM SA failed'' k (XfrmStateAdd (addState c)))
       (xfrm_undo (UndoSA (cf_SPI c) (cf_Src c) (cf_Dst c) (cf_Proto c)))"

definition UpdateSA :: "Kernel \<Rightarrow> XFRMSAConfig \<Rightarrow> unit sys" where
  "UpdateSA k c = callOp ''updating XFRM state failed'' k (XfrmStateUpdate (buildXfrmState c))"

text \<open>The key of a state: no algorithm, no mode.\<close>

definition stateKey :: "u32 \<Rightarrow> bytes \<Rightarrow> bytes \<Rightarrow> Proto \<Rightarrow> XfrmState" where
  "stateKey spi src dst proto =
     \<lparr>xs_Src = src, xs_Dst = dst, xs_Proto = proto, xs_Mode = None, xs_Spi = uint spi, xs_ReplayWindow = 0,
      xs_Ifid = 0, xs_ESN = False, xs_SADir = XFRM_SA_DIR_NONE, xs_TimeSoft = 0, xs_TimeHard = 0, xs_Aead = None,
      xs_Crypt = None, xs_Auth = None, xs_Encap = None, xs_UseTime = 0\<rparr>"

definition DelSA :: "Kernel \<Rightarrow> u32 \<Rightarrow> bytes \<Rightarrow> bytes \<Rightarrow> Proto \<Rightarrow> unit sys" where
  "DelSA k spi src dst proto =
     callQuiet ''deleting XFRM SA failed'' isRouteNotFound k (XfrmStateDel (stateKey spi src dst proto))"

definition GetSALastUsed :: "Kernel \<Rightarrow> u32 \<Rightarrow> bytes \<Rightarrow> bytes \<Rightarrow> Proto \<Rightarrow> u64 sys" where
  "GetSALastUsed k spi src dst proto =
     hbind (call k (XfrmStateGet (stateKey spi src dst proto))) (\<lambda>a. hlift (case a of
         GotStates (s # _) \<Rightarrow> Inr (xs_UseTime s)
       | Error ESRCH \<Rightarrow> Inr 0
       | _ \<Rightarrow> fail ''reading XFRM SA failed''))"

text \<open>An empty address is nil.\<close>

definition FlushByIP :: "Kernel \<Rightarrow> bytes \<Rightarrow> unit sys" where
  "FlushByIP k ip =
     (if ip = [] then hret ()
      else hbind (call k XfrmStateList) (\<lambda>a. case a of
          GotStates ss \<Rightarrow> hmap (\<lambda>s. ignored (call k (XfrmStateDel s)))
            (filter (\<lambda>s. ip_Equal (xs_Src s) ip \<or> ip_Equal (xs_Dst s) ip) ss)
        | _ \<Rightarrow> hret ()))"

definition FlushAll :: "Kernel \<Rightarrow> unit sys" where
  "FlushAll k = hseq (ignored (call k XfrmStateFlush)) (ignored (call k XfrmPolicyFlush))"

section \<open>Policies\<close>

definition shortIP :: "bytes \<Rightarrow> bytes" where
  "shortIP ip = (if To4 ip \<noteq> [] then To4 ip else ip)"

definition policyOf :: "(bytes \<Rightarrow> bytes) \<Rightarrow> XFRMSPConfig \<Rightarrow> XfrmPolicy" where
  "policyOf f c =
     \<lparr>xp_Src = sp_Src c, xp_Dst = sp_Dst c, xp_Dir = sp_Dir c, xp_Ifid = sp_Ifid c,
      xp_Tmpls = [\<lparr>tm_Src = f (sp_TmplSrc c), tm_Dst = f (sp_TmplDst c), tm_Proto = sp_TmplProto c,
        tm_Mode = sp_TmplMode c, tm_Spi = sp_TmplSPI c\<rparr>]\<rparr>"

definition AddSP :: "Kernel \<Rightarrow> XFRMSPConfig \<Rightarrow> unit sys" where
  "AddSP k c =
     hseq (callOp ''adding XFRM SP failed'' k (XfrmPolicyUpdate (policyOf shortIP c))) (xfrm_undo (UndoSP c))"

definition UpdateSP :: "Kernel \<Rightarrow> XFRMSPConfig \<Rightarrow> unit sys" where
  "UpdateSP k c = callOp ''updating XFRM policy failed'' k (XfrmPolicyUpdate (policyOf (\<lambda>ip. ip) c))"

definition policyKey :: "XFRMSPConfig \<Rightarrow> XfrmPolicy" where
  "policyKey c = \<lparr>xp_Src = sp_Src c, xp_Dst = sp_Dst c, xp_Dir = sp_Dir c, xp_Ifid = sp_Ifid c, xp_Tmpls = []\<rparr>"

definition DelSP :: "Kernel \<Rightarrow> XFRMSPConfig \<Rightarrow> unit sys" where
  "DelSP k c = callQuiet ''deleting XFRM SP failed'' isRouteNotFound k (XfrmPolicyDel (policyKey c))"

section \<open>The interface\<close>

definition DelXFRMInterface :: "Kernel \<Rightarrow> string \<Rightarrow> unit sys" where
  "DelXFRMInterface k name =
     hbind (call k (LinkByName name)) (\<lambda>a. case a of
         GotLink l \<Rightarrow> callOp ''deleting XFRM interface failed'' k (LinkDel l)
       | _ \<Rightarrow> hret ())"

definition AddXFRMInterface :: "Kernel \<Rightarrow> string \<Rightarrow> u32 \<Rightarrow> int \<Rightarrow> unit sys" where
  "AddXFRMInterface k name ifID underlyingIdx =
     hbind (call k (LinkByName name)) (\<lambda>a.
     hseq (case a of GotLink l \<Rightarrow> ignored (call k (LinkDel l)) | _ \<Rightarrow> hret ()) (
     hseq (callOp ''creating XFRM interface failed'' k
             (LinkAddXfrmi name ifID (if 0 < underlyingIdx then underlyingIdx else 0))) (
     xfrm_undo (UndoLink name))))"

section \<open>Undo\<close>

text \<open>What an undo function does when it is called.\<close>

fun runUndo :: "Kernel \<Rightarrow> Undo \<Rightarrow> unit sys" where
  "runUndo k (UndoLink name) = DelXFRMInterface k name"
| "runUndo k (UndoLinkDown iface) = SetLinkDown k iface"
| "runUndo k (UndoAddr iface cidr) = DelAddress k iface cidr"
| "runUndo k (UndoRoute cidr gw iface) = DelRoute k cidr gw iface"
| "runUndo k (UndoRules table iface) = FlushRules k table iface"
| "runUndo k (UndoSA spi src dst proto) = DelSA k spi src dst proto"
| "runUndo k (UndoSP c) = DelSP k c"

definition Xfrm_Cleanup :: "Kernel \<Rightarrow> unit sys" where
  "Xfrm_Cleanup k h =
     hseq (hmap (\<lambda>u. ignored (runUndo k u)) (rev (xfrm_undos h))) (hmodify (\<lambda>h. h\<lparr>xfrm_undos := []\<rparr>)) h"

text \<open>A transaction's errors are collected; none stops it.\<close>

fun rollback :: "Kernel \<Rightarrow> Undo list \<Rightarrow> bool sys" where
  "rollback k [] h = hret True h"
| "rollback k (u # us) h =
     (case runUndo k u h of
        (h', Inl Panic) \<Rightarrow> (h', Inl Panic)
      | (h', r) \<Rightarrow> hbind (rollback k us) (\<lambda>ok. hret (ok \<and> r = Inr ())) h')"

definition Rollback :: "Kernel \<Rightarrow> unit sys" where
  "Rollback k h =
     hbind (rollback k (rev (tx_undos h))) (\<lambda>ok.
       hseq (hmodify (\<lambda>h. h\<lparr>tx_undos := []\<rparr>)) (hlift (if ok then Inr () else fail ''rollback failed''))) h"

end
