(* ===== verification/Swu_Xfrm.thy ===== *)
theory Swu_Xfrm
  imports Driver_Xfrm Swu_Policy
begin

text \<open>
  The session's data plane in the kernel: \<^verbatim>\<open>setupXFRMDataPlane\<close>, \<^verbatim>\<open>rekeyXFRMSA\<close>,
  \<^verbatim>\<open>applyNetworkConfigOnTUN\<close>, \<^verbatim>\<open>setupDataPlane\<close> and \<^verbatim>\<open>cleanupNetworkConfig\<close> of
  \<^verbatim>\<open>pkg/swu/session.go\<close>, and the update of the kernel's state after a change of address
  (\<^verbatim>\<open>pkg/swu/mobike.go\<close>). \<^verbatim>\<open>s.net\<close> is the driver's \<^verbatim>\<open>NetTools\<close> or nil.
\<close>

section \<open>Pieces\<close>

definition net_undo :: "Undo \<Rightarrow> unit sys" where
  "net_undo u = hmodify (\<lambda>h. h\<lparr>netUndos := netUndos h @ [u]\<rparr>)"

text \<open>The algorithm fields of an association, common to set-up, rekeying and the change of address.\<close>

definition saAlgorithms :: "u16 \<Rightarrow> int \<Rightarrow> u16 \<Rightarrow> SecurityAssociation \<Rightarrow> XFRMSAConfig \<Rightarrow> XFRMSAConfig result" where
  "saAlgorithms encrID encrKeyLenBits integID sa c =
     (if IsAEADAlgorithm encrID then
        rbind (relabel ''mapping AEAD failed'' (IKEv2AlgToXFRMAead encrID encrKeyLenBits)) (\<lambda>a.
          Inr (c\<lparr>cf_AeadAlgoName := aead_Name a, cf_AeadKey := EncryptionKey sa, cf_AeadICVLen := aead_ICVBits a\<rparr>))
      else
        rbind (relabel ''mapping cipher failed'' (IKEv2AlgToXFRMCrypt encrID encrKeyLenBits)) (\<lambda>e.
        rbind (relabel ''mapping integrity failed'' (IKEv2AlgToXFRMAuth integID)) (\<lambda>a.
          Inr (c\<lparr>cf_CryptAlgoName := crypt_Name e, cf_CryptKey := EncryptionKey sa,
            cf_AuthAlgoName := auth_Name a, cf_AuthKey := IntegrityKey sa, cf_AuthTruncLen := auth_TruncateBits a\<rparr>))))"

text \<open>The other fields; a change of address leaves the direction and the sequence number size alone.\<close>

definition saBase :: "bool \<Rightarrow> bytes \<Rightarrow> bytes \<Rightarrow> int \<Rightarrow> int \<Rightarrow> u32 \<Rightarrow> int \<Rightarrow> int \<Rightarrow> SADir \<Rightarrow> bool \<Rightarrow> XFRMSAConfig" where
  "saBase aead src dst srcPort dstPort spi ifid replay dir esn =
     \<lparr>cf_Src = src, cf_Dst = dst, cf_SPI = spi, cf_Proto = XFRM_PROTO_ESP, cf_IsAEAD = aead,
      cf_AeadAlgoName = [], cf_AeadKey = [], cf_AeadICVLen = 0, cf_CryptAlgoName = [], cf_CryptKey = [],
      cf_AuthAlgoName = [], cf_AuthKey = [], cf_AuthTruncLen = 0, cf_EncapType = XFRM_ENCAP_ESPINUDP,
      cf_EncapSrcPort = srcPort, cf_EncapDstPort = dstPort, cf_Ifid = ifid, cf_Mode = XFRM_MODE_TUNNEL,
      cf_TimeLimitSoft = 0, cf_TimeLimitHard = 0, cf_ReplayWindow = replay, cf_SADir = dir, cf_ESN = esn\<rparr>"

definition allIPv4 :: IPNet where
  "allIPv4 = \<lparr>net_IP = replicate 10 0 @ [0xff, 0xff, 0, 0, 0, 0], net_Mask = CIDRMask 0 32\<rparr>"

definition allIPv6 :: IPNet where
  "allIPv6 = \<lparr>net_IP = replicate 16 0, net_Mask = CIDRMask 0 128\<rparr>"

definition spConfig :: "IPNet \<Rightarrow> Dir \<Rightarrow> bytes \<Rightarrow> bytes \<Rightarrow> int \<Rightarrow> int \<Rightarrow> XFRMSPConfig" where
  "spConfig n dir src dst spi ifid =
     \<lparr>sp_Src = n, sp_Dst = n, sp_Dir = dir, sp_TmplSrc = src, sp_TmplDst = dst, sp_TmplProto = XFRM_PROTO_ESP,
      sp_TmplMode = XFRM_MODE_TUNNEL, sp_TmplSPI = spi, sp_Ifid = ifid\<rparr>"

section \<open>Routes and addresses\<close>

text \<open>The routes of the configuration payload and of the traffic selectors, in the order they are added.\<close>

definition hostRoute :: "(bytes \<Rightarrow> bytes) \<Rightarrow> string \<Rightarrow> bytes \<Rightarrow> string list" where
  "hostRoute f suffix ip = (if f ip = [] then [] else [ip_String (f ip) @ suffix])"

definition selectorRoutes :: "TrafficSelector \<Rightarrow> string list \<times> string list" where
  "selectorRoutes ts =
     (if TSType ts = TS_IPV4_ADDR_RANGE then
        (if isFullIPv4Range (Some ts) then ([''0.0.0.0/0''], [])
         else case ipv4RangeToCIDRs (StartAddr ts) (EndAddr ts) of Inr cidrs \<Rightarrow> (cidrs, []) | Inl _ \<Rightarrow> ([], []))
      else if TSType ts = TS_IPV6_ADDR_RANGE then
        (if isFullIPv6Range (Some ts) then ([], [''::/0''])
         else if length (StartAddr ts) = 16 \<and> length (EndAddr ts) = 16 \<and> ip_Equal (StartAddr ts) (EndAddr ts)
         then ([], [ip_String (StartAddr ts) @ ''/128'']) else ([], []))
      else ([], []))"

definition planRoutes :: "Session \<Rightarrow> string list \<times> string list" where
  "planRoutes s =
     (let (r4, r6) = (case cpConfig s of None \<Rightarrow> ([], [])
            | Some c \<Rightarrow> (concat (map (hostRoute To4 ''/32'') (IPv4PCSCF c)), concat (map (hostRoute To16 ''/128'') (IPv6PCSCF c))))
      in (r4 @ concat (map (fst \<circ> selectorRoutes) (s_tsr s)), r6 @ concat (map (snd \<circ> selectorRoutes) (s_tsr s))))"

definition sourceCIDRs :: "Session \<Rightarrow> string list" where
  "sourceCIDRs s = (case cpConfig s of None \<Rightarrow> []
     | Some c \<Rightarrow> concat (map (hostRoute To4 ''/32'') (IPv4Addresses c)) @ concat (map (hostRoute To16 ''/128'') (IPv6Addresses c)))"

definition addFirst :: "(bytes \<Rightarrow> bytes) \<Rightarrow> string \<Rightarrow> (string \<Rightarrow> unit sys) \<Rightarrow> bytes list \<Rightarrow> unit sys" where
  "addFirst f suffix add ips = (case ips of [] \<Rightarrow> hret ()
     | ip # _ \<Rightarrow> (if f ip = [] then hret () else add (ip_String (f ip) @ suffix)))"

definition addAddresses :: "Kernel \<Rightarrow> string \<Rightarrow> Session \<Rightarrow> unit sys" where
  "addAddresses k iface s = (case cpConfig s of None \<Rightarrow> hret ()
     | Some c \<Rightarrow> hseq (addFirst To4 ''/32'' (AddAddress k iface) (IPv4Addresses c))
                  (addFirst To16 ''/128'' (AddAddress6 k iface) (IPv6Addresses c)))"

text \<open>Policy routing in a table of the interface, and the fallback to the main table.\<close>

definition policyRoutes :: "Kernel \<Rightarrow> string \<Rightarrow> int \<Rightarrow> Session \<Rightarrow> unit sys" where
  "policyRoutes k iface tableID s =
     (let (routes, routes6) = planRoutes s
      in hseq (net_undo (UndoRules tableID iface)) (
         hseq (AddInputRule k iface tableID) (
         hseq (hmap (\<lambda>src. AddRule k src tableID) (sourceCIDRs s)) (
         hseq (hmap (\<lambda>cidr. AddRouteTable k cidr iface tableID) routes) (
         hseq (hmap (\<lambda>cidr. AddRouteTable k cidr iface tableID) routes6) (
         hseq (CleanConflictRoutes k routes6 iface FAMILY_V6) (
           CleanConflictRoutes k routes iface FAMILY_V4)))))))"

definition mainRoutes :: "Kernel \<Rightarrow> string \<Rightarrow> Session \<Rightarrow> unit sys" where
  "mainRoutes k iface s =
     (let (routes, routes6) = planRoutes s
      in hmap (\<lambda>cidr. hseq (AddRoute k cidr [] iface) (net_undo (UndoRoute cidr [] iface))) (routes @ routes6))"

definition applyNetworkConfigOnTUN :: "Kernel \<Rightarrow> bool \<Rightarrow> string \<Rightarrow> Session \<Rightarrow> unit sys" where
  "applyNetworkConfigOnTUN k hasNet iface s =
     (if \<not> hasNet then hret ()
      else hseq (addAddresses k iface s) (
           hbind (call k (LinkByName iface)) (\<lambda>a. case a of
               GotLink l \<Rightarrow> policyRoutes k iface (lk_Index l + 1000) s
             | _ \<Rightarrow> mainRoutes k iface s)))"

text \<open>The goroutine half a second later.\<close>

definition lateInit :: "Kernel \<Rightarrow> string \<Rightarrow> unit sys" where
  "lateInit k iface =
     hseq (ignored (SetLinkUp k iface)) (
     hseq (ignored (AddAddress6 k iface ''fe80::1/64'')) (
     hseq (ignored (SetSysctl k (''net.ipv6.conf.'' @ iface @ ''.disable_ipv6'') ''0''))
       (ignored (SetSysctl k (''net.ipv6.conf.'' @ iface @ ''.accept_dad'') ''0''))))"

definition planeMTU :: "Session \<Rightarrow> int" where
  "planeMTU s =
     (let mtu = (if TUNMTU (s_cfg s) = 0 then 1358 else TUNMTU (s_cfg s))
      in if 0 < mtu \<and> (case cpConfig s of None \<Rightarrow> False | Some c \<Rightarrow> 0 < length (IPv6Addresses c)) \<and> mtu < 1280
         then 1280 else mtu)"

section \<open>Clean-up\<close>

definition cleanupNetworkConfig :: "Kernel \<Rightarrow> unit sys" where
  "cleanupNetworkConfig k h =
     hseq (hmap (\<lambda>u. ignored (runUndo k u)) (rev (netUndos h))) (
     hseq (hmodify (\<lambda>h. h\<lparr>netUndos := []\<rparr>))
       (if xfrmMgr (plane h) \<and> xfrmLocalIP (plane h) \<noteq> [] then FlushByIP k (xfrmLocalIP (plane h)) else hret ())) h"

section \<open>The TUN device\<close>

text \<open>\<open>dev\<close> is the name of the device that was created, or the error; closing it is not a request.\<close>

definition setupDataPlane :: "Kernel \<Rightarrow> string result \<Rightarrow> Session \<Rightarrow> string sys" where
  "setupDataPlane k dev s =
     hbind (NewTUNDevice k (TUNName (s_cfg s)) dev) (\<lambda>iface.
     hseq (tx_SetLinkUp k iface) (
     hseq (if 0 < planeMTU s then ignored (tx_SetMTU k iface (planeMTU s)) else hret ()) (
     hseq Commit (\<lambda>h.
       case applyNetworkConfigOnTUN k True iface s h of
         (h, Inr _) \<Rightarrow> (h, Inr iface)
       | (h, Inl e) \<Rightarrow> hseq (cleanupNetworkConfig k) (hlift (Inl e)) h))))"

section \<open>Set-up in the kernel\<close>

text \<open>
  The socket: whether it is a \<^verbatim>\<open>SocketManager\<close>, the results of \<^verbatim>\<open>SetUDPEncap\<close>, its addresses, the address
  that a dialled connection shows, and the interfaces with their addresses (no entry if they cannot
  be listed).
\<close>

record SockInfo =
  si_manager :: bool
  si_encap :: "unit result"
  si_encap2 :: "unit result"
  si_localIP :: bytes
  si_remoteIP :: bytes
  si_localPort :: int
  si_remotePort :: int
  si_dial :: "bytes result"
  si_ifaces :: "(int \<times> bytes list) list"

definition IsUnspecified :: "bytes \<Rightarrow> bool" where
  "IsUnspecified ip \<longleftrightarrow> ip_Equal ip [0, 0, 0, 0] \<or> ip = replicate 16 0"

definition localAddress :: "SockInfo \<Rightarrow> bytes" where
  "localAddress i =
     (if IsUnspecified (si_localIP i) then (case si_dial i of Inr ip \<Rightarrow> ip | Inl _ \<Rightarrow> si_localIP i) else si_localIP i)"

definition underlying :: "SockInfo \<Rightarrow> bytes \<Rightarrow> int" where
  "underlying i ip =
     (if ip = [] then 0
      else case find (\<lambda>(idx, addrs). 0 < idx \<and> list_ex (\<lambda>a. ip_Equal a ip) addrs) (si_ifaces i) of
             Some (idx, _) \<Rightarrow> idx | None \<Rightarrow> 0)"

definition ifName :: "Config \<Rightarrow> string" where
  "ifName cfg = (if TUNName cfg = [] then ''ipsec0'' else TUNName cfg)"

text \<open>A pointer to an association, nil or not.\<close>

definition saOf :: "sa_ref option \<Rightarrow> Session \<Rightarrow> SecurityAssociation sys" where
  "saOf r s = hlift (case r of None \<Rightarrow> Inl Panic | Some i \<Rightarrow> Inr (sas s ! i))"

definition ifID :: "Session \<Rightarrow> u32 sys" where
  "ifID s =
     (if XFRMIfID (s_cfg s) \<noteq> 0 then hret (XFRMIfID (s_cfg s))
      else hbind (saOf (ChildSAOut s) s) (\<lambda>sa. hret (if sa_SPI sa = 0 then 42 else sa_SPI sa)))"

definition installSA :: "Kernel \<Rightarrow> XFRMSAConfig \<Rightarrow> unit sys" where
  "installSA k c = hseq (AddSA k c) (net_undo (UndoSA (cf_SPI c) (cf_Src c) (cf_Dst c) (cf_Proto c)))"

definition installSP :: "Kernel \<Rightarrow> XFRMSPConfig \<Rightarrow> unit sys" where
  "installSP k c = hseq (AddSP k c) (net_undo (UndoSP c))"

definition trySP :: "Kernel \<Rightarrow> XFRMSPConfig \<Rightarrow> unit sys" where
  "trySP k c = ignored (installSP k c)"

definition policies :: "bytes \<Rightarrow> bytes \<Rightarrow> u32 \<Rightarrow> u32 \<Rightarrow> int \<Rightarrow> XFRMSPConfig list" where
  "policies localIP remoteIP outSPI inSPI ifid =
     [spConfig allIPv4 XFRM_DIR_OUT localIP remoteIP (uint outSPI) ifid,
      spConfig allIPv4 XFRM_DIR_IN remoteIP localIP (uint inSPI) ifid,
      spConfig allIPv4 XFRM_DIR_FWD remoteIP localIP 0 ifid,
      spConfig allIPv6 XFRM_DIR_OUT localIP remoteIP (uint outSPI) ifid,
      spConfig allIPv6 XFRM_DIR_IN remoteIP localIP (uint inSPI) ifid]"

text \<open>The configurations of the two associations, out and in.\<close>

definition saConfigs ::
    "u16 \<Rightarrow> int \<Rightarrow> Session \<Rightarrow> SecurityAssociation \<Rightarrow> SecurityAssociation \<Rightarrow> XfrmPlane \<Rightarrow> (XFRMSAConfig \<times> XFRMSAConfig) result" where
  "saConfigs encrID encrKeyLenBits s outSA inSA pl =
     (let aead = IsAEADAlgorithm encrID; alg = saAlgorithms encrID encrKeyLenBits (childIntegID s);
          replay = cfg_ReplayWindow (s_cfg s)
      in rbind (alg outSA (saBase aead (xfrmLocalIP pl) (xfrmRemoteIP pl) (xfrmLocalPort pl) (xfrmRemotePort pl)
             (sa_SPI outSA) (xfrmIfID pl) replay XFRM_SA_DIR_OUT (childESN s))) (\<lambda>outCfg.
         rbind (alg inSA (saBase aead (xfrmRemoteIP pl) (xfrmLocalIP pl) (xfrmRemotePort pl) (xfrmLocalPort pl)
             (sa_SPI inSA) (xfrmIfID pl) replay XFRM_SA_DIR_IN (childESN s))) (\<lambda>inCfg.
           Inr (outCfg, inCfg))))"

definition setPlane :: "(XfrmPlane \<Rightarrow> XfrmPlane) \<Rightarrow> unit sys" where
  "setPlane f = hmodify (\<lambda>h. h\<lparr>plane := f (plane h)\<rparr>)"

text \<open>The interface, the associations and the policies.\<close>

definition installPlane :: "Kernel \<Rightarrow> SockInfo \<Rightarrow> Session \<Rightarrow> unit sys" where
  "installPlane k i s =
     (let localIP = localAddress i; name = ifName (s_cfg s)
      in hbind (ifID s) (\<lambda>ifid.
         hseq (ignored (DelXFRMInterface k name)) (
         hseq (AddXFRMInterface k name ifid (underlying i localIP)) (
         hseq (net_undo (UndoLink name)) (
         hbind (saOf (ChildSAOut s) s) (\<lambda>outSA.
         hbind (saOf (ChildSAIn s) s) (\<lambda>inSA.
         let pl = (\<lambda>pl. pl\<lparr>xfrmLocalIP := localIP, xfrmRemoteIP := si_remoteIP i, xfrmLocalPort := si_localPort i,
               xfrmRemotePort := si_remotePort i, xfrmIfID := uint ifid\<rparr>);
             ps = policies localIP (si_remoteIP i) (sa_SPI outSA) (sa_SPI inSA) (uint ifid)
         in hbind (\<lambda>h. (h, saConfigs (childEncrID s) (childEncrKeyLenBits s) s outSA inSA (pl (plane h)))) (\<lambda>(outCfg, inCfg).
            hseq (installSA k outCfg) (
            hseq (installSA k inCfg) (
            hseq (setPlane pl) (
            hseq (installSP k (ps ! 0)) (
            hseq (installSP k (ps ! 1)) (
            hseq (trySP k (ps ! 2)) (
            hseq (trySP k (ps ! 3)) (
            hseq (trySP k (ps ! 4)) (
              setPlane (\<lambda>pl. pl\<lparr>xfrmPolicies := ps\<rparr>)))))))))))))))))"

definition preparePlane :: "Kernel \<Rightarrow> SockInfo \<Rightarrow> Session \<Rightarrow> unit sys" where
  "preparePlane k i s =
     hseq (hmodify (\<lambda>h. h\<lparr>plane := (plane h)\<lparr>xfrmMgr := True\<rparr>, xfrm_undos := []\<rparr>)) (
     if \<not> si_manager i then hlift (fail ''XFRMI needs a SocketManager'')
     else
       hseq (hlift (relabel ''UDP_ENCAP failed'' (si_encap i))) (
       hseq (installPlane k i s) (
       hseq (SetLinkUp k (ifName (s_cfg s)))
         (if 0 < planeMTU s then ignored (SetMTU k (ifName (s_cfg s)) (planeMTU s)) else hret ()))))"

definition setupXFRMDataPlane :: "Kernel \<Rightarrow> SockInfo \<Rightarrow> Session \<Rightarrow> unit sys" where
  "setupXFRMDataPlane k i s =
     hseq (preparePlane k i s) (\<lambda>h.
       case applyNetworkConfigOnTUN k True (ifName (s_cfg s)) s h of
         (h, Inr _) \<Rightarrow> (h, Inr ())
       | (h, Inl e) \<Rightarrow>
           hseq (cleanupNetworkConfig k) (hlift (relabel ''network configuration failed'' (Inl e))) h)"

section \<open>Rekeying\<close>

text \<open>
  The old associations go, the new ones come, and the policies are written over. Nothing of it is
  recorded among the session's undo functions.
\<close>

definition rekeyXFRMSA ::
    "Kernel \<Rightarrow> u32 \<Rightarrow> u32 \<Rightarrow> SecurityAssociation \<Rightarrow> SecurityAssociation \<Rightarrow> u16 \<Rightarrow> int \<Rightarrow> Session \<Rightarrow> unit sys" where
  "rekeyXFRMSA k oldOutSPI oldInSPI newSAOut newSAIn encrID encrKeyLenBits s h =
     (let pl = plane h; localIP = xfrmLocalIP pl; remoteIP = xfrmRemoteIP pl
      in if \<not> xfrmMgr pl then (h, Inr ())
         else
           hseq (ignored (DelSA k oldOutSPI localIP remoteIP XFRM_PROTO_ESP)) (
           hseq (ignored (DelSA k oldInSPI remoteIP localIP XFRM_PROTO_ESP)) (
           hbind (hlift (saConfigs encrID encrKeyLenBits s newSAOut newSAIn pl)) (\<lambda>(outCfg, inCfg).
           hseq (AddSA k outCfg) (
           hseq (AddSA k inCfg) (
           hseq (hmap (\<lambda>n. ignored (AddSP k (spConfig n XFRM_DIR_OUT localIP remoteIP (uint (sa_SPI newSAOut)) (xfrmIfID pl))))
                  [allIPv4, allIPv6])
             (hmap (\<lambda>n. ignored (AddSP k (spConfig n XFRM_DIR_IN remoteIP localIP (uint (sa_SPI newSAIn)) (xfrmIfID pl))))
                  [allIPv4, allIPv6])))))) h)"

section \<open>A change of address\<close>

definition fillSAKeys :: "Session \<Rightarrow> SecurityAssociation \<Rightarrow> XFRMSAConfig \<Rightarrow> XFRMSAConfig result" where
  "fillSAKeys s sa c = saAlgorithms (childEncrID s) (childEncrKeyLenBits s) (childIntegID s) sa c"

definition updateOne ::
    "Kernel \<Rightarrow> Session \<Rightarrow> sa_ref option \<Rightarrow> bytes \<Rightarrow> bytes \<Rightarrow> int \<Rightarrow> int \<Rightarrow> unit sys" where
  "updateOne k s r src dst srcPort dstPort h =
     (case r of
        None \<Rightarrow> (h, Inr ())
      | Some n \<Rightarrow>
          hbind (hlift (relabel ''filling the keys failed'' (fillSAKeys s (sas s ! n)
              (saBase (IsAEADAlgorithm (childEncrID s)) src dst srcPort dstPort (sa_SPI (sas s ! n)) (xfrmIfID (plane h))
                (cfg_ReplayWindow (s_cfg s)) XFRM_SA_DIR_NONE False)))) (\<lambda>c. UpdateSA k c) h)"

text \<open>The policies' templates, one after the other; a failed update is only logged.\<close>

definition movePolicy :: "bytes \<Rightarrow> bytes \<Rightarrow> XFRMSPConfig \<Rightarrow> XFRMSPConfig" where
  "movePolicy lIP rIP p =
     (if sp_TmplSrc p = [] \<or> sp_TmplDst p = [] then p
      else if sp_Dir p = XFRM_DIR_OUT then p\<lparr>sp_TmplSrc := lIP, sp_TmplDst := rIP\<rparr>
      else p\<lparr>sp_TmplSrc := rIP, sp_TmplDst := lIP\<rparr>)"

definition relabelled :: "string \<Rightarrow> 'a sys \<Rightarrow> 'a sys" where
  "relabelled msg m h = (case m h of (h', r) \<Rightarrow> (h', relabel msg r))"

definition updateXFRMState :: "Kernel \<Rightarrow> SockInfo \<Rightarrow> Session \<Rightarrow> string \<Rightarrow> string \<Rightarrow> unit sys" where
  "updateXFRMState k i s localAddr remoteAddr h =
     (if \<not> xfrmMgr (plane h) then (h, Inr ())
      else
        let lIP = ParseIP localAddr; rIP = ParseIP remoteAddr
        in if lIP = [] \<or> rIP = [] then (h, fail ''address unparsable'')
           else
             let lPort = (if si_manager i then si_localPort i else 0); rPort = (if si_manager i then si_remotePort i else 0);
                 lIP = (if si_manager i \<and> si_localIP i \<noteq> [] then si_localIP i else lIP);
                 rIP = (if si_manager i \<and> si_remoteIP i \<noteq> [] then si_remoteIP i else rIP)
             in hseq (relabelled ''updating SAOut failed'' (updateOne k s (ChildSAOut s) lIP rIP lPort rPort)) (
                hseq (relabelled ''updating SAIn failed'' (updateOne k s (ChildSAIn s) rIP lIP rPort lPort)) (
                hseq (hmap (\<lambda>p. if sp_TmplSrc p = [] \<or> sp_TmplDst p = [] then hret ()
                        else ignored (UpdateSP k (movePolicy lIP rIP p))) (xfrmPolicies (plane h))) (
                  setPlane (\<lambda>pl. pl\<lparr>xfrmPolicies := map (movePolicy lIP rIP) (xfrmPolicies pl), xfrmLocalIP := lIP,
                    xfrmRemoteIP := rIP, xfrmLocalPort := lPort, xfrmRemotePort := rPort\<rparr>)))) h)"

end
