(* ===== verification/Swu_Xfrm_Correct.thy ===== *)
theory Swu_Xfrm_Correct
  imports Swu_Xfrm "HOL-Library.Sublist"
begin

text \<open>
  What the kernel's data plane leaves behind: whatever the kernel answers, the set-up records an undo
  function for each object the kernel created, in order, and the clean-up asks for the deletion of
  each, in the opposite order. A change of address and a rekeying do not keep up with that.
\<close>

section \<open>Objects\<close>

datatype Obj = OLink string | OSA u32 bytes bytes Proto | OSP IPNet IPNet Dir int

definition newObj :: "Req \<Rightarrow> Obj option" where
  "newObj r = (case r of
     LinkAddXfrmi n _ _ \<Rightarrow> Some (OLink n)
   | XfrmStateAdd x \<Rightarrow> Some (OSA (word_of_int (xs_Spi x)) (xs_Src x) (xs_Dst x) (xs_Proto x))
   | XfrmPolicyUpdate p \<Rightarrow> Some (OSP (xp_Src p) (xp_Dst p) (xp_Dir p) (xp_Ifid p))
   | _ \<Rightarrow> None)"

definition created1 :: "Req \<times> Reply \<Rightarrow> Obj option" where
  "created1 = (\<lambda>(r, a). case a of Error _ \<Rightarrow> None | _ \<Rightarrow> newObj r)"

fun undoObj :: "Undo \<Rightarrow> Obj option" where
  "undoObj (UndoLink n) = Some (OLink n)"
| "undoObj (UndoSA spi src dst proto) = Some (OSA spi src dst proto)"
| "undoObj (UndoSP c) = Some (OSP (sp_Src c) (sp_Dst c) (sp_Dir c) (sp_Ifid c))"
| "undoObj _ = None"

text \<open>The request that the deletion of an object begins with.\<close>

fun deletion :: "Obj \<Rightarrow> Req" where
  "deletion (OLink n) = LinkByName n"
| "deletion (OSA spi src dst proto) = XfrmStateDel (stateKey spi src dst proto)"
| "deletion (OSP src dst dir ifid) =
     XfrmPolicyDel \<lparr>xp_Src = src, xp_Dst = dst, xp_Dir = dir, xp_Ifid = ifid, xp_Tmpls = []\<rparr>"

definition created :: "(Req \<times> Reply) list \<Rightarrow> Obj list" where
  "created cs = List.map_filter created1 cs"

definition undoable :: "Undo list \<Rightarrow> Obj list" where
  "undoable us = List.map_filter undoObj us"

lemma map_filter_append: "List.map_filter f (xs @ ys) = List.map_filter f xs @ List.map_filter f ys"
  by (simp add: List.map_filter_def)

lemma created_simps [simp]:
  "created [] = []" "created (xs @ ys) = created xs @ created ys"
  "created [c] = (case created1 c of None \<Rightarrow> [] | Some x \<Rightarrow> [x])"
  by (simp_all add: created_def map_filter_append List.map_filter_def split: option.split)

lemma undoable_simps [simp]:
  "undoable [] = []" "undoable (xs @ ys) = undoable xs @ undoable ys"
  "undoable [u] = (case undoObj u of None \<Rightarrow> [] | Some x \<Rightarrow> [x])"
  by (simp_all add: undoable_def map_filter_append List.map_filter_def split: option.split)

lemma undoable_rev: "undoable (rev us) = rev (undoable us)"
  by (simp add: undoable_def List.map_filter_def rev_map rev_filter)

section \<open>Balanced operations\<close>

text \<open>As many objects created as recorded, and in the same order; nothing recorded is lost.\<close>

definition balanced :: "'a sys \<Rightarrow> bool" where
  "balanced m \<longleftrightarrow> (\<forall>h. \<exists>cs us. calls (fst (m h)) = calls h @ cs \<and> netUndos (fst (m h)) = netUndos h @ us \<and>
     created cs = undoable us)"

named_theorems balance

lemma balancedI:
  "(\<And>h. \<exists>cs us. calls (fst (m h)) = calls h @ cs \<and> netUndos (fst (m h)) = netUndos h @ us \<and> created cs = undoable us) \<Longrightarrow>
    balanced m"
  by (simp add: balanced_def)

lemma balancedD:
  "balanced m \<Longrightarrow> \<exists>cs us. calls (fst (m h)) = calls h @ cs \<and> netUndos (fst (m h)) = netUndos h @ us \<and> created cs = undoable us"
  by (simp add: balanced_def)

lemma balanced_bind:
  assumes "balanced m" "\<And>x. balanced (f x)"
  shows "balanced (hbind m f)"
proof (rule balancedI)
  fix h
  obtain h1 r where m: "m h = (h1, r)" by fastforce
  obtain cs us where 1: "calls h1 = calls h @ cs" "netUndos h1 = netUndos h @ us" "created cs = undoable us"
    using balancedD [OF assms(1), of h] m by auto
  show "\<exists>cs us. calls (fst (hbind m f h)) = calls h @ cs \<and> netUndos (fst (hbind m f h)) = netUndos h @ us \<and> created cs = undoable us"
  proof (cases r)
    case (Inl e)
    then show ?thesis using m 1 by (intro exI [of _ cs] exI [of _ us]) (simp add: hbind_def)
  next
    case (Inr x)
    obtain cs2 us2 where "calls (fst (f x h1)) = calls h1 @ cs2" "netUndos (fst (f x h1)) = netUndos h1 @ us2"
      "created cs2 = undoable us2"
      using balancedD [OF assms(2), of x h1] by blast
    then show ?thesis using m 1 Inr by (intro exI [of _ "cs @ cs2"] exI [of _ "us @ us2"]) (simp add: hbind_def)
  qed
qed

lemma balanced_basic [balance]:
  "balanced (hret x)" "balanced (hlift r)" "balanced (wrapErr op e)" "balanced (xfrm_undo u)" "balanced (setPlane f)"
  "balanced (tx_undo u)" "balanced Commit" "balanced (saOf q s)"
  by (auto simp: balanced_def hret_def hlift_def wrapErr_def xfrm_undo_def setPlane_def hmodify_def tx_undo_def Commit_def
      saOf_def)

lemma balanced_if [balance]: "(b \<Longrightarrow> balanced m) \<Longrightarrow> (\<not> b \<Longrightarrow> balanced n) \<Longrightarrow> balanced (if b then m else n)"
  by simp

lemma balanced_ignored [balance]: "balanced m \<Longrightarrow> balanced (ignored m)"
  unfolding balanced_def ignored_def by (auto split: prod.split sum.split fault.split) (metis fst_conv)+

lemma balanced_hmap [balance]: "(\<And>x. balanced (f x)) \<Longrightarrow> balanced (hmap f xs)"
  by (induction xs) (auto intro: balanced_basic balanced_bind)

text \<open>Calls that create nothing, and an undo function for something else.\<close>

lemma created1_None: "newObj r = None \<Longrightarrow> created1 (r, a) = None"
  by (simp add: created1_def split: Reply.split)

lemma balanced_call [balance]: "newObj r = None \<Longrightarrow> balanced (call k r)"
  by (intro balancedI exI [of _ "[(r, k (calls _) r)]"] exI [of _ "[]"]) (simp add: call_def Let_def created1_None)

lemma newObj_None [simp]:
  "newObj (LinkByName n) = None" "newObj (LinkDel l) = None" "newObj (LinkSetUp l) = None" "newObj (LinkSetDown l) = None"
  "newObj (LinkSetMTU l m) = None" "newObj (ParseAddr t) = None" "newObj (AddrAdd l a) = None" "newObj (AddrDel l a) = None"
  "newObj (RouteAdd r) = None" "newObj (RouteDel r) = None" "newObj (RouteList fam r) = None" "newObj (RuleAdd u) = None"
  "newObj (RuleDel u) = None" "newObj (RuleList fam) = None" "newObj (WriteFile p v) = None" "newObj (XfrmStateUpdate x) = None"
  "newObj (XfrmStateDel x) = None" "newObj (XfrmStateGet x) = None" "newObj XfrmStateList = None" "newObj (XfrmPolicyDel pol) = None"
  by (simp_all add: newObj_def)

lemma balanced_net_undo: "undoObj u = None \<Longrightarrow> balanced (net_undo u)"
  by (intro balancedI exI [of _ "[]"] exI [of _ "[u]"]) (simp add: net_undo_def hmodify_def)

lemma balanced_calls [balance]:
  assumes "newObj r = None"
  shows "balanced (callErr k r)" "balanced (callOp op k r)" "balanced (callQuiet op q k r)"
  using assms by (auto simp: callErr_def callOp_def callQuiet_def intro!: balanced_bind balance)

lemma balanced_link [balance]: "balanced (getLink k iface)"
  by (auto simp: getLink_def intro!: balanced_bind balance)

lemma balanced_parseAddr [balance]: "balanced (parseAddr k c)"
  by (auto simp: parseAddr_def intro!: balanced_bind balance)

lemma balanced_attempts [balance]: "balanced (addAttempts k n l a)"
  by (induction n) (auto intro!: balanced_bind balance)

lemma balanced_tools [balance]:
  "balanced (SetLinkUp k iface)" "balanced (SetLinkDown k iface)" "balanced (DeleteLink k iface)" "balanced (SetMTU k iface mtu)"
  "balanced (AddAddress k iface c)" "balanced (DelAddress k iface c)" "balanced (AddAddress6 k iface c)"
  by (auto simp: SetLinkUp_def SetLinkDown_def DeleteLink_def SetMTU_def AddAddress_def DelAddress_def AddAddress6_def
      intro!: balanced_bind balance)

lemma balanced_routes [balance]:
  "balanced (AddRoute k c gw iface)" "balanced (DelRoute k c gw iface)" "balanced (AddRouteTable k c iface t)"
  by (auto simp: AddRoute_def DelRoute_def AddRouteTable_def routeDst_def routeDev_def intro!: balanced_bind balance)

lemma balanced_deleteRules [balance]: "balanced (deleteRules k f p)"
  by (auto simp: deleteRules_def intro!: balanced_bind balance split: Reply.split)

lemma balanced_rules [balance]:
  "balanced (AddRule k c t)" "balanced (AddInputRule k iface t)" "balanced (FlushRules k t iface)"
  by (auto simp: AddRule_def AddInputRule_def inputRule_def FlushRules_def Let_def intro!: balanced_bind balance)

lemma balanced_conflicts [balance]: "balanced (CleanConflictRoutes k cs iface f)"
proof -
  have "balanced (cleanConflict k i f c)" for i c
    by (auto simp: cleanConflict_def intro!: balanced_bind balance split: Reply.split option.split)
  then show ?thesis by (auto simp: CleanConflictRoutes_def intro!: balanced_bind balance)
qed

text \<open>Installing an object and recording its removal.\<close>

lemma balanced_install:
  assumes "newObj r = Some x" "undoObj u = Some x"
  shows "balanced (hseq (hseq (callOp op k r) (xfrm_undo v)) (net_undo u))"
proof (rule balancedI)
  fix h :: Host
  let ?m = "hseq (hseq (callOp op k r) (xfrm_undo v)) (net_undo u)"
  define a where "a = k (calls h) r"
  note d = hbind_def callOp_def callErr_def call_def wrapErr_def hret_def hlift_def xfrm_undo_def net_undo_def hmodify_def
    a_def [symmetric] Let_def
  show "\<exists>cs us. calls (fst (?m h)) = calls h @ cs \<and> netUndos (fst (?m h)) = netUndos h @ us \<and> created cs = undoable us"
  proof (cases "\<exists>e. a = Error e")
    case True
    then show ?thesis by (intro exI [of _ "[(r, a)]"] exI [of _ "[]"]) (auto simp: d created1_def)
  next
    case False
    then have "created1 (r, a) = Some x" "(case a of Error e \<Rightarrow> Some e | _ \<Rightarrow> None) = None"
      using assms(1) by (cases a; simp add: created1_def)+
    then show ?thesis using assms(2)
      by (intro exI [of _ "[(r, a)]"] exI [of _ "[u]"]) (simp add: d)
  qed
qed

lemma balanced_installs [balance]: "balanced (installSA k c)" "balanced (installSP k p)"
proof -
  show "balanced (installSA k c)" unfolding installSA_def AddSA_def
    by (rule balanced_install) (simp_all add: newObj_def addState_def)
  show "balanced (installSP k p)" unfolding installSP_def AddSP_def
    by (rule balanced_install) (simp_all add: newObj_def policyOf_def)
qed

lemma hbind_assoc: "hbind (hbind m f) g = hbind m (\<lambda>x. hbind (f x) g)"
  by (rule ext) (simp add: hbind_def split: prod.split sum.split)

lemma balanced_interface [balance]: "balanced (hseq (AddXFRMInterface k name ifid idx) (net_undo (UndoLink name)))"
proof -
  have eq: "hseq (AddXFRMInterface k name ifid idx) (net_undo (UndoLink name)) =
      hbind (call k (LinkByName name)) (\<lambda>a. hseq (case a of GotLink l \<Rightarrow> ignored (call k (LinkDel l)) | _ \<Rightarrow> hret ())
        (hseq (hseq (callOp ''creating XFRM interface failed'' k
             (LinkAddXfrmi name ifid (if 0 < idx then idx else 0))) (xfrm_undo (UndoLink name))) (net_undo (UndoLink name))))"
    by (simp add: AddXFRMInterface_def hbind_assoc)
  have inst: "balanced (hseq (hseq (callOp op k (LinkAddXfrmi name ifid j)) (xfrm_undo (UndoLink name))) (net_undo (UndoLink name)))"
    for op j by (rule balanced_install) (simp_all add: newObj_def)
  show ?thesis unfolding eq
    by (rule balanced_bind [OF balanced_call], simp, rule balanced_bind [OF _ inst])
      (auto split: Reply.split intro!: balance)
qed

lemma balanced_delInterface [balance]: "balanced (DelXFRMInterface k name)"
  by (auto simp: DelXFRMInterface_def intro!: balanced_bind balance split: Reply.split)

section \<open>The set-up is balanced\<close>

lemma balanced_apply [balance]: "balanced (applyNetworkConfigOnTUN k hasNet iface s)"
  by (auto simp: applyNetworkConfigOnTUN_def addAddresses_def addFirst_def policyRoutes_def mainRoutes_def
      intro!: balanced_bind balance balanced_net_undo split: Reply.split option.split list.split prod.split)

lemma balanced_installPlane: "balanced (installPlane k i s)"
proof -
  have cfgs: "balanced (\<lambda>h. (h, f h))" for f :: "Host \<Rightarrow> 'x result"
    by (auto simp: balanced_def)
  have iface: "balanced (hseq (AddXFRMInterface k name ifid idx) (hseq (net_undo (UndoLink name)) m))"
    if "balanced m" for name ifid idx and m :: "'x sys"
  proof -
    have "hseq (AddXFRMInterface k name ifid idx) (hseq (net_undo (UndoLink name)) m) =
        hseq (hseq (AddXFRMInterface k name ifid idx) (net_undo (UndoLink name))) m"
      by (simp add: hbind_assoc)
    then show ?thesis using that by (auto intro: balanced_bind balanced_interface)
  qed
  show ?thesis
    unfolding installPlane_def ifID_def trySP_def Let_def
    by (intro balanced_bind balance iface cfgs) (auto intro!: balanced_bind balance iface cfgs split: prod.split)
qed

section \<open>The clean-up\<close>

text \<open>Operations that create nothing, record nothing and do not panic.\<close>

definition clean :: "'a sys \<Rightarrow> bool" where
  "clean m \<longleftrightarrow> (\<forall>h. \<exists>cs. calls (fst (m h)) = calls h @ cs \<and> netUndos (fst (m h)) = netUndos h \<and>
     plane (fst (m h)) = plane h \<and> created cs = [] \<and> snd (m h) \<noteq> Inl Panic)"

named_theorems cleans

lemma cleanD:
  "clean m \<Longrightarrow> \<exists>cs. calls (fst (m h)) = calls h @ cs \<and> netUndos (fst (m h)) = netUndos h \<and>
     plane (fst (m h)) = plane h \<and> created cs = [] \<and> snd (m h) \<noteq> Inl Panic"
  by (simp add: clean_def)

lemma clean_bind:
  assumes "clean m" "\<And>x. clean (f x)"
  shows "clean (hbind m f)"
  unfolding clean_def
proof
  fix h
  obtain h1 r where m: "m h = (h1, r)" by fastforce
  obtain cs where 1: "calls h1 = calls h @ cs" "netUndos h1 = netUndos h" "plane h1 = plane h" "created cs = []" "r \<noteq> Inl Panic"
    using cleanD [OF assms(1), of h] m by auto
  show "\<exists>cs. calls (fst (hbind m f h)) = calls h @ cs \<and> netUndos (fst (hbind m f h)) = netUndos h \<and>
     plane (fst (hbind m f h)) = plane h \<and> created cs = [] \<and> snd (hbind m f h) \<noteq> Inl Panic"
  proof (cases r)
    case (Inl e)
    then show ?thesis using m 1 by (intro exI [of _ cs]) (simp add: hbind_def)
  next
    case (Inr x)
    obtain cs2 where "calls (fst (f x h1)) = calls h1 @ cs2" "netUndos (fst (f x h1)) = netUndos h1"
      "plane (fst (f x h1)) = plane h1" "created cs2 = []" "snd (f x h1) \<noteq> Inl Panic"
      using cleanD [OF assms(2), of x h1] by blast
    then show ?thesis using m 1 Inr by (intro exI [of _ "cs @ cs2"]) (simp add: hbind_def)
  qed
qed

lemma clean_basic [cleans]:
  "clean (hret x)" "r \<noteq> Inl Panic \<Longrightarrow> clean (hlift r)" "clean (wrapErr op e)" "newObj r' = None \<Longrightarrow> clean (call k r')"
  by (auto simp: clean_def hret_def hlift_def wrapErr_def call_def Let_def created1_None split: option.split)

lemma clean_if [cleans]: "(b \<Longrightarrow> clean m) \<Longrightarrow> (\<not> b \<Longrightarrow> clean n) \<Longrightarrow> clean (if b then m else n)"
  by simp

lemma clean_calls [cleans]:
  assumes "newObj r = None"
  shows "clean (callErr k r)" "clean (callOp op k r)" "clean (callQuiet op q k r)"
  using assms by (auto simp: callErr_def callOp_def callQuiet_def intro!: clean_bind cleans)

lemma clean_ignored [cleans]: "clean m \<Longrightarrow> clean (ignored m)"
  unfolding clean_def ignored_def
  by (auto split: prod.split sum.split fault.split) (metis fst_conv snd_conv)+

lemma clean_hmap [cleans]: "(\<And>x. clean (f x)) \<Longrightarrow> clean (hmap f xs)"
  by (induction xs) (auto intro: clean_basic clean_bind)

lemma ParseCIDR_no_panic: "ParseCIDR c \<noteq> Inl Panic"
  by (auto simp: ParseCIDR_def Let_def split: option.split)

lemma clean_lookups [cleans]: "clean (getLink k iface)" "clean (parseAddr k c)" "clean (routeDst c r)" "clean (routeDev k iface r)"
proof -
  show link: "clean (getLink k iface)"
    unfolding getLink_def by (intro clean_bind cleans) (auto split: Reply.split)
  show "clean (parseAddr k c)"
    unfolding parseAddr_def by (intro clean_bind cleans) (auto split: Reply.split)
  show "clean (routeDst c r)"
    unfolding routeDst_def by (intro clean_bind cleans) (simp add: ParseCIDR_no_panic)
  show "clean (routeDev k iface r)"
    unfolding routeDev_def by (intro clean_if clean_bind cleans link)
qed

lemma clean_runUndo [cleans]: "clean (runUndo k u)"
  by (cases u)
    (auto simp: DelXFRMInterface_def SetLinkDown_def DelAddress_def DelRoute_def FlushRules_def deleteRules_def DelSA_def DelSP_def
      intro!: clean_bind cleans split: Reply.split)

lemma hbind_calls:
  assumes "\<And>x. clean (f x)" "\<exists>a cs. calls (fst (m h)) = calls h @ (r, a) # cs"
  shows "\<exists>a cs. calls (fst (hbind m f h)) = calls h @ (r, a) # cs"
proof -
  obtain h1 q a cs where m: "m h = (h1, q)" "calls h1 = calls h @ (r, a) # cs" using assms(2) by (metis fst_conv surj_pair)
  show ?thesis
  proof (cases q)
    case (Inr x)
    obtain cs2 where "calls (fst (f x h1)) = calls h1 @ cs2" using cleanD [OF assms(1), of x h1] by blast
    with m Inr show ?thesis by (intro exI [of _ a] exI [of _ "cs @ cs2"]) (simp add: hbind_def)
  qed (use m in \<open>simp add: hbind_def\<close>)
qed

lemma call_calls: "\<exists>a cs. calls (fst (call k r h)) = calls h @ (r, a) # cs"
  by (simp add: call_def Let_def)

lemma runUndo_asks:
  assumes "undoObj u = Some x"
  shows "\<exists>a cs. calls (fst (runUndo k u h)) = calls h @ (deletion x, a) # cs"
proof -
  have quiet: "\<exists>a cs. calls (fst (callQuiet op q k r h)) = calls h @ (r, a) # cs" for op q r
    unfolding callQuiet_def callErr_def by (intro hbind_calls call_calls) (auto intro!: cleans)
  show ?thesis
    using assms quiet
    by (cases u) (auto simp: DelSA_def DelSP_def policyKey_def DelXFRMInterface_def
        intro!: hbind_calls call_calls cleans split: Reply.split)
qed

lemma ignored_clean:
  assumes "clean m"
  shows "calls (fst (ignored m h)) = calls (fst (m h))" "snd (ignored m h) = Inr ()" "netUndos (fst (ignored m h)) = netUndos h"
    "plane (fst (ignored m h)) = plane h"
  using cleanD [OF assms, of h] by (auto simp: ignored_def split: prod.split sum.split fault.split)

lemma undo_all:
  "\<exists>cs. calls (fst (hmap (\<lambda>u. ignored (runUndo k u)) us h)) = calls h @ cs \<and> created cs = [] \<and>
     subseq (map deletion (undoable us)) (map fst cs) \<and> snd (hmap (\<lambda>u. ignored (runUndo k u)) us h) = Inr ()"
proof (induction us arbitrary: h)
  case Nil
  show ?case by (simp add: hret_def)
next
  case (Cons u us)
  define h1 where "h1 = fst (ignored (runUndo k u) h)"
  have h1: "ignored (runUndo k u) h = (h1, Inr ())"
    using ignored_clean(2) [OF clean_runUndo, of k u h] by (simp add: h1_def prod_eq_iff)
  obtain cs1 where c1: "calls h1 = calls h @ cs1" "created cs1 = []"
    using cleanD [OF clean_runUndo, of k u h] ignored_clean(1) [OF clean_runUndo, of k u h] by (auto simp: h1_def)
  have s1: "subseq (map deletion (undoable [u])) (map fst cs1)"
  proof (cases "undoObj u")
    case (Some x)
    obtain a cs where "calls h1 = calls h @ (deletion x, a) # cs"
      using runUndo_asks [OF Some, of k h] ignored_clean(1) [OF clean_runUndo, of k u h] by (auto simp: h1_def)
    with c1 have "cs1 = (deletion x, a) # cs" by simp
    with Some show ?thesis by simp
  qed simp
  obtain cs2 where c2: "calls (fst (hmap (\<lambda>u. ignored (runUndo k u)) us h1)) = calls h1 @ cs2" "created cs2 = []"
      "subseq (map deletion (undoable us)) (map fst cs2)" "snd (hmap (\<lambda>u. ignored (runUndo k u)) us h1) = Inr ()"
    using Cons [of h1] by blast
  have "hmap (\<lambda>u. ignored (runUndo k u)) (u # us) h = hmap (\<lambda>u. ignored (runUndo k u)) us h1"
    using h1 by (simp add: hbind_def)
  moreover have "undoable (u # us) = undoable [u] @ undoable us" using undoable_simps(2) [of "[u]" us] by simp
  ultimately show ?case using c1 c2 list_emb_append_mono [OF s1 c2(3)]
    by (intro exI [of _ "cs1 @ cs2"]) simp
qed

lemma cleanup_deletes:
  obtains cs where "calls (fst (cleanupNetworkConfig k h)) = calls h @ cs" "created cs = []"
    "subseq (map deletion (rev (undoable (netUndos h)))) (map fst cs)" "netUndos (fst (cleanupNetworkConfig k h)) = []"
    "snd (cleanupNetworkConfig k h) = Inr ()"
proof -
  let ?m = "hmap (\<lambda>u. ignored (runUndo k u)) (rev (netUndos h))"
  define fl where "fl = (if xfrmMgr (plane h) \<and> xfrmLocalIP (plane h) \<noteq> [] then FlushByIP k (xfrmLocalIP (plane h)) else hret ())"
  obtain cs1 where c1: "calls (fst (?m h)) = calls h @ cs1" "created cs1 = []"
      "subseq (map deletion (undoable (rev (netUndos h)))) (map fst cs1)" "snd (?m h) = Inr ()"
    using undo_all by blast
  then obtain hm where hm: "?m h = (hm, Inr ())" by (metis prod.collapse)
  define h1 where "h1 = hm\<lparr>netUndos := []\<rparr>"
  have run: "cleanupNetworkConfig k h = fl h1"
    by (simp add: cleanupNetworkConfig_def hbind_def hmodify_def hm h1_def fl_def)
  have "clean fl \<and> (\<forall>h. snd (fl h) = Inr ())"
  proof -
    have "snd (hmap (\<lambda>s. ignored (call k (XfrmStateDel s))) ss h) = Inr ()" for ss h
      by (induction ss arbitrary: h) (simp_all add: hret_def hbind_def ignored_def call_def Let_def)
    then show ?thesis unfolding fl_def FlushByIP_def
      by (auto intro!: clean_bind cleans simp: hret_def hbind_def call_def Let_def split: Reply.split)
  qed
  then obtain cs2 where "calls (fst (fl h1)) = calls h1 @ cs2" "created cs2 = []" "netUndos (fst (fl h1)) = netUndos h1"
      "snd (fl h1) = Inr ()"
    using cleanD [of fl h1] by blast
  with c1 show thesis
    by (intro that [of "cs1 @ cs2"]) (simp_all add: run h1_def hm undoable_rev list_emb_prefix)
qed

section \<open>Everything that was created is deleted\<close>

lemma balanced_prepare: "balanced (preparePlane k i s)"
proof -
  have "balanced (hmodify (\<lambda>h. h\<lparr>plane := (plane h)\<lparr>xfrmMgr := True\<rparr>, xfrm_undos := []\<rparr>))"
    by (simp add: balanced_def hmodify_def)
  then show ?thesis unfolding preparePlane_def
    by (auto intro!: balanced_bind balance balanced_installPlane)
qed

lemma setup_rolled_back:
  assumes "netUndos h = []" "setupXFRMDataPlane k i s h = (h1, r)" "cleanupNetworkConfig k h1 = (h2, r2)"
  obtains cs1 cs2 where "calls h1 = calls h @ cs1" "calls h2 = calls h @ cs2" "created cs2 = created cs1"
    "subseq (map deletion (rev (created cs1))) (map fst cs2)" "netUndos h2 = []"
proof -
  obtain cs3 where c3: "calls h2 = calls h1 @ cs3" "created cs3 = []"
      "subseq (map deletion (rev (undoable (netUndos h1)))) (map fst cs3)" "netUndos h2 = []"
    using cleanup_deletes [of k h1] assms(3) by (metis fst_conv)
  define A where "A = applyNetworkConfigOnTUN k True (ifName (s_cfg s)) s"
  define B where "B = hseq (preparePlane k i s) A"
  have B: "balanced B" unfolding B_def A_def by (intro balanced_bind balanced_prepare balance)
  obtain hb q where hb: "B h = (hb, q)" by fastforce
  obtain cs us where b: "calls hb = calls h @ cs" "netUndos hb = us" "created cs = undoable us"
    using balancedD [OF B, of h] hb assms(1) by auto
  consider (kept) "h1 = hb" | (undone) e where "hseq (cleanupNetworkConfig k) (hlift (relabel ''network configuration failed'' (Inl e))) hb = (h1, r)"
    using assms(2) hb
    by (auto simp: setupXFRMDataPlane_def B_def A_def hbind_def split: prod.splits sum.splits)
  then show thesis
  proof cases
    case kept
    with b c3 show thesis
      by (intro that [of cs "cs @ cs3"]) (auto intro: list_emb_append2)
  next
    case undone
    obtain cs4 where c4: "calls (fst (cleanupNetworkConfig k hb)) = calls hb @ cs4" "created cs4 = []"
        "subseq (map deletion (rev (undoable (netUndos hb)))) (map fst cs4)" "snd (cleanupNetworkConfig k hb) = Inr ()"
      using cleanup_deletes [of k hb] by metis
    have "h1 = fst (cleanupNetworkConfig k hb)"
      using undone c4(4) by (auto simp: hbind_def hlift_def split: prod.splits)
    with b c3 c4 show thesis
      by (intro that [of "cs @ cs4" "cs @ cs4 @ cs3"]) (auto intro: list_emb_append2 list_emb_prefix)
  qed
qed

end
