(* ===== verification/Swu_Mobike.thy ===== *)
theory Swu_Mobike
  imports Swu_Xfrm Swu_Listen
begin

text \<open>
  A change of address (\<^verbatim>\<open>pkg/swu/mobike.go\<close>): the UPDATE_SA_ADDRESSES exchange, the check of COOKIE2 in
  its response, the new socket, and the update of the kernel's associations and policies.
\<close>

section \<open>The exchange\<close>

definition cookie2Size :: nat where
  "cookie2Size = 16"

definition natPayloads :: "SockInfo \<Rightarrow> Session \<Rightarrow> Payload list" where
  "natPayloads i s =
     (if si_manager i \<and> si_localIP i \<noteq> [] \<and> si_remoteIP i \<noteq> [] then
        [PayloadNotify (CreateNATDetectionNotify NAT_DETECTION_SOURCE_IP
           (CalculateNATDetectionHash (s_SPIi s) (s_SPIr s) (si_localIP i) (of_int (si_localPort i)))),
         PayloadNotify (CreateNATDetectionNotify NAT_DETECTION_DESTINATION_IP
           (CalculateNATDetectionHash (s_SPIi s) (s_SPIr s) (si_remoteIP i) (of_int (si_remotePort i))))]
      else [])"

definition updatePayloads :: "SockInfo \<Rightarrow> bytes \<Rightarrow> Session \<Rightarrow> Payload list" where
  "updatePayloads i cookie2 s =
     [PayloadNotify (notify0 UPDATE_SA_ADDRESSES []), PayloadNotify (notify0 COOKIE2 cookie2)] @ natPayloads i s"

text \<open>The first COOKIE2 of the response decides; a response without one is accepted.\<close>

fun checkCookie2 :: "bytes \<Rightarrow> Payload list \<Rightarrow> unit result" where
  "checkCookie2 c [] = Inr ()"
| "checkCookie2 c (PayloadNotify n # ps) =
     (if NotifyType n = COOKIE2 then
        (if length (NotifyData n) \<noteq> length c then fail ''COOKIE2 length mismatch''
         else if NotifyData n \<noteq> c then fail ''COOKIE2 verification failed'' else Inr ())
      else checkCookie2 c ps)"
| "checkCookie2 c (_ # ps) = checkCookie2 c ps"

definition verifyCookie2Response :: "bytes \<Rightarrow> bytes \<Rightarrow> unit action" where
  "verifyCookie2Response respData expectedCookie2 =
     (if length respData = 0 then ret ()
      else sbind (\<lambda>s. case decryptAndParse respData s of (s', r) \<Rightarrow> (s', relabel ''parsing MOBIKE response failed'' r))
        (\<lambda>(_, respPayloads). lift (checkCookie2 expectedCookie2 respPayloads)))"

definition sendMOBIKEUpdate :: "SockInfo \<Rightarrow> bytes result \<Rightarrow> Exchange \<Rightarrow> bytes action" where
  "sendMOBIKEUpdate i rnd x =
     sbind (lift (relabel ''generating COOKIE2 failed'' rnd)) (\<lambda>cookie2.
     sbind (gets Inr) (\<lambda>s.
     sbind (sendEncryptedWithRetry x (updatePayloads i cookie2 s) INFORMATIONAL) (\<lambda>respData.
     sseq (verifyCookie2Response respData cookie2) (ret cookie2))))"

section \<open>The change\<close>

text \<open>
  The session, its sockets, and the kernel. \<open>mv_old\<close> and \<open>mv_new\<close> are the socket before and after,
  \<open>mv_bind\<close> opens one at two addresses.
\<close>

record Node =
  nd_session :: Session
  nd_listen :: Listener
  nd_host :: Host

record Move =
  mv_old :: SockInfo
  mv_new :: SockInfo
  mv_cookie2 :: "bytes result"
  mv_exchange :: Exchange
  mv_bind :: "string \<Rightarrow> string \<Rightarrow> unit result"

text \<open>
  \<^verbatim>\<open>SocketManager.Stop\<close>: a second call closes closed channels. \<^verbatim>\<open>connectOnce\<close> defers the call for the
  socket that it opened.
\<close>

definition Stop :: "nat \<Rightarrow> Listener \<Rightarrow> Listener result" where
  "Stop k l = (if k \<in> stopped l then Inl Panic else Inr (stopSocket k l))"

definition moveRemote :: "string \<Rightarrow> Session \<Rightarrow> Session" where
  "moveRemote addr s = s\<lparr>s_cfg := (s_cfg s)\<lparr>EpDGAddr := addr\<rparr>\<rparr>"

definition UpdateAddresses :: "Kernel \<Rightarrow> Move \<Rightarrow> string \<Rightarrow> string \<Rightarrow> Node \<Rightarrow> Node \<times> unit result" where
  "UpdateAddresses k m newLocalAddr newRemoteAddr n =
     (if \<not> mobikeSupported (nd_session n) then (n, fail ''peer does not support MOBIKE'')
      else
        case sendMOBIKEUpdate (mv_old m) (mv_cookie2 m) (mv_exchange m) (nd_session n) of
          (s, Inl e) \<Rightarrow> (n\<lparr>nd_session := s\<rparr>, relabel ''MOBIKE notification failed'' (Inl e))
        | (s, Inr _) \<Rightarrow>
            let s = moveRemote newRemoteAddr s; cfg = s_cfg s; n = n\<lparr>nd_session := s\<rparr>;
                port = (if EpDGPort cfg = 0 then 4500 else EpDGPort cfg)
            in case mv_bind m (hostPort newLocalAddr (cfg_LocalPort cfg)) (hostPort newRemoteAddr port) of
                 Inl e \<Rightarrow> (n, relabel ''binding the new socket failed'' (Inl e))
               | Inr _ \<Rightarrow>
                   (case Stop (current (nd_listen n)) (newSocket (nd_listen n)) of
                      Inl e \<Rightarrow> (n\<lparr>nd_listen := newSocket (nd_listen n)\<rparr>, Inl e)
                    | Inr l \<Rightarrow>
                        (case ignored (updateXFRMState k (mv_new m) s newLocalAddr newRemoteAddr) (nd_host n) of
                           (h, r) \<Rightarrow> (n\<lparr>nd_listen := l, nd_host := h\<rparr>, r))))"

section \<open>Correctness\<close>

lemma checkCookie2_cases:
  "checkCookie2 c ps = Inr () \<longleftrightarrow>
     (case filter (\<lambda>p. case p of PayloadNotify n \<Rightarrow> NotifyType n = COOKIE2 | _ \<Rightarrow> False) ps of
        PayloadNotify n # _ \<Rightarrow> NotifyData n = c | _ \<Rightarrow> True)"
  by (induction c ps rule: checkCookie2.induct) auto

lemma checkCookie2_fails: "checkCookie2 c ps \<noteq> Inr () \<Longrightarrow> \<exists>e. checkCookie2 c ps = fail e"
  by (induction c ps rule: checkCookie2.induct) auto

lemma moveRemote_simps [simp]:
  "EpDGAddr (s_cfg (moveRemote a s)) = a" "mobikeSupported (moveRemote a s) = mobikeSupported s"
  by (simp_all add: moveRemote_def)

text \<open>Nothing moves unless the exchange succeeded.\<close>

lemma UpdateAddresses_refused:
  assumes "sendMOBIKEUpdate (mv_old m) (mv_cookie2 m) (mv_exchange m) (nd_session n) = (s, Inl e)"
  shows "nd_listen (fst (UpdateAddresses k m la ra n)) = nd_listen n"
    "nd_host (fst (UpdateAddresses k m la ra n)) = nd_host n"
    "snd (UpdateAddresses k m la ra n) \<noteq> Inr ()"
  using assms by (auto simp: UpdateAddresses_def relabel_Inr_iff split: fault.splits)

lemma Stop_simps:
  "k \<in> stopped l \<Longrightarrow> Stop k l = Inl Panic" "Stop k l = Inr l' \<Longrightarrow> l' = stopSocket k l \<and> k \<notin> stopped l"
  by (auto simp: Stop_def split: if_splits)

lemma UpdateAddresses_switch:
  assumes "UpdateAddresses k m la ra n = (n', Inr ())"
  shows "nd_listen n' = switchSocket (nd_listen n)" "EpDGAddr (s_cfg (nd_session n')) = ra"
  using assms
  by (auto simp: UpdateAddresses_def Let_def switchSocket_def newSocket_def dest!: Stop_simps(2)
      split: if_splits prod.splits sum.splits)

text \<open>After a change the loop that takes packets from the socket is deaf.\<close>

lemma UpdateAddresses_deaf:
  assumes "UpdateAddresses k m la ra n = (n', Inr ())" "idle (nd_listen n)"
  shows "deaf (nd_listen n')"
  unfolding UpdateAddresses_switch(1) [OF assms(1)] by (rule reconnect_deaf(2) [OF assms(2)])

text \<open>The deferred stop at the end of the connection stops the first socket again, and nothing stops the second.\<close>

definition sockets_wf :: "Listener \<Rightarrow> bool" where
  "sockets_wf l \<longleftrightarrow> (\<forall>k\<in>stopped l. k < socks l)"

lemma sockets_wf_step: "listen_step l l' \<Longrightarrow> sockets_wf l \<Longrightarrow> sockets_wf l'"
  by (erule listen_stepE)
    (auto simp: sockets_wf_def newSocket_def stopSocket_def ensureIKEDispatcher_def loopRound_def less_Suc_eq
      split: loop_state.splits list.splits if_splits)

interpretation listener: step_system listen_step sockets_wf
  by unfold_locales (rule sockets_wf_step)

lemma sockets_wf_reachable: "listen_step\<^sup>*\<^sup>* noListener l \<Longrightarrow> sockets_wf l"
  by (erule listener.steps_inv) (simp add: sockets_wf_def noListener_def)

lemma UpdateAddresses_deferred:
  assumes "UpdateAddresses k m la ra n = (n', Inr ())" "listen_step\<^sup>*\<^sup>* noListener (nd_listen n)"
    "current (nd_listen n) < socks (nd_listen n)"
  shows "Stop (current (nd_listen n)) (nd_listen n') = Inl Panic" "current (nd_listen n') \<notin> stopped (nd_listen n')"
    "current (nd_listen n') \<noteq> current (nd_listen n)"
  using sockets_wf_reachable [OF assms(2)] assms(3)
  by (auto simp: UpdateAddresses_switch(1) [OF assms(1)] switchSocket_def newSocket_def stopSocket_def Stop_def sockets_wf_def
      split: if_splits)

text \<open>A socket that cannot be opened leaves the new gateway in the configuration.\<close>

lemma UpdateAddresses_bind_fails:
  assumes "sendMOBIKEUpdate (mv_old m) (mv_cookie2 m) (mv_exchange m) (nd_session n) = (s, Inr c)"
    "mobikeSupported (nd_session n)" "\<And>x y. mv_bind m x y = fail e"
  shows "UpdateAddresses k m la ra n = (n\<lparr>nd_session := moveRemote ra s\<rparr>, fail ''binding the new socket failed'')"
  using assms by (simp add: UpdateAddresses_def Let_def)

text \<open>
  The update of an association with a separate integrity algorithm does not repeat the truncation
  of its value, and without a configured window it names another one.
\<close>

lemma update_differs:
  assumes "saAlgorithms encrID bits integID sa (saBase False src dst sp dp spi ifid replay dir esn) = Inr c"
    "\<not> IsAEADAlgorithm encrID"
  shows "\<exists>a b. xs_Auth (addState c) = Some a \<and> xs_Auth (buildXfrmState c) = Some b \<and>
      alg_Key a = alg_Key b \<and> 96 \<le> alg_TruncateLen a \<and> alg_TruncateLen b = 0"
    "replay = 0 \<Longrightarrow> xs_ReplayWindow (addState c) = 32 \<and> xs_ReplayWindow (buildXfrmState c) = 128"
  using assms
  by (auto simp: saAlgorithms_def saBase_def addState_def buildXfrmState_def rbind_Inr_iff IKEv2AlgToXFRMAuth_def
      split: if_splits)

end
