(* ===== verification/Ipsec_Events.thy ===== *)
theory Ipsec_Events
  imports Ipsec_Socket
begin

text \<open>
  The events that the error queue of the socket gives (\<^verbatim>\<open>startErrorListener\<close> of
  \<^verbatim>\<open>pkg/ipsec/icmp_err.go\<close>), and the choice among the addresses of the gateway
  (\<^verbatim>\<open>resolveUDPAddrAll\<close> of \<^verbatim>\<open>pkg/ipsec/socket.go\<close>). Name resolution is a parameter.
\<close>

section \<open>The error queue\<close>

text \<open>The fields of \<^verbatim>\<open>sock_extended_err\<close> that are read; origins 2 and 3 are ICMP and ICMPv6.\<close>

record SockExtendedErr =
  see_Errno :: nat
  see_Origin :: nat
  see_Info :: u32

abbreviation (input) EMSGSIZE :: nat where "EMSGSIZE \<equiv> 90"
abbreviation (input) ENETUNREACH :: nat where "ENETUNREACH \<equiv> 101"
abbreviation (input) EHOSTUNREACH :: nat where "EHOSTUNREACH \<equiv> 113"

definition errorEvent :: "SockExtendedErr \<Rightarrow> NetEvent option" where
  "errorEvent e =
     (if see_Origin e \<noteq> 2 \<and> see_Origin e \<noteq> 3 then None
      else if see_Errno e = EMSGSIZE then (if 500 < see_Info e \<and> see_Info e < 1500 then Some (PathMTU (see_Info e)) else None)
      else if see_Errno e = EHOSTUNREACH \<or> see_Errno e = ENETUNREACH then Some (NetworkDown (see_Errno e))
      else None)"

text \<open>The result of parsing the control message may be nil.\<close>

definition queueError :: "SockExtendedErr option \<Rightarrow> SocketManager \<Rightarrow> SocketManager" where
  "queueError e s = (case Option.bind e errorEvent of None \<Rightarrow> s | Some ev \<Rightarrow> emitEvent ev s)"

lemma errorEvent_PathMTU: "errorEvent e = Some (PathMTU m) \<Longrightarrow> 500 < m \<and> m < 1500"
  by (auto simp: errorEvent_def split: if_splits)

lemma queueError_inv: "sock_inv s \<Longrightarrow> sock_inv (queueError e s)"
  by (auto simp: queueError_def sock_inv_def emitEvent_def split: option.split)

section \<open>The addresses of the gateway\<close>

text \<open>
  Without a DNS server the system's resolver gives one address. Otherwise a literal address stands for
  itself, and of several answers the first IPv4 one is preferred; answers that are all nil make
  \<^verbatim>\<open>remoteIPs[0]\<close> panic.
\<close>

definition pickRemote :: "bytes list \<Rightarrow> (bytes \<times> bytes list) result" where
  "pickRemote ips =
     (if length ips = 0 then fail ''DNS returned no IP''
      else case filter (\<lambda>ip. ip \<noteq> []) ips of
             [] \<Rightarrow> Inl Panic
           | ip # rest \<Rightarrow> Inr (case find (\<lambda>ip. To4 ip \<noteq> []) ips of Some v4 \<Rightarrow> v4 | None \<Rightarrow> ip, ip # rest))"

record Resolver =
  rs_system :: "string \<Rightarrow> (bytes \<times> int) result"
  rs_split :: "string \<Rightarrow> (string \<times> string) result"
  rs_port :: "string \<Rightarrow> int result"
  rs_literal :: "string \<Rightarrow> bytes"
  rs_lookup :: "string \<Rightarrow> bytes list result"

definition resolveUDPAddrAll :: "Resolver \<Rightarrow> string \<Rightarrow> string \<Rightarrow> ((bytes \<times> int) \<times> bytes list) result" where
  "resolveUDPAddrAll rs addr dnsServer =
     (if dnsServer = [] then
        rbind (rs_system rs addr) (\<lambda>(ip, port). Inr ((ip, port), if ip \<noteq> [] then [ip] else []))
      else
        rbind (rs_split rs addr) (\<lambda>(host, portStr).
        rbind (rs_port rs portStr) (\<lambda>port.
          if rs_literal rs host \<noteq> [] then Inr ((rs_literal rs host, port), [rs_literal rs host])
          else rbind (rs_lookup rs host) (\<lambda>ips. rbind (pickRemote ips) (\<lambda>(ip, remoteIPs). Inr ((ip, port), remoteIPs))))))"

definition openManager :: "Resolver \<Rightarrow> string \<Rightarrow> string \<Rightarrow> unit result \<Rightarrow> SocketManager result" where
  "openManager rs remote dnsServer listenResult =
     rbind (resolveUDPAddrAll rs remote dnsServer) (\<lambda>((ip, port), remoteIPs).
     rbind listenResult (\<lambda>_. Inr (NewSocketManager ip port remoteIPs)))"

text \<open>
  The peer that the socket first sends to is one of the candidates, if there are any, so that its answers
  pass the source filter.
\<close>

lemma find_member: "find P xs = Some x \<Longrightarrow> x \<in> set xs \<and> P x"
  by (induction xs) (auto split: if_splits)

lemma pickRemote_member:
  assumes "pickRemote ips = Inr (ip, rips)"
  shows "ip \<in> set rips" "[] \<notin> set rips"
proof -
  obtain x r where r: "filter (\<lambda>ip. ip \<noteq> []) ips = x # r" "rips = x # r"
      "ip = (case find (\<lambda>ip. To4 ip \<noteq> []) ips of Some v4 \<Rightarrow> v4 | None \<Rightarrow> x)"
    using assms by (auto simp: pickRemote_def split: if_splits list.splits)
  have rips: "rips = filter (\<lambda>ip. ip \<noteq> []) ips" using r by simp
  show "[] \<notin> set rips" by (simp add: rips)
  show "ip \<in> set rips"
  proof (cases "find (\<lambda>ip. To4 ip \<noteq> []) ips")
    case (Some v)
    from find_member [OF this] have "v \<in> set ips" "v \<noteq> []" by (auto simp: To4_def)
    then show ?thesis using r(3) Some by (simp add: rips)
  qed (use r in simp)
qed

end
