(* ===== verification/Swu_Timers.thy ===== *)
theory Swu_Timers
  imports Swu_Mobike Ipsec_Events
begin

text \<open>
  The goroutines that keep a session alive (\<^verbatim>\<open>pkg/swu/session.go\<close>, \<^verbatim>\<open>pkg/swu/informational.go\<close>): the
  two rekeying timers, dead peer detection, the NAT keepalive, the events of the socket and the expiry
  events of the kernel. Times are nanoseconds; \<open>now\<close> is the clock when a timer fires, \<open>later\<close> when its
  action has ended. A jitter is the number of seconds that was drawn, below 30.
\<close>

section \<open>State\<close>

abbreviation (input) second :: int where "second \<equiv> 1000000000"

record RekeyTimer =
  rt_interval :: int
  rt_due :: int
  rt_failCount :: nat
  rt_over :: bool

text \<open>
  The timers in the order their goroutines were started, the tokens in the two reset channels, whether
  the user installed \<^verbatim>\<open>OnSessionDown\<close>, whether the context is cancelled, and the times of the last
  packets (\<open>None\<close> is the zero time).
\<close>

record Clockwork =
  ck_session :: Session
  ck_ike :: "RekeyTimer list"
  ck_child :: "RekeyTimer list"
  ck_ikeReset :: bool
  ck_childReset :: bool
  ck_onDown :: bool
  ck_canceled :: bool
  ck_lastIn :: "int option"
  ck_lastOut :: "int option"
  ck_natStarted :: bool

type_synonym 'a tick = "Clockwork \<Rightarrow> Clockwork \<times> 'a result"

text \<open>A method of the session, run by a goroutine.\<close>

definition onSess :: "'a action \<Rightarrow> 'a tick" where
  "onSess m c = (case m (ck_session c) of (s, r) \<Rightarrow> (c\<lparr>ck_session := s\<rparr>, r))"

definition callDown :: "Clockwork \<Rightarrow> Clockwork" where
  "callDown c = (if ck_onDown c then fst (onSess (emit SessionDown) c) else c)"

text \<open>\<^verbatim>\<open>OnSessionDown\<close> and then the context; \<open>elseCancel\<close> cancels only without a callback.\<close>

definition goDown :: "Clockwork \<Rightarrow> Clockwork" where
  "goDown c = (callDown c)\<lparr>ck_canceled := True\<rparr>"

definition elseCancel :: "Clockwork \<Rightarrow> Clockwork" where
  "elseCancel c = (if ck_onDown c then callDown c else c\<lparr>ck_canceled := True\<rparr>)"

definition Shutdown :: "Clockwork \<Rightarrow> Clockwork" where
  "Shutdown c = c\<lparr>ck_canceled := True\<rparr>"

section \<open>The rekeying timers\<close>

definition rekeyMaxFail :: nat where
  "rekeyMaxFail = 5"

definition startTimer :: "int \<Rightarrow> int \<Rightarrow> int \<Rightarrow> RekeyTimer" where
  "startTimer interval jitter now =
     \<lparr>rt_interval = interval, rt_due = now + interval - jitter * second, rt_failCount = 0, rt_over = False\<rparr>"

text \<open>A new channel replaces the old one; the old goroutine reads the new one, too.\<close>

definition startIKESARekeyTimer :: "int \<Rightarrow> int \<Rightarrow> int \<Rightarrow> Clockwork \<Rightarrow> Clockwork" where
  "startIKESARekeyTimer interval jitter now c =
     c\<lparr>ck_ikeReset := False, ck_ike := ck_ike c @ [startTimer interval jitter now]\<rparr>"

definition startChildSARekeyTimer :: "int \<Rightarrow> int \<Rightarrow> int \<Rightarrow> Clockwork \<Rightarrow> Clockwork" where
  "startChildSARekeyTimer interval jitter now c =
     c\<lparr>ck_childReset := False, ck_child := ck_child c @ [startTimer interval jitter now]\<rparr>"

text \<open>After a success or a reset, and after a failure: the new state, and whether the timer gives up.\<close>

definition rearm :: "int \<Rightarrow> int \<Rightarrow> RekeyTimer \<Rightarrow> RekeyTimer" where
  "rearm jitter now t = t\<lparr>rt_failCount := 0, rt_due := now + rt_interval t - jitter * second\<rparr>"

definition failed :: "int \<Rightarrow> RekeyTimer \<Rightarrow> RekeyTimer" where
  "failed now t =
     (let n = rt_failCount t + 1
      in if rekeyMaxFail \<le> n then t\<lparr>rt_failCount := n, rt_over := True\<rparr>
         else t\<lparr>rt_failCount := n, rt_due := now + 60 * second\<rparr>)"

text \<open>What a firing draws, and the exchanges that it runs.\<close>

record Firing =
  fr_now :: int
  fr_later :: int
  fr_jitter :: int
  fr_nonce :: "bytes result"
  fr_spi :: "bytes result"
  fr_dh :: "nat result"
  fr_exchange :: Exchange
  fr_delete :: Exchange
  fr_deleteIV :: "bytes result"

text \<open>The end of a firing: \<open>r\<close> is the result of the rekeying; a panic or a blocked call ends the rest.\<close>

definition settle :: "Firing \<Rightarrow> unit result \<Rightarrow> RekeyTimer \<Rightarrow> (RekeyTimer \<times> bool) result" where
  "settle f r t =
     (case r of
        Inr _ \<Rightarrow> Inr (rearm (fr_jitter f) (fr_later f) t, False)
      | Inl (Fail _) \<Rightarrow> Inr (failed (fr_later f) t, rt_over (failed (fr_later f) t))
      | Inl e \<Rightarrow> Inl e)"

text \<open>
  Both rekeyings that were carried out put a token into \<^verbatim>\<open>rekeyResetCh\<close>; one that was skipped for
  the cool-down does not.
\<close>

definition rekeyed :: "Firing \<Rightarrow> unit action \<Rightarrow> unit tick" where
  "rekeyed f m c =
     (case onSess m c of
        (c', Inr x) \<Rightarrow> (if coolingDown (fr_now f) (ck_session c) then c' else c'\<lparr>ck_ikeReset := True\<rparr>, Inr x)
      | (c', Inl e) \<Rightarrow> (c', Inl e))"

definition rekeyIKE :: "Firing \<Rightarrow> unit tick" where
  "rekeyIKE f = rekeyed f (RekeyIKESA (fr_now f) (fr_later f) (fr_nonce f) (fr_dh f) (fr_spi f) (fr_exchange f) (fr_delete f))"

definition rekeyChild :: "Firing \<Rightarrow> unit tick" where
  "rekeyChild f = rekeyed f (RekeyChildSA (fr_now f) (fr_later f) (fr_nonce f) (fr_spi f) (fr_exchange f) (fr_deleteIV f))"

definition fireIKE :: "nat \<Rightarrow> Firing \<Rightarrow> unit tick" where
  "fireIKE i f c =
     (case rekeyIKE f c of (c, r) \<Rightarrow>
        (case settle f r (ck_ike c ! i) of
           Inl e \<Rightarrow> (c, Inl e)
         | Inr (t, down) \<Rightarrow>
             let c = c\<lparr>ck_ike := (ck_ike c)[i := t]\<rparr> in (if down then goDown c else c, Inr ())))"

definition fireChild :: "nat \<Rightarrow> Firing \<Rightarrow> unit tick" where
  "fireChild i f c =
     (case rekeyChild f c of (c, r) \<Rightarrow>
        (case settle f r (ck_child c ! i) of
           Inl e \<Rightarrow> (c, Inl e)
         | Inr (t, down) \<Rightarrow>
             let c = c\<lparr>ck_child := (ck_child c)[i := t]\<rparr> in (if down then goDown c else c, Inr ())))"

text \<open>A token in the channel.\<close>

definition resetIKE :: "nat \<Rightarrow> int \<Rightarrow> int \<Rightarrow> Clockwork \<Rightarrow> Clockwork" where
  "resetIKE i jitter now c = c\<lparr>ck_ikeReset := False, ck_ike := (ck_ike c)[i := rearm jitter now (ck_ike c ! i)]\<rparr>"

definition resetChild :: "nat \<Rightarrow> int \<Rightarrow> int \<Rightarrow> Clockwork \<Rightarrow> Clockwork" where
  "resetChild i jitter now c = c\<lparr>ck_childReset := False, ck_child := (ck_child c)[i := rearm jitter now (ck_child c ! i)]\<rparr>"

text \<open>The timers of a connection that has just been established.\<close>

definition startTimers :: "int \<Rightarrow> int \<Rightarrow> int \<Rightarrow> Clockwork \<Rightarrow> Clockwork" where
  "startTimers jitter childJitter now c =
     (let (ike, child) = rekeyIntervals (authLifetime (ck_session c))
      in startChildSARekeyTimer (child * second) childJitter now (startIKESARekeyTimer (ike * second) jitter now c))"

section \<open>Dead peer detection\<close>

definition sendDPD :: "Exchange \<Rightarrow> bytes action" where
  "sendDPD x = sendEncryptedWithRetry x [] INFORMATIONAL"

definition DPDProbe :: "Exchange \<Rightarrow> unit action" where
  "DPDProbe x = sbind (sendDPD x) (\<lambda>_. ret ())"

definition StartDPD :: "int \<Rightarrow> Clockwork \<Rightarrow> Clockwork" where
  "StartDPD now c = (if ck_lastIn c = None then c\<lparr>ck_lastIn := Some now\<rparr> else c)"

text \<open>A tick; the result says whether the goroutine goes on.\<close>

definition dpdTick :: "int \<Rightarrow> int \<Rightarrow> int \<Rightarrow> Exchange \<Rightarrow> bool tick" where
  "dpdTick interval now later x c =
     (if now - (case ck_lastIn c of Some t \<Rightarrow> t | None \<Rightarrow> 0) < interval then (c, Inr True)
      else case onSess (sendDPD x) c of
             (c, Inr _) \<Rightarrow> (c\<lparr>ck_lastIn := Some later\<rparr>, Inr True)
           | (c, Inl (Fail _)) \<Rightarrow> (goDown c, Inr False)
           | (c, Inl e) \<Rightarrow> (c, Inl e))"

section \<open>The NAT keepalive\<close>

definition keepaliveDPDMargin :: int where
  "keepaliveDPDMargin = 150 * second"

text \<open>\<open>canSend\<close>: the socket has the method. Returns whether the goroutine starts.\<close>

definition startNATKeepalive :: "int \<Rightarrow> bool \<Rightarrow> int \<Rightarrow> Clockwork \<Rightarrow> Clockwork \<times> bool" where
  "startNATKeepalive interval canSend now c =
     (if ck_natStarted c \<or> interval \<le> 0 then (c, False)
      else
        let c = c\<lparr>ck_natStarted := True\<rparr>
        in if \<not> canSend then (c, False)
           else (if ck_lastOut c = None then c\<lparr>ck_lastOut := Some now\<rparr> else c, True))"

datatype nat_action = NatNothing | NatKeepalive | NatDPD | NatClosed

text \<open>
  A round: \<open>used\<close> is the kernel's time of last use in seconds, 0 if there is none; \<open>send\<close> is the result
  of the datagram, \<open>None\<close> for a closed socket. The round gives the action, the time of the last
  outbound packet, and how long it waits.
\<close>

definition natRound :: "int \<Rightarrow> int \<Rightarrow> int \<Rightarrow> bool option \<Rightarrow> int \<Rightarrow> nat_action \<times> int \<times> int" where
  "natRound interval now used send lastOut =
     (let lastOut = (if 0 < used \<and> lastOut < used * second then used * second else lastOut);
          diff = now - lastOut
      in if interval + keepaliveDPDMargin < diff then (NatDPD, lastOut, interval)
         else if interval \<le> diff then
           (case send of
              None \<Rightarrow> (NatClosed, lastOut, 0)
            | Some ok \<Rightarrow> (NatKeepalive, if ok then now else lastOut, interval))
         else (NatNothing, lastOut, if interval - diff \<le> 0 then interval else interval - diff))"

section \<open>Events\<close>

text \<open>An event of the socket; the second component says whether a probe is started.\<close>

definition netEvent :: "NetEvent \<Rightarrow> Session \<Rightarrow> Session \<times> bool" where
  "netEvent ev s =
     (case ev of
        PathMTU pmtu \<Rightarrow> (if pmtu < ikeFragmentMTU s \<and> 500 \<le> pmtu then s\<lparr>ikeFragmentMTU := pmtu\<rparr> else s, False)
      | NetworkDown _ \<Rightarrow> (s, True)
      | NATPortChanged _ _ \<Rightarrow> (s, False))"

text \<open>An expiry event of the kernel for the association \<open>spi\<close>.\<close>

definition ourSA :: "u32 \<Rightarrow> Session \<Rightarrow> bool" where
  "ourSA spi s \<longleftrightarrow> (\<exists>i. (ChildSAOut s = Some i \<or> ChildSAIn s = Some i) \<and> sa_SPI (sas s ! i) = spi)"

definition xfrmExpire :: "u32 \<Rightarrow> bool \<Rightarrow> Firing \<Rightarrow> unit tick" where
  "xfrmExpire spi hard f c =
     (if \<not> ourSA spi (ck_session c) then (c, Inr ())
      else if hard then (elseCancel c, Inr ())
      else case rekeyChild f c of
             (c, Inl (Fail _)) \<Rightarrow> (c, Inr ())
           | r \<Rightarrow> r)"

section \<open>Reauthentication\<close>

text \<open>
  The channel of one token that \<^verbatim>\<open>connectOnce\<close> waits for, and the timer that fills it: when it is due.
  \<^verbatim>\<open>rand.Int63n\<close> panics on a range that is not positive.
\<close>

definition Reauthenticate :: "bool \<Rightarrow> bool" where
  "Reauthenticate token = True"

definition startIKEReauthTimer :: "int \<Rightarrow> int \<Rightarrow> int \<Rightarrow> int result" where
  "startIKEReauthTimer interval jitter now =
     (if interval div 10 \<le> 0 then Inl Panic else Inr (now + (interval + jitter)))"

end
