(* ===== verification/Swu_Timers_Correct.thy ===== *)
theory Swu_Timers_Correct
  imports Swu_Timers
begin

text \<open>
  What the timers do for a session: when a rekeying is skipped, when a session is given up, how long a
  NAT mapping is left alone, and how far ICMP messages can lower the fragment size.
\<close>

section \<open>Rekeying\<close>

lemma rekeyMu_False: "\<not> rekeyMu s \<Longrightarrow> s\<lparr>rekeyMu := False\<rparr> = s"
  by (cases s) simp

lemma withRekeyMu_ret:
  assumes "m (s\<lparr>rekeyMu := True\<rparr>) = (s\<lparr>rekeyMu := True\<rparr>, Inr ())" "\<not> rekeyMu s"
  shows "withRekeyMu m s = (s, Inr ())"
  using assms rekeyMu_False [OF assms(2)] by (simp add: withRekeyMu_def sbind_def lockRekey_def deferUnlock_def)

lemma coolingDown_rekeyMu [simp]: "coolingDown now (s\<lparr>rekeyMu := b\<rparr>) = coolingDown now s"
  by (simp add: coolingDown_def)

lemma RekeyChildSA_cooling:
  assumes "ChildSAOut s \<noteq> None" "\<not> rekeyMu s" "coolingDown now s"
  shows "RekeyChildSA now later nonce spi x rnd s = (s, Inr ())"
  unfolding RekeyChildSA_def
  by (rule withRekeyMu_ret) (use assms in \<open>simp_all add: sbind_def gets_def ret_def\<close>)

lemma RekeyIKESA_cooling:
  assumes "Keys s = Some k" "SK_d k \<noteq> []" "\<not> rekeyMu s" "coolingDown now s"
  shows "RekeyIKESA now later nonce dh spi x xd s = (s, Inr ())"
  unfolding RekeyIKESA_def
  by (rule withRekeyMu_ret) (use assms in \<open>simp_all add: sbind_def gets_def ret_def\<close>)

lemma onSess_keeps: "m (ck_session c) = (ck_session c, r) \<Longrightarrow> onSess m c = (c, r)"
  by (simp add: onSess_def)

text \<open>A firing in the cool-down counts as a success: the timer waits a whole interval again.\<close>

lemma fireChild_cooling:
  assumes "ChildSAOut (ck_session c) \<noteq> None" "\<not> rekeyMu (ck_session c)" "coolingDown (fr_now f) (ck_session c)"
  shows "fireChild i f c = (c\<lparr>ck_child := (ck_child c)[i := rearm (fr_jitter f) (fr_later f) (ck_child c ! i)]\<rparr>, Inr ())"
  using RekeyChildSA_cooling [OF assms] assms(3)
  by (simp add: fireChild_def rekeyChild_def rekeyed_def settle_def onSess_keeps)

lemma fireIKE_cooling:
  assumes "Keys (ck_session c) = Some k" "SK_d k \<noteq> []" "\<not> rekeyMu (ck_session c)" "coolingDown (fr_now f) (ck_session c)"
  shows "fireIKE i f c = (c\<lparr>ck_ike := (ck_ike c)[i := rearm (fr_jitter f) (fr_later f) (ck_ike c ! i)]\<rparr>, Inr ())"
  using RekeyIKESA_cooling [OF assms] assms(4)
  by (simp add: fireIKE_def rekeyIKE_def rekeyed_def settle_def onSess_keeps)

text \<open>
  The two timers of one connection: with a lifetime below 787 seconds there are jitters for which the
  child timer fires less than 30 seconds after the other one.
\<close>

lemma int_gap:
  fixes x :: int
  shows "0 \<le> x \<Longrightarrow> x * 7 div 8 - x * 4 div 5 - 29 < 30 \<Longrightarrow> x < 800"
    "0 \<le> x \<Longrightarrow> x < 770 \<Longrightarrow> x * 7 div 8 - x * 4 div 5 - 29 < 30" "0 \<le> x \<Longrightarrow> x * 4 div 5 \<le> x * 7 div 8"
  by linarith+

lemma intervals_gap:
  assumes "rekeyIntervals L = (a, b)" "0 < L"
  shows "b - a - 29 < 30 \<Longrightarrow> uint L < 800" "uint L < 770 \<Longrightarrow> b - a - 29 < 30" "a \<le> b"
  using assms int_gap [of "uint L"] by (auto simp: rekeyIntervals_def)

subsection \<open>Failures\<close>

fun failingRun :: "nat \<Rightarrow> Firing list \<Rightarrow> Clockwork \<Rightarrow> Clockwork \<Rightarrow> bool" where
  "failingRun i [] c c' \<longleftrightarrow> c' = c"
| "failingRun i (f # fs) c c' \<longleftrightarrow>
     (\<exists>e. snd (rekeyChild f c) = Inl (Fail e)) \<and> failingRun i fs (fst (fireChild i f c)) c'"

lemma onSess_frame:
  assumes "onSess m c = (c', r)"
  shows "ck_child c' = ck_child c" "ck_ike c' = ck_ike c" "ck_canceled c' = ck_canceled c" "ck_onDown c' = ck_onDown c"
  using assms by (auto simp: onSess_def split: prod.splits)

lemma rekeyChild_frame:
  assumes "rekeyChild f c = (c', r)"
  shows "ck_child c' = ck_child c" "ck_canceled c' = ck_canceled c" "ck_onDown c' = ck_onDown c"
  using assms onSess_frame [of "RekeyChildSA (fr_now f) (fr_later f) (fr_nonce f) (fr_spi f) (fr_exchange f) (fr_deleteIV f)" c]
  by (auto simp: rekeyChild_def rekeyed_def split: prod.splits sum.splits if_splits)

lemma goDown_frame [simp]:
  "ck_canceled (goDown c)" "ck_onDown (goDown c) = ck_onDown c" "ck_child (goDown c) = ck_child c"
  "ck_onDown c \<Longrightarrow> events (ck_session (goDown c)) = events (ck_session c) @ [SessionDown]"
  by (simp_all add: goDown_def callDown_def onSess_def emit_def modify_def)

lemma fireChild_fails:
  assumes "snd (rekeyChild f c) = Inl (Fail e)" "i < length (ck_child c)" "\<not> ck_canceled c" "\<not> rt_over (ck_child c ! i)"
  defines "n \<equiv> rt_failCount (ck_child c ! i)" and "c' \<equiv> fst (fireChild i f c)"
  shows "length (ck_child c') = length (ck_child c)" "rt_failCount (ck_child c' ! i) = n + 1"
    "rt_over (ck_child c' ! i) \<longleftrightarrow> 4 \<le> n" "ck_canceled c' \<longleftrightarrow> 4 \<le> n" "ck_onDown c' = ck_onDown c"
    "4 \<le> n \<Longrightarrow> ck_onDown c \<Longrightarrow> SessionDown \<in> set (events (ck_session c'))"
proof -
  obtain c1 where c1: "rekeyChild f c = (c1, Inl (Fail e))" using assms(1) by (cases "rekeyChild f c") auto
  note frame = rekeyChild_frame [OF c1]
  define t where "t = failed (fr_later f) (ck_child c ! i)"
  have over: "rt_over t \<longleftrightarrow> 4 \<le> n" and count: "rt_failCount t = n + 1"
    using assms(4) by (auto simp: t_def failed_def Let_def n_def rekeyMaxFail_def)
  have c': "c' = (if 4 \<le> n then goDown (c1\<lparr>ck_child := (ck_child c1)[i := t]\<rparr>) else c1\<lparr>ck_child := (ck_child c1)[i := t]\<rparr>)"
    using frame(1) over by (simp add: c'_def fireChild_def c1 settle_def flip: t_def)
  show "length (ck_child c') = length (ck_child c)" "rt_failCount (ck_child c' ! i) = n + 1" "ck_onDown c' = ck_onDown c"
    "rt_over (ck_child c' ! i) \<longleftrightarrow> 4 \<le> n" "ck_canceled c' \<longleftrightarrow> 4 \<le> n"
    "4 \<le> n \<Longrightarrow> ck_onDown c \<Longrightarrow> SessionDown \<in> set (events (ck_session c'))"
    using assms(2,3) by (auto simp: c' frame count over)
qed

lemma failingRun_ends:
  assumes "failingRun i fs c c'" "i < length (ck_child c)" "\<not> ck_canceled c" "\<not> rt_over (ck_child c ! i)"
    "rt_failCount (ck_child c ! i) + length fs \<le> 5" "rt_failCount (ck_child c ! i) < 5"
  shows "(ck_canceled c' \<longleftrightarrow> rt_failCount (ck_child c ! i) + length fs = 5) \<and>
    (ck_canceled c' \<and> ck_onDown c \<longrightarrow> SessionDown \<in> set (events (ck_session c')))"
  using assms
proof (induction fs arbitrary: c)
  case (Cons f fs)
  obtain e where e: "snd (rekeyChild f c) = Inl (Fail e)" using Cons.prems(1) by auto
  let ?c = "fst (fireChild i f c)"
  note step = fireChild_fails [OF e Cons.prems(2,3,4)]
  show ?case
  proof (cases "4 \<le> rt_failCount (ck_child c ! i)")
    case True
    then have "fs = []" using Cons.prems(5) by (cases fs) auto
    then have "c' = ?c" using Cons.prems(1) by simp
    then show ?thesis using True step(4,6) Cons.prems(5,6) \<open>fs = []\<close> by simp
  next
    case False
    have run: "failingRun i fs ?c c'" using Cons.prems(1) by simp
    show ?thesis
      using Cons.IH [OF run] False step(1-5) Cons.prems(2,5) by simp
  qed
qed simp

section \<open>An interval of 0\<close>

text \<open>
  In the cool-down a timer with interval 0 is due again at the same instant: the goroutine runs
  without a pause until the cool-down is over.
\<close>

lemma fireIKE_spins:
  assumes "Keys (ck_session c) = Some k" "SK_d k \<noteq> []" "\<not> rekeyMu (ck_session c)" "coolingDown (fr_now f) (ck_session c)"
    "i < length (ck_ike c)" "rt_interval (ck_ike c ! i) = 0" "0 \<le> fr_jitter f" "fr_later f = fr_now f"
  shows "\<exists>c'. fireIKE i f c = (c', Inr ()) \<and> rt_due (ck_ike c' ! i) \<le> fr_now f \<and> ck_session c' = ck_session c \<and>
    rt_interval (ck_ike c' ! i) = 0"
  using fireIKE_cooling [OF assms(1-4)] assms(5-8) by (simp add: rearm_def)

section \<open>Dead peer detection\<close>

lemma sendDPD_fails:
  assumes "shouldFragment [] s = Inr False" "encryptAndWrap (ex_iv x) [] INFORMATIONAL False s = (s', Inr p)" "ex_reply x = Inl e"
  shows "sendDPD x s = (s'\<lparr>outbox := outbox s' @ [p]\<rparr>, Inl e)"
  using assms
  by (simp add: sendDPD_def sendEncryptedWithRetry_def sendEncrypted_def sbind_def gets_def ret_def lift_def modify_def)

lemma dpdTick_dead:
  assumes "shouldFragment [] s = Inr False" "encryptAndWrap (ex_iv x) [] INFORMATIONAL False s = (s', Inr p)"
    "ex_reply x = Inl (Fail e)" "ck_session c = s" "ck_lastIn c = Some t" "interval \<le> now - t"
  shows "dpdTick interval now later x c = (goDown (c\<lparr>ck_session := s'\<lparr>outbox := outbox s' @ [p]\<rparr>\<rparr>), Inr False)"
  using sendDPD_fails [OF assms(1-3)] assms(4-6) by (simp add: dpdTick_def onSess_def)

lemma dpdTick_alive: "ck_lastIn c = Some t \<Longrightarrow> now - t < interval \<Longrightarrow> dpdTick interval now later x c = (c, Inr True)"
  by (simp add: dpdTick_def)

section \<open>The NAT keepalive\<close>

text \<open>
  A run of the goroutine that wakes up on time and can send: \<open>used\<close> gives the kernel's time of last use,
  in seconds, as it is read at a time.
\<close>

fun natRun :: "int \<Rightarrow> (int \<Rightarrow> int) \<Rightarrow> nat \<Rightarrow> int \<times> int \<Rightarrow> int \<times> int" where
  "natRun interval used 0 (now, lastOut) = (now, lastOut)"
| "natRun interval used (Suc n) (now, lastOut) =
     (case natRound interval now (used now) (Some True) lastOut of
        (_, lastOut', wait) \<Rightarrow> natRun interval used n (now + wait, lastOut'))"

lemma natRound_period:
  assumes "natRound interval now used (Some True) lastOut = (a, lastOut', wait)"
    "0 < interval" "lastOut \<le> now" "now - lastOut \<le> interval" "used * second \<le> now"
  shows "0 < wait" "wait \<le> interval" "now + wait - lastOut' = interval" "lastOut' \<le> now" "a \<noteq> NatDPD"
  using assms by (auto simp: natRound_def Let_def keepaliveDPDMargin_def split: if_splits)

lemma natRun_period:
  assumes "0 < interval" "lastOut \<le> now" "now - lastOut \<le> interval" "\<And>t. used t * second \<le> t"
  shows "natRun interval used n (now, lastOut) = (now', lastOut') \<Longrightarrow>
    now \<le> now' \<and> lastOut' \<le> now' \<and> now' - lastOut' \<le> interval \<and> (0 < n \<longrightarrow> now' - lastOut' = interval)"
  using assms(2,3)
proof (induction n arbitrary: now lastOut)
  case (Suc n)
  obtain a lo w where r: "natRound interval now (used now) (Some True) lastOut = (a, lo, w)" by (metis prod_cases3)
  note p = natRound_period [OF r assms(1) Suc.prems(2,3) assms(4)]
  have run: "natRun interval used n (now + w, lo) = (now', lastOut')" using Suc.prems(1) r by simp
  show ?case
    using Suc.IH [OF run] p run by (cases n) auto
qed simp

section \<open>The fragment size\<close>

definition netEvents :: "NetEvent list \<Rightarrow> Session \<Rightarrow> Session" where
  "netEvents evs s = fold (\<lambda>ev s. fst (netEvent ev s)) evs s"

lemma netEvent_same: "\<exists>m. fst (netEvent ev s) = s\<lparr>ikeFragmentMTU := m\<rparr> \<and> m \<le> ikeFragmentMTU s \<and> (500 \<le> ikeFragmentMTU s \<longrightarrow> 500 \<le> m)"
proof (cases ev)
  case (PathMTU pmtu)
  show ?thesis
    by (rule exI [of _ "if pmtu < ikeFragmentMTU s \<and> 500 \<le> pmtu then pmtu else ikeFragmentMTU s"])
      (auto simp: netEvent_def PathMTU)
next
  case (NetworkDown n)
  then show ?thesis by (intro exI [of _ "ikeFragmentMTU s"]) (simp add: netEvent_def)
next
  case (NATPortChanged a b)
  then show ?thesis by (intro exI [of _ "ikeFragmentMTU s"]) (simp add: netEvent_def)
qed

lemma netEvents_same:
  "\<exists>m. netEvents evs s = s\<lparr>ikeFragmentMTU := m\<rparr> \<and> m \<le> ikeFragmentMTU s \<and> (500 \<le> ikeFragmentMTU s \<longrightarrow> 500 \<le> m)"
proof (induction evs arbitrary: s)
  case Nil
  show ?case by (rule exI [of _ "ikeFragmentMTU s"]) (simp add: netEvents_def)
next
  case (Cons ev evs)
  obtain m where m: "fst (netEvent ev s) = s\<lparr>ikeFragmentMTU := m\<rparr>" "m \<le> ikeFragmentMTU s"
      "500 \<le> ikeFragmentMTU s \<longrightarrow> 500 \<le> m"
    using netEvent_same by blast
  from Cons.IH [of "s\<lparr>ikeFragmentMTU := m\<rparr>"] m show ?case
    by (auto simp: netEvents_def intro: order_trans)
qed

lemma icvLen_le: "icvLen s \<le> 32"
proof -
  have "OutputSize a \<le> 32" for a by (cases a) simp_all
  then show ?thesis by (auto simp: icvLen_def split: option.splits)
qed

lemma relabel_other: "u \<noteq> t \<Longrightarrow> relabel t r \<noteq> fail u"
  by (simp add: relabel_def split: sum.splits fault.splits)

lemma skf_loop_errors:
  assumes "u \<noteq> ''building fragment failed''"
  shows "skf_loop rnd mem l n k mid x ty s is \<noteq> fail u"
proof (induction "is" arbitrary: mem)
  case (Cons i "is")
  obtain m r where b: "buildSKFPacket (rnd i) mem (chunkRef l (length mem) n i) (of_nat (i + 1)) (of_nat k) mid x ty s = (m, r)"
    using prod.exhaust by blast
  show ?case
    using Cons.IH [of m] relabel_other [OF assms, of r]
    by (auto simp: b [unfolded Suc_eq_plus1 [symmetric]] rbind_Inl_iff simp del: of_nat_add of_nat_Suc)
qed simp

lemma sdiv_pos: "0 < n \<Longrightarrow> 0 \<le> a \<Longrightarrow> a sdiv n = a div (n :: int)"
  by (cases "a = 0") (auto simp: signed_divide_int_def sgn_if)

lemma fragmentMessage_floor:
  assumes "500 \<le> ikeFragmentMTU s" "encode_payloads ps = Inr d" "EncAlg s = Some e" "length d \<le> 94860"
  shows "snd (fragmentMessage rnd spare ps x s) \<notin> {fail ''fragment MTU too small'', fail ''too many fragments''}"
proof -
  define icv where "icv = (if ikeIsAEAD s then 16 else icvLen s)"
  define m where "m = int (unat (ikeFragmentMTU s)) - 64 - int (IVSize e) - int icv"
  define n where "n = (if \<not> ikeIsAEAD s \<and> 0 < BlockSize e then m - int (BlockSize e) else m)"
  have sizes: "IVSize e \<le> 16" "BlockSize e \<le> 16" by (cases e; simp add: IVSize_def BlockSize_def)+
  have "500 \<le> uint (ikeFragmentMTU s)" using assms(1) by (simp add: word_le_def)
  then have n: "372 \<le> n" "0 < m" using sizes icvLen_le [of s] by (auto simp: n_def m_def icv_def)
  have "int (length d) + n - 1 < 256 * n" using assms(4) n by simp
  then have "(int (length d) + n - 1) div n \<le> (256 * n - 1) div n" using n(1) by (intro zdiv_mono1) auto
  also have "(256 * n - 1) div n = 255" by (rule int_div_pos_eq [of _ _ _ "n - 1"]) (use n(1) in auto)
  finally have "(int (length d) + n - 1) div n \<le> 255" .
  then have "(int (length d) + n - 1) sdiv n \<le> 255" using n by (subst sdiv_pos) auto
  moreover have "fragmentMessage rnd spare ps x s =
      (if m \<le> 0 then (s, fail ''fragment MTU too small'') else if n = 0 then (s, Inl Panic)
       else let k = (int (length d) + n - 1) sdiv n
            in if 255 < k then (s, fail ''too many fragments'') else if k \<le> 1 then (s, Inr [])
               else let (s, msgID) = NextMsgID s
                    in (s, skf_loop rnd (d @ spare) (length d) (nat n) (nat k) msgID x (firstType ps) s [0..<nat k]))"
    unfolding m_def n_def icv_def fragmentMessage_def assms(2,3) Let_def by simp
  ultimately show ?thesis
    using n skf_loop_errors by (auto simp: Let_def split: prod.splits)
qed

section \<open>Reauthentication\<close>

text \<open>The configured interval is a whole number of seconds: the timer starts, at most a tenth late.\<close>

lemma startIKEReauthTimer_due:
  assumes "0 < secs" "0 \<le> jitter" "jitter < secs * second div 10"
  shows "\<exists>due. startIKEReauthTimer (secs * second) jitter now = Inr due \<and>
    now + secs * second \<le> due \<and> 10 * (due - now) < 11 * (secs * second)"
proof -
  have e: "secs * second div 10 = secs * 100000000" by simp
  with assms show ?thesis by (simp add: startIKEReauthTimer_def)
qed

end
