(* ===== verification/Swu_Manager.thy ===== *)
theory Swu_Manager
  imports Swu_Connect_Correct Swu_Control_Correct
begin

text \<open>
  The sessions of a process (\<^verbatim>\<open>pkg/swu/manager.go\<close>) and the snapshot of one (\<^verbatim>\<open>pkg/swu/status.go\<close>).
  A session that was created is a run, numbered in order; the goroutine of its \<^verbatim>\<open>Connect\<close> may end at any
  time.
\<close>

section \<open>The manager\<close>

record Run =
  run_session :: Session
  run_canceled :: bool
  run_ended :: bool

record SessionManager =
  sm_sessions :: "string \<rightharpoonup> nat"
  sm_cancels :: "string \<rightharpoonup> nat"
  sm_runs :: "Run list"

definition NewSessionManager :: SessionManager where
  "NewSessionManager = \<lparr>sm_sessions = Map.empty, sm_cancels = Map.empty, sm_runs = []\<rparr>"

definition mgr_Start :: "string \<Rightarrow> Config \<Rightarrow> bytes \<Rightarrow> SessionManager \<Rightarrow> SessionManager \<times> nat result" where
  "mgr_Start i cfg spi m =
     (if i = [] then (m, fail ''session id empty'')
      else if sm_sessions m i \<noteq> None then (m, fail ''session id exists'')
      else
        let n = length (sm_runs m)
        in (m\<lparr>sm_sessions := (sm_sessions m)(i \<mapsto> n), sm_cancels := (sm_cancels m)(i \<mapsto> n),
              sm_runs := sm_runs m @ [\<lparr>run_session = NewSession cfg spi, run_canceled = False, run_ended = False\<rparr>]\<rparr>, Inr n))"

definition mgr_Stop :: "string \<Rightarrow> SessionManager \<Rightarrow> SessionManager \<times> unit result" where
  "mgr_Stop i m =
     (case sm_cancels m i of
        None \<Rightarrow> (m, fail ''session id missing'')
      | Some n \<Rightarrow>
          (m\<lparr>sm_cancels := (sm_cancels m)(i := None), sm_sessions := (sm_sessions m)(i := None),
             sm_runs := (sm_runs m)[n := (sm_runs m ! n)\<lparr>run_canceled := True\<rparr>]\<rparr>, Inr ()))"

definition mgr_Get :: "string \<Rightarrow> SessionManager \<Rightarrow> nat option" where
  "mgr_Get i m = sm_sessions m i"

text \<open>The goroutine of a run returns from \<^verbatim>\<open>Connect\<close>; its session is as that left it.\<close>

definition runEnds :: "nat \<Rightarrow> Session \<Rightarrow> SessionManager \<Rightarrow> SessionManager" where
  "runEnds n s m = m\<lparr>sm_runs := (sm_runs m)[n := (sm_runs m ! n)\<lparr>run_session := s, run_ended := True\<rparr>]\<rparr>"

inductive mgr_step :: "SessionManager \<Rightarrow> SessionManager \<Rightarrow> bool" where
  start: "mgr_step m (fst (mgr_Start i cfg spi m))"
| stop: "mgr_step m (fst (mgr_Stop i m))"
| ends: "n < length (sm_runs m) \<Longrightarrow> mgr_step m (runEnds n s m)"

inductive_cases mgr_stepE: "mgr_step m m'"

text \<open>
  Both maps agree, every identifier has a run of its own, and a run that no identifier names has been
  cancelled.
\<close>

definition mgr_inv :: "SessionManager \<Rightarrow> bool" where
  "mgr_inv m \<longleftrightarrow> sm_cancels m = sm_sessions m \<and> sm_sessions m [] = None \<and> inj_on (sm_sessions m) (dom (sm_sessions m)) \<and>
     ran (sm_sessions m) = {n. n < length (sm_runs m) \<and> \<not> run_canceled (sm_runs m ! n)}"

lemma mgr_invD:
  assumes "mgr_inv m" "sm_sessions m i = Some n"
  shows "n < length (sm_runs m)" "\<not> run_canceled (sm_runs m ! n)" "sm_cancels m i = Some n" "i \<noteq> []"
  using assms by (auto simp: mgr_inv_def ran_def)

lemma mgr_inv_Start:
  assumes "mgr_inv m"
  shows "mgr_inv (fst (mgr_Start i cfg spi m))"
proof (cases "i = [] \<or> sm_sessions m i \<noteq> None")
  case False
  let ?n = "length (sm_runs m)"
  have fresh: "\<forall>j n. sm_sessions m j = Some n \<longrightarrow> n < ?n" using mgr_invD(1) [OF assms] by blast
  have inj: "inj_on ((sm_sessions m)(i \<mapsto> ?n)) (dom ((sm_sessions m)(i \<mapsto> ?n)))"
    using assms fresh by (auto simp: mgr_inv_def inj_on_def) (metis less_irrefl)+
  have "ran ((sm_sessions m)(i \<mapsto> ?n)) = insert ?n (ran (sm_sessions m))" using False by (intro ran_map_upd) simp
  then show ?thesis
    using False assms inj by (auto simp: mgr_inv_def mgr_Start_def Let_def nth_append less_Suc_eq split: if_splits)
qed (use assms in \<open>auto simp: mgr_Start_def\<close>)

lemma ran_delete:
  assumes "inj_on m (dom m)" "m i = Some n"
  shows "ran (m(i := None)) = ran m - {n}"
  using assms by (auto simp: ran_def inj_on_def dom_def) (metis option.inject)+

lemma mgr_inv_Stop:
  assumes "mgr_inv m"
  shows "mgr_inv (fst (mgr_Stop i m))"
proof (cases "sm_sessions m i")
  case (Some n)
  note d = mgr_invD [OF assms Some]
  have inj: "inj_on (sm_sessions m) (dom (sm_sessions m))" using assms by (simp add: mgr_inv_def)
  show ?thesis
    using assms d ran_delete [OF inj Some] inj
    by (auto simp: mgr_inv_def mgr_Stop_def nth_list_update inj_on_def)
qed (use assms in \<open>auto simp: mgr_Stop_def mgr_inv_def\<close>)

lemma mgr_inv_step: "mgr_step m m' \<Longrightarrow> mgr_inv m \<Longrightarrow> mgr_inv m'"
proof (erule mgr_stepE)
  fix n s
  assume "mgr_inv m" "n < length (sm_runs m)" "m' = runEnds n s m"
  then show "mgr_inv m'" by (auto simp: mgr_inv_def runEnds_def nth_list_update)
qed (auto simp: mgr_inv_Start mgr_inv_Stop)

lemma mgr_inv_new: "mgr_inv NewSessionManager"
  by (simp add: mgr_inv_def NewSessionManager_def)

interpretation manager: step_system mgr_step mgr_inv
  by unfold_locales (rule mgr_inv_step)

lemma mgr_reachable_inv: "mgr_step\<^sup>*\<^sup>* NewSessionManager m \<Longrightarrow> mgr_inv m"
  by (erule manager.steps_inv) (rule mgr_inv_new)

text \<open>An identifier whose run has ended stays taken until it is stopped.\<close>

lemma mgr_ended_taken:
  assumes "sm_sessions m i = Some n" "n < length (sm_runs m)"
  shows "mgr_Start i cfg spi (runEnds n s m) = (runEnds n s m, fail ''session id exists'') \<or> i = []"
  using assms by (simp add: mgr_Start_def runEnds_def)

section \<open>Snapshots\<close>

text \<open>What the data plane of a session has: an XFRM manager, the inner queues, a device with its name.\<close>

record PlaneView =
  pv_xfrm :: bool
  pv_inner :: bool
  pv_tun :: "string option"

record SessionSnapshot =
  Established :: bool
  snap_TUNName :: string
  IPv4 :: bytes
  IPv6 :: bytes
  snap_IPv6Prefix :: int
  DNSv4 :: "bytes list"
  DNSv6 :: "bytes list"
  PCSCFv4 :: "bytes list"
  PCSCFv6 :: "bytes list"
  EAPRand :: bytes
  EAPAutn :: bytes
  EAPRES :: bytes
  EAPCK :: bytes
  EAPIK :: bytes

definition planeState :: "PlaneView \<Rightarrow> Config \<Rightarrow> bool \<Rightarrow> bool \<times> string" where
  "planeState v cfg est =
     (if \<not> EnableDriver cfg then (est, [])
      else if DataplaneMode cfg = ''xfrmi'' then (est \<and> pv_xfrm v, if pv_xfrm v then TUNName cfg else [])
      else if DataplaneMode cfg = ''netstack'' then (est \<and> pv_inner v, ''netstack'')
      else (est \<and> pv_tun v \<noteq> None, case pv_tun v of None \<Rightarrow> [] | Some name \<Rightarrow> name))"

definition firstAddr :: "bytes list \<Rightarrow> bytes" where
  "firstAddr ips = (case ips of [] \<Rightarrow> [] | ip # _ \<Rightarrow> ip)"

definition Snapshot :: "PlaneView \<Rightarrow> Session \<Rightarrow> SessionSnapshot" where
  "Snapshot v s =
     (let (est, tun) = planeState v (s_cfg s) (ChildSAIn s \<noteq> None \<and> ChildSAOut s \<noteq> None);
          c = (case cpConfig s of None \<Rightarrow> emptyCPConfig | Some c \<Rightarrow> c);
          ip6 = firstAddr (IPv6Addresses c)
      in \<lparr>Established = est, snap_TUNName = tun, IPv4 = firstAddr (IPv4Addresses c), IPv6 = ip6,
          snap_IPv6Prefix = (if IPv6Prefix c \<noteq> 0 then uint (IPv6Prefix c) else if ip6 \<noteq> [] then 64 else 0),
          DNSv4 = IPv4DNS c, DNSv6 = IPv6DNS c, PCSCFv4 = IPv4PCSCF c, PCSCFv6 = IPv6PCSCF c,
          EAPRand = eapRand s, EAPAutn = eapAutn s, EAPRES = eapRES s, EAPCK = eapCK s, EAPIK = eapIK s\<rparr>)"

lemma Established_iff:
  "Established (Snapshot v s) = fst (planeState v (s_cfg s) (ChildSAIn s \<noteq> None \<and> ChildSAOut s \<noteq> None))"
  unfolding Snapshot_def Let_def by (simp only: split_beta SessionSnapshot.select_convs)

lemma Snapshot_established: "Established (Snapshot v s) \<Longrightarrow> ChildSAIn s \<noteq> None \<and> ChildSAOut s \<noteq> None"
  by (auto simp: Established_iff planeState_def split: if_splits)

text \<open>The end of a connection leaves the associations: the snapshot is the one from before it.\<close>

lemma send_stable_established: "send_stable (\<lambda>s. Established (Snapshot v s) = b)"
  by (simp add: send_stable_def Established_iff)

lemma sendDeleteIKE_established: "preserves (\<lambda>s. Established (Snapshot v s) = b) (logged (sendDeleteIKE rnd))"
  unfolding sendDeleteIKE_def by (intro keeps send_keeps send_stable_established)

lemma endConnection_session: "cn_session (fst (endConnection r c)) = fst (logged (sendDeleteIKE (rd_deleteIV r)) (cn_session c))"
  by (simp add: endConnection_def Let_def split: prod.splits sum.splits)

lemma endConnection_established:
  "Established (Snapshot v (cn_session (fst (endConnection r c)))) = Established (Snapshot v (cn_session c))"
  using preservesD [OF sendDeleteIKE_established [of v "Established (Snapshot v (cn_session c))" "rd_deleteIV r"]]
  by (simp add: endConnection_session)

end
