(* ===== verification/Swu_Spoof.thy ===== *)
theory Swu_Spoof
  imports Swu_Control_Correct
begin

text \<open>
  Messages without encryption. \<^verbatim>\<open>decryptAndParse\<close> (\<^verbatim>\<open>pkg/swu/msg_handler.go\<close>) takes a message whose first
  payload is not an encrypted one as it is, and sets the responder's SPI of the session to that of the
  header before anything is checked. So whatever the handlers of the peer's requests and responses do,
  they do for anybody.
\<close>

section \<open>Parsing\<close>

definition clear_message :: "IKEHeader \<Rightarrow> Payload list \<Rightarrow> bytes \<Rightarrow> bool" where
  "clear_message h ps b \<longleftrightarrow> (\<forall>q\<in>set ps. payload_wf q \<and> fits q) \<and> firstType ps \<noteq> PT_SK \<and>
     firstType ps \<noteq> PT_EncryptedFragment \<and> (\<exists>p. Packet_Encode \<lparr>Header = h, Payloads = ps\<rparr> = Inr (p, b))"

lemma clear_message_ex:
  assumes "\<forall>q\<in>set ps. payload_wf q \<and> fits q" "firstType ps \<noteq> PT_SK" "firstType ps \<noteq> PT_EncryptedFragment"
  shows "\<exists>b. clear_message h ps b"
proof -
  obtain p b where "Packet_Encode \<lparr>Header = h, Payloads = ps\<rparr> = Inr (p, b)"
    using DecodePacket_Encode [of "\<lparr>Header = h, Payloads = ps\<rparr>"] assms(1) by auto
  then show ?thesis using assms by (auto simp: clear_message_def)
qed

lemma clear_message_decodes:
  assumes "clear_message h ps b"
  obtains h' p where "DecodeHeader b = Inr h'" "DecodePacket b = Inr p" "Payloads p = ps"
    "MessageID h' = MessageID h" "SPIr h' = SPIr h" "ExchangeType h' = ExchangeType h" "Flags h' = Flags h"
    "NextPayload h' = firstType ps"
proof -
  let ?p = "\<lparr>Header = h, Payloads = ps\<rparr>"
  obtain p b' where p: "Packet_Encode ?p = Inr (p, b')" "DecodePacket b' = Inr p" "Payloads p = ps"
    using DecodePacket_Encode [of ?p] assms by (auto simp: clear_message_def)
  have b: "b' = b" using assms p(1) by (auto simp: clear_message_def)
  obtain d where d: "encode_payloads ps = Inr d"
      "b = Header_Encode (h\<lparr>NextPayload := firstType ps, hdr_Length := of_nat (IKE_HEADER_LEN + length d)\<rparr>) @ d"
    using p(1) b by (auto simp: Packet_Encode_def rbind_Inr_iff Let_def)
  define h' where "h' = h\<lparr>NextPayload := firstType ps, hdr_Length := of_nat (IKE_HEADER_LEN + length d)\<rparr>"
  show thesis
  proof (rule that [OF _ p(2,3) [unfolded b]])
    show "DecodeHeader b = Inr h'" unfolding d(2) h'_def by (rule DecodeHeader_Encode)
  qed (simp_all add: h'_def)
qed

lemma decryptAndParse_clear:
  assumes "clear_message h ps b"
  shows "decryptAndParse b s = (s\<lparr>s_SPIr := SPIr h\<rparr>, Inr (MessageID h, ps))"
proof -
  obtain h' p where h: "DecodeHeader b = Inr h'" "DecodePacket b = Inr p" "Payloads p = ps"
    "MessageID h' = MessageID h" "SPIr h' = SPIr h" "NextPayload h' = firstType ps"
    by (rule clear_message_decodes [OF assms])
  then show ?thesis using assms by (simp add: decryptAndParse_def clear_message_def Let_def)
qed

section \<open>Requests\<close>

lemma informational_clear:
  assumes "clear_message h ps b"
  shows "handleIncomingInformational rnd b s = handleInformational rnd (MessageID h) ps (s\<lparr>s_SPIr := SPIr h\<rparr>)"
  by (simp add: handleIncomingInformational_def sbind_def decryptAndParse_clear [OF assms])

lemma send_stable_events: "send_stable (\<lambda>s. e \<in> set (events s))"
  by (simp add: send_stable_def)

lemma respond_events: "preserves (\<lambda>s. e \<in> set (events s)) (respond rnd ps msgID)"
  unfolding respond_def by (intro send_keeps send_stable_events)

text \<open>One Delete of the IKE association ends the session.\<close>

lemma deleteIKE_wf: "payload_wf (PayloadDelete deleteIKE) \<and> fits (PayloadDelete deleteIKE)"
  by (simp add: fits_def deleteIKE_def Delete_Encode_def delete_wf_def)

lemma emit_then:
  "(\<And>s. e \<in> set (events s) \<Longrightarrow> e \<in> set (events (fst (m s)))) \<Longrightarrow> e \<in> set (events (fst (sseq (emit e) m s)))"
  by (simp add: sbind_def emit_def modify_def)

lemma handleInformational_delete:
  "SessionDown \<in> set (events (fst (handleInformational rnd msgID [PayloadDelete deleteIKE] s)))"
  using preservesD [OF respond_events]
  by (auto simp: handleInformational_def deleteIKE_def intro: emit_then)

lemma spoofed_delete_obeyed:
  "\<exists>b. clear_message h [PayloadDelete deleteIKE] b \<and>
     (\<forall>rnd s. SessionDown \<in> set (events (fst (handleIncomingInformational rnd b s))) \<and>
        (\<exists>s'. decryptAndParse b s = (s', Inr (MessageID h, [PayloadDelete deleteIKE])) \<and> s_SPIr s' = SPIr h))"
proof -
  obtain b where b: "clear_message h [PayloadDelete deleteIKE] b"
    using clear_message_ex [of "[PayloadDelete deleteIKE]" h] deleteIKE_wf by (auto simp: firstType_def)
  then show ?thesis
    using informational_clear [OF b] decryptAndParse_clear [OF b] handleInformational_delete by auto
qed

text \<open>A REDIRECT notification hands the session to the address it names.\<close>

lemma handleInformational_redirect:
  assumes "NotifyType n = REDIRECT" "ParseRedirectData (NotifyData n) = Inr addr"
  shows "RedirectTo addr \<in> set (events (fst (handleInformational rnd msgID [PayloadNotify n] s)))"
proof -
  have "RedirectTo addr \<in> set (events (fst (sseq (emit SessionDown) (respond rnd [] msgID) s)))"
    if "RedirectTo addr \<in> set (events s)" for s
    using that preservesD [OF respond_events]
    by (simp add: sbind_def emit_def modify_def)
  then show ?thesis
    using assms by (auto simp: handleInformational_def intro: emit_then)
qed

end
