(* ===== verification/Ipsec_Loop.thy ===== *)
theory Ipsec_Loop
  imports Ipsec_Events "HOL-Library.Sublist"
begin

text \<open>
  The life of a socket (\<^verbatim>\<open>Start\<close>, \<^verbatim>\<open>readLoop\<close>, \<^verbatim>\<open>startErrorListener\<close>, \<^verbatim>\<open>Stop\<close> and the receiving calls of
  \<^verbatim>\<open>pkg/ipsec/socket.go\<close> and \<^verbatim>\<open>pkg/ipsec/icmp_err.go\<close>): two goroutines, their channels and their end.
  A step relation interleaves them. No goroutine sends on a closed channel, and a failed read ends the
  receiving side for good, although the socket stays open.
\<close>

section \<open>The read loop\<close>

text \<open>The outcome of \<^verbatim>\<open>ReadFromUDP\<close>: a datagram with its source, or an error.\<close>

type_synonym Datagram = "bytes \<times> int \<times> bytes"

definition readRound :: "Datagram result \<Rightarrow> SocketManager \<Rightarrow> SocketManager \<times> bool" where
  "readRound r s = (case r of Inl _ \<Rightarrow> (s, False) | Inr pkt \<Rightarrow> (readStep s pkt, True))"

fun readLoop :: "Datagram result list \<Rightarrow> SocketManager \<Rightarrow> SocketManager \<times> bool" where
  "readLoop [] s = (s, True)"
| "readLoop (r # rs) s =
     (case readRound r s of (s, True) \<Rightarrow> readLoop rs s | (s, False) \<Rightarrow> (s, False))"

lemma readLoop_cut: "snd (readLoop rs s) = False \<Longrightarrow> readLoop (rs @ qs) s = readLoop rs s"
  by (induction rs arbitrary: s) (auto split: prod.splits bool.splits)

lemma readLoop_error: "readLoop (rs @ Inl e # qs) s = (fst (readLoop rs s), False)"
proof (induction rs arbitrary: s)
  case (Cons r rs)
  then show ?case by (cases r) (simp_all add: readRound_def)
qed (simp add: readRound_def)

lemma readLoop_inv: "sock_inv s \<Longrightarrow> sock_inv (fst (readLoop rs s))"
  by (induction rs arbitrary: s) (auto simp: readRound_def readStep_inv split: prod.splits bool.splits sum.splits)

section \<open>Accessors\<close>

type_synonym UDPAddr = "bytes \<times> int"

definition LocalPort :: "UDPAddr option \<Rightarrow> u16" where
  "LocalPort a = (case a of None \<Rightarrow> 0 | Some (_, p) \<Rightarrow> of_int p)"

definition addrIP :: "UDPAddr option \<Rightarrow> bytes" where
  "addrIP a = (case a of None \<Rightarrow> [] | Some (ip, _) \<Rightarrow> ip)"

definition RemotePort :: "UDPAddr option \<Rightarrow> int" where
  "RemotePort a = (case a of None \<Rightarrow> 0 | Some (_, p) \<Rightarrow> p)"

record SocketStats =
  st_ReceivedIKE :: u64
  st_ReceivedESP :: u64
  st_DroppedIKE :: u64
  st_DroppedESP :: u64

definition Stats :: "SocketManager \<Rightarrow> SocketStats" where
  "Stats s = \<lparr>st_ReceivedIKE = receivedIKE s, st_ReceivedESP = receivedESP s,
     st_DroppedIKE = droppedIKE s, st_DroppedESP = droppedESP s\<rparr>"

text \<open>\<open>conn\<close>, \<open>ctl\<close> and \<open>opt\<close> are the results of \<^verbatim>\<open>SyscallConn\<close>, \<^verbatim>\<open>Control\<close> and the option's system call.\<close>

definition RawFD :: "unit result \<Rightarrow> int result \<Rightarrow> int result" where
  "RawFD conn ctl =
     rbind (relabel ''SyscallConn failed'' conn) (\<lambda>_. relabel ''getting the descriptor failed'' ctl)"

definition SetUDPEncap :: "unit result \<Rightarrow> unit result \<Rightarrow> unit result \<Rightarrow> unit result" where
  "SetUDPEncap conn ctl opt =
     rbind (relabel ''SyscallConn failed'' conn) (\<lambda>_.
     rbind (relabel ''Control failed'' ctl) (\<lambda>_. relabel ''setting UDP_ENCAP_ESPINUDP failed'' opt))"

section \<open>The goroutines\<close>

text \<open>
  The reader waits for a datagram, has one in hand, or has returned. The goroutine of the error queue
  is between two reads, inside the callback of \<^verbatim>\<open>rawConn.Read\<close>, or has returned.
\<close>

datatype reader = Waiting | Holding Datagram | ReaderEnded
datatype poller = Polling | Draining | PollerEnded

record SocketLife =
  sl_sock :: SocketManager
  sl_reader :: reader
  sl_poller :: poller
  sl_closing :: bool
  sl_open :: bool
  sl_closed :: bool

definition startSocket :: "SocketManager \<Rightarrow> SocketLife" where
  "startSocket s = \<lparr>sl_sock = s, sl_reader = Waiting, sl_poller = Polling, sl_closing = False, sl_open = True, sl_closed = False\<rparr>"

text \<open>The head of the loop over the error queue: a closed socket fails the read.\<close>

definition poll :: "SocketLife \<Rightarrow> SocketLife" where
  "poll l = l\<lparr>sl_poller := if sl_closing l \<or> \<not> sl_open l then PollerEnded else Draining\<rparr>"

text \<open>
  The first half of \<^verbatim>\<open>Stop\<close>. \<^verbatim>\<open>Conn.Close\<close> of the standard library waits for a callback that is running,
  and fails every later read. The second half follows \<^verbatim>\<open>wg.Wait\<close>; a second call closes closed channels.
\<close>

definition beginStop :: "SocketLife \<Rightarrow> SocketLife" where
  "beginStop l = l\<lparr>sl_closing := True, sl_open := False\<rparr>"

definition endStop :: "SocketLife \<Rightarrow> SocketLife result" where
  "endStop l = (if sl_closed l then Inl Panic else Inr (l\<lparr>sl_closed := True\<rparr>))"

text \<open>\<^verbatim>\<open>ReceiveIKE\<close>: the next message, the end of a closed channel, or no return yet.\<close>

definition ReceiveIKE :: "SocketLife \<Rightarrow> SocketLife \<times> bytes result" where
  "ReceiveIKE l =
     (case IKEChan (sl_sock l) of
        d # ds \<Rightarrow> (l\<lparr>sl_sock := (sl_sock l)\<lparr>IKEChan := ds\<rparr>\<rparr>, Inr d)
      | [] \<Rightarrow> (l, if sl_closed l then fail ''IKE channel closed'' else Inl Hang))"

definition takeESP :: "SocketLife \<Rightarrow> SocketLife" where
  "takeESP l = l\<lparr>sl_sock := (sl_sock l)\<lparr>ESPChan := tl (ESPChan (sl_sock l))\<rparr>\<rparr>"

definition takeEvent :: "SocketLife \<Rightarrow> SocketLife" where
  "takeEvent l = l\<lparr>sl_sock := (sl_sock l)\<lparr>NetEvents := tl (NetEvents (sl_sock l))\<rparr>\<rparr>"

inductive socket_step :: "SocketLife \<Rightarrow> SocketLife \<Rightarrow> bool" where
  read_datagram: "sl_reader l = Waiting \<Longrightarrow> sl_open l \<Longrightarrow> socket_step l (l\<lparr>sl_reader := Holding p\<rparr>)"
| read_error: "sl_reader l = Waiting \<Longrightarrow> socket_step l (l\<lparr>sl_reader := ReaderEnded\<rparr>)"
| handle: "sl_reader l = Holding p \<Longrightarrow> socket_step l (l\<lparr>sl_sock := readStep (sl_sock l) p, sl_reader := Waiting\<rparr>)"
| poll_queue: "sl_poller l = Polling \<Longrightarrow> socket_step l (poll l)"
| drain: "sl_poller l = Draining \<Longrightarrow> socket_step l (l\<lparr>sl_sock := queueError e (sl_sock l)\<rparr>)"
| queue_empty: "sl_poller l = Draining \<Longrightarrow> socket_step l (l\<lparr>sl_poller := Polling\<rparr>)"
| stop_begin: "sl_poller l \<noteq> Draining \<Longrightarrow> socket_step l (beginStop l)"
| stop_end: "sl_closing l \<Longrightarrow> sl_reader l = ReaderEnded \<Longrightarrow> endStop l = Inr l' \<Longrightarrow> socket_step l l'"
| receive: "socket_step l (fst (ReceiveIKE l))"
| receive_esp: "socket_step l (takeESP l)"
| receive_event: "socket_step l (takeEvent l)"

inductive_cases socket_stepE: "socket_step l l'"

section \<open>No send on a closed channel\<close>

text \<open>A goroutine is about to send, and the channels are closed: the program panics.\<close>

definition sends_closed :: "SocketLife \<Rightarrow> bool" where
  "sends_closed l \<longleftrightarrow> sl_closed l \<and> ((\<exists>p. sl_reader l = Holding p) \<or> sl_poller l = Draining)"

definition life_inv :: "SocketLife \<Rightarrow> bool" where
  "life_inv l \<longleftrightarrow> sock_inv (sl_sock l) \<and> (sl_open l \<or> sl_poller l \<noteq> Draining) \<and>
     (sl_closing l \<longrightarrow> \<not> sl_open l) \<and> (sl_closed l \<longrightarrow> sl_closing l \<and> sl_reader l = ReaderEnded)"

lemma sock_inv_take:
  "sock_inv s \<Longrightarrow> sock_inv (s\<lparr>ESPChan := tl (ESPChan s)\<rparr>)" "sock_inv s \<Longrightarrow> sock_inv (s\<lparr>NetEvents := tl (NetEvents s)\<rparr>)"
  "sock_inv s \<Longrightarrow> IKEChan s = d # ds \<Longrightarrow> sock_inv (s\<lparr>IKEChan := ds\<rparr>)"
  by (auto simp: sock_inv_def dest: list.set_sel(2) [rotated])
    (metis list.sel(2) list.set_sel(2))+

lemma life_inv_step: "socket_step l l' \<Longrightarrow> life_inv l \<Longrightarrow> life_inv l'"
  by (erule socket_stepE)
    (auto simp: life_inv_def poll_def beginStop_def endStop_def ReceiveIKE_def takeESP_def takeEvent_def
      intro: readStep_inv queueError_inv sock_inv_take split: if_splits list.splits)

interpretation socket_life: step_system socket_step life_inv
  by unfold_locales (rule life_inv_step)

lemma life_reachable: "socket_step\<^sup>*\<^sup>* (startSocket s) l \<Longrightarrow> sock_inv s \<Longrightarrow> life_inv l"
  by (erule socket_life.steps_inv) (simp add: startSocket_def life_inv_def)

lemma no_send_on_closed: "socket_step\<^sup>*\<^sup>* (startSocket s) l \<Longrightarrow> sock_inv s \<Longrightarrow> \<not> sends_closed l"
  using life_reachable [of s l] by (auto simp: sends_closed_def life_inv_def)

section \<open>A failed read\<close>

text \<open>After the reader has returned nothing is added to the two data channels, open or not.\<close>

definition within :: "SocketLife \<Rightarrow> bytes list \<times> bytes list \<Rightarrow> bool" where
  "within l q \<longleftrightarrow> suffix (IKEChan (sl_sock l)) (fst q) \<and> suffix (ESPChan (sl_sock l)) (snd q)"

lemma queueError_chans [simp]:
  "IKEChan (queueError e s) = IKEChan s" "ESPChan (queueError e s) = ESPChan s"
  by (simp_all add: queueError_def emitEvent_def split: option.split)

lemma suffix_tail: "suffix xs ys \<Longrightarrow> suffix (tl xs) ys"
  by (metis suffix_order.trans suffix_tl)

lemma reader_dead_step:
  "socket_step l l' \<Longrightarrow> sl_reader l = ReaderEnded \<and> within l q \<Longrightarrow> sl_reader l' = ReaderEnded \<and> within l' q"
  by (erule socket_stepE)
    (auto simp: within_def poll_def beginStop_def endStop_def ReceiveIKE_def takeESP_def takeEvent_def
      intro: suffix_tail dest: suffix_ConsD split: if_splits list.splits)

interpretation dead_reader: step_system socket_step "\<lambda>l. sl_reader l = ReaderEnded \<and> within l q" for q
  by unfold_locales (rule reader_dead_step)

lemma reader_dead:
  assumes "socket_step\<^sup>*\<^sup>* l l'" "sl_reader l = ReaderEnded"
  shows "suffix (IKEChan (sl_sock l')) (IKEChan (sl_sock l))" "suffix (ESPChan (sl_sock l')) (ESPChan (sl_sock l))"
  using dead_reader.steps_inv [OF assms(1), of "(IKEChan (sl_sock l), ESPChan (sl_sock l))"] assms(2)
  by (simp_all add: within_def)

text \<open>The reader can die in any state in which it waits, and the socket then stays open.\<close>

lemma reader_may_die:
  "\<exists>l. socket_step\<^sup>*\<^sup>* (startSocket s) l \<and> sl_reader l = ReaderEnded \<and> sl_open l \<and> \<not> sl_closing l"
  by (rule exI [of _ "(startSocket s)\<lparr>sl_reader := ReaderEnded\<rparr>"])
    (auto simp: startSocket_def intro!: r_into_rtranclp read_error [of "startSocket s", unfolded startSocket_def, simplified])

text \<open>With an empty queue the poller is ready to poll again at once: it never waits.\<close>

lemma poller_spins:
  assumes "sl_poller l = Polling" "sl_open l" "\<not> sl_closing l"
  shows "socket_step\<^sup>+\<^sup>+ l l"
proof -
  have "socket_step (poll l) ((poll l)\<lparr>sl_poller := Polling\<rparr>)" by (rule queue_empty) (simp add: poll_def assms)
  moreover have "(poll l)\<lparr>sl_poller := Polling\<rparr> = l" using assms by (simp add: poll_def)
  ultimately show ?thesis using poll_queue [OF assms(1)] by (metis tranclp.simps)
qed

end
