(* ===== verification/Ipsec_Raw.thy ===== *)
theory Ipsec_Raw
  imports Ipsec_Dataplane Driver_Net "HOL-Library.Signed_Division"
begin

text \<open>
  The raw ESP socket and the UDP socket for ESP (\<^verbatim>\<open>pkg/ipsec/esp_socket.go\<close>). The system is a function of
  the calls so far and the next one. What is shown: a socket that was opened is closed again on every
  failure, the time-out is split without loss, and an IPv6 address binds and connects to 0.0.0.0.
\<close>

section \<open>System calls\<close>

datatype RawCall =
    OpenRaw
  | BindRaw int bytes
  | ConnectRaw int bytes
  | CloseRaw int
  | WriteRaw int bytes
  | SetTimeoutRaw int int int
  | ReadRaw int

datatype RawReply = RawDone | RawError string | RawFd int | RawData bytes "bytes option"

type_synonym RawSystem = "RawCall list \<Rightarrow> RawCall \<Rightarrow> RawReply"

type_synonym 'a raw = "RawCall list \<Rightarrow> RawCall list \<times> 'a result"

definition rcall :: "RawSystem \<Rightarrow> RawCall \<Rightarrow> RawReply raw" where
  "rcall sys c h = (h @ [c], case sys h c of RawError e \<Rightarrow> fail e | r \<Rightarrow> Inr r)"

definition rthen :: "'a raw \<Rightarrow> ('a \<Rightarrow> 'b raw) \<Rightarrow> 'b raw" where
  "rthen m f h = (case m h of (h', Inl e) \<Rightarrow> (h', Inl e) | (h', Inr x) \<Rightarrow> f x h')"

definition rret :: "'a \<Rightarrow> 'a raw" where
  "rret x h = (h, Inr x)"

text \<open>A call that closes the socket when it fails.\<close>

definition orClose :: "RawSystem \<Rightarrow> int \<Rightarrow> string \<Rightarrow> RawCall \<Rightarrow> unit raw" where
  "orClose sys fd msg c h =
     (case rcall sys c h of
        (h', Inr _) \<Rightarrow> (h', Inr ())
      | (h', Inl _) \<Rightarrow> (fst (rcall sys (CloseRaw fd) h'), fail msg))"

section \<open>The raw socket\<close>

record ESPSocket =
  es_localAddr :: bytes
  es_remoteAddr :: bytes
  es_rawFd :: int
  es_timeout :: int

text \<open>\<^verbatim>\<open>copy(addr.Addr[:], ip.To4())\<close> into four zero bytes.\<close>

definition sockaddr4 :: "bytes \<Rightarrow> bytes" where
  "sockaddr4 ip = To4 ip @ drop (length (To4 ip)) [0, 0, 0, 0]"

definition NewESPSocket :: "RawSystem \<Rightarrow> string \<Rightarrow> string \<Rightarrow> ESPSocket raw" where
  "NewESPSocket sys localIP remoteIP =
     (let loc = ParseIP localIP; remote = ParseIP remoteIP
      in if loc = [] \<or> remote = [] then (\<lambda>h. (h, fail ''invalid IP address''))
         else
           rthen (rcall sys OpenRaw) (\<lambda>r.
             let fd = (case r of RawFd n \<Rightarrow> n | _ \<Rightarrow> 0)
             in rthen (orClose sys fd ''bind failed'' (BindRaw fd (sockaddr4 loc))) (\<lambda>_.
                rthen (orClose sys fd ''connect failed'' (ConnectRaw fd (sockaddr4 remote))) (\<lambda>_.
                rret \<lparr>es_localAddr = loc, es_remoteAddr = remote, es_rawFd = fd, es_timeout = 5000000000\<rparr>))))"

definition ESPSocket_Send :: "RawSystem \<Rightarrow> bytes \<Rightarrow> ESPSocket \<Rightarrow> unit raw" where
  "ESPSocket_Send sys d s = rthen (rcall sys (WriteRaw (es_rawFd s) d)) (\<lambda>_. rret ())"

text \<open>The time-out in seconds and microseconds; Go's division truncates. Its system call's error is dropped.\<close>

definition durationToTimeval :: "int \<Rightarrow> int \<Rightarrow> int \<times> int" where
  "durationToTimeval sec usec = (sec, usec)"

definition timeval :: "int \<Rightarrow> int \<times> int" where
  "timeval t = durationToTimeval (t sdiv 1000000000) ((t smod 1000000000) sdiv 1000)"

definition rawData :: "RawReply \<Rightarrow> bytes \<times> bytes option" where
  "rawData r = (case r of RawData d src \<Rightarrow> (take 2048 d, src) | _ \<Rightarrow> ([], None))"

definition Receive :: "RawSystem \<Rightarrow> ESPSocket \<Rightarrow> bytes raw" where
  "Receive sys s h =
     (let (sec, usec) = timeval (es_timeout s);
          h = fst (rcall sys (SetTimeoutRaw (es_rawFd s) sec usec) h)
      in case rcall sys (ReadRaw (es_rawFd s)) h of
           (h, r) \<Rightarrow> (h, ESPSocket_Receive (rbind r (\<lambda>x. Inr (fst (rawData x))))))"

definition ReceiveFrom :: "RawSystem \<Rightarrow> ESPSocket \<Rightarrow> (bytes \<times> bytes option) raw" where
  "ReceiveFrom sys s =
     rthen (rcall sys (ReadRaw (es_rawFd s))) (\<lambda>x h.
       (h, rbind (ESPSocket_Receive (Inr (fst (rawData x)))) (\<lambda>d. Inr (d, snd (rawData x)))))"

definition SetTimeout :: "int \<Rightarrow> ESPSocket \<Rightarrow> ESPSocket" where
  "SetTimeout t s = s\<lparr>es_timeout := t\<rparr>"

definition ESPSocket_Close :: "RawSystem \<Rightarrow> ESPSocket \<Rightarrow> unit raw" where
  "ESPSocket_Close sys s = rthen (rcall sys (CloseRaw (es_rawFd s))) (\<lambda>_. rret ())"

section \<open>The UDP socket\<close>

text \<open>\<open>resolve\<close> is \<^verbatim>\<open>net.ResolveUDPAddr\<close>, \<open>listen\<close> the result of opening a socket, \<open>write\<close> that of a write.\<close>

record ESPSocketUDP =
  eu_remoteAddr :: "bytes \<times> int"

definition NewESPSocketUDP ::
    "(string \<Rightarrow> (bytes \<times> int) result) \<Rightarrow> (bytes \<times> int \<Rightarrow> unit result) \<Rightarrow> string \<Rightarrow> string \<Rightarrow> ESPSocketUDP result" where
  "NewESPSocketUDP resolve listen localAddr remoteAddr =
     rbind (resolve localAddr) (\<lambda>loc.
     rbind (resolve remoteAddr) (\<lambda>remote.
     rbind (listen loc) (\<lambda>_. Inr \<lparr>eu_remoteAddr = remote\<rparr>)))"

definition ESPSocketUDP_Send :: "(bytes \<times> int \<Rightarrow> bytes \<Rightarrow> unit result) \<Rightarrow> bytes \<Rightarrow> ESPSocketUDP \<Rightarrow> unit result" where
  "ESPSocketUDP_Send write d s = write (eu_remoteAddr s) d"

section \<open>Correctness\<close>

lemma length_sockaddr4 [simp]: "length (sockaddr4 ip) = 4"
  by (auto simp: sockaddr4_def To4_def)

text \<open>An IPv6 address passes the check and stands for 0.0.0.0.\<close>

lemma sockaddr4_v6: "To4 ip = [] \<Longrightarrow> sockaddr4 ip = [0, 0, 0, 0]"
  by (simp add: sockaddr4_def)

lemma NewESPSocket_v6:
  assumes "ParseIP r \<noteq> []" "To4 (ParseIP r) = []" "NewESPSocket sys l r [] = (h, Inr s)"
  shows "\<exists>fd. ConnectRaw fd [0, 0, 0, 0] \<in> set h"
  using assms
  by (auto simp: NewESPSocket_def rthen_def rret_def orClose_def rcall_def sockaddr4_v6 Let_def
      split: if_splits prod.splits sum.splits RawReply.splits)

text \<open>Whatever the system answers, a descriptor that was opened is closed unless the socket is returned.\<close>

definition openFds :: "RawCall list \<Rightarrow> nat" where
  "openFds h = length (filter (\<lambda>c. c = OpenRaw) h)"

definition closes :: "RawCall list \<Rightarrow> nat" where
  "closes h = length (filter (\<lambda>c. case c of CloseRaw _ \<Rightarrow> True | _ \<Rightarrow> False) h)"

lemma NewESPSocket_no_leak:
  assumes "NewESPSocket sys l r h = (h', x)"
  shows "\<exists>h2. h' = h @ h2 \<and>
    (case x of
       Inr s \<Rightarrow> openFds h2 = 1 \<and> closes h2 = 0
     | Inl _ \<Rightarrow> closes h2 = openFds h2 \<or> h2 = [OpenRaw] \<and> (\<exists>e. sys h OpenRaw = RawError e))"
  using assms
  by (auto simp: NewESPSocket_def rthen_def rret_def orClose_def rcall_def openFds_def closes_def Let_def
      split: if_splits prod.splits sum.splits RawReply.splits)

text \<open>The two parts of the time-out make its whole number of microseconds.\<close>

lemma timeval_exact:
  assumes "0 \<le> t" "timeval t = (sec, usec)"
  shows "sec * 1000000 + usec = t div 1000" "0 \<le> usec" "usec < 1000000"
proof -
  have d: "x sdiv y = x div y" "x smod y = x mod y" if "0 \<le> x" "0 < y" for x y :: int
    using that by (cases "x = 0"; simp add: signed_divide_int_def signed_modulo_int_def)+
  have e: "sec = t div 1000000000" "usec = (t mod 1000000000) div 1000"
    using assms by (simp_all add: timeval_def durationToTimeval_def d)
  define m where "m = t mod 1000000000"
  have m: "t = 1000000000 * sec + m" "0 \<le> m" "m < 1000000000" by (simp_all add: m_def e(1))
  define k where "k = m mod 1000"
  have k: "m = 1000 * usec + k" "0 \<le> k" "k < 1000" by (simp_all add: k_def e(2) m_def)
  have "t = 1000 * (sec * 1000000 + usec) + k" using m(1) k(1) by simp
  from int_div_pos_eq [OF this k(2,3)] show "sec * 1000000 + usec = t div 1000" by simp
  show "0 \<le> usec" "usec < 1000000" using m(2,3) by (simp_all add: e(2) flip: m_def)
qed

lemma Receive_bounds:
  assumes "Receive sys s h = (h', Inr d)"
  shows "8 \<le> length d" "length d \<le> 2048"
  using assms
  by (auto simp: Receive_def rcall_def ESPSocket_Receive_def rawData_def rbind_Inr_iff Let_def
      split: prod.splits if_splits RawReply.splits)

lemma ReceiveFrom_bounds:
  assumes "ReceiveFrom sys s h = (h', Inr (d, src))"
  shows "8 \<le> length d" "length d \<le> 2048"
  using assms
  by (auto simp: ReceiveFrom_def rthen_def rcall_def ESPSocket_Receive_def rawData_def rbind_Inr_iff
      split: prod.splits if_splits RawReply.splits)

end
