(* ===== verification/Driver_Netns.thy ===== *)
theory Driver_Netns
  imports Prelude
begin

text \<open>
  Network namespaces (\<^verbatim>\<open>pkg/driver/netns.go\<close>). A thread is in one namespace and counts the locks that tie
  its goroutine to it; the library's and the kernel's answers are parameters. A function run inside a
  namespace leaves the thread where it was unless the way back fails: then the failure is dropped and
  the unlocked thread stays in the namespace.
\<close>

section \<open>State\<close>

record Thread =
  th_ns :: nat
  th_locks :: nat

text \<open>\<open>None\<close> is a closed handle.\<close>

record NetNS =
  ns_name :: string
  ns_handle :: "nat option"
  ns_origin :: "nat option"

definition LockOSThread :: "Thread \<Rightarrow> Thread" where
  "LockOSThread t = t\<lparr>th_locks := th_locks t + 1\<rparr>"

definition UnlockOSThread :: "Thread \<Rightarrow> Thread" where
  "UnlockOSThread t = t\<lparr>th_locks := th_locks t - 1\<rparr>"

text \<open>\<^verbatim>\<open>netns.Set\<close>, with the kernel's answer.\<close>

definition setNs :: "(nat \<Rightarrow> unit result) \<Rightarrow> nat \<Rightarrow> Thread \<Rightarrow> Thread \<times> unit result" where
  "setNs kern n t = (case kern n of Inr _ \<Rightarrow> (t\<lparr>th_ns := n\<rparr>, Inr ()) | Inl e \<Rightarrow> (t, Inl e))"

section \<open>Operations\<close>

text \<open>
  \<open>get\<close> is the result of \<^verbatim>\<open>netns.Get\<close>, \<open>newNamed\<close> that of \<^verbatim>\<open>netns.NewNamed\<close>, which acts on the thread.
\<close>

definition NewNetNS ::
    "(Thread \<Rightarrow> nat result) \<Rightarrow> (string \<Rightarrow> Thread \<Rightarrow> Thread \<times> nat result) \<Rightarrow> string \<Rightarrow> Thread \<Rightarrow> Thread \<times> NetNS result" where
  "NewNetNS get newNamed name t =
     (case get t of
        Inl e \<Rightarrow> (t, relabel ''getting the original netns failed'' (Inl e))
      | Inr origin \<Rightarrow>
          (case newNamed name t of
             (t, Inl e) \<Rightarrow> (t, relabel ''creating the netns failed'' (Inl e))
           | (t, Inr h) \<Rightarrow> (t, Inr \<lparr>ns_name = name, ns_handle = Some h, ns_origin = Some origin\<rparr>)))"

definition Enter :: "(nat \<Rightarrow> unit result) \<Rightarrow> NetNS \<Rightarrow> Thread \<Rightarrow> Thread \<times> unit result" where
  "Enter kern ns t =
     (let t = LockOSThread t
      in case ns_handle ns of
           None \<Rightarrow> (UnlockOSThread t, fail ''netns handle unusable'')
         | Some h \<Rightarrow>
             if ns_origin ns = None then (UnlockOSThread t, fail ''original netns handle unusable'')
             else case setNs kern h t of
                    (t, Inl e) \<Rightarrow> (UnlockOSThread t, relabel ''switching the netns failed'' (Inl e))
                  | (t, Inr _) \<Rightarrow> (t, Inr ()))"

definition Exit :: "(nat \<Rightarrow> unit result) \<Rightarrow> NetNS \<Rightarrow> Thread \<Rightarrow> Thread \<times> unit result" where
  "Exit kern ns t =
     (case ns_origin ns of
        None \<Rightarrow> (UnlockOSThread t, Inr ())
      | Some o' \<Rightarrow>
          (case setNs kern o' t of
             (t, Inl e) \<Rightarrow> (UnlockOSThread t, relabel ''restoring the original netns failed'' (Inl e))
           | (t, Inr _) \<Rightarrow> (UnlockOSThread t, Inr ())))"

text \<open>The deferred \<^verbatim>\<open>Exit\<close> runs after a panic of the function, too, and its result is dropped.\<close>

definition RunInNS ::
    "(nat \<Rightarrow> unit result) \<Rightarrow> (Thread \<Rightarrow> Thread \<times> unit result) \<Rightarrow> NetNS \<Rightarrow> Thread \<Rightarrow> Thread \<times> unit result" where
  "RunInNS kern fn ns t =
     (case Enter kern ns t of
        (t, Inl e) \<Rightarrow> (t, Inl e)
      | (t, Inr _) \<Rightarrow> (case fn t of (t, r) \<Rightarrow> (fst (Exit kern ns t), r)))"

definition Delete :: "(string \<Rightarrow> unit result) \<Rightarrow> NetNS \<Rightarrow> NetNS \<times> unit result" where
  "Delete deleteNamed ns =
     (ns\<lparr>ns_handle := None, ns_origin := None\<rparr>, relabel ''deleting the netns failed'' (deleteNamed (ns_name ns)))"

text \<open>\<open>link\<close> looks an interface up; the descriptor of a closed handle is -1.\<close>

definition MoveInterfaceToNetNS :: "(string \<Rightarrow> 'l result) \<Rightarrow> ('l \<Rightarrow> int \<Rightarrow> unit result) \<Rightarrow> string \<Rightarrow> NetNS \<Rightarrow> unit result" where
  "MoveInterfaceToNetNS link setFd ifname ns =
     rbind (relabel ''getting the interface failed'' (link ifname)) (\<lambda>l.
       relabel ''moving the interface failed'' (setFd l (case ns_handle ns of None \<Rightarrow> -1 | Some h \<Rightarrow> int h)))"

section \<open>Correctness\<close>

text \<open>A failed \<^verbatim>\<open>Enter\<close> changes nothing; a successful one is undone by \<^verbatim>\<open>Exit\<close>.\<close>

lemma Enter_fails: "Enter kern ns t = (t', Inl e) \<Longrightarrow> t' = t"
  by (auto simp: Enter_def LockOSThread_def UnlockOSThread_def setNs_def Let_def
      split: option.splits if_splits prod.splits sum.splits)

lemma Enter_ok:
  assumes "Enter kern ns t = (t', Inr ())"
  shows "\<exists>h. ns_handle ns = Some h \<and> ns_origin ns \<noteq> None \<and> t' = t\<lparr>th_ns := h, th_locks := th_locks t + 1\<rparr>"
  using assms
  by (auto simp: Enter_def LockOSThread_def UnlockOSThread_def setNs_def Let_def
      split: option.splits if_splits prod.splits sum.splits)

lemma RunInNS_restores:
  assumes "ns_origin ns = Some (th_ns t)" "kern (th_ns t) = Inr ()"
    and "\<And>u. th_locks (fst (fn u)) = th_locks u"
  shows "fst (RunInNS kern fn ns t) = t"
proof (cases "Enter kern ns t")
  case (Pair u r)
  show ?thesis
  proof (cases r)
    case (Inl e)
    with Pair show ?thesis using Enter_fails [of kern ns t] by (auto simp: RunInNS_def)
  next
    case (Inr x)
    with Pair have "th_locks (fst (fn u)) = th_locks t + 1"
      using Enter_ok [of kern ns t u] assms(3) [of u] by auto
    then show ?thesis
      using Pair Inr assms(1,2)
      by (cases "fn u") (auto simp: RunInNS_def Exit_def setNs_def UnlockOSThread_def)
  qed
qed

text \<open>If the kernel refuses the way back the caller is told of success, and the thread is free in the namespace.\<close>

lemma RunInNS_strands:
  assumes "Enter kern ns t = (u, Inr ())" "ns_origin ns = Some n" "kern n = Inl e" "fn u = (u, Inr ())"
  shows "snd (RunInNS kern fn ns t) = Inr ()" "Some (th_ns (fst (RunInNS kern fn ns t))) = ns_handle ns"
    "th_locks (fst (RunInNS kern fn ns t)) = th_locks t"
  using Enter_ok [OF assms(1)] assms
  by (auto simp: RunInNS_def Exit_def setNs_def UnlockOSThread_def)

text \<open>The library's \<^verbatim>\<open>NewNamed\<close> makes the new namespace the thread's own: the caller stays in it, without a lock.\<close>

lemma NewNetNS_switches:
  assumes "NewNetNS get newNamed name t = (t', Inr ns)"
    and "\<And>u u' h. newNamed name u = (u', Inr h) \<Longrightarrow> u' = u\<lparr>th_ns := h\<rparr>"
  shows "Some (th_ns t') = ns_handle ns" "th_locks t' = th_locks t"
proof -
  from assms(1) obtain h where "newNamed name t = (t', Inr h)" "ns_handle ns = Some h"
    by (auto simp: NewNetNS_def split: sum.splits prod.splits fault.splits)
  with assms(2) [OF this(1)] show "Some (th_ns t') = ns_handle ns" "th_locks t' = th_locks t" by simp_all
qed

lemma Delete_unusable: "snd (Enter kern (fst (Delete d ns)) t) = fail ''netns handle unusable''"
  by (simp add: Delete_def Enter_def Let_def)

end
