(* ===== verification/Swu_Wireshark.thy ===== *)
theory Swu_Wireshark
  imports Sim_Direct Swu_Session
begin

text \<open>
  The key log (\<^verbatim>\<open>pkg/swu/wireshark.go\<close>): a file as its list of lines, opened for appending. Times are
  texts. A line is a list of quoted fields that a reader gets back, and from them the keys.
\<close>

section \<open>Text\<close>

text \<open>\<^verbatim>\<open>hex.EncodeToString\<close>, and \<^verbatim>\<open>%016x\<close> and \<^verbatim>\<open>%08x\<close> with the width as an argument.\<close>

definition hex_encode :: "bytes \<Rightarrow> string" where
  "hex_encode bs = concat (map (\<lambda>b. [hex_digit (unat b div 16), hex_digit (unat b mod 16)]) bs)"

definition hex_padded :: "nat \<Rightarrow> nat \<Rightarrow> string" where
  "hex_padded w n = (let h = hex_String n in replicate (w - length h) CHR ''0'' @ h)"

definition quote :: "string \<Rightarrow> string" where
  "quote f = [CHR 0x22] @ f @ [CHR 0x22]"

section \<open>The debugger\<close>

record WiresharkDebugger =
  wd_file :: "string list option"
  wd_enabled :: bool

definition writeLine :: "string \<Rightarrow> WiresharkDebugger \<Rightarrow> WiresharkDebugger" where
  "writeLine line wd = wd\<lparr>wd_file := map_option (\<lambda>ls. ls @ [line]) (wd_file wd)\<rparr>"

text \<open>\<open>opened\<close> is the outcome of opening the file: its lines so far.\<close>

definition NewWiresharkDebugger :: "bool \<Rightarrow> string \<Rightarrow> string list result \<Rightarrow> string \<Rightarrow> WiresharkDebugger result" where
  "NewWiresharkDebugger enabled filePath opened now =
     (if \<not> enabled \<or> filePath = [] then Inr \<lparr>wd_file = None, wd_enabled = False\<rparr>
      else rbind (relabel ''opening the debug file failed'' opened) (\<lambda>ls.
        Inr (fold writeLine
          [''# IKEv2/ESP Decryption Table'', ''# Generated by swu-go at '' @ now, ''# Format: wireshark ikev2_decryption_table'', []]
          \<lparr>wd_file = Some ls, wd_enabled = True\<rparr>)))"

definition LogIKESAKeys ::
    "u64 \<Rightarrow> u64 \<Rightarrow> bytes \<Rightarrow> bytes \<Rightarrow> bytes \<Rightarrow> bytes \<Rightarrow> u16 \<Rightarrow> u16 \<Rightarrow> WiresharkDebugger \<Rightarrow> WiresharkDebugger" where
  "LogIKESAKeys spiI spiR skEi skEr skAi skAr encrID integID wd =
     (if \<not> wd_enabled wd then wd
      else writeLine (join_with '' '' (map quote
        [''IKEv2'', hex_padded 16 (unat spiI), hex_padded 16 (unat spiR), hex_encode skEi, hex_encode skEr,
         hex_encode skAi, hex_encode skAr, itoa (unat encrID), itoa (unat integID)])) wd)"

definition LogESPKeys :: "u32 \<Rightarrow> string \<Rightarrow> string \<Rightarrow> bytes \<Rightarrow> u16 \<Rightarrow> WiresharkDebugger \<Rightarrow> WiresharkDebugger" where
  "LogESPKeys spi srcIP dstIP key encrID wd =
     (if \<not> wd_enabled wd then wd
      else writeLine (join_with '' '' (map quote
        [''ESP'', ''0x'' @ hex_padded 8 (unat spi), srcIP, dstIP, hex_encode key, itoa (unat encrID)])) wd)"

definition LogChildSA ::
    "string \<Rightarrow> u32 \<Rightarrow> u32 \<Rightarrow> string \<Rightarrow> string \<Rightarrow> bytes \<Rightarrow> bytes \<Rightarrow> u16 \<Rightarrow> WiresharkDebugger \<Rightarrow> WiresharkDebugger" where
  "LogChildSA now spiIn spiOut localIP remoteIP keyIn keyOut encrID wd =
     (if \<not> wd_enabled wd then wd
      else
        let wd = writeLine (''# Child SA established at '' @ now) wd;
            wd = LogESPKeys spiIn remoteIP localIP keyIn encrID wd;
            wd = LogESPKeys spiOut localIP remoteIP keyOut encrID wd
        in writeLine [] wd)"

text \<open>\<open>text\<close> is the formatted message.\<close>

definition LogRaw :: "string \<Rightarrow> WiresharkDebugger \<Rightarrow> WiresharkDebugger" where
  "LogRaw text wd = (if \<not> wd_enabled wd then wd else writeLine (''# '' @ text) wd)"

section \<open>Reading the log\<close>

fun quoted :: "string list \<Rightarrow> string list" where
  "quoted (_ # f # ps) = f # quoted ps"
| "quoted _ = []"

definition fields :: "string \<Rightarrow> string list" where
  "fields line = quoted (split_on CHR 0x22 line)"

lemma quoted_line:
  assumes "\<forall>f\<in>set fs. CHR 0x22 \<notin> set f" "CHR 0x22 \<notin> set pre"
  shows "quoted (split_on CHR 0x22 (pre @ join_with '' '' (map quote fs))) = fs"
  using assms
proof (induction fs arbitrary: pre)
  case (Cons f fs)
  have q: "quoted (split_on CHR 0x22 (pre @ quote f @ rest)) = f # quoted (split_on CHR 0x22 rest)" for rest
    using Cons.prems by (simp add: quote_def split_on_append)
  show ?case
  proof (cases fs)
    case Nil
    then show ?thesis using q [of "[]"] by simp
  next
    case (Cons g gs)
    with q [of "'' '' @ join_with '' '' (map quote fs)"] Cons.IH [of "'' ''"] Cons.prems show ?thesis by simp
  qed
qed (simp add: split_on_no_sep)

lemma fields_line: "\<forall>f\<in>set fs. CHR 0x22 \<notin> set f \<Longrightarrow> fields (join_with '' '' (map quote fs)) = fs"
  using quoted_line [of fs "[]"] by (simp add: fields_def)

lemma hex_value_lower: "n < 16 \<Longrightarrow> hex_value (hex_digit n) = Some n"
  by (auto simp: hex_value_def hex_digit_def Let_def)

lemma hex_decode_encode [simp]: "hex_decode (hex_encode bs) = Inr bs"
proof (induction bs)
  case (Cons b bs)
  have "unat b div 16 < 16" "unat b mod 16 < 16" by (rule div16 [OF unat_byte_less]) simp
  with Cons show ?case by (simp add: hex_encode_def hex_value_lower)
qed (simp add: hex_encode_def)

lemma quote_not_hex: "n < 16 \<Longrightarrow> CHR 0x22 \<noteq> hex_digit n"
proof
  assume "n < 16" "CHR 0x22 = hex_digit n"
  then have "hex_value CHR 0x22 = Some n" using hex_value_lower by metis
  then show False by (simp add: hex_value_def)
qed

lemma quote_not_encoded: "CHR 0x22 \<notin> set (hex_encode bs)"
proof
  assume "CHR 0x22 \<in> set (hex_encode bs)"
  then obtain b :: byte where "CHR 0x22 = hex_digit (unat b div 16) \<or> CHR 0x22 = hex_digit (unat b mod 16)"
    by (auto simp: hex_encode_def)
  then show False using quote_not_hex [OF div16 [OF unat_byte_less [of b]]] quote_not_hex [of "unat b mod 16"] by simp
qed

lemma quote_not_hex_String: "CHR 0x22 \<notin> set (hex_String n)"
proof (induction n rule: hex_String.induct)
  case (1 n)
  show ?case
  proof (cases "n < 16")
    case True
    then show ?thesis using quote_not_hex [of n] by (subst hex_String.simps) simp
  next
    case False
    with 1 show ?thesis using quote_not_hex [of "n mod 16"] by (subst hex_String.simps) simp
  qed
qed

lemma quote_not_padded: "CHR 0x22 \<notin> set (hex_padded w n)"
  using quote_not_hex_String by (simp add: hex_padded_def Let_def)

lemma quote_not_itoa: "CHR 0x22 \<notin> set (itoa n)"
proof
  assume "CHR 0x22 \<in> set (itoa n)"
  with itoa_digits [of n] have "is_digit CHR 0x22" by blast
  then show False by (simp add: is_digit_def)
qed

lemmas quote_free = quote_not_encoded quote_not_padded quote_not_itoa

text \<open>What was logged of an IKE association is read back.\<close>

lemma IKE_line_read:
  assumes "wd_enabled wd" "wd_file wd = Some ls"
  shows "\<exists>line. wd_file (LogIKESAKeys spiI spiR ei er ai ar encrID integID wd) = Some (ls @ [line]) \<and>
    map hex_decode (take 4 (drop 3 (fields line))) = map Inr [ei, er, ai, ar] \<and>
    map dec_value (drop 7 (fields line)) = [unat encrID, unat integID]"
proof -
  let ?fs = "[''IKEv2'', hex_padded 16 (unat spiI), hex_padded 16 (unat spiR), hex_encode ei, hex_encode er,
         hex_encode ai, hex_encode ar, itoa (unat encrID), itoa (unat integID)]"
  have "\<forall>f\<in>set ?fs. CHR 0x22 \<notin> set f" by (simp add: quote_free)
  then have read: "fields (join_with '' '' (map quote ?fs)) = ?fs" by (rule fields_line)
  define line where "line = join_with '' '' (map quote ?fs)"
  have "wd_file (LogIKESAKeys spiI spiR ei er ai ar encrID integID wd) = Some (ls @ [line])"
    using assms by (simp add: LogIKESAKeys_def writeLine_def line_def)
  moreover have "fields line = ?fs" using read by (simp only: line_def)
  ultimately show ?thesis by simp
qed

text \<open>The log of a pair of child associations: each key beside its SPI, in the direction it is used in.\<close>

lemma LogChildSA_lines:
  assumes "wd_enabled wd" "wd_file wd = Some ls" "CHR 0x22 \<notin> set l" "CHR 0x22 \<notin> set r"
  shows "\<exists>a b c d. wd_file (LogChildSA now spiIn spiOut l r keyIn keyOut encrID wd) = Some (ls @ [a, b, c, d]) \<and>
    drop 2 (take 4 (fields b)) = [r, l] \<and> hex_decode (fields b ! 4) = Inr keyIn \<and>
    drop 2 (take 4 (fields c)) = [l, r] \<and> hex_decode (fields c ! 4) = Inr keyOut"
proof -
  let ?b = "[''ESP'', ''0x'' @ hex_padded 8 (unat spiIn), r, l, hex_encode keyIn, itoa (unat encrID)]"
  let ?c = "[''ESP'', ''0x'' @ hex_padded 8 (unat spiOut), l, r, hex_encode keyOut, itoa (unat encrID)]"
  have "\<forall>f\<in>set ?b. CHR 0x22 \<notin> set f" "\<forall>f\<in>set ?c. CHR 0x22 \<notin> set f"
    using assms(3,4) by (simp_all add: quote_free)
  from this [THEN fields_line] have read: "fields (join_with '' '' (map quote ?b)) = ?b" "fields (join_with '' '' (map quote ?c)) = ?c" .
  define b c where "b = join_with '' '' (map quote ?b)" and "c = join_with '' '' (map quote ?c)"
  have "wd_file (LogChildSA now spiIn spiOut l r keyIn keyOut encrID wd) =
      Some (ls @ [''# Child SA established at '' @ now, b, c, []])"
    using assms(1,2) by (simp add: LogChildSA_def LogESPKeys_def writeLine_def Let_def b_def c_def)
  moreover have "fields b = ?b" "fields c = ?c" using read by (simp_all only: b_def c_def)
  ultimately show ?thesis
    by (intro exI [of _ "''# Child SA established at '' @ now"] exI [of _ b] exI [of _ c] exI [of _ "[]"]) simp
qed

text \<open>Without the switch no key is written anywhere.\<close>

lemma log_off:
  assumes "NewWiresharkDebugger False p o' now = Inr wd"
  shows "LogIKESAKeys a b c d e f g h wd = wd" "LogChildSA t i j k l m n q wd = wd" "LogRaw x wd = wd"
    "wd_file wd = None"
  using assms by (auto simp: NewWiresharkDebugger_def LogIKESAKeys_def LogChildSA_def LogRaw_def)

end
