(* ===== verification/Sim_Reader.thy ===== *)
theory Sim_Reader
  imports Sim_Direct
begin

text \<open>
  The serial line of a modem (\<^verbatim>\<open>pkg/sim/serial.go\<close>) and the reader of smart cards
  (\<^verbatim>\<open>pkg/sim/pcsc.go\<close>). System calls are parameters; the constants are those of the \<^verbatim>\<open>syscall\<close> package
  on Linux for amd64. The line is in raw mode with eight bits and no parity afterwards, but the bits of
  \<^verbatim>\<open>Cflag\<close> that select the speed are left as they were.
\<close>

unbundle bit_operations_syntax

section \<open>The serial line\<close>

record Termios =
  tm_Iflag :: u32
  tm_Oflag :: u32
  tm_Cflag :: u32
  tm_Lflag :: u32
  tm_Ispeed :: u32
  tm_Ospeed :: u32
  tm_Cc :: bytes

abbreviation (input) PARENB :: u32 where "PARENB \<equiv> 0x100"
abbreviation (input) CSTOPB :: u32 where "CSTOPB \<equiv> 0x40"
abbreviation (input) CSIZE :: u32 where "CSIZE \<equiv> 0x30"
abbreviation (input) CS8 :: u32 where "CS8 \<equiv> 0x30"
abbreviation (input) CREAD :: u32 where "CREAD \<equiv> 0x80"
abbreviation (input) CLOCAL :: u32 where "CLOCAL \<equiv> 0x800"

text \<open>The bits of \<^verbatim>\<open>Cflag\<close> that hold the speed on Linux.\<close>

abbreviation (input) CBAUD :: u32 where "CBAUD \<equiv> 0x100F"

definition baudSpeed :: "int \<Rightarrow> u32" where
  "baudSpeed baudRate =
     (if baudRate = 9600 then 0xD else if baudRate = 19200 then 0xE else if baudRate = 38400 then 0xF
      else if baudRate = 57600 then 0x1001 else 0x1002)"

definition rawMode :: "int \<Rightarrow> Termios \<Rightarrow> Termios" where
  "rawMode baudRate t =
     t\<lparr>tm_Cflag := (tm_Cflag t AND NOT (PARENB OR CSTOPB OR CSIZE)) OR (CS8 OR CREAD OR CLOCAL),
       tm_Iflag := tm_Iflag t AND NOT (0x400 OR 0x1000 OR 0x800 OR 0x20 OR 0x40 OR 0x80 OR 0x100),
       tm_Lflag := tm_Lflag t AND NOT (2 OR 8 OR 0x10 OR 1),
       tm_Oflag := tm_Oflag t AND NOT 1,
       tm_Ispeed := baudSpeed baudRate, tm_Ospeed := baudSpeed baudRate,
       tm_Cc := (tm_Cc t)[6 := 1, 5 := 0]\<rparr>"

text \<open>\<open>query\<close> and \<open>store\<close> are the two requests to the line.\<close>

definition setSerialParam :: "Termios result \<Rightarrow> (Termios \<Rightarrow> unit result) \<Rightarrow> int \<Rightarrow> unit result" where
  "setSerialParam query store baudRate = rbind query (\<lambda>t. store (rawMode baudRate t))"

text \<open>The result, and whether the file was closed again.\<close>

definition OpenSerial ::
    "unit result \<Rightarrow> unit result \<Rightarrow> Termios result \<Rightarrow> (Termios \<Rightarrow> unit result) \<Rightarrow> int \<Rightarrow> unit result \<times> bool" where
  "OpenSerial opened nonblock query store baudRate =
     (case opened of
        Inl e \<Rightarrow> (Inl e, False)
      | Inr _ \<Rightarrow>
          (case nonblock of
             Inl e \<Rightarrow> (Inl e, True)
           | Inr _ \<Rightarrow>
               (case setSerialParam query store baudRate of Inl e \<Rightarrow> (Inl e, True) | Inr _ \<Rightarrow> (Inr (), False))))"

definition NewDirectSIM ::
    "unit result \<Rightarrow> unit result \<Rightarrow> Termios result \<Rightarrow> (Termios \<Rightarrow> unit result) \<Rightarrow> unit result" where
  "NewDirectSIM opened nonblock query store = fst (OpenSerial opened nonblock query store 115200)"

lemma OpenSerial_closed:
  assumes "opened = Inr ()"
  shows "snd (OpenSerial opened nonblock query store b) \<longleftrightarrow> fst (OpenSerial opened nonblock query store b) \<noteq> Inr ()"
  using assms by (auto simp: OpenSerial_def split: sum.split)

text \<open>The bits that a mask reads of a flag word.\<close>

lemma and_mask: "(c AND a OR k) AND x = (c AND (a AND x)) OR (k AND x)" for c :: u32
  by (rule bit_eqI) (auto simp: bit_simps)

lemma rawMode_flags:
  "tm_Cflag (rawMode b t) = tm_Cflag t AND NOT (PARENB OR CSTOPB OR CSIZE) OR (CS8 OR CREAD OR CLOCAL)"
  "tm_Lflag (rawMode b t) = tm_Lflag t AND NOT (2 OR 8 OR 0x10 OR 1)"
  "tm_Oflag (rawMode b t) = tm_Oflag t AND NOT 1"
  by (simp_all add: rawMode_def)

lemma rawMode_bits:
  "tm_Cflag (rawMode b t) AND (PARENB OR CSTOPB) = 0" "tm_Cflag (rawMode b t) AND CSIZE = CS8"
  "tm_Lflag (rawMode b t) AND 2 = 0" "tm_Oflag (rawMode b t) AND 1 = 0"
proof -
  have m: "NOT (PARENB OR CSTOPB OR CSIZE) AND (PARENB OR CSTOPB) = 0" "(CS8 OR CREAD OR CLOCAL) AND (PARENB OR CSTOPB) = 0"
    "NOT (PARENB OR CSTOPB OR CSIZE) AND CSIZE = 0" "(CS8 OR CREAD OR CLOCAL) AND CSIZE = CS8"
    "NOT (2 OR 8 OR 0x10 OR 1) AND 2 = (0 :: u32)" "NOT 1 AND 1 = (0 :: u32)" by code_simp+
  show "tm_Cflag (rawMode b t) AND (PARENB OR CSTOPB) = 0" "tm_Cflag (rawMode b t) AND CSIZE = CS8"
    by (simp_all only: rawMode_flags and_mask m and_zero_eq or.left_neutral)
  show "tm_Lflag (rawMode b t) AND 2 = 0" "tm_Oflag (rawMode b t) AND 1 = 0"
    by (simp_all only: rawMode_flags and.assoc m and_zero_eq)
qed

text \<open>The speed that the kernel reads is not changed, whatever was asked for.\<close>

lemma speed_kept: "tm_Cflag (rawMode b t) AND CBAUD = tm_Cflag t AND CBAUD"
proof -
  have m: "NOT (PARENB OR CSTOPB OR CSIZE) AND CBAUD = CBAUD" "(CS8 OR CREAD OR CLOCAL) AND CBAUD = 0" by code_simp+
  show ?thesis by (simp only: rawMode_flags and_mask m or.right_neutral)
qed

section \<open>The smart card\<close>

text \<open>The command that \<^verbatim>\<open>CalculateAKA\<close> makes and does not send.\<close>

definition pcsc_apdu :: "bytes \<Rightarrow> bytes \<Rightarrow> bytes" where
  "pcsc_apdu rand autn =
     [0x00, 0x88, 0x00, 0x81] @ [of_nat (2 + length rand + length autn)] @
     [of_nat (length rand)] @ rand @ [of_nat (length autn)] @ autn"

definition pcsc_GetIMSI :: "string result" where
  "pcsc_GetIMSI = fail ''not implemented: needs CGO''"

definition pcsc_CalculateAKA :: "bytes \<Rightarrow> bytes \<Rightarrow> aka_result result" where
  "pcsc_CalculateAKA rand autn = fail ''not implemented: needs CGO''"

text \<open>It is the command that goes to a card in a modem.\<close>

lemma hexX_append: "hexX (a @ b) = hexX a @ hexX b"
  by (simp add: hexX_def)

lemma length_hexX: "length (hexX bs) = 2 * length bs"
  by (induction bs) (simp_all add: hexX_def hex02_byte)

lemma hexX_byte: "n < 256 \<Longrightarrow> hexX [of_nat n] = hex02 n"
  by (simp add: hexX_def unat_of_nat_byte)

lemma pcsc_apdu_same:
  assumes "length rand = 16" "length autn = 16"
  shows "hexX (pcsc_apdu rand autn) = authAPDU rand autn"
proof -
  have "hexX [0x00, 0x88, 0x00, 0x81, 34, 16] = ''008800812210''" "hexX [16] = ''10''" "hex02 34 = ''22''" by code_simp+
  then show ?thesis
    using assms hexX_append [of "[0x00, 0x88, 0x00, 0x81, 34, 16]"] hexX_append [of rand] hexX_append [of "[16]"]
    by (simp add: pcsc_apdu_def authAPDU_def length_hexX Let_def)
qed

end
