(* ===== verification/Spec2Isabelle.thy ===== *)
theory Spec2Isabelle
  imports Ikev2_Packet Ikev2_Proposal Crypto_Prf Crypto_Integrity Crypto_Cipher Crypto_Dh
    Crypto_Milenage Crypto_Fips Eap_Auts Ipsec_Socket Swu_Defrag Swu_Window Swu_Keys Swu_Policy
    Swu_Eap_Correct Swu_Control_Correct Swu_Connect_Correct Swu_Listen
    Sim_Soft Sim_Direct Swu_Dataplane Swu_Xfrm_Correct Swu_Timers_Correct Swu_Manager Swu_Spoof Ipsec_Loop
    Ipsec_Raw Driver_Netns Swu_Wireshark Sim_Reader
begin

text \<open>
  A verification library for swu-go, a Go client for untrusted access to a mobile operator's core: it
  sets up an IKEv2 association with an ePDG, authenticates with EAP-AKA against a SIM, and moves packets
  through the ESP associations that result. The files are under \<^verbatim>\<open>src/pkg\<close>.

  \<^bold>\<open>The parts and how they interact.\<close> A program asks the session manager (\<^verbatim>\<open>swu/manager.go\<close>) for a session. The
  session (\<^verbatim>\<open>swu/session.go\<close>) opens a UDP socket (\<^verbatim>\<open>ipsec/socket.go\<close>), runs IKE_SA_INIT
  (\<^verbatim>\<open>swu/state_init.go\<close>) and IKE_AUTH with its EAP rounds (\<^verbatim>\<open>swu/state_auth.go\<close>), which call the SIM
  (\<^verbatim>\<open>sim\<close>), and installs the first pair of child associations. Then it hands the packets to one of its data
  planes (TUN, inner queues, or the kernel's XFRM through \<^verbatim>\<open>driver\<close>), and starts goroutines: the
  dispatcher that takes IKE packets from the socket (\<^verbatim>\<open>swu/ike_control.go\<close>), the request window that
  retransmits (\<^verbatim>\<open>swu/window.go\<close>), the rekeying timers, dead peer detection and the NAT keepalive. Messages are
  encoded and decoded by \<^verbatim>\<open>ikev2\<close> and \<^verbatim>\<open>eap\<close>, protected by \<^verbatim>\<open>crypto\<close>.

  \<^bold>\<open>How the code is rendered.\<close> A struct is a record with the code's fields, an interface with few
  implementations a datatype, a machine integer a word of its width, a byte slice a list of bytes, with an
  explicit backing array where the code's slices share one (\<^verbatim>\<open>Crypto_Cipher\<close>, \<^verbatim>\<open>Swu_Skf\<close>, \<^verbatim>\<open>Swu_Keys\<close>). A
  method of a session is a function from the state to the state and a result (\<open>Swu_Action\<close>); a result is a
  value or a fault: an error return, a panic, or \<open>Hang\<close> for a call that does not return. Goroutines are step
  relations or sequences of steps whose order is free. Random numbers, clocks, replies of the network, of the
  kernel and of the SIM are arguments; a kernel (\<open>Driver_Net\<close>), a modem (\<open>Sim_Direct\<close>) and the system calls
  of a raw socket (\<open>Ipsec_Raw\<close>) are functions of everything that was asked of them before. Only the standard
  library is written out: hash functions (\<open>Std_Hash\<close>), AES (\<open>Std_Aes\<close>), the block modes (\<open>Std_Modes\<close>) and
  strings (\<open>Go_Strings\<close>).

  \<^bold>\<open>Theories.\<close>
  \<^item> \<open>Prelude\<close>, \<open>Interfaces\<close>: machine integers, faults, big-endian encodings, and the contracts between the
    parts as locales (payload codecs, item codecs, ciphers, MACs, state machines), each interpreted on the
    model's definitions where these are given.
  \<^item> \<^verbatim>\<open>ikev2\<close>: \<open>Ikev2_Constants\<close>, \<open>Ikev2_Header\<close>, \<open>Ikev2_Payloads\<close>, \<open>Ikev2_SA\<close>, \<open>Ikev2_TS\<close>, \<open>Ikev2_CP\<close>,
    \<open>Ikev2_Packet\<close>, \<open>Ikev2_Proposal\<close>. Encoders and decoders of every payload with their round trips, what a
    decoded message satisfies, when the decoder panics, and the parser and matcher of proposals.
  \<^item> \<^verbatim>\<open>crypto\<close>: \<open>Crypto_Prf\<close>, \<open>Crypto_Integrity\<close>, \<open>Crypto_Cipher\<close>, \<open>Crypto_Dh\<close>, \<open>Crypto_Milenage\<close>,
    \<open>Crypto_Fips\<close>. Refinement of prf+ and of the FIPS 186-2 generator to the recurrences of the standards,
    agreement of Diffie-Hellman, soundness of the AUTN check, the effect of GCM on the key's array.
  \<^item> \<^verbatim>\<open>eap\<close>: \<open>Eap_Packet\<close>, \<open>Eap_Auts\<close>. Packets, attributes, sequence numbers, resynchronisation.
  \<^item> \<^verbatim>\<open>ipsec\<close>: \<open>Ipsec_Esp\<close> (packets and associations), \<open>Ipsec_Socket\<close>, \<open>Ipsec_Events\<close>, \<open>Ipsec_Loop\<close> (one datagram,
    the error queue, the life of the two goroutines), \<open>Ipsec_Dataplane\<close> and \<open>Ipsec_Raw\<close> (the stand-alone data
    plane and its sockets).
  \<^item> \<^verbatim>\<open>sim\<close>: \<open>Sim_Soft\<close> (Milenage in software), \<open>Sim_Direct\<close> (a card in a modem), \<open>Sim_Reader\<close> (the serial line
    and the card reader).
  \<^item> \<^verbatim>\<open>driver\<close>: \<open>Driver_Net\<close>, \<open>Driver_Xfrm\<close>, \<open>Driver_Netns\<close>. Requests to the kernel with their undo functions, and
    network namespaces.
  \<^item> \<^verbatim>\<open>swu\<close>, protocol: \<open>Swu_Config\<close>, \<open>Swu_Session\<close>, \<open>Swu_Action\<close>, \<open>Swu_Keys\<close>, \<open>Swu_Fragment\<close>, \<open>Swu_Skf\<close>,
    \<open>Swu_Message\<close>, \<open>Swu_Defrag\<close> (encrypted messages and fragments), \<open>Swu_Window\<close>, \<open>Swu_Init\<close>, \<open>Swu_Auth\<close>,
    \<open>Swu_Eap\<close>, \<open>Swu_Child\<close>, \<open>Swu_Rekey\<close>, \<open>Swu_Control\<close>, \<open>Swu_Resume\<close>, \<open>Swu_Connect\<close>. The theories whose name
    ends in \<open>Correct\<close> hold the properties of the theory of the same name, and \<open>Swu_Spoof\<close> those of messages
    in the clear.
  \<^item> \<^verbatim>\<open>swu\<close>, around the protocol: \<open>Swu_Listen\<close> (the dispatcher beside changes of the socket), \<open>Swu_Mobike\<close>,
    \<open>Swu_Timers\<close>, \<open>Swu_Manager\<close>, \<open>Swu_Policy\<close>, \<open>Swu_Dataplane\<close>, \<open>Swu_Xfrm\<close>, \<open>Swu_Wireshark\<close>.

  \<^bold>\<open>What the properties below say.\<close> C1 to C6: protected messages, plain messages, fragments and ESP packets
  arrive as they were sent, ESP packets are authentic, and the request window keeps its invariant. C7, C13, C18,
  C21: what authentication does not cover; C34, C35: where the responder's side departs from the protocol.
  C8, C10, C14, C40: what becomes of requests, timers and sockets when something goes wrong. C9: the
  kernel's state is rolled back. C11, C12, C15 to C17, C20, C32, C33: the keys and values that both ends of an
  exchange agree on. C19, C25, C26: refinement of standards and independence of Go's map order. C22 to C24: SIM
  cards. C27, C37: shared arrays and fragments out of order. C28, C39: a loop that ends and one that need not.
  C29 to C31: bounds and orders of counters, queues and sizes. C36: answers to INFORMATIONAL. C38: the type of
  decoded payloads.

  \<^bold>\<open>Bounds and fuel.\<close> The loop of \<open>reassemble\<close> counts in sixteen bits; its 65537 rounds see every value of
  the counter, and C28 shows that they suffice for every buffer that received fragments lead
  to. The loops over IKE_SA_INIT and over EAP messages run as long as the gateway keeps answering; they take
  fuel and yield \<open>Hang\<close> without it. \<open>initLoop_fuel\<close> and \<open>eapLoop_fuel\<close> show that any other result is
  independent of the fuel, \<open>initLoop_cookies\<close> bounds the rounds that cookies cause, and C39
  shows that the other rounds have no bound, so that no fixed fuel would do. The checksums, blocks and chunk
  sizes are those of the code.

  \<^bold>\<open>Not modelled.\<close> The logger (\<^verbatim>\<open>logger\<close>), which configures a library and calls it, and all log messages;
  the ticker that only logs; the calls that write the key log, whose lines are in \<open>Swu_Wireshark\<close>;
  the timing of comparisons; reads and writes of devices beyond their results; the netlink, zap, water and
  netns libraries, which are parameters. Data races of unsynchronised fields are not modelled: steps are
  atomic at the granularity of a method or of a round of a loop. \<^verbatim>\<open>timeval_32.go\<close> is the variant of another
  platform.
\<close>

section \<open>Concrete instances\<close>

text \<open>The inputs at which the witnesses apply the properties: one key for everything.\<close>

definition ex_key :: bytes where
  "ex_key = replicate 20 0"

definition ex_keys :: IKESAKeys where
  "ex_keys = \<lparr>SK_d = ex_key, SK_ai = ex_key, SK_ar = ex_key, SK_ei = ex_key, SK_er = ex_key,
     SK_pi = ex_key, SK_pr = ex_key\<rparr>"

definition ex_sim :: SIMProvider where
  "ex_sim = \<lparr>GetIMSI = Inr ''001010000000001'', CalculateAKA = (\<lambda>_ _. AkaOk (replicate 8 1) (replicate 16 2) (replicate 16 3)),
     GetIMEI = None\<rparr>"

definition ex_cfg :: Config where
  "ex_cfg = \<lparr>EpDGAddr = [], EpDGPort = 500, APN = ''ims'', LocalAddr = [], DNSServer = [], SIM = ex_sim,
     EnableDriver = False, DataplaneMode = [], XFRMIfID = 0, cfg_MCC = ''001'', cfg_MNC = ''01'',
     cfg_IMSI = [], cfg_LocalPort = 0, ReauthInterval = 0, TUNName = [], TUNMTU = 0, cfg_ReplayWindow = 0,
     EnableESN = False, EAPMACValidation = True, EnableWiresharkKeyLog = False, WiresharkKeyLogPath = [],
     cfg_ResumeTicket = [], cfg_ResumeOldSKd = [], FastReauthID = [], FastReauthMK = [], FastReauthKAut = [],
     FastReauthKEncr = [], IKEProposals = [], ESPProposals = [], ESPRekeyPFS = 0, DPDInterval = 0,
     NATKeepaliveInterval = 0, DeviceIdentityEnabled = None, AKAChallengeMode = [],
     TicketRequestEnabled = None, CPInFirstAuth = None, CPInFinalAuth = None, EAPIdentity = [], cfg_IMEI = [],
     IPStack = [], DeviceModel = [], DeviceID = [], TraceID = [], IKERetryCount = 0, CookiePayloadType = [],
     AutoPRF = False\<rparr>"

definition ex_session :: Session where
  "ex_session = (NewSession ex_cfg (replicate 8 1))\<lparr>EncAlg := Some (AesGCM 16 16), ikeIsAEAD := True,
     Keys := Some ex_keys, PRFAlg := Some PRF_HMAC_SHA1_alg\<rparr>"

lemma ex_session_simps [simp]:
  "EncAlg ex_session = Some (AesGCM 16 16)" "ikeIsAEAD ex_session" "Keys ex_session = Some ex_keys"
  "PRFAlg ex_session = Some PRF_HMAC_SHA1_alg" "activeInteg ex_session = None" "icvLen ex_session = 0"
  "fragmentBuf ex_session = (\<lambda>_. None)" "s_SequenceNumber ex_session = 0"
  by (simp_all add: ex_session_def NewSession_def activeInteg_def icvLen_def)


lemma ex_encrypt:
  assumes "length iv = 8"
  shows "\<exists>c. Encrypt (AesGCM 16 16) p ex_key iv aad = Inr c \<and> length c = length p + 16"
proof -
  have E: "Encrypt (AesGCM 16 16) p ex_key iv aad = Inr (gcm_seal (replicate 16 0) (replicate 4 0 @ iv) p aad)"
    using assms by (simp add: Encrypt_def GCM_Encrypt_def ex_key_def aes_key_ok_def)
  from enc.length_encrypt [OF this] E show ?thesis by (simp add: overhead_def)
qed


definition ex_sa :: SecurityAssociation where
  "ex_sa = NewSecurityAssociation 1 (AesGCM 16 16) ex_key []"

definition ex_milenage :: Milenage where
  "ex_milenage = \<lparr>mil_K = replicate 16 0, mil_OP = replicate 16 0, mil_OPc = replicate 16 0\<rparr>"

definition ex_sa_cbc :: SecurityAssociation where
  "ex_sa_cbc = NewSecurityAssociationCBC 1 (AesCBC 16) (replicate 16 0) HmacSHA1_96 ex_key"

lemma ex_esp: "\<exists>pkt. snd (Encapsulate (Inr (replicate 8 0)) p ex_sa) = Inr pkt"
proof -
  obtain c where "Encrypt (AesGCM 16 16) (espTrailer p 16) ex_key (replicate 8 0) (put32 1 @ put32 1) = Inr c"
    using ex_encrypt [of "replicate 8 0"] by (metis length_replicate)
  then show ?thesis
    by (simp add: Encapsulate_def NextSequenceNumber_def Let_def ex_sa_def NewSecurityAssociation_def
        BlockSize_def)
qed

lemma ex_esp_cbc: "\<exists>pkt. Decapsulate pkt ex_sa_cbc = Inr p"
proof -
  have "length (espTrailer p 16) mod 16 = 0"
    using espPadLen_bounds(2) [of 16 "length p"] by (simp add: length_espTrailer ac_simps)
  then obtain c where "Encrypt (AesCBC 16) (espTrailer p 16) (replicate 16 0) (replicate 16 0) (put32 1 @ put32 1) = Inr c"
    using Encrypt_total [of "AesCBC 16" "replicate 16 0" "replicate 16 0" "espTrailer p 16"]
    by (auto simp: enc_args_ok_def aes_key_ok_def BlockSize_def)
  then have "\<exists>pkt. snd (Encapsulate (Inr (replicate 16 0)) p ex_sa_cbc) = Inr pkt"
    by (simp add: Encapsulate_def NextSequenceNumber_def Let_def ex_sa_cbc_def NewSecurityAssociationCBC_def
        BlockSize_def)
  then obtain pkt where pkt: "snd (Encapsulate (Inr (replicate 16 0)) p ex_sa_cbc) = Inr pkt" ..
  have "Decapsulate pkt ex_sa_cbc = Inr p"
    by (rule Decapsulate_Encapsulate [OF _ _ pkt])
      (simp_all add: sa_peer_def IVSize_def ex_sa_cbc_def NewSecurityAssociationCBC_def)
  then show ?thesis ..
qed

definition ex_window :: TaskManager where
  "ex_window = NewTaskManager (Some \<lparr>MaxRetries = 1, InitialTimeout = 1, MaxTimeout = 10, backoff = (\<lambda>d. 2 * d)\<rparr>) 1"

definition ex_window1 :: TaskManager where
  "ex_window1 = EnqueueRequest 0 7 [[1]] 0 ex_window"

lemma ex_window1_simps [simp]:
  "windowSize ex_window1 = 1" "queue ex_window1 = []" "channels ex_window1 = [0 \<mapsto> ([], False)]"
  "pending ex_window1 = [(7, \<lparr>MsgID = 7, Packets = [[1]], RetryCount = 0, msg_MaxRetries = 1,
     NextTimeout = 1, Deadline = 1, CompletionCh = 0\<rparr>)]"
  "MaxTimeout (config ex_window1) = 10"
  by (simp_all add: ex_window1_def EnqueueRequest_def activateMessage_def ex_window_def NewTaskManager_def Let_def)


definition ex_dh :: DiffieHellman where
  "ex_dh = \<lparr>Group = 2, PrivateKey = Some 5, PublicKey = Some 32, SharedKey = Some [7], dh_P = prime1024, dh_G = 2\<rparr>"

definition ex_session_dh :: Session where
  "ex_session_dh = ex_session\<lparr>DH := Some ex_dh\<rparr>"

lemma ex_wrap_any:
  assumes "EncAlg s = Some (AesGCM 16 16)" "ikeIsAEAD s" "Keys s = Some ex_keys" "length iv = 8"
    and "encode_payloads ps = Inr d" "length d < 60000"
  shows "\<exists>pkt. encryptAndWrapWithMsgID (Inr iv) ps x m r s = Inr pkt"
proof -
  have a: "activeInteg s = None" "icvLen s = 0" using assms(2) by (simp_all add: activeInteg_def icvLen_def)
  have S: "sealPlain s (AesGCM 16 16) d = d" using assms(2) by (simp add: sealPlain_def)
  define hdr where "hdr = \<lparr>SPIi = s_SPIi s, SPIr = s_SPIr s, NextPayload = PT_SK, Version = 0x20,
     ExchangeType = x, Flags = ikeFlags r, MessageID = m, hdr_Length = of_nat (56 + length d)\<rparr>"
  obtain c where c: "Encrypt (AesGCM 16 16) d ex_key iv (Header_Encode hdr) = Inr c" "length c = length d + 16"
    using ex_encrypt [OF assms(4), of d "Header_Encode hdr"] by auto
  show ?thesis
    using assms c a S
    by (simp add: encryptAndWrapWithMsgID_def Let_def hdr_def ex_keys_def appendICV_def)
qed

definition ex_child_prop :: Proposal where
  "ex_child_prop = AddTransformWithKeyLen (NewProposal 1 ProtoESP [0, 0, 0, 5]) TransformTypeEncr ENCR_AES_GCM_16 128"

definition ex_child_sa :: Payload where
  "ex_child_sa = PayloadSA \<lparr>Proposals = [ex_child_prop]\<rparr>"

definition ex_child_session :: Session where
  "ex_child_session = ex_session\<lparr>childSPI := 7, s_ni := [1], s_nr := [2]\<rparr>"

lemma ex_child_simps [simp]:
  "prop_SPI ex_child_prop = [0, 0, 0, 5]" "sel_encr (selection (Transforms ex_child_prop)) = ENCR_AES_GCM_16"
  "sel_keyLenBits (selection (Transforms ex_child_prop)) = 128" "sel_dh (selection (Transforms ex_child_prop)) = 0"
  "sel_esn (selection (Transforms ex_child_prop)) = False"
  "Keys ex_child_session = Some ex_keys" "PRFAlg ex_child_session = Some PRF_HMAC_SHA1_alg"
  "childSPI ex_child_session = 7" "s_ni ex_child_session = [1]" "s_nr ex_child_session = [2]"
  by (simp_all add: ex_child_prop_def NewProposal_def AddTransformWithKeyLen_def selection_def selectTransform_def
      ex_child_session_def)

lemma ex_prf: "GetPRF 2 = Inr PRF_HMAC_SHA1_alg" "KeyLen PRF_HMAC_SHA1_alg = 20"
  by (simp_all add: GetPRF_def PRF_HMAC_SHA1_alg_def)

lemma ex_derive:
  assumes "Keys s = Some ex_keys" "PRFAlg s = Some PRF_HMAC_SHA1_alg"
    and "sel_encr sel = ENCR_AES_GCM_16" "sel_keyLenBits sel = 128"
  shows "childAlgs sel = Inr (AesGCM 16 16, None, 20, 0) \<and> (\<exists>ck. deriveChildKeys sel seed s = Inr (AesGCM 16 16, None, ck))"
proof -
  have a: "childAlgs sel = Inr (AesGCM 16 16, None, 20, 0)"
    using assms(3,4) by (simp add: childAlgs_def GetEncrypterWithKeyLen_def isAEADEncr_def KeySize_def)
  then have a': "childAlgs sel = Inr (AesGCM 16 16, None, int 20, int 0)" by simp
  show ?thesis using deriveChildKeys_total [OF assms(1,2) ex_prf(1) a'] a ex_prf(2) by simp
qed


definition the_auth :: "Payload \<Rightarrow> EncryptedPayloadAuth" where
  "the_auth p = (case p of PayloadAuth a \<Rightarrow> a | _ \<Rightarrow> \<lparr>AuthMethod = 0, AuthData = []\<rparr>)"

definition ex_eap :: EAPPacket where
  "ex_eap = \<lparr>eap_Code = CodeRequest, eap_Identifier = 9, eap_Type = TypeAKA, eap_Subtype = SubtypeChallenge, eap_Data = []\<rparr>"

definition ex_aka :: AkaKeys where
  "ex_aka = akaDerive (str_bytes (nai (imsi_or_cfg ex_cfg) ex_cfg)) (replicate 16 2) (replicate 16 3) 0"

text \<open>A challenge that the keys of the SIM verify: RAND, AUTN, MAC.\<close>

definition ex_attrs :: "Attribute list" where
  "ex_attrs = [\<lparr>at_Type = AT_RAND, at_Length = 5, at_Value = replicate 18 0\<rparr>,
     \<lparr>at_Type = AT_AUTN, at_Length = 5, at_Value = replicate 18 1\<rparr>]"

definition ex_challenge_raw :: bytes where
  "ex_challenge_raw = sealResponse H_sha1 (ak_KAut ex_aka) (8 + length (attr_stream ex_attrs) + 4)
     (eapResponse 9 TypeAKA SubtypeChallenge (attr_stream ex_attrs @ encodeAttr AT_MAC (replicate 18 0)))"

definition ex_challenge :: EAPPacket where
  "ex_challenge = ex_eap\<lparr>eap_Data := drop 8 ex_challenge_raw\<rparr>"

definition ex_tag :: bytes where
  "ex_tag = drop 4 (drop (length (attr_stream ex_attrs)) (drop 8 ex_challenge_raw))"

lemma ex_challenge_ok:
  "ParseAttributes (eap_Data ex_challenge) = Inr (attributeMap (ex_attrs @ [macAttr ex_tag]))" "length ex_tag = 16"
  "verifyEAPAKAMAC ex_challenge_raw (eap_Data ex_challenge) (ak_KAut ex_aka) ex_tag = Inr ()"
proof -
  have wf: "\<forall>a\<in>set ex_attrs. attribute_wf a \<and> at_Type a \<noteq> AT_MAC"
    by (simp add: ex_attrs_def attribute_wf_def)
  obtain tag where t: "length tag = 16" "drop 8 ex_challenge_raw = attr_stream (ex_attrs @ [macAttr tag])"
    "ParseAttributes (drop 8 ex_challenge_raw) = Inr (attributeMap (ex_attrs @ [macAttr tag]))"
    "verifyEAPAKAMAC ex_challenge_raw (drop 8 ex_challenge_raw) (ak_KAut ex_aka) tag = Inr ()"
    by (rule sealed_accepted [OF wf _ ex_challenge_raw_def]) (auto simp: isAKA_def)
  have "ex_tag = tag" unfolding ex_tag_def t(2) by (simp add: macAttr(2) [OF t(1)])
  with t show "ParseAttributes (eap_Data ex_challenge) = Inr (attributeMap (ex_attrs @ [macAttr ex_tag]))"
    "length ex_tag = 16" "verifyEAPAKAMAC ex_challenge_raw (eap_Data ex_challenge) (ak_KAut ex_aka) ex_tag = Inr ()"
    by (simp_all add: ex_challenge_def)
qed

lemma ex_challenge_map:
  defines "m \<equiv> attributeMap (ex_attrs @ [macAttr ex_tag])"
  shows "m AT_RAND = Some \<lparr>at_Type = AT_RAND, at_Length = 5, at_Value = replicate 18 0\<rparr>"
    "m AT_AUTN = Some \<lparr>at_Type = AT_AUTN, at_Length = 5, at_Value = replicate 18 1\<rparr>"
    "m AT_MAC = Some (macAttr ex_tag)" "m AT_NEXT_REAUTH_ID = None"
  by (simp_all add: m_def attributeMap_def ex_attrs_def macAttr_def)

lemma ex_session_cfg [simp]: "s_cfg ex_session = ex_cfg" "EAPMACValidation ex_cfg" "SIM ex_cfg = ex_sim" "fastReauthCtx ex_session = Some NewFastReauthContext" "\<not> CanUseReauth NewFastReauthContext" "rekeyMu ex_session = False"
  "CalculateAKA ex_sim r a = AkaOk (replicate 8 1) (replicate 16 2) (replicate 16 3)"
  by (simp_all add: ex_session_def NewSession_def ex_cfg_def ex_sim_def initFastReauthCtx_def CanUseReauth_def
      NewFastReauthContext_def)

lemma ex_challenge_run:
  "\<exists>s' ps. handleAKAChallenge [] ex_challenge ex_challenge_raw ex_session = (s', Inr ps) \<and> MSK s' = ak_MSK ex_aka"
proof -
  have t: "eapAKAAttrTail16 (replicate 18 b) = Inr (replicate 16 b)" for b by (simp add: eapAKAAttrTail16_def)
  have tag: "eapAKAAttrTail16 (at_Value (macAttr ex_tag)) = Inr ex_tag"
    using eapAKAAttrTail16_mac [OF ex_challenge_ok(2)] by (simp add: macAttr_def)
  have sel: "akaSelect True ex_challenge_raw (eap_Data ex_challenge) ex_tag
      (akaDerive (str_bytes (nai (imsi_or_cfg ex_cfg) ex_cfg)) (replicate 16 2) (replicate 16 3)) = Inr ex_aka"
    using ex_challenge_ok(3) by (simp add: akaSelect_def ex_aka_def)
  show ?thesis
    by (simp add: handleAKAChallenge_def ex_challenge_ok(1) ex_challenge_map runSIM_def t tag sel sbind_gets
        permanentIdentity_def buildNAI_Some captureAkaReauth_def nextReauthID_def)
qed

definition ex_reauth :: EAPPacket where
  "ex_reauth = ex_eap\<lparr>eap_Subtype := SubtypeReauthentication, eap_Data := attr_stream
     [\<lparr>at_Type = AT_NONCE_S, at_Length = 1, at_Value = [0, 0]\<rparr>, \<lparr>at_Type = AT_COUNTER, at_Length = 1, at_Value = [0, 1]\<rparr>,
      macAttr (replicate 16 0)]\<rparr>"

definition ex_reauth_ctx :: FastReauthContext where
  "ex_reauth_ctx = SaveReauthData NewFastReauthContext ''id'' (ak_MK ex_aka) (ak_KEncr ex_aka) (ak_KAut ex_aka)"

definition ex_reauth_session :: Session where
  "ex_reauth_session = ex_session\<lparr>fastReauthCtx := Some ex_reauth_ctx\<rparr>"

lemma ex_reauth_simps [simp]: "CanUseReauth ex_reauth_ctx" "ra_MK ex_reauth_ctx = ak_MK ex_aka"
  "fastReauthCtx ex_reauth_session = Some ex_reauth_ctx"
  by (simp_all add: ex_reauth_ctx_def ex_reauth_session_def SaveReauthData_def NewFastReauthContext_def CanUseReauth_def)

lemma handleReauth_runs:
  assumes "fastReauthCtx s = Some ctx" "CanUseReauth ctx" "ParseAttributes (eap_Data pkt) = Inr m"
    and "m AT_NONCE_S = Some n" "m AT_MAC = Some a" "m AT_COUNTER = Some c"
  shows "\<exists>s' ps. handleReauth t H newMSK pkt s = (s', Inr ps)"
  using assms by (simp add: handleReauth_def BuildReauthResponse_def)

lemma ex_reauth_run: "\<exists>s' ps. handleAKAReauth ex_reauth ex_reauth_session = (s', Inr ps)"
proof -
  let ?as = "[\<lparr>at_Type = AT_NONCE_S, at_Length = 1, at_Value = [0, 0]\<rparr>,
     \<lparr>at_Type = AT_COUNTER, at_Length = 1, at_Value = [0, 1]\<rparr>, macAttr (replicate 16 0)]"
  have "ParseAttributes (attr_stream ?as) = Inr (attributeMap ?as)"
    by (rule ParseAttributes_stream) (use macAttr(1) [of "replicate 16 0"] in \<open>auto simp: attribute_wf_def\<close>)
  moreover have "eap_Data ex_reauth = attr_stream ?as" by (simp add: ex_reauth_def)
  ultimately have p: "ParseAttributes (eap_Data ex_reauth) = Inr (attributeMap ?as)" by presburger
  show ?thesis unfolding handleAKAReauth_def
    by (rule handleReauth_runs [OF _ _ p, where ctx = ex_reauth_ctx])
      (simp_all add: attributeMap_def macAttr_def)
qed

definition ex_bad_header :: IKEHeader where
  "ex_bad_header = \<lparr>SPIi = 1, SPIr = 2, NextPayload = 40, Version = 0x20, ExchangeType = 34, Flags = 0x20,
     MessageID = 0, hdr_Length = 32\<rparr>"

lemma ex_milenage_wf: "mil_wf ex_milenage"
  by (simp add: mil_wf_def ex_milenage_def)

definition ex_policy :: "bool \<Rightarrow> childOutPolicy" where
  "ex_policy b = \<lparr>saOut = Some (if b then 1 else 0), pol_tsr = [Some \<lparr>TSType = TS_IPV4_ADDR_RANGE, IPProtocol = 0,
     StartPort = 0, EndPort = 65535, StartAddr = [if b then 10 else 11, 0, 0, 0], EndAddr = [if b then 10 else 11, 255, 255, 255]\<rparr>]\<rparr>"

definition ex_dh_pair :: "nat \<Rightarrow> DiffieHellman" where
  "ex_dh_pair x = \<lparr>Group = 2, PrivateKey = Some x, PublicKey = Some (2 ^ x mod prime1024), SharedKey = None, dh_P = prime1024, dh_G = 2\<rparr>"

lemma ex_dh_pair: "dh_keypair 2 x (ex_dh_pair x)"
  using prime_bounds(1)
  by (simp add: dh_keypair_def NewDiffieHellman_def GenerateKey_def ex_dh_pair_def mod_exp_power)

lemma ex_dh_exchange:
  assumes "0 < y" "y < 1000"
  shows "\<exists>pb a' ka. PublicKeyBytes (ex_dh_pair y) = Inr pb \<and> SetBytes pb = 2 ^ y \<and>
    ComputeSharedSecret (ex_dh_pair x) pb = Inr (a', ka)"
proof -
  have "(2 :: nat) ^ y \<le> 2 ^ 1000" using assms by (intro power_increasing) auto
  then have less: "(2 :: nat) ^ y + 1 < prime1024" using prime_bounds(1) by simp
  have "(2 :: nat) ^ 1 \<le> 2 ^ y" using assms by (intro power_increasing) auto
  then have two: "1 < (2 :: nat) ^ y" by simp
  obtain pb where pb: "PublicKeyBytes (ex_dh_pair y) = Inr pb" "SetBytes pb = 2 ^ y mod dh_P (ex_dh_pair y)"
    using PublicKeyBytes_ok [OF ex_dh_pair] by blast
  from pb(2) less have v: "SetBytes pb = 2 ^ y" by (simp add: ex_dh_pair_def)
  have "\<exists>dh' k. ComputeSharedSecret (ex_dh_pair x) pb = Inr (dh', k)"
    unfolding ComputeSharedSecret_iff [OF ex_dh_pair] using v two less by (simp add: ex_dh_pair_def)
  with pb v show ?thesis by blast
qed

text \<open>A complete IKE_SA_INIT exchange over group 2 with the exponents 2 and 3.\<close>

definition ex_transport :: Transport where
  "ex_transport = \<lparr>tr_LocalPort = None, tr_Remote = None, tr_LocalIP = None, tr_SetRemotePort = True,
     dialUDP = (\<lambda>_ _. fail ''no route'')\<rparr>"

definition ex_init_session :: Session where
  "ex_init_session = (NewSession ex_cfg (replicate 8 1))\<lparr>DH := Some (ex_dh_pair 2), s_ni := [1]\<rparr>"

definition ex_init_transforms :: "Transform list" where
  "ex_init_transforms =
    [\<lparr>LastTransform = False, tr_Type = TransformTypeEncr, tr_ID = ENCR_AES_GCM_16,
       tr_Attributes = [\<lparr>ta_Type = AttributeKeyLength, ta_Value = [], ta_Val = 128\<rparr>]\<rparr>,
     \<lparr>LastTransform = False, tr_Type = TransformTypePRF, tr_ID = 2, tr_Attributes = []\<rparr>,
     \<lparr>LastTransform = True, tr_Type = TransformTypeDH, tr_ID = 2, tr_Attributes = []\<rparr>]"

definition ex_init_payloads :: "bytes \<Rightarrow> Payload list" where
  "ex_init_payloads pb =
    [PayloadSA \<lparr>Proposals = [\<lparr>LastProposal = True, ProposalNum = 1, prop_ProtocolID = ProtoIKE, prop_SPI = [],
       Transforms = ex_init_transforms\<rparr>]\<rparr>,
     PayloadKE \<lparr>DHGroup = 2, KEData = pb\<rparr>, PayloadNonce \<lparr>NonceData = [7]\<rparr>]"

definition ex_init_header :: IKEHeader where
  "ex_init_header = \<lparr>SPIi = 1, SPIr = 2, NextPayload = 0, Version = 0x20, ExchangeType = IKE_SA_INIT, Flags = 0x20,
     MessageID = 0, hdr_Length = 0\<rparr>"

lemma ex_init_wf:
  assumes "length pb = 128"
  shows "\<forall>q\<in>set (ex_init_payloads pb). payload_wf q \<and> fits q"
  using assms
  by (simp add: ex_init_payloads_def ex_init_transforms_def fits_def sa_wf_def sa_flags_set_def proposal_wf_def
      Proposal_Encode_def Transform_Encode_def TransformAttribute_Encode_def tattr_wf_def SA_Encode_def
      mark_proposal_def mark_transform_def KE_Encode_def Nonce_Encode_def Let_def)

lemma ex_init_selection: "selection ex_init_transforms =
    \<lparr>sel_encr = ENCR_AES_GCM_16, sel_keyLenBits = 128, sel_integ = 0, sel_prf = 2, sel_dh = 2, sel_esn = False\<rparr>"
  by (simp add: ex_init_transforms_def selection_def selectTransform_def)

lemma ex_init_run:
  assumes "PublicKeyBytes (ex_dh_pair 3) = Inr pb"
  shows "\<exists>data packet s'. DecodePacket data = Inr packet \<and> Payloads packet = ex_init_payloads pb \<and>
    SPIr (Header packet) = 2 \<and> handleIKESAInitResp ex_transport data ex_init_session = (s', Inr ())"
proof -
  obtain dh' g where g: "ComputeSharedSecret (ex_dh_pair 2) pb = Inr (dh', g)"
    using ex_dh_exchange [of 3 2] assms by auto
  have len: "length pb = 128" using PublicKeyBytes_ok [OF ex_dh_pair [of 3]] assms by (auto simp: group_size_def)
  obtain packet b where enc: "Packet_Encode \<lparr>Header = ex_init_header, Payloads = ex_init_payloads pb\<rparr> = Inr (packet, b)"
    and dec: "DecodePacket b = Inr packet"
    using DecodePacket_Encode [of "\<lparr>Header = ex_init_header, Payloads = ex_init_payloads pb\<rparr>"] ex_init_wf [OF len] by auto
  have packet: "Payloads packet = ex_init_payloads pb" "ExchangeType (Header packet) = IKE_SA_INIT" "SPIr (Header packet) = 2"
    using enc by (auto simp: Packet_Encode_def rbind_Inr_iff Let_def ex_init_header_def)
  define sa where "sa = \<lparr>Proposals = [\<lparr>LastProposal = True, ProposalNum = 1, prop_ProtocolID = ProtoIKE, prop_SPI = [],
       Transforms = ex_init_transforms\<rparr>]\<rparr>"
  define acc where "acc = emptyInitAcc\<lparr>acc_sa := Some sa, acc_ke := Some \<lparr>DHGroup = 2, KEData = pb\<rparr>,
     acc_nonce := Some \<lparr>NonceData = [7]\<rparr>\<rparr>"
  define s1 where "s1 = ex_init_session\<lparr>s_SPIr := 2, s_nr := [7]\<rparr>"
  define s2 where "s2 = s1\<lparr>PRFAlg := Some PRF_HMAC_SHA1_alg, EncAlg := Some (AesGCM 16 16), ikeEncrID := ENCR_AES_GCM_16,
     ikePRFID := 2, ikeDHID := 2, ikeEncrKeyLenBits := 128, ikeIsAEAD := True, ikeIntegID := 0,
     IntegAlg := (case GetIntegrityAlgorithm 0 of Inr a \<Rightarrow> Some a | Inl _ \<Rightarrow> None)\<rparr>"
  have loop: "initRespLoop (ex_init_payloads pb) emptyInitAcc s = (s, Inr acc)" for s
    by (simp add: ex_init_payloads_def acc_def sa_def)
  have acc_f: "acc_sa acc = Some sa" "acc_ke acc = Some \<lparr>DHGroup = 2, KEData = pb\<rparr>" "acc_nonce acc = Some \<lparr>NonceData = [7]\<rparr>"
    "acc_natSrc acc = []" by (simp_all add: acc_def emptyInitAcc_def)
  have alg: "setAlgorithms (selection ex_init_transforms) s1 = (s2, Inr ())"
    by (simp add: setAlgorithms_def ex_init_selection assign_def ex_prf(1) GetEncrypterWithKeyLen_def isAEADEncr_def s2_def
        GetIntegrityAlgorithm_def)
  define s3 where "s3 = s2\<lparr>DH := Some dh'\<rparr>"
  have sh: "sharedSecret pb s2 = (s3, Inr ())"
    using g by (simp add: sharedSecret_def s2_def s3_def s1_def ex_init_session_def sbind_def relabel_def)
  have "SharedKey dh' = Some g" using ComputeSharedSecret_length [OF ex_dh_pair g] by simp
  then obtain k where "GenerateIKESAKeys [7] s3 = Inr (s3\<lparr>Keys := Some k\<rparr>)"
    using GenerateIKESAKeys_spec [of s3 dh' g PRF_HMAC_SHA1_alg 2 20 0 20 "[7]"] ex_prf
    by (auto simp: s3_def s2_def s1_def algs_ok_def keyLens_def KeySize_def GetIntegrityAlgorithm_def)
  moreover have "s_nr s3 = [7]" by (simp add: s3_def s2_def s1_def)
  ultimately have der: "deriveKeys s3 = (s3\<lparr>Keys := Some k\<rparr>, Inr ())" by (simp add: deriveKeys_def)
  have nat: "natCheck ex_transport acc s = (s, Inr ())" for s by (simp add: natCheck_def acc_f)
  have "handleIKESAInitResp ex_transport b ex_init_session = (s3\<lparr>Keys := Some k, sendCookie := False\<rparr>, Inr ())"
    by (simp add: handleIKESAInitResp_def dec packet loop acc_f sa_def sbind_def relabel_def nat alg [unfolded s1_def] sh der)
  with dec packet show ?thesis by blast
qed

text \<open>CREATE_CHILD_SA and INFORMATIONAL on a session with a child association.\<close>

definition ex_rekey_session :: Session where
  "ex_rekey_session = ex_session\<lparr>sas := [ex_sa, ex_sa], ChildSAOut := Some 0, ChildSAIn := Some 1\<rparr>"

lemma ex_rekey_simps [simp]:
  "Keys ex_rekey_session = Some ex_keys" "PRFAlg ex_rekey_session = Some PRF_HMAC_SHA1_alg"
  "ChildSAOut ex_rekey_session = Some 0" "ChildSAIn ex_rekey_session = Some 1" "sas ex_rekey_session = [ex_sa, ex_sa]"
  "rekeyMu ex_rekey_session = False" "EncAlg ex_rekey_session = Some (AesGCM 16 16)" "ikeIsAEAD ex_rekey_session"
  by (simp_all add: ex_rekey_session_def)

definition ex_rekey_payloads :: "Payload list" where
  "ex_rekey_payloads = [ex_child_sa, PayloadNonce \<lparr>NonceData = [8]\<rparr>]"

lemma ex_delete_logged:
  assumes "Keys t = Some k" "EncAlg t = Some e"
  shows "\<exists>t'. logged (sendDeleteChildSA (fail l) spis) t = (t', Inr ())"
  using assms
  by (auto simp: logged_def sendDeleteChildSA_def encryptAndWrap_def sbind_def encryptAndWrapWithMsgID_def Let_def
      split: sum.split fault.split)

lemma ex_rekey_run:
  "\<exists>s'. handleCreateChildPayloads 0 (fail ''no entropy'') ex_rekey_payloads [1] 7 ex_rekey_session = (s', Inr ())"
proof -
  define acc where "acc = createSA \<lparr>Proposals = [ex_child_prop]\<rparr> emptyCreateAcc\<lparr>ca_nonce := Some [8]\<rparr>"
  have loop: "createRespLoop ex_rekey_payloads emptyCreateAcc = Inr acc"
    by (simp add: ex_rekey_payloads_def ex_child_sa_def acc_def)
  have sel: "sel_encr (ca_sel acc) = ENCR_AES_GCM_16" "sel_keyLenBits (ca_sel acc) = 128"
    and f: "ca_sa acc = Some \<lparr>Proposals = [ex_child_prop]\<rparr>" "ca_nonce acc = Some [8]"
    by (simp_all add: acc_def createSA_def emptyCreateAcc_def ex_child_prop_def NewProposal_def
        AddTransformWithKeyLen_def createTransform_def selection_def selectTransform_def)
  obtain ck where ck: "deriveChildKeys (ca_sel acc) [1, 8] ex_rekey_session = Inr (AesGCM 16 16, None, ck)"
    using ex_derive [of ex_rekey_session "ca_sel acc" "[1, 8]"] sel by auto
  show ?thesis
    by (simp add: handleCreateChildPayloads_def loop f sel sbind_gets ck saField_def)
      (simp add: sbind_def installChild_def allocSA_def, rule ex_delete_logged [where k = ex_keys and e = "AesGCM 16 16"], simp_all add: rekeyPolicies_def setFirstPolicy_def)
qed

definition ex_rands :: Rands where
  "ex_rands = \<lparr>rn_nonce = Inr [9], rn_spi = Inr [0, 0, 0, 7], rn_dh = Inr 2, rn_iv = Inr (replicate 8 0)\<rparr>"

lemma ex_respond:
  assumes "EncAlg s = Some (AesGCM 16 16)" "ikeIsAEAD s" "Keys s = Some ex_keys"
    and "encode_payloads ps = Inr d" "length d < 60000"
  shows "\<exists>s'. sendEncryptedResponseWithMsgID (Inr (replicate 8 0)) ps x m s = (s', Inr ())"
proof -
  have "\<exists>pkt. encryptAndWrapWithMsgID (Inr (replicate 8 0)) ps x m True s = Inr pkt"
    by (rule ex_wrap_any [OF assms(1-3) _ assms(4,5)]) simp
  then obtain pkt where "encryptAndWrapWithMsgID (Inr (replicate 8 0)) ps x m True s = Inr pkt" ..
  then show ?thesis by (simp add: sendEncryptedResponseWithMsgID_def sbind_def SendIKE_out_def)
qed

lemma ex_peer_run:
  "\<exists>s'. handlePeerCreateChild 0 ex_rands 3 ex_rekey_payloads ex_rekey_session = (s', Inr ())"
proof -
  define acc where "acc = peerSA \<lparr>Proposals = [ex_child_prop]\<rparr> emptyPeerAcc\<lparr>pa_nonce := [8]\<rparr>"
  have loop: "peerLoop ex_rekey_payloads emptyPeerAcc = Inr acc"
    by (simp add: ex_rekey_payloads_def ex_child_sa_def acc_def)
  have f: "pa_sa acc = Some \<lparr>Proposals = [ex_child_prop]\<rparr>" "pa_nonce acc = [8]" "pa_spi acc = 5"
    "pa_encr acc = ENCR_AES_GCM_16" "pa_proto acc = ProtoESP" "pa_tsi acc = []" "pa_tsr acc = []"
    by (simp_all add: acc_def peerSA_def emptyPeerAcc_def ex_child_prop_def NewProposal_def AddTransformWithKeyLen_def
        get32_def be_step_def)
  obtain mat where mat: "PrfPlus PRF_HMAC_SHA1_alg ex_key [8, 9] 40 = Inr mat"
    using PrfPlus_spec [OF ex_prf(1), of 40 ex_key "[8, 9]"] ex_prf(2) by simp
  then have "length mat = 40" using length_PrfPlus [OF ex_prf(1) mat] by simp
  with mat obtain ki ko where k: "peerChildKeys acc [9] ex_rekey_session = Inr (AesGCM 16 16, ki, ko)"
    by (simp add: peerChildKeys_def f GetEncrypterWithKeyLen_def KeySize_def ex_keys_def key_slice_def)
  obtain t where t: "peerInstall acc 7 (AesGCM 16 16) ki ko ex_rekey_session = (t, Inr ())"
    "EncAlg t = Some (AesGCM 16 16)" "ikeIsAEAD t" "Keys t = Some ex_keys"
    by (simp add: peerInstall_def allocSA_def sbind_def Let_def f)
  define s2 where "s2 = t\<lparr>lastRekeyTime := Some 0\<rparr>"
  have s2: "EncAlg s2 = Some (AesGCM 16 16)" "ikeIsAEAD s2" "Keys s2 = Some ex_keys"
    using t by (simp_all add: s2_def)
  have "\<exists>d. encode_payloads (peerResponse acc [9] [0, 0, 0, 7]) = Inr d \<and> length d < 60000"
    by (simp add: peerResponse_def f NewProposal_def AddTransform_def SA_Encode_def Proposal_Encode_def Transform_Encode_def
        TransformAttribute_Encode_def mark_proposal_def mark_transform_def Nonce_Encode_def Let_def)
  then obtain d where d: "encode_payloads (peerResponse acc [9] [0, 0, 0, 7]) = Inr d" "length d < 60000" by blast
  have "get32 [0, 0, 0, 7] = 7" by (simp add: get32_def be_step_def)
  then show ?thesis
    using ex_respond [OF s2(1-3) d, of CREATE_CHILD_SA 3]
    by (simp add: handlePeerCreateChild_def loop f ex_rands_def sbind_gets k)
      (simp add: sbind_def t(1) s2_def)
qed






text \<open>A response that asks for group 14 again, and the round of IKE_SA_INIT that receives it.\<close>

definition ex_ke_notify :: Payload where
  "ex_ke_notify = PayloadNotify \<lparr>ntf_ProtocolID = 0, ntf_SPI = [], NotifyType = 17, NotifyData = [0, 14], OverrideType = 0\<rparr>"

definition ex_invalid_ke :: bytes where
  "ex_invalid_ke = replicate 8 0 @ replicate 8 2 @ [41, 0x20, 34, 0x20, 0, 0, 0, 0, 0, 0, 0, 38] @
     [0, 0, 0, 10, 0, 0, 0, 17, 0, 14]"

lemma ex_invalid_ke_decoded:
  "\<exists>p. DecodePacket ex_invalid_ke = Inr p \<and> Payloads p = [ex_ke_notify] \<and> ExchangeType (Header p) = IKE_SA_INIT"
proof -
  have "case DecodePacket ex_invalid_ke of Inr p \<Rightarrow> Payloads p = [ex_ke_notify] \<and> ExchangeType (Header p) = 34 | _ \<Rightarrow> False"
    by code_simp
  then show ?thesis by (auto split: sum.splits)
qed

definition ex_ke_try :: InitTry where
  "ex_ke_try = \<lparr>it_ni = [1], it_dh = Inr 5, it_reply = Inr ex_invalid_ke\<rparr>"

text \<open>A kernel that grants everything, a socket, and a host without state.\<close>

definition ex_kernel :: Kernel where
  "ex_kernel = (\<lambda>_ r. case r of
      LinkByName n \<Rightarrow> GotLink \<lparr>lk_Name = n, lk_Index = 7\<rparr>
    | ParseAddr t \<Rightarrow> GotAddr \<lparr>na_Text = t, na_Flags = 0\<rparr>
    | RouteList _ _ \<Rightarrow> GotRoutes []
    | RuleList _ \<Rightarrow> GotRules []
    | _ \<Rightarrow> Done)"

definition ex_socket :: SockInfo where
  "ex_socket = \<lparr>si_manager = False, si_encap = Inr (), si_encap2 = Inr (), si_localIP = [10, 0, 0, 1],
     si_remoteIP = [192, 0, 2, 1], si_localPort = 4500, si_remotePort = 4500, si_dial = Inr [10, 0, 0, 1], si_ifaces = []\<rparr>"

definition ex_host :: Host where
  "ex_host = \<lparr>calls = [], xfrm_undos = [], tx_undos = [], netUndos = [],
     plane = \<lparr>xfrmMgr = False, xfrmLocalIP = [], xfrmRemoteIP = [], xfrmLocalPort = 0, xfrmRemotePort = 0,
       xfrmIfID = 0, xfrmPolicies = []\<rparr>\<rparr>"

text \<open>A card in software, and a modem with a card.\<close>

definition ex_soft :: SoftSIM where
  "ex_soft = \<lparr>ss_IMSI = ''001010000000001'', ss_milenage = ex_milenage, ss_SQN = 0\<rparr>"

lemma ex_soft_accepts:
  "\<exists>autn s' res ck ik. soft_CalculateAKA ex_soft (replicate 16 0) autn = (s', Inr (SimOk res ck ik))"
proof -
  have wf: "mil_wf ex_milenage" by (simp add: mil_wf_def ex_milenage_def)
  obtain autn where g: "GenerateAUTN ex_milenage (replicate 16 0) (replicate 6 0) (replicate 2 0) = Inr autn"
    using GenerateAUTN_ok [OF wf, of "replicate 16 0" "replicate 6 0" "replicate 2 0"] by auto
  obtain res ck ik where "VerifyAUTN ex_milenage (replicate 16 0) autn 0 = Inr (AutnOk res ck ik)"
    using VerifyAUTN_GenerateAUTN [OF wf _ _ _ g, where expected = 0]
      F_total(1-3) [OF wf, of "replicate 16 0"] by auto
  moreover obtain x ak where "F2F5 ex_milenage (replicate 16 0) = Inr (x, ak)"
    using F_total(1) [OF wf, of "replicate 16 0"] by auto
  ultimately have "soft_CalculateAKA ex_soft (replicate 16 0) autn =
      (ex_soft\<lparr>ss_SQN := decodeSQN (xor_bytes (slice autn 0 6) ak) + 1\<rparr>, Inr (SimOk res ck ik))"
    by (simp add: soft_CalculateAKA_def ex_soft_def)
  then show ?thesis by blast
qed

definition ex_modem :: Modem where
  "ex_modem cmds = (if length cmds = 1 then cardAnswer [0x61, 0x24]
     else cardAnswer (usimResponse [7] (replicate 16 2) (replicate 16 3) [] @ [0x90, 0]))"

text \<open>A session whose association was rekeyed 26 seconds before its child's timer fires.\<close>

definition ex_clock_session :: Session where
  "ex_clock_session = ex_session\<lparr>ChildSAOut := Some 0, authLifetime := 480, lastRekeyTime := Some (384 * second)\<rparr>"

definition ex_clockwork :: Clockwork where
  "ex_clockwork = \<lparr>ck_session = ex_clock_session, ck_ike = [], ck_child = [], ck_ikeReset = False,
     ck_childReset = False, ck_onDown = True, ck_canceled = False, ck_lastIn = None, ck_lastOut = None,
     ck_natStarted = False\<rparr>"

definition ex_exchange :: Exchange where
  "ex_exchange = \<lparr>ex_iv = Inr (replicate 8 0), ex_ivs = (\<lambda>_. Inr (replicate 8 0)), ex_spare = [], ex_reply = Inr []\<rparr>"

definition ex_firing :: "int \<Rightarrow> int \<Rightarrow> Firing" where
  "ex_firing a j = \<lparr>fr_now = a * second, fr_later = a * second, fr_jitter = j, fr_nonce = Inr [9],
     fr_spi = Inr [0, 0, 0, 7], fr_dh = Inr 2, fr_exchange = ex_exchange, fr_delete = ex_exchange,
     fr_deleteIV = Inr (replicate 8 0)\<rparr>"

text \<open>A change of address that the gateway answers with an empty packet.\<close>

definition ex_node :: Node where
  "ex_node = \<lparr>nd_session = ex_session\<lparr>mobikeSupported := True\<rparr>, nd_listen = firstConnection, nd_host = ex_host\<rparr>"

definition ex_move :: Move where
  "ex_move = \<lparr>mv_old = ex_socket, mv_new = ex_socket, mv_cookie2 = Inr (replicate 16 5), mv_exchange = ex_exchange,
     mv_bind = (\<lambda>_ _. Inr ())\<rparr>"

lemma ex_move_runs:
  "\<exists>n'. UpdateAddresses ex_kernel ex_move ''10.0.0.2'' ''192.0.2.9'' ex_node = (n', Inr ())"
proof -
  let ?s = "ex_session\<lparr>mobikeSupported := True\<rparr>" and ?ps = "updatePayloads ex_socket (replicate 16 5) (ex_session\<lparr>mobikeSupported := True\<rparr>)"
  let ?t = "?s\<lparr>s_SequenceNumber := 1\<rparr>"
  have "\<exists>d. encode_payloads ?ps = Inr d \<and> length d < 60000"
    by (simp add: updatePayloads_def natPayloads_def ex_socket_def Notify_Encode_def Let_def)
  then obtain d where d: "encode_payloads ?ps = Inr d" "length d < 60000" by blast
  have "\<exists>pkt. encryptAndWrapWithMsgID (Inr (replicate 8 0)) ?ps INFORMATIONAL 0 False ?t = Inr pkt"
    by (rule ex_wrap_any [OF _ _ _ _ d]) simp_all
  then obtain pkt where pkt: "encryptAndWrapWithMsgID (Inr (replicate 8 0)) ?ps INFORMATIONAL 0 False ?t = Inr pkt" ..
  have f: "\<not> fragmentationSupported ?s" by (simp add: ex_session_def NewSession_def)
  show ?thesis
    using pkt f
    by (simp add: UpdateAddresses_def sendMOBIKEUpdate_def sendEncryptedWithRetry_def sendEncrypted_def encryptAndWrap_def
        shouldFragment_def NextMsgID_def verifyCookie2Response_def ex_move_def ex_node_def ex_exchange_def sbind_def
        Let_def Stop_def newSocket_def firstConnection_def noListener_def updateXFRMState_def ex_host_def ignored_def)
qed

section \<open>Properties\<close>







text \<open>C4: an ESP packet made with one end of an association is opened with the other end to the same
  inner packet, for every combination of algorithms.\<close>

theorem esp_roundtrip:
  assumes "sa_peer a b" "length iv = IVSize (EncryptionAlg a)"
    and "snd (Encapsulate (Inr iv) p a) = Inr pkt"
  shows "Decapsulate pkt b = Inr p"
  using assms by (rule Decapsulate_Encapsulate)

theorem esp_roundtrip_witness:
  "\<exists>pkt. snd (Encapsulate (Inr (replicate 8 0)) [0x45, 1, 2] ex_sa) = Inr pkt \<and>
     Decapsulate pkt ex_sa = Inr [0x45, 1, 2]"
proof -
  obtain pkt where "snd (Encapsulate (Inr (replicate 8 0)) [0x45, 1, 2] ex_sa) = Inr pkt"
    using ex_esp by blast
  moreover from this have "Decapsulate pkt ex_sa = Inr [0x45, 1, 2]"
    by (rule esp_roundtrip [rotated 2]) (simp_all add: sa_peer_def IVSize_def ex_sa_def NewSecurityAssociation_def)
  ultimately show ?thesis by blast
qed

text \<open>C5: a packet accepted under a non-AEAD association ends in the integrity value of everything before
  it, computed with the association's key.\<close>

theorem esp_authentic:
  assumes "\<not> IsAEAD sa" "IntegrityAlg2 sa = Some m" "m \<noteq> NullIntegrity" "Decapsulate pkt sa = Inr p"
  shows "\<exists>e. pkt = e @ Compute m (IntegrityKey sa) e"
  using assms by (rule Decapsulate_authentic)

theorem esp_authentic_witness:
  "\<exists>pkt e. Decapsulate pkt ex_sa_cbc = Inr [0x45, 1] \<and> pkt = e @ Compute HmacSHA1_96 ex_key e"
proof -
  obtain pkt where pkt: "Decapsulate pkt ex_sa_cbc = Inr [0x45, 1]" using ex_esp_cbc by blast
  have "\<exists>e. pkt = e @ Compute HmacSHA1_96 (IntegrityKey ex_sa_cbc) e"
    by (rule esp_authentic [OF _ _ _ pkt]) (simp_all add: ex_sa_cbc_def NewSecurityAssociationCBC_def)
  with pkt show ?thesis by (auto simp: ex_sa_cbc_def NewSecurityAssociationCBC_def)
qed

text \<open>C6: after any sequence of calls and timer rounds on a new task manager, the window is not exceeded,
  no queued request waits without one in flight, every waiting caller has its own open channel, and
  the next step neither panics nor blocks.\<close>

theorem window_safe:
  "let tm = foldl win_next (NewTaskManager c n) es
   in tm_inv tm \<and> (\<forall>e. \<exists>tm'. win_step tm e = Inr tm' \<and> tm_inv tm')"
proof -
  have "tm_inv (foldl win_next (NewTaskManager c n) es)" by (rule window.inv_reachable) blast
  then show ?thesis using win_step_inv by (simp add: Let_def)
qed

text \<open>C7: for every header there is one datagram, a cleartext INFORMATIONAL message with a Delete of the IKE
  association, that any session in any state takes for its peer's: the callback for a lost session is
  called, and the session's responder SPI becomes the one of the datagram.\<close>

theorem spoofed_delete:
  "\<exists>b. clear_message h [PayloadDelete deleteIKE] b \<and>
     (\<forall>rnd s. SessionDown \<in> set (events (fst (handleIncomingInformational rnd b s))) \<and>
        (\<exists>s'. decryptAndParse b s = (s', Inr (MessageID h, [PayloadDelete deleteIKE])) \<and> s_SPIr s' = SPIr h))"
  by (rule spoofed_delete_obeyed)





text \<open>C10: a firing of the child timer within 30 seconds of the last rekeying of either association does
  nothing, and the timer waits for its whole interval again, so that the association lives twice as
  long as planned.\<close>

theorem child_rekey_skipped:
  assumes "ChildSAOut (ck_session c) \<noteq> None" "\<not> rekeyMu (ck_session c)" "lastRekeyTime (ck_session c) = Some t"
    and "fr_now f - t < 30 * second" "i < length (ck_child c)"
  shows "\<exists>c'. fireChild i f c = (c', Inr ()) \<and> ck_session c' = ck_session c \<and>
    rt_due (ck_child c' ! i) = fr_later f + rt_interval (ck_child c ! i) - fr_jitter f * second"
proof -
  have "coolingDown (fr_now f) (ck_session c)" using assms(3,4) by (simp add: coolingDown_def)
  from fireChild_cooling [OF assms(1,2) this] assms(5) show ?thesis by (simp add: rearm_def)
qed

theorem child_rekey_skipped_witness:
  "\<exists>c'. rt_due (ck_child (startTimers 0 10 0 ex_clockwork) ! 0) = 410 * second \<and>
     fireChild 0 (ex_firing 410 29) (startTimers 0 10 0 ex_clockwork) = (c', Inr ()) \<and>
     ck_session c' = ex_clock_session \<and> rt_due (ck_child c' ! 0) = 801 * second"
proof -
  let ?c = "startTimers 0 10 0 ex_clockwork"
  have s: "ck_session ?c = ex_clock_session" "length (ck_child ?c) = 1" "rt_due (ck_child ?c ! 0) = 410 * second"
      "rt_interval (ck_child ?c ! 0) = 420 * second"
    by (simp_all add: startTimers_def startChildSARekeyTimer_def startIKESARekeyTimer_def startTimer_def ex_clockwork_def
        rekeyIntervals_def ex_clock_session_def)
  have "\<exists>c'. fireChild 0 (ex_firing 410 29) ?c = (c', Inr ()) \<and> ck_session c' = ck_session ?c \<and>
      rt_due (ck_child c' ! 0) = fr_later (ex_firing 410 29) + rt_interval (ck_child ?c ! 0) - fr_jitter (ex_firing 410 29) * second"
    by (rule child_rekey_skipped [where t = "384 * second"])
      (simp_all only: s, simp_all add: ex_clock_session_def ex_session_def NewSession_def ex_firing_def)
  then show ?thesis using s by (simp add: ex_firing_def)
qed

text \<open>C11: the seven keys of a new IKE SA are consecutive and without gap the beginning of the \<open>prf+\<close> stream
  of RFC 7296, each with the length that its algorithm asks for.\<close>

theorem ike_key_schedule:
  assumes "DH s = Some dh" "SharedKey dh = Some g" "PRFAlg s = Some p" "GetPRF j = Inr p"
    and "algs_ok s pl il el" "pl * 3 + il * 2 + el * 2 \<le> 254 * KeyLen p"
  shows "\<exists>k. GenerateIKESAKeys nr s = Inr (s\<lparr>Keys := Some k\<rparr>) \<and> key_lengths k pl il el \<and>
    concat_keys k = take (pl * 3 + il * 2 + el * 2)
      (prf_stream p (prf_mac p (s_ni s @ nr) g) (s_ni s @ nr @ put64 (s_SPIi s) @ put64 (s_SPIr s)) 254)"
  using assms by (rule GenerateIKESAKeys_spec)

theorem ike_key_schedule_witness:
  "\<exists>k. GenerateIKESAKeys [5] ex_session_dh = Inr (ex_session_dh\<lparr>Keys := Some k\<rparr>) \<and> key_lengths k 20 0 20"
proof -
  have "\<exists>k. GenerateIKESAKeys [5] ex_session_dh = Inr (ex_session_dh\<lparr>Keys := Some k\<rparr>) \<and> key_lengths k 20 0 20 \<and>
    concat_keys k = take (20 * 3 + 0 * 2 + 20 * 2) (prf_stream PRF_HMAC_SHA1_alg
      (prf_mac PRF_HMAC_SHA1_alg (s_ni ex_session_dh @ [5]) [7])
      (s_ni ex_session_dh @ [5] @ put64 (s_SPIi ex_session_dh) @ put64 (s_SPIr ex_session_dh)) 254)"
    by (rule ike_key_schedule [where j = 2 and dh = ex_dh])
      (simp_all add: ex_session_dh_def ex_dh_def ex_session_def algs_ok_def keyLens_def KeySize_def GetPRF_def
        PRF_HMAC_SHA1_alg_def)
  then show ?thesis by blast
qed



text \<open>C13: the final response is handled alike with and without its AUTH payloads: the gateway's
  authentication (RFC 7296, section 2.15) is not verified.\<close>

theorem server_auth_ignored:
  "handleFinalPayloads (filter (\<lambda>p. case p of PayloadAuth _ \<Rightarrow> False | _ \<Rightarrow> True) ps) = handleFinalPayloads ps"
proof -
  have "(\<lambda>p. case p of PayloadAuth _ \<Rightarrow> False | _ \<Rightarrow> True) = (\<lambda>p. \<not> is_auth p)"
    by (rule ext) (simp split: Payload.split)
  then show ?thesis by (simp only: handleFinalPayloads_filter)
qed

text \<open>C14: after a change of address the stop that \<^verbatim>\<open>connectOnce\<close> deferred for its first socket closes closed
  channels, the second socket is never stopped, and the gateway's address is the new one.\<close>

theorem mobike_deferred_stop:
  assumes "UpdateAddresses k m la ra n = (n', Inr ())" "listen_step\<^sup>*\<^sup>* noListener (nd_listen n)"
    and "current (nd_listen n) < socks (nd_listen n)"
  shows "Stop (current (nd_listen n)) (nd_listen n') = Inl Panic \<and> current (nd_listen n') \<notin> stopped (nd_listen n') \<and>
    EpDGAddr (s_cfg (nd_session n')) = ra"
  using UpdateAddresses_deferred [OF assms] UpdateAddresses_switch(2) [OF assms(1)] by blast

theorem mobike_deferred_stop_witness:
  "\<exists>n'. UpdateAddresses ex_kernel ex_move ''10.0.0.2'' ''192.0.2.9'' ex_node = (n', Inr ()) \<and>
     Stop 0 (nd_listen n') = Inl Panic"
proof -
  obtain n' where n': "UpdateAddresses ex_kernel ex_move ''10.0.0.2'' ''192.0.2.9'' ex_node = (n', Inr ())"
    using ex_move_runs by blast
  have l: "nd_listen ex_node = firstConnection" "current firstConnection = 0"
    by (simp_all add: ex_node_def firstConnection_def newSocket_def noListener_def)
  have "current (nd_listen ex_node) < socks (nd_listen ex_node)" using firstConnection_idle(2) by (simp add: l(1) idle_def)
  from mobike_deferred_stop [OF n' _ this] firstConnection_idle(1) n' show ?thesis by (auto simp: l)
qed

text \<open>C15: the AUTH value sent last is that of RFC 7296 over an identity body; the body is the one of the
  IDi payload sent first exactly when no other fast re-authentication identity was sent in its place.\<close>

theorem auth_over_identity:
  assumes "buildIKEAuthInitPayloads rnd s0 = (s1, Inr ps0)" "buildIKEAuthFinalPayloads s = Inr ps"
    and "s_cfg s = s_cfg s0"
  shows "\<exists>idp a p k. hd ps0 = PayloadID idp \<and> last ps = PayloadAuth a \<and> PRFAlg s = Some p \<and>
    Keys s = Some k \<and> AuthData a = auth_value p (MSK s) (SK_pi k) (msgBuffer s) (s_nr s)
      (ID_Encode (idp\<lparr>IDData := str_bytes (nai (imsi_or_cfg (s_cfg s)) (s_cfg s))\<rparr>)) \<and>
    (IDData idp = str_bytes (nai (imsi_or_cfg (s_cfg s)) (s_cfg s)) \<longleftrightarrow>
       FastReauthID (s_cfg s) = [] \<or> FastReauthID (s_cfg s) = nai (imsi_or_cfg (s_cfg s)) (s_cfg s))"
proof -
  obtain a where a: "buildInitiatorAuthPayload (MSK s) s = Inr a" "last ps = PayloadAuth a"
    using buildIKEAuthFinalPayloads_Inr [OF assms(2)] by blast
  have inj: "str_bytes x = str_bytes y \<longleftrightarrow> x = y" for x y by (metis bytes_str_str_bytes)
  show ?thesis
    using a buildIKEAuthInitPayloads_id(1) [OF assms(1)] assms(3)
    by (auto simp: buildInitiatorAuthPayload_Inr inj idiName_def)
qed

theorem auth_over_identity_witness:
  "\<exists>s1 ps0 ps idp. buildIKEAuthInitPayloads (Inr [0, 0, 0, 9]) ex_session = (s1, Inr ps0) \<and>
     buildIKEAuthFinalPayloads (ex_session\<lparr>MSK := [1], msgBuffer := [3], s_nr := [4]\<rparr>) = Inr ps \<and>
     hd ps0 = PayloadID idp \<and>
     AuthData (the_auth (last ps)) = auth_value PRF_HMAC_SHA1_alg [1] ex_key [3] [4] (ID_Encode idp)"
proof -
  let ?s = "ex_session\<lparr>MSK := [1], msgBuffer := [3], s_nr := [4]\<rparr>"
  have f: "s_cfg ex_session = ex_cfg" "FastReauthID ex_cfg = []" by (simp_all add: ex_session_def NewSession_def ex_cfg_def)
  obtain s1 ps0 where 1: "buildIKEAuthInitPayloads (Inr [0, 0, 0, 9]) ex_session = (s1, Inr ps0)"
    by (simp add: buildIKEAuthInitPayloads_def sbind_gets f buildNAI_Some sbind_def ensureChildSPI_def Let_def
        ex_session_def NewSession_def)
  obtain ps where 2: "buildIKEAuthFinalPayloads ?s = Inr ps"
    by (simp add: buildIKEAuthFinalPayloads_def buildInitiatorAuthPayload_def buildNAI_Some Let_def deref_def)
  obtain idp a where r: "hd ps0 = PayloadID idp" "last ps = PayloadAuth a"
      "AuthData a = auth_value PRF_HMAC_SHA1_alg [1] ex_key [3] [4]
        (ID_Encode (idp\<lparr>IDData := str_bytes (nai (imsi_or_cfg ex_cfg) ex_cfg)\<rparr>))"
      "IDData idp = str_bytes (nai (imsi_or_cfg ex_cfg) ex_cfg)"
    using auth_over_identity [OF 1 2] f by (auto simp: ex_keys_def)
  have same: "idp\<lparr>IDData := str_bytes (nai (imsi_or_cfg ex_cfg) ex_cfg)\<rparr> = idp" using r(4) by (cases idp) simp
  show ?thesis using 1 2 r(1,2) r(3) [unfolded same] by (auto simp: the_auth_def)
qed

text \<open>C16: a peer that shares \<open>K_aut\<close> and checks the response to an AKA challenge as this code checks a
  challenge finds the MAC, accepts it, and reads the result of the SIM, in every challenge mode.\<close>

theorem aka_response_accepted:
  assumes "ParseAttributes d = Inr attrs" "length res \<le> 1016" "distinct order"
    and "resp = akaChallengeResponse order pkt attrs res kAut s"
  shows "\<exists>attrs' a r tag. ParseAttributes (drop 8 resp) = Inr attrs' \<and> attrs' AT_MAC = Some a \<and>
    eapAKAAttrTail16 (at_Value a) = Inr tag \<and> verifyEAPAKAMAC resp (drop 8 resp) kAut tag = Inr () \<and>
    attrs' AT_RES = Some r \<and> take (2 + length res) (at_Value r) = put16 (of_nat (length res * 8)) @ res"
proof (rule akaChallengeResponse_accepted [OF ParseAttributes_ok [OF assms(1)] assms(2,4)])
  fix tag :: bytes
  let ?m = "attributeMap (responseAttrs order attrs res s @ [macAttr tag])"
  assume tag: "length tag = 16" and p: "ParseAttributes (drop 8 resp) = Inr ?m"
    and v: "verifyEAPAKAMAC resp (drop 8 resp) kAut tag = Inr ()"
  have "?m AT_MAC = Some (macAttr tag)" "?m AT_RES = Some (theAttr AT_RES (put16 (of_nat (length res * 8)) @ res))"
    using responseAttrs_RES [OF assms(3), of attrs res s] by (simp_all add: attributeMap_snoc macAttr_def)
  with p v show ?thesis
    using eapAKAAttrTail16_mac [OF tag] by (auto simp: macAttr_def theAttr)
qed

theorem aka_response_accepted_witness:
  "\<exists>attrs' a tag. ParseAttributes (drop 8 (akaChallengeResponse [] ex_eap Map.empty [1, 2] [5] ex_session)) = Inr attrs' \<and>
     attrs' AT_MAC = Some a \<and> eapAKAAttrTail16 (at_Value a) = Inr tag"
  using aka_response_accepted [of "[]" Map.empty "[1, 2]" "[]" _ ex_eap "[5]" ex_session, OF _ _ _ refl]
  by (auto simp: ParseAttributes_def parseAttributeList.simps [of "[]"] attributeMap_def)

text \<open>C17: with validation on, the keys of the session change under an AKA challenge only to keys derived
  from the SIM's CK and IK, in one of the two orders, that verify the MAC of the challenge.\<close>

theorem aka_keys_need_valid_mac:
  assumes "handleAKAChallenge order pkt eapRaw s = (s', Inr ps)" "EAPMACValidation (s_cfg s)"
  shows "(MSK s' = MSK s \<and> eapKAut s' = eapKAut s) \<or>
    (\<exists>attrs atMac tag rnd autn res ck ik n k. ParseAttributes (eap_Data pkt) = Inr attrs \<and> attrs AT_MAC = Some atMac \<and>
       eapAKAAttrTail16 (at_Value atMac) = Inr tag \<and> CalculateAKA (SIM (s_cfg s)) rnd autn = AkaOk res ck ik \<and>
       k = akaDerive (str_bytes (nai (imsi_or_cfg (s_cfg s)) (s_cfg s))) ck ik n \<and> n \<le> 1 \<and>
       verifyEAPAKAMAC eapRaw (eap_Data pkt) (ak_KAut k) tag = Inr () \<and> MSK s' = ak_MSK k \<and> eapKAut s' = ak_KAut k)"
  by (rule handleAKAChallenge_cases [OF assms]) blast+

theorem aka_keys_need_valid_mac_witness:
  "\<exists>s' ps. handleAKAChallenge [] ex_challenge ex_challenge_raw ex_session = (s', Inr ps) \<and> MSK s' = ak_MSK ex_aka \<and>
     verifyEAPAKAMAC ex_challenge_raw (eap_Data ex_challenge) (ak_KAut ex_aka) ex_tag = Inr ()"
proof -
  obtain s' ps where h: "handleAKAChallenge [] ex_challenge ex_challenge_raw ex_session = (s', Inr ps)" "MSK s' = ak_MSK ex_aka"
    using ex_challenge_run by blast
  have v: "EAPMACValidation (s_cfg ex_session)" by (simp add: ex_session_def NewSession_def ex_cfg_def)
  from aka_keys_need_valid_mac [OF h(1) v] h ex_challenge_ok(3) show ?thesis by blast
qed





text \<open>C20: an answer of the EAP handler is one EAP response with the identifier of the request, and only
  a request gets one.\<close>

theorem eap_answers_requests:
  assumes "handleEAP order raw s = (s', Inr ps)" "EAP_Parse raw = Inr pkt" "ps \<noteq> []"
  shows "eap_Code pkt = CodeRequest \<and> (\<exists>b. ps = eapPayload b \<and> take 2 b = [CodeResponse, eap_Identifier pkt])"
  using handleEAP_answers [OF assms(1,2)] assms(3) by (simp add: answers_def)

theorem eap_answers_requests_witness:
  "\<exists>b. snd (handleEAP [] [1, 9, 0, 5, 1] ex_session) = Inr (eapPayload b) \<and> take 2 b = [CodeResponse, 9]"
proof -
  define pkt where "pkt = \<lparr>eap_Code = CodeRequest, eap_Identifier = 9, eap_Type = TypeIdentity, eap_Subtype = 0, eap_Data = []\<rparr>"
  have p: "EAP_Parse [1, 9, 0, 5, 1] = Inr pkt"
    using EAP_Parse_Encode [of pkt]
    by (simp add: eap_wf_def EAPPacket_Encode_def Let_def isReqResp_def isAKA_def pkt_def put16_def)
  obtain b where b: "handleIdentityRequest pkt ex_session = Inr (eapPayload b)"
    by (simp add: handleIdentityRequest_def buildNAI_Some split: option.split)
  then have "handleEAP [] [1, 9, 0, 5, 1] ex_session = (ex_session, Inr (eapPayload b))"
    by (simp add: handleEAP_def p dispatchEAP_def pkt_def)
  from eap_answers_requests [OF this p] this show ?thesis by (simp add: pkt_def eapPayload_def)
qed

text \<open>C21: the handler of the IKE_SA_INIT response crashes exactly on the packets on which the decoder
  crashes (a chain that reaches a generic header with a length below four) and on complete
  IKE_SA_INIT responses with an empty SA payload.\<close>

theorem init_response_panics:
  assumes "DH s = Some dh" "PrivateKey dh = Some x"
  shows "snd (handleIKESAInitResp tr data s) = Inl Panic \<longleftrightarrow>
    (\<exists>h. DecodeHeader data = Inr h \<and> short_header (NextPayload h) (drop IKE_HEADER_LEN data)) \<or>
    (\<exists>packet. DecodePacket data = Inr packet \<and> empty_sa packet s)"
  unfolding handleIKESAInitResp_panic_iff [OF assms] DecodePacket_panic_iff by (rule refl)

theorem init_response_panics_witness:
  "snd (handleIKESAInitResp ex_transport (Header_Encode ex_bad_header @ [0, 0, 0, 3]) ex_session_dh) = Inl Panic"
proof -
  have "DecodeHeader (Header_Encode ex_bad_header @ [0, 0, 0, 3]) = Inr ex_bad_header"
    "drop IKE_HEADER_LEN (Header_Encode ex_bad_header @ [0, 0, 0, 3]) = [0, 0, 0, 3]"
    by (simp_all add: DecodeHeader_Encode)
  moreover have "short_header (NextPayload ex_bad_header) [0, 0, 0, 3]"
    by (rule short_header.here) (simp_all add: ex_bad_header_def slice_def get16_def be_step_def)
  ultimately show ?thesis
    using init_response_panics [of ex_session_dh ex_dh 5] by (fastforce simp: ex_session_dh_def ex_dh_def)
qed

text \<open>C22: the card accepts an authentication token, or answers it with a resynchronisation, only when the
  token is one that the same key generates for some sequence number.\<close>

theorem autn_verified:
  assumes "mil_wf m" "VerifyAUTN m rand autn expected = Inr r"
  shows "\<exists>sqn amf. GenerateAUTN m rand sqn amf = Inr autn"
  using assms by (rule VerifyAUTN_sound)

theorem autn_verified_witness:
  "\<exists>autn r sqn amf. VerifyAUTN ex_milenage (replicate 16 0) autn 0 = Inr r \<and>
     GenerateAUTN ex_milenage (replicate 16 0) sqn amf = Inr autn"
proof -
  obtain autn where g: "GenerateAUTN ex_milenage (replicate 16 0) (replicate 6 0) (replicate 2 0) = Inr autn"
    using GenerateAUTN_ok [OF ex_milenage_wf, of "replicate 16 0" "replicate 6 0" "replicate 2 0"] by auto
  obtain r where r: "VerifyAUTN ex_milenage (replicate 16 0) autn 0 = Inr r"
    using VerifyAUTN_GenerateAUTN [OF ex_milenage_wf _ _ _ g, where expected = 0]
      F_total(1-3) [OF ex_milenage_wf, of "replicate 16 0"] by auto
  from autn_verified [OF ex_milenage_wf r] r show ?thesis by blast
qed

text \<open>C23: a challenge that the card in software has answered is not answered again, after any further challenges.\<close>

theorem soft_sim_no_replay:
  assumes "soft_CalculateAKA s rand autn = (s', Inr (SimOk res ck ik))"
  shows "snd (soft_CalculateAKA (challenges cs s') rand autn) \<noteq> Inr (SimOk res' ck' ik')"
  using assms by (rule soft_no_replay)

theorem soft_sim_no_replay_witness:
  "\<exists>autn s' res ck ik. soft_CalculateAKA ex_soft (replicate 16 0) autn = (s', Inr (SimOk res ck ik)) \<and>
     snd (soft_CalculateAKA (challenges [(replicate 16 1, autn)] s') (replicate 16 0) autn) \<noteq> Inr (SimOk res ck ik)"
  using ex_soft_accepts soft_sim_no_replay by blast

text \<open>C24: over AT commands, hexadecimal texts and status words, the result, the cipher key and the integrity
  key that a card wrote into its response are the ones that the caller gets.\<close>

theorem modem_aka:
  assumes "m [atLine (authAPDU rand autn)] = cardAnswer [0x61, n]"
    and "m [atLine (authAPDU rand autn), atLine (''00C00000'' @ hex02 (unat n))] =
      cardAnswer (usimResponse res ck ik kc @ [0x90, 0])"
    and "length res < 256" "res \<noteq> []" "length ck = 16" "length ik = 16"
  shows "direct_CalculateAKA m rand autn [] =
    ([atLine (authAPDU rand autn), atLine (''00C00000'' @ hex02 (unat n))], Inr (AkaOk res ck ik))"
  using assms by (rule direct_AKA_card)

theorem modem_aka_witness:
  "snd (direct_CalculateAKA ex_modem (replicate 16 0) (replicate 16 1) []) = Inr (AkaOk [7] (replicate 16 2) (replicate 16 3))"
  using modem_aka [where m = ex_modem and rand = "replicate 16 0" and autn = "replicate 16 1" and n = "0x24" and
      res = "[7]" and ck = "replicate 16 2" and ik = "replicate 16 3" and kc = "[]"]
  by (simp add: ex_modem_def)

text \<open>C25: the generator on byte arrays refines the recurrence of FIPS 186-2 on numbers:
  \<open>w = G(XKEY + XSEED)\<close> and then \<open>XKEY = 1 + XKEY + w\<close>, modulo 2 to the 160.\<close>

theorem fips_generator:
  assumes "length xseed = 20" "length xkey = 20"
  shows "map SetBytes (fips_halves xseed xkey n) = fips_spec (SetBytes xseed) (SetBytes xkey) n"
  using assms by (rule fips_halves_spec)

theorem fips_generator_witness:
  "map SetBytes (fips_halves (replicate 20 0) (replicate 20 1) 2) =
     fips_spec (SetBytes (replicate 20 0)) (SetBytes (replicate 20 1)) 2"
  by (rule fips_generator) simp_all

text \<open>C26: the prefixes computed for a range of IPv4 addresses cover, in order and without overlap, exactly
  the addresses of the range, and every prefix is aligned.\<close>

theorem route_cover:
  assumes "endU < 2 ^ 32"
  shows "blocks (cidrLoop cur endU) = [cur..<endU + 1] \<and>
    (\<forall>(c, p)\<in>set (cidrLoop cur endU). p \<le> 32 \<and> 2 ^ (32 - p) dvd c)"
  using assms by (rule cidrLoop_exact)

theorem route_cover_witness:
  "blocks (cidrLoop 3 9) = [3, 4, 5, 6, 7, 8, 9]"
  using conjunct1 [OF route_cover [of 9 3]] by (simp add: upt_rec)

text \<open>C27: encrypting with one AEAD key overwrites the first eight bytes of the key that follows it in the
  key material with the IV: \<open>append\<close> on the salt writes into the shared array.\<close>

theorem gcm_key_clobbered:
  assumes "length iv = 8" "aes_key_ok (take (n - 4) (slice_val mem (aead_key_ref (length mem) off n)))"
    and "12 \<le> n" "off + n + n \<le> length mem"
  shows "slice_val (fst (GCM_Encrypt_mem p mem (aead_key_ref (length mem) off n) iv aad))
      (aead_key_ref (length mem) (off + n) n) =
    iv @ drop 8 (slice_val mem (aead_key_ref (length mem) (off + n) n))"
  using assms by (rule GCM_overwrites_next_key)

theorem gcm_key_clobbered_witness:
  "slice_val (fst (GCM_Encrypt_mem [] (replicate 40 0) (aead_key_ref 40 0 20) (replicate 8 1) []))
      (aead_key_ref 40 20 20) = replicate 8 1 @ replicate 12 0"
  using gcm_key_clobbered [of "replicate 8 1" 20 "replicate 40 0" 0 "[]" "[]"]
  by (simp add: slice_val_def aead_key_ref_def aes_key_ok_def slice_def)

text \<open>C28: the loop of reassembly, whose counter has sixteen bits, ends for every complete set that the
  buffer can hold.\<close>

theorem reassembly_returns:
  assumes "frags = foldl frag_step newFragmentBuffer es" "frags m = Some fs" "of_nat (length (received fs)) = frag_total fs"
  shows "snd (reassemble m frags) \<noteq> Inl Hang"
proof -
  have "frag_inv frags" unfolding assms(1) by (rule frag.inv_reachable) blast
  then show ?thesis using assms(2,3) reassemble_returns frag_invD by metis
qed

theorem reassembly_returns_witness:
  "snd (reassemble 9 (foldl frag_step newFragmentBuffer [Add 9 1 1 [7]])) \<noteq> Inl Hang"
  by (rule reassembly_returns [OF refl, where fs = "\<lparr>frag_total = 1, received = [(1, [7])], totalLen = 1\<rparr>"])
    (simp_all add: addFragment_def newFragmentBuffer_def newFragmentSet_def Let_def)

text \<open>C29: no INFORMATIONAL request, a message identifier synchronisation included, sets our counter back.\<close>

theorem message_id_never_back:
  "s_SequenceNumber s \<le> s_SequenceNumber (fst (handleInformational rnd msgID ps s))"
  using handleInformational_seq [of "s_SequenceNumber s" rnd msgID ps] by (simp add: preserves_def seq_from_def)



text \<open>C31: whatever events the error queue of the socket gives, the fragment size never grows and never falls
  below 500, and no message below 95 kilobytes is refused for the size or the number of its fragments.\<close>

theorem icmp_floor:
  assumes "500 \<le> ikeFragmentMTU s" "encode_payloads ps = Inr d" "EncAlg s = Some e" "length d \<le> 94860"
  shows "500 \<le> ikeFragmentMTU (netEvents evs s) \<and> ikeFragmentMTU (netEvents evs s) \<le> ikeFragmentMTU s \<and>
    snd (fragmentMessage rnd spare ps x (netEvents evs s)) \<notin> {fail ''fragment MTU too small'', fail ''too many fragments''}"
proof -
  obtain m where m: "netEvents evs s = s\<lparr>ikeFragmentMTU := m\<rparr>" "m \<le> ikeFragmentMTU s" "500 \<le> m"
    using netEvents_same assms(1) by blast
  show ?thesis
    using fragmentMessage_floor [of "s\<lparr>ikeFragmentMTU := m\<rparr>" ps d e rnd spare x] m assms(2-4) by (simp add: m(1))
qed

theorem icmp_floor_witness:
  "500 \<le> ikeFragmentMTU (netEvents [PathMTU 68, PathMTU 576, NetworkDown 113] ex_session) \<and>
   snd (fragmentMessage (\<lambda>_. Inr []) [] [] 37 (netEvents [PathMTU 68, PathMTU 576, NetworkDown 113] ex_session)) \<noteq>
     fail ''fragment MTU too small''"
  using icmp_floor [of ex_session "[]" "[]" "AesGCM 16 16"] by (simp add: ex_session_def NewSession_def)

text \<open>C32: an accepted IKE_SA_INIT response gives the session the keys that a responder derives on its side
  from its own private value, both nonces and both SPIs.\<close>

theorem init_keys_shared:
  assumes "dh_keypair grp x dh" "DH s = Some dh" "PublicKeyBytes dh = Inr pa"
    and "dh_keypair grp y dhb" "PublicKeyBytes dhb = Inr pb" "ComputeSharedSecret dhb pa = Inr (dhb', gb)"
    and "DecodePacket data = Inr packet" "\<forall>ke. PayloadKE ke \<in> set (Payloads packet) \<longrightarrow> KEData ke = pb"
    and "\<forall>n. PayloadNonce n \<in> set (Payloads packet) \<longrightarrow> NonceData n = nr"
    and "handleIKESAInitResp tr data s = (s', Inr ())"
  shows "\<exists>p k. PRFAlg s' = Some p \<and> Keys s' = Some k \<and> concat_keys k =
    ike_material p gb (s_ni s) nr (s_SPIi s) (SPIr (Header packet)) (length (concat_keys k))"
  using assms by (rule init_keys_agree)

theorem init_keys_shared_witness:
  "\<exists>data s' p k gb. handleIKESAInitResp ex_transport data ex_init_session = (s', Inr ()) \<and> Keys s' = Some k \<and>
     concat_keys k = ike_material p gb [1] [7] (s_SPIi ex_init_session) 2 (length (concat_keys k))"
proof -
  obtain pa b' gb where a: "PublicKeyBytes (ex_dh_pair 2) = Inr pa" "ComputeSharedSecret (ex_dh_pair 3) pa = Inr (b', gb)"
    using ex_dh_exchange [of 2 3] by auto
  obtain pb where b: "PublicKeyBytes (ex_dh_pair 3) = Inr pb" using ex_dh_exchange [of 3 2] by auto
  obtain data packet s' where run: "DecodePacket data = Inr packet" "Payloads packet = ex_init_payloads pb"
      "SPIr (Header packet) = 2" "handleIKESAInitResp ex_transport data ex_init_session = (s', Inr ())"
    using ex_init_run [OF b] by blast
  have s: "DH ex_init_session = Some (ex_dh_pair 2)" "s_ni ex_init_session = [1]" by (simp_all add: ex_init_session_def)
  have m: "\<forall>ke. PayloadKE ke \<in> set (Payloads packet) \<longrightarrow> KEData ke = pb"
    "\<forall>n. PayloadNonce n \<in> set (Payloads packet) \<longrightarrow> NonceData n = [7]"
    by (simp_all add: run(2) ex_init_payloads_def)
  have "\<exists>p k. PRFAlg s' = Some p \<and> Keys s' = Some k \<and> concat_keys k =
      ike_material p gb [1] [7] (s_SPIi ex_init_session) 2 (length (concat_keys k))"
    using init_keys_shared [OF ex_dh_pair s(1) a(1) ex_dh_pair b a(2) run(1) m run(4)] by (simp only: s(2) run(3))
  with run(4) show ?thesis by blast
qed

text \<open>C33: an accepted CREATE_CHILD_SA response replaces the child associations by the initiator's half
  of the pair that the responder derives from \<open>SK_d\<close> and the two new nonces.\<close>

theorem rekey_child_interop:
  assumes "handleCreateChildPayloads now rnd ps ni newSPI s = (s', Inr ())" "Keys s = Some k" "PRFAlg s = Some p"
    and "GetPRF j = Inr p"
  shows "\<exists>nonce. PayloadNonce nonce \<in> set ps \<and> child_pair p (SK_d k) (ni @ NonceData nonce) newSPI s'"
  using assms by (rule handleCreateChildPayloads_child_pair)

theorem rekey_child_interop_witness:
  "\<exists>s'. handleCreateChildPayloads 0 (fail ''no entropy'') ex_rekey_payloads [1] 7 ex_rekey_session = (s', Inr ()) \<and>
     child_pair PRF_HMAC_SHA1_alg ex_key [1, 8] 7 s'"
proof -
  obtain s' where r: "handleCreateChildPayloads 0 (fail ''no entropy'') ex_rekey_payloads [1] 7 ex_rekey_session = (s', Inr ())"
    using ex_rekey_run by blast
  from rekey_child_interop [OF r _ _ ex_prf(1), of ex_keys] r show ?thesis
    by (auto simp: ex_rekey_payloads_def ex_child_sa_def ex_keys_def)
qed

text \<open>C34: after a CREATE_CHILD_SA request of the peer that is answered, the association we send with is
  the one the responder receives with (RFC 7296, section 2.17), and the other way round: the two
  directions are swapped.\<close>

theorem peer_child_swapped:
  assumes "handlePeerCreateChild now rn msgID ps s = (s', Inr ())"
    and "peerLoop ps emptyPeerAcc = Inr acc" "pa_proto acc \<noteq> ProtoIKE"
    and "Keys s = Some k" "PRFAlg s = Some p" "GetPRF j = Inr p"
  shows "\<exists>nr spi e n m ao ai. rn_nonce rn = Inr nr \<and> rn_spi rn = Inr spi \<and>
    ChildSAOut s' = Some ao \<and> ChildSAIn s' = Some ai \<and> ao < length (sas s') \<and> ai < length (sas s') \<and>
    m = child_material p (SK_d k) (pa_nonce acc @ nr) (2 * n) \<and> length m = 2 * n \<and>
    sas s' ! ao = responder_in (pa_spi acc) (get32 spi) e None n 0 m \<and>
    sas s' ! ai = responder_out (pa_spi acc) (get32 spi) e None n 0 m"
  using assms by (rule handlePeerCreateChild_pair) blast

theorem peer_child_swapped_witness:
  "\<exists>s' e n m ao. handlePeerCreateChild 0 ex_rands 3 ex_rekey_payloads ex_rekey_session = (s', Inr ()) \<and>
     ChildSAOut s' = Some ao \<and> sas s' ! ao = responder_in 5 7 e None n 0 m"
proof -
  obtain s' where r: "handlePeerCreateChild 0 ex_rands 3 ex_rekey_payloads ex_rekey_session = (s', Inr ())"
    using ex_peer_run by blast
  obtain acc where a: "peerLoop ex_rekey_payloads emptyPeerAcc = Inr acc" "pa_proto acc = ProtoESP" "pa_spi acc = 5"
    by (simp add: ex_rekey_payloads_def ex_child_sa_def peerSA_def emptyPeerAcc_def ex_child_prop_def NewProposal_def
        AddTransformWithKeyLen_def get32_def be_step_def)
  have "pa_proto acc \<noteq> ProtoIKE" "get32 [0, 0, 0, 7] = 7" using a(2) by (simp_all add: get32_def be_step_def)
  with peer_child_swapped [OF r a(1) _ _ _ ex_prf(1), of ex_keys] r a(3) show ?thesis
    by (auto simp: ex_rands_def)
qed



text \<open>C36: an INFORMATIONAL request that is handled is answered by exactly one packet, a protected response
  with the request's message identifier.\<close>

theorem informational_answered:
  assumes "handleInformational rnd msgID ps s = (s', Inr ())"
  shows "\<exists>pkt rnd' qs s1. outbox s' = outbox s @ [pkt] \<and>
    encryptAndWrapWithMsgID rnd' qs INFORMATIONAL msgID True s1 = Inr pkt"
  using handleInformational_answers [OF assms] unfolding answered_def .

theorem informational_answered_witness:
  "\<exists>s' pkt. handleInformational (Inr (replicate 8 0)) 4 [] ex_rekey_session = (s', Inr ()) \<and>
     outbox s' = outbox ex_rekey_session @ [pkt]"
proof -
  obtain s' where "handleInformational (Inr (replicate 8 0)) 4 [] ex_rekey_session = (s', Inr ())"
    using ex_respond [of ex_rekey_session "[]" "[]" INFORMATIONAL 4] by (auto simp: handleInformational_def respond_def)
  from this informational_answered [OF this] show ?thesis by blast
qed



text \<open>C38: every payload of a decoded packet, an SA payload apart, is well formed: what its length fields
  say agrees with what it holds, and encoding it and decoding that gives the payload again.\<close>

theorem decoded_payloads_wf:
  assumes "DecodePacket data = Inr pkt" "p \<in> set (Payloads pkt)" "Payload_Type p \<noteq> PT_SA"
  shows "payload_wf p \<and> rbind (Payload_Encode p) (decodeBody (Payload_Type p)) = Inr p"
  using DecodePacket_wf [OF assms] decodeBody_encode by blast

theorem decoded_payloads_wf_witness:
  "payload_wf ex_ke_notify \<and> (\<exists>p. DecodePacket ex_invalid_ke = Inr p \<and> ex_ke_notify \<in> set (Payloads p))"
proof -
  obtain p where p: "DecodePacket ex_invalid_ke = Inr p" "Payloads p = [ex_ke_notify]" using ex_invalid_ke_decoded by blast
  have "Payload_Type ex_ke_notify \<noteq> PT_SA" by (simp add: ex_ke_notify_def Notify_Type_def)
  with decoded_payloads_wf [OF p(1)] p show ?thesis by simp
qed

text \<open>C39: as long as the gateway answers every request with INVALID_KE_PAYLOAD for a supported group, the
  loop goes on: \<open>n\<close> rounds send \<open>n\<close> requests and end in no result, for every \<open>n\<close>.\<close>

theorem ke_retry_unbounded:
  assumes "\<And>j. \<exists>x d. it_dh (env j) = Inr x \<and> it_reply (env j) = Inr d \<and> invalid_ke d"
    and "dh_ready s" "keRetryGroup s \<in> {0, 2, 14}"
  shows "snd (initLoop n tr env i c s) = Inl Hang \<and>
    length (outbox (fst (initLoop n tr env i c s))) = length (outbox s) + n"
  using assms by (rule initLoop_invalid_ke)

theorem ke_retry_unbounded_witness:
  "\<forall>n. snd (initLoop n ex_transport (\<lambda>_. ex_ke_try) 0 0 ex_session) = Inl Hang"
proof -
  have "invalid_ke ex_invalid_ke"
    using ex_invalid_ke_decoded by (auto simp: invalid_ke_def ex_ke_notify_def)
  then have "\<exists>x d. it_dh ex_ke_try = Inr x \<and> it_reply ex_ke_try = Inr d \<and> invalid_ke d"
    by (simp add: ex_ke_try_def)
  moreover have "dh_ready ex_session" "keRetryGroup ex_session \<in> {0, 2, 14}"
    by (simp_all add: dh_ready_def ex_session_def NewSession_def)
  ultimately show ?thesis using ke_retry_unbounded [of "\<lambda>_. ex_ke_try" ex_session _ ex_transport 0 0] by blast
qed



end
